(* ===== verification/PyValue.thy ===== *)
theory PyValue
  imports Prelude
begin

text \<open>
  The dynamically typed values that flow through payloads, log records, error details and
  request bodies, with Python's truth test and \<open>str\<close> / \<open>repr\<close>. A float is carried by its
  \<open>repr\<close>: no code modelled here computes with one. A set is carried by its iteration order.
  \<open>VObj\<close> is an instance of any other class: its type name and what \<open>str()\<close> gives
  (\<open>None\<close> when \<open>__str__\<close> raises).
\<close>

datatype seq_kind = SList | STuple | SSet | SFrozenset

datatype pykey = KStr string | KInt int | KBool bool | KNone

datatype pyval =
    VNone
  | VBool bool
  | VInt int
  | VFloat string
  | VStr string
  | VBytes string
  | VSeq seq_kind "pyval list"
  | VDict "(pykey \<times> pyval) list"
  | VObj string "string option"

type_synonym pydict = "(pykey \<times> pyval) list"

abbreviation VList :: "pyval list \<Rightarrow> pyval" where
  "VList xs \<equiv> VSeq SList xs"

fun is_str :: "pyval \<Rightarrow> bool" where
  "is_str (VStr s) = True"
| "is_str _ = False"

fun is_dict :: "pyval \<Rightarrow> bool" where
  "is_dict (VDict d) = True"
| "is_dict _ = False"

fun is_list :: "pyval \<Rightarrow> bool" where
  "is_list (VSeq SList xs) = True"
| "is_list _ = False"

fun truthy :: "pyval \<Rightarrow> bool" where
  "truthy VNone = False"
| "truthy (VBool b) = b"
| "truthy (VInt i) = (i \<noteq> 0)"
| "truthy (VFloat s) = (s \<noteq> ''0.0'' \<and> s \<noteq> ''-0.0'')"
| "truthy (VStr s) = (s \<noteq> [])"
| "truthy (VBytes s) = (s \<noteq> [])"
| "truthy (VSeq k xs) = (xs \<noteq> [])"
| "truthy (VDict d) = (d \<noteq> [])"
| "truthy (VObj t s) = True"

text \<open>\<open>d.get("name")\<close> and \<open>d["name"] = v\<close> for string keys.\<close>

definition dget :: "pydict \<Rightarrow> string \<Rightarrow> pyval option" where
  "dget d k = map_of d (KStr k)"

definition dset :: "string \<Rightarrow> pyval \<Rightarrow> pydict \<Rightarrow> pydict" where
  "dset k v d = AList.update (KStr k) v d"

definition str_dict :: "(string \<times> pyval) list \<Rightarrow> pyval" where
  "str_dict kvs = VDict (map (\<lambda>(k, v). (KStr k, v)) kvs)"

lemma dget_dset [dict_simps]: "dget (dset k v d) k' = (if k' = k then Some v else dget d k')"
  by (simp add: dget_def dset_def alist.get_put)

lemma set_update_subset: "set (AList.update k v d) \<subseteq> insert (k, v) (set d)"
  by (induction d) auto

lemma length_update_le: "length (AList.update k v d) \<le> Suc (length d)"
  by (induction d) auto

section \<open>repr and str\<close>

definition hex_digit :: "nat \<Rightarrow> char" where
  "hex_digit n = (if n < 10 then char_of (48 + n) else char_of (87 + n))"

definition hex2 :: "nat \<Rightarrow> string" where
  "hex2 n = [hex_digit (n div 16), hex_digit (n mod 16)]"

text \<open>The backslash and the newline, carriage-return and tab characters.\<close>

definition backslash :: char where "backslash = CHR 0x5C"
definition lf :: char where "lf = CHR 0x0A"
definition cr :: char where "cr = CHR 0x0D"
definition tab :: char where "tab = CHR 0x09"
definition squote :: char where "squote = CHR 0x27"
definition dquote :: char where "dquote = CHR 0x22"
definition backtick :: char where "backtick = CHR 0x60"
definition en_dash :: char where "en_dash = CHR 0x96"
definition em_dash :: char where "em_dash = CHR 0x97"

definition repr_char :: "char \<Rightarrow> char \<Rightarrow> string" where
  "repr_char q c =
     (if c = q \<or> c = backslash then [backslash, c]
      else if c = lf then [backslash, CHR ''n'']
      else if c = cr then [backslash, CHR ''r'']
      else if c = tab then [backslash, CHR ''t'']
      else if char_code c < 32 \<or> char_code c \<in> {127..132} \<or> char_code c \<in> {134..160}
              \<or> char_code c = 173
        then [backslash, CHR ''x''] @ hex2 (char_code c)
      else [c])"

definition repr_str :: "string \<Rightarrow> string" where
  "repr_str s = (let q = (if squote \<in> set s \<and> dquote \<notin> set s then dquote else squote)
                 in [q] @ concat (map (repr_char q) s) @ [q])"

fun key_repr :: "pykey \<Rightarrow> string" where
  "key_repr (KStr s) = repr_str s"
| "key_repr (KInt i) = int_str i"
| "key_repr (KBool b) = (if b then ''True'' else ''False'')"
| "key_repr KNone = ''None''"

fun key_str :: "pykey \<Rightarrow> string" where
  "key_str (KStr s) = s"
| "key_str k = key_repr k"

definition seq_brackets :: "seq_kind \<Rightarrow> string list \<Rightarrow> string" where
  "seq_brackets k xs =
     (case k of
        SList \<Rightarrow> ''['' @ py_join '', '' xs @ '']''
      | STuple \<Rightarrow> (case xs of [x] \<Rightarrow> ''('' @ x @ '',)'' | _ \<Rightarrow> ''('' @ py_join '', '' xs @ '')'')
      | SSet \<Rightarrow> if xs = [] then ''set()'' else ''{'' @ py_join '', '' xs @ ''}''
      | SFrozenset \<Rightarrow> if xs = [] then ''frozenset()''
                      else ''frozenset({'' @ py_join '', '' xs @ ''})'')"

fun py_repr :: "pyval \<Rightarrow> string" and repr_items :: "pyval list \<Rightarrow> string list"
  and repr_pairs :: "pydict \<Rightarrow> string list" where
  "py_repr VNone = ''None''"
| "py_repr (VBool b) = (if b then ''True'' else ''False'')"
| "py_repr (VInt i) = int_str i"
| "py_repr (VFloat s) = s"
| "py_repr (VStr s) = repr_str s"
| "py_repr (VBytes s) = CHR ''b'' # repr_str s"
| "py_repr (VSeq k xs) = seq_brackets k (repr_items xs)"
| "py_repr (VDict d) = ''{'' @ py_join '', '' (repr_pairs d) @ ''}''"
| "py_repr (VObj t s) = ''<'' @ t @ '' object>''"
| "repr_items [] = []"
| "repr_items (x # xs) = py_repr x # repr_items xs"
| "repr_pairs [] = []"
| "repr_pairs ((k, v) # d) = (key_repr k @ '': '' @ py_repr v) # repr_pairs d"

text \<open>\<open>str(v)\<close>; \<open>None\<close> when it raises. The address in the default \<open>repr\<close> of an object is left out.\<close>

definition py_str :: "pyval \<Rightarrow> string option" where
  "py_str v = (case v of VStr s \<Rightarrow> Some s | VObj t s \<Rightarrow> s | _ \<Rightarrow> Some (py_repr v))"

lemma py_str_simps [simp]:
  "py_str (VStr s) = Some s"
  "py_str (VObj t r) = r"
  "py_str (VInt i) = Some (int_str i)"
  by (simp_all add: py_str_def)

section \<open>The dictionaries and sequences inside a value\<close>

fun dicts_in :: "pyval \<Rightarrow> pydict list" and dicts_in_items :: "pyval list \<Rightarrow> pydict list"
  and dicts_in_pairs :: "pydict \<Rightarrow> pydict list" where
  "dicts_in (VDict d) = d # dicts_in_pairs d"
| "dicts_in (VSeq k xs) = dicts_in_items xs"
| "dicts_in VNone = []"
| "dicts_in (VBool b) = []"
| "dicts_in (VInt i) = []"
| "dicts_in (VFloat s) = []"
| "dicts_in (VStr s) = []"
| "dicts_in (VBytes s) = []"
| "dicts_in (VObj t s) = []"
| "dicts_in_items [] = []"
| "dicts_in_items (x # xs) = dicts_in x @ dicts_in_items xs"
| "dicts_in_pairs [] = []"
| "dicts_in_pairs ((k, v) # d) = dicts_in v @ dicts_in_pairs d"

fun seqs_in :: "pyval \<Rightarrow> pyval list list" and seqs_in_items :: "pyval list \<Rightarrow> pyval list list"
  and seqs_in_pairs :: "pydict \<Rightarrow> pyval list list" where
  "seqs_in (VDict d) = seqs_in_pairs d"
| "seqs_in (VSeq k xs) = xs # seqs_in_items xs"
| "seqs_in VNone = []"
| "seqs_in (VBool b) = []"
| "seqs_in (VInt i) = []"
| "seqs_in (VFloat s) = []"
| "seqs_in (VStr s) = []"
| "seqs_in (VBytes s) = []"
| "seqs_in (VObj t s) = []"
| "seqs_in_items [] = []"
| "seqs_in_items (x # xs) = seqs_in x @ seqs_in_items xs"
| "seqs_in_pairs [] = []"
| "seqs_in_pairs ((k, v) # d) = seqs_in v @ seqs_in_pairs d"

lemma dicts_in_items_set: "set (dicts_in_items xs) = (\<Union>x \<in> set xs. set (dicts_in x))"
  by (induction xs) auto

lemma dicts_in_pairs_set: "set (dicts_in_pairs d) = (\<Union>kv \<in> set d. set (dicts_in (snd kv)))"
  by (induction d) auto

lemma seqs_in_items_set: "set (seqs_in_items xs) = (\<Union>x \<in> set xs. set (seqs_in x))"
  by (induction xs) auto

lemma seqs_in_pairs_set: "set (seqs_in_pairs d) = (\<Union>kv \<in> set d. set (seqs_in (snd kv)))"
  by (induction d) auto

lemmas nodes_set = dicts_in_items_set dicts_in_pairs_set seqs_in_items_set seqs_in_pairs_set

end
