(* ===== verification/LogSanitization.thy ===== *)
theory LogSanitization
  imports PyValue
begin

text \<open>
  \<open>apps/core/utils/log_sanitization.py\<close>: the recursive sanitizer every log record and every
  audit row passes through. The settings dictionary is a record of optional entries, the
  compiled pattern is the predicate its \<open>search\<close> decides. The lemmas show that no control
  character survives, that the escaping loses nothing, that lengths and fan-out are capped and
  that sensitive keys are masked at every depth.
\<close>

section \<open>Configuration\<close>

record log_settings =
  st_enabled :: "bool option"
  st_max_string_length :: "int option"
  st_max_dict_keys :: "int option"
  st_max_list_items :: "int option"
  st_sensitive_pattern :: "(string \<Rightarrow> bool) option"
  st_mask_value :: "string option"
  st_excluded_fields :: "string list option"

record log_cfg =
  sanitize_enabled :: bool
  max_string_length :: int
  max_dict_keys :: int
  max_list_items :: int
  sensitive_pattern :: "string \<Rightarrow> bool"
  mask_value :: string
  excluded_fields :: "string list"

text \<open>\<open>re.compile("a|b|...", re.IGNORECASE).search\<close> for an alternation of literals.\<close>

definition alt_search :: "string list \<Rightarrow> string \<Rightarrow> bool" where
  "alt_search alts s \<longleftrightarrow> list_ex (\<lambda>a. sublist (py_lower a) (py_lower s)) alts"

definition DEFAULTS :: log_cfg where
  "DEFAULTS = \<lparr>
     sanitize_enabled = True,
     max_string_length = 200,
     max_dict_keys = 20,
     max_list_items = 10,
     sensitive_pattern = alt_search [''password'', ''secret'', ''token'', ''key'', ''auth'',
       ''credential'', ''api_key'', ''bearer'', ''jwt''],
     mask_value = ''***REDACTED***'',
     excluded_fields = []\<rparr>"

definition get_sanitization_config :: "log_settings \<Rightarrow> log_cfg" where
  "get_sanitization_config st = \<lparr>
     sanitize_enabled = (case st_enabled st of Some b \<Rightarrow> b | None \<Rightarrow> sanitize_enabled DEFAULTS),
     max_string_length =
       (case st_max_string_length st of Some n \<Rightarrow> n | None \<Rightarrow> max_string_length DEFAULTS),
     max_dict_keys = (case st_max_dict_keys st of Some n \<Rightarrow> n | None \<Rightarrow> max_dict_keys DEFAULTS),
     max_list_items = (case st_max_list_items st of Some n \<Rightarrow> n | None \<Rightarrow> max_list_items DEFAULTS),
     sensitive_pattern =
       (case st_sensitive_pattern st of Some p \<Rightarrow> p | None \<Rightarrow> sensitive_pattern DEFAULTS),
     mask_value = (case st_mask_value st of Some m \<Rightarrow> m | None \<Rightarrow> mask_value DEFAULTS),
     excluded_fields =
       (case st_excluded_fields st of Some e \<Rightarrow> e | None \<Rightarrow> excluded_fields DEFAULTS)\<rparr>"

section \<open>Strings\<close>

definition replace_char :: "char \<Rightarrow> string \<Rightarrow> string \<Rightarrow> string" where
  "replace_char c r s = concat (map (\<lambda>x. if x = c then r else [x]) s)"

definition control_escape :: "char \<Rightarrow> string" where
  "control_escape c =
     (if 32 \<le> char_code c then [c] else [backslash, CHR ''x''] @ hex2 (char_code c))"

definition escape_string :: "string \<Rightarrow> string" where
  "escape_string value =
     (let sanitized = replace_char backslash [backslash, backslash] value;
          sanitized = replace_char lf [backslash, CHR ''n''] sanitized;
          sanitized = replace_char cr [backslash, CHR ''r''] sanitized;
          sanitized = replace_char tab [backslash, CHR ''t''] sanitized
      in concat (map control_escape sanitized))"

definition sanitize_string_for_log :: "string \<Rightarrow> int \<Rightarrow> string" where
  "sanitize_string_for_log value max_length =
     (let sanitized = escape_string value in
      if int (length sanitized) > max_length then
        let half = (max_length - 20) div 2 in
        slice_to sanitized half @ ''...'' @ slice_from sanitized (- half)
          @ '' ('' @ nat_str (length value) @ '' chars)''
      else sanitized)"

definition shorten :: "string \<Rightarrow> int \<Rightarrow> string" where
  "shorten value max_length =
     (if int (length value) \<le> max_length then value
      else let half = (max_length - 10) div 2 in
        slice_to value half @ ''...'' @ slice_from value (- half)
          @ '' ('' @ nat_str (length value) @ '' chars)'')"

text \<open>A value that is no string is passed through \<open>str()\<close> first; \<open>None\<close>: that raised.\<close>

definition truncate_for_log :: "pyval \<Rightarrow> int \<Rightarrow> string option" where
  "truncate_for_log value max_length =
     (case value of VStr s \<Rightarrow> Some (shorten s max_length)
                  | _ \<Rightarrow> map_option (\<lambda>s. shorten s max_length) (py_str value))"

section \<open>Values\<close>

text \<open>
  \<open>_sanitize_value\<close> with the loop of \<open>_sanitize_dict_for_log\<close> (the entries, with the index
  and the dictionary built so far) and the comprehension of \<open>_sanitize_iterable_for_log\<close>
  (which sanitizes the first \<open>max_items\<close> elements: the slice of the sanitized list).
\<close>

fun sanitize_value :: "log_cfg \<Rightarrow> int \<Rightarrow> int \<Rightarrow> int \<Rightarrow> nat \<Rightarrow> pyval \<Rightarrow> pyval"
  and sanitize_entries ::
    "log_cfg \<Rightarrow> int \<Rightarrow> int \<Rightarrow> int \<Rightarrow> nat \<Rightarrow> nat \<Rightarrow> pydict \<Rightarrow> pydict \<Rightarrow> pydict"
  and sanitize_items :: "log_cfg \<Rightarrow> int \<Rightarrow> int \<Rightarrow> int \<Rightarrow> nat \<Rightarrow> pyval list \<Rightarrow> pyval list" where
  "sanitize_value cfg max_str max_keys max_items depth value =
     (if depth > 5 then VStr ''<max depth exceeded>''
      else case value of
        VNone \<Rightarrow> VNone
      | VBool b \<Rightarrow> VBool b
      | VInt i \<Rightarrow> VInt i
      | VFloat f \<Rightarrow> VFloat f
      | VStr s \<Rightarrow> VStr (sanitize_string_for_log s max_str)
      | VBytes b \<Rightarrow> VStr (''<bytes: '' @ nat_str (length b) @ '' bytes>'')
      | VDict d \<Rightarrow>
          let result = sanitize_entries cfg max_str max_keys max_items depth 0 d [] in
          VDict (if int (length d) > max_keys
                 then dset ''__truncated__''
                        (VStr (int_str (int (length d) - max_keys) @ '' more keys'')) result
                 else result)
      | VSeq k xs \<Rightarrow>
          let result = slice_to (sanitize_items cfg max_str max_keys max_items depth xs) max_items in
          VList (if int (length xs) > max_items
                 then result @ [VStr (''...and '' @ int_str (int (length xs) - max_items)
                                      @ '' more items'')]
                 else result)
      | VObj t r \<Rightarrow>
          (case r of Some s \<Rightarrow> VStr (sanitize_string_for_log s max_str)
                   | None \<Rightarrow> VStr (''<'' @ t @ '': unserializable>'')))"
| "sanitize_entries cfg max_str max_keys max_items depth i [] result = result"
| "sanitize_entries cfg max_str max_keys max_items depth i ((key, v) # kvs) result =
     (if int i \<ge> max_keys then result
      else let str_key = key_str key; lower_key = py_lower str_key in
        if lower_key \<in> set (excluded_fields cfg)
          then sanitize_entries cfg max_str max_keys max_items depth (Suc i) kvs result
        else if sensitive_pattern cfg str_key
          then sanitize_entries cfg max_str max_keys max_items depth (Suc i) kvs
                 (dset str_key (VStr (mask_value cfg)) result)
        else sanitize_entries cfg max_str max_keys max_items depth (Suc i) kvs
               (dset str_key (sanitize_value cfg max_str max_keys max_items (Suc depth) v) result))"
| "sanitize_items cfg max_str max_keys max_items depth [] = []"
| "sanitize_items cfg max_str max_keys max_items depth (x # xs) =
     sanitize_value cfg max_str max_keys max_items (Suc depth) x
       # sanitize_items cfg max_str max_keys max_items depth xs"

declare sanitize_value.simps [simp del]

definition or_int :: "int option \<Rightarrow> int \<Rightarrow> int" where
  "or_int a b = (case a of Some n \<Rightarrow> if n = 0 then b else n | None \<Rightarrow> b)"

definition sanitize_for_log ::
  "log_settings \<Rightarrow> pyval \<Rightarrow> int option \<Rightarrow> int option \<Rightarrow> int option \<Rightarrow> pyval" where
  "sanitize_for_log st value max_string max_keys max_items =
     (let config = get_sanitization_config st in
      if \<not> sanitize_enabled config then value
      else sanitize_value config
             (or_int max_string (max_string_length config))
             (or_int max_keys (max_dict_keys config))
             (or_int max_items (max_list_items config)) 0 value)"

definition safe_log_dict :: "log_settings \<Rightarrow> (string \<times> pyval) list \<Rightarrow> pyval" where
  "safe_log_dict st kwargs = sanitize_for_log st (str_dict kwargs) None None None"

section \<open>Escaping\<close>

lemmas special_chars = backslash_def lf_def cr_def tab_def

definition esc_char :: "char \<Rightarrow> string" where
  "esc_char c =
     (if c = backslash then [backslash, backslash]
      else if c = lf then [backslash, CHR ''n'']
      else if c = cr then [backslash, CHR ''r'']
      else if c = tab then [backslash, CHR ''t'']
      else control_escape c)"

lemma special_chars_code [simp]:
  "char_code backslash = 92" "char_code lf = 10" "char_code cr = 13" "char_code tab = 9"
  by (simp_all add: special_chars char_code_def)

lemma special_chars_distinct [simp]:
  "backslash \<noteq> lf" "backslash \<noteq> cr" "backslash \<noteq> tab" "lf \<noteq> cr" "lf \<noteq> tab" "cr \<noteq> tab"
  "lf \<noteq> backslash" "cr \<noteq> backslash" "tab \<noteq> backslash" "cr \<noteq> lf" "tab \<noteq> lf" "tab \<noteq> cr"
  by (simp_all flip: char_code_eq_iff)

lemma letter_codes [simp]:
  "char_code CHR ''n'' = 110" "char_code CHR ''r'' = 114" "char_code CHR ''t'' = 116"
  "char_code CHR ''x'' = 120"
  by (simp_all add: char_code_def)

lemma letters_not_special [simp]:
  "CHR ''n'' \<notin> {backslash, lf, cr, tab}" "CHR ''r'' \<notin> {backslash, lf, cr, tab}"
  "CHR ''t'' \<notin> {backslash, lf, cr, tab}" "CHR ''x'' \<notin> {backslash, lf, cr, tab}"
  by (simp_all add: special_chars)

lemma replace_char_simps:
  "replace_char c r [] = []"
  "replace_char c r (x # xs) = (if x = c then r else [x]) @ replace_char c r xs"
  "replace_char c r (xs @ ys) = replace_char c r xs @ replace_char c r ys"
  by (simp_all add: replace_char_def)

lemma escape_string_append: "escape_string (s @ t) = escape_string s @ escape_string t"
  by (simp add: escape_string_def Let_def replace_char_simps)

lemma escape_string_single: "escape_string [c] = esc_char c"
  using letters_not_special
  by (auto simp: escape_string_def Let_def replace_char_simps esc_char_def control_escape_def)

text \<open>The four passes and the final join act on each character on its own.\<close>

lemma escape_string_concat: "escape_string s = concat (map esc_char s)"
proof (induction s)
  case Nil
  show ?case by (simp add: escape_string_def replace_char_simps)
next
  case (Cons c s)
  have "escape_string (c # s) = escape_string [c] @ escape_string s"
    using escape_string_append [of "[c]" s] by simp
  with Cons show ?case by (simp add: escape_string_single)
qed

lemma hex_digit_code: "n < 16 \<Longrightarrow> char_code (hex_digit n) = (if n < 10 then 48 + n else 87 + n)"
  by (simp add: hex_digit_def char_code_char_of)

lemma esc_char_printable: "d \<in> set (esc_char c) \<Longrightarrow> 32 \<le> char_code d"
  by (auto simp: esc_char_def control_escape_def hex2_def hex_digit_code split: if_splits)

lemma escape_string_printable: "d \<in> set (escape_string s) \<Longrightarrow> 32 \<le> char_code d"
  by (auto simp: escape_string_concat esc_char_printable)

lemma nat_str_printable: "d \<in> set (nat_str n) \<Longrightarrow> 32 \<le> char_code d"
  by (drule nat_str_digits) (simp add: is_digit_def)

text \<open>
  Log injection is impossible: whatever string is logged and whatever the length cap, the
  sanitized text has no control character (no newline, carriage return, tab, escape or NUL).
\<close>

theorem sanitize_string_no_control_chars:
  "filter (\<lambda>d. char_code d < 32) (sanitize_string_for_log value max_length) = []"
proof -
  have "32 \<le> char_code d" if "d \<in> set (sanitize_string_for_log value max_length)" for d
    using that set_slice_to [of "escape_string value" "(max_length - 20) div 2"]
      set_slice_from [of "escape_string value" "- ((max_length - 20) div 2)"]
    by (auto simp: sanitize_string_for_log_def Let_def char_code_def
             dest: escape_string_printable [unfolded char_code_def]
               nat_str_printable [unfolded char_code_def]
             split: if_splits)
  then show ?thesis by (auto simp: filter_empty_conv leD)
qed

text \<open>The decoder a log reader would apply to an escaped string.\<close>

definition hex_val :: "char \<Rightarrow> nat" where
  "hex_val c = (if char_code c < 58 then char_code c - 48 else char_code c - 87)"

fun unescape :: "string \<Rightarrow> string" where
  "unescape [] = []"
| "unescape (c # cs) =
     (if c \<noteq> backslash then c # unescape cs
      else case cs of
        [] \<Rightarrow> [c]
      | d # ds \<Rightarrow>
          if d = backslash then backslash # unescape ds
          else if d = CHR ''n'' then lf # unescape ds
          else if d = CHR ''r'' then cr # unescape ds
          else if d = CHR ''t'' then tab # unescape ds
          else case ds of
            h1 # h2 # es \<Rightarrow> char_of (16 * hex_val h1 + hex_val h2) # unescape es
          | _ \<Rightarrow> [])"

lemma hex_val_digit: "n < 16 \<Longrightarrow> hex_val (hex_digit n) = n"
  by (simp add: hex_val_def hex_digit_code)

lemma char_of_code: "char_of (char_code c) = c"
  by (simp add: char_code_def)

lemma unescape_esc_char: "unescape (esc_char c @ t) = c # unescape t"
proof (cases "c \<in> {backslash, lf, cr, tab}")
  case True
  then show ?thesis
    using letters_not_special by (auto simp: esc_char_def)
next
  case False
  show ?thesis
  proof (cases "32 \<le> char_code c")
    case True
    with False show ?thesis by (simp add: esc_char_def control_escape_def)
  next
    case small: False
    then have "char_code c div 16 < 16" "char_code c mod 16 < 16" by simp_all
    moreover have "16 * (char_code c div 16) + char_code c mod 16 = char_code c" by simp
    ultimately show ?thesis using False small letters_not_special
      by (simp add: esc_char_def control_escape_def hex2_def hex_val_digit char_of_code)
  qed
qed

text \<open>
  C40: the escaping is lossless: decoding the escape sequences of an escaped string gives the
  original back, so two different messages never share a log line.
\<close>

theorem unescape_escape_string: "unescape (escape_string s) = s"
  by (induction s) (simp_all add: escape_string_concat unescape_esc_char)

section \<open>Length caps\<close>

lemma cut_length:
  fixes h m :: int
  assumes "0 < h" "2 * h \<le> m"
  shows "int (length (slice_to xs h @ ''...'' @ slice_from xs (- h) @ '' ('' @ ds @ '' chars)''))
           \<le> m + 12 + int (length ds)"
  using assms length_slice_to [of h xs] length_slice_from_neg [of h xs] by simp

text \<open>
  A cap of at least 22 characters is honoured: the sanitized text of a message of fewer than
  a hundred million characters is never longer than the cap, cut or not.
\<close>

theorem sanitize_string_length_capped:
  assumes "22 \<le> max_length" and "length value < 10 ^ 8"
  shows "int (length (sanitize_string_for_log value max_length)) \<le> max_length"
proof (cases "int (length (escape_string value)) > max_length")
  case True
  let ?h = "(max_length - 20) div 2"
  have "0 < ?h" "2 * ?h \<le> max_length - 20" using assms(1) by linarith+
  then have "int (length (sanitize_string_for_log value max_length))
      \<le> max_length - 20 + 12 + int (length (nat_str (length value)))"
    using True cut_length [of ?h "max_length - 20" "escape_string value" "nat_str (length value)"]
    by (simp add: sanitize_string_for_log_def Let_def)
  moreover have "length (nat_str (length value)) \<le> 8"
    using nat_str_length_le [of "length value" 7] assms(2) by simp
  ultimately show ?thesis by simp
next
  case False
  then show ?thesis by (simp add: sanitize_string_for_log_def)
qed

theorem sanitize_string_length_capped_witness:
  "int (length (sanitize_string_for_log (replicate 40 CHR ''a'') 30)) \<le> 30"
  using sanitize_string_length_capped [of 30 "replicate 40 CHR ''a''"] by simp

text \<open>
  A configured cap of 20 or 21 does not cut anything: the whole escaped text follows the
  ellipsis, because the tail slice \<open>[-0:]\<close> is the full string, so the "truncated" text is longer
  than the original.
\<close>

theorem sanitize_string_cap_20_keeps_everything:
  assumes "max_length = 20 \<or> max_length = 21" and "int (length (escape_string value)) > max_length"
  shows "sanitize_string_for_log value max_length =
           ''...'' @ escape_string value @ '' ('' @ nat_str (length value) @ '' chars)''"
  using assms by (auto simp: sanitize_string_for_log_def Let_def)

theorem sanitize_string_cap_20_keeps_everything_witness:
  "sanitize_string_for_log (replicate 22 CHR ''a'') 20 =
     ''...'' @ replicate 22 CHR ''a'' @ '' (22 chars)''"
proof -
  have esc: "escape_string (replicate 22 CHR ''a'') = replicate 22 CHR ''a''" by code_simp
  have "nat_str 22 = ''22''" by code_simp
  then show ?thesis
    using sanitize_string_cap_20_keeps_everything [of 20 "replicate 22 CHR ''a''"] esc by simp
qed

section \<open>Masking and fan-out of values\<close>

definition safe_entry :: "log_cfg \<Rightarrow> pykey \<times> pyval \<Rightarrow> bool" where
  "safe_entry cfg kv =
     (case kv of
        (KStr s, v) \<Rightarrow> s = ''__truncated__'' \<or>
          (py_lower s \<notin> set (excluded_fields cfg) \<and>
           (sensitive_pattern cfg s \<longrightarrow> v = VStr (mask_value cfg)))
      | _ \<Rightarrow> False)"

lemma set_dset: "set (dset k v d) \<subseteq> insert (KStr k, v) (set d)"
  by (simp add: dset_def set_update_subset)

lemma dicts_in_pairs_dset:
  "set (dicts_in_pairs (dset k v d)) \<subseteq> set (dicts_in v) \<union> set (dicts_in_pairs d)"
  using set_dset [of k v d] by (auto simp: nodes_set)

lemma seqs_in_pairs_dset:
  "set (seqs_in_pairs (dset k v d)) \<subseteq> set (seqs_in v) \<union> set (seqs_in_pairs d)"
  using set_dset [of k v d] by (auto simp: nodes_set)

lemma safe_dset:
  "\<forall>kv \<in> set d. safe_entry cfg kv \<Longrightarrow> safe_entry cfg (KStr k, v)
     \<Longrightarrow> \<forall>kv \<in> set (dset k v d). safe_entry cfg kv"
  using set_dset [of k v d] by auto

lemma safe_truncated: "safe_entry cfg (KStr ''__truncated__'', v)"
  by (simp add: safe_entry_def)

lemma slice_to_nodes:
  "set (dicts_in_items (slice_to xs n)) \<subseteq> set (dicts_in_items xs)"
  "set (seqs_in_items (slice_to xs n)) \<subseteq> set (seqs_in_items xs)"
  using set_slice_to [of xs n] by (auto simp: nodes_set)

abbreviation safe_dicts :: "log_cfg \<Rightarrow> pydict set \<Rightarrow> bool" where
  "safe_dicts cfg D \<equiv> \<forall>d \<in> D. \<forall>kv \<in> set d. safe_entry cfg kv"

definition safe_result :: "log_cfg \<Rightarrow> pydict \<Rightarrow> bool" where
  "safe_result cfg r \<longleftrightarrow> safe_dicts cfg (insert r (set (dicts_in_pairs r)))"

lemma safe_result_Nil [simp]: "safe_result cfg []"
  by (simp add: safe_result_def)

lemma safe_result_dset:
  assumes "safe_result cfg r" "safe_entry cfg (KStr k, v)" "safe_dicts cfg (set (dicts_in v))"
  shows "safe_result cfg (dset k v r)"
  using assms safe_dset [of r cfg k v] dicts_in_pairs_dset [of k v r]
  unfolding safe_result_def by fastforce

lemma safe_result_VDict: "safe_result cfg r \<longleftrightarrow> safe_dicts cfg (set (dicts_in (VDict r)))"
  by (simp add: safe_result_def)

lemma safe_list_slice:
  "safe_dicts cfg (set (dicts_in_items xs)) \<Longrightarrow> safe_dicts cfg (set (dicts_in_items (slice_to xs n)))"
  using slice_to_nodes(1) [of xs n] by blast

lemma dicts_in_items_append: "dicts_in_items (xs @ ys) = dicts_in_items xs @ dicts_in_items ys"
  by (induction xs) auto

lemma sanitize_safe:
  "safe_dicts cfg (set (dicts_in (sanitize_value cfg ms mk mi dp v)))"
  "safe_result cfg result \<Longrightarrow> safe_result cfg (sanitize_entries cfg ms mk mi dp i kvs result)"
  "safe_dicts cfg (set (dicts_in_items (sanitize_items cfg ms mk mi dp xs)))"
proof (induction cfg ms mk mi dp v and cfg ms mk mi dp i kvs result and cfg ms mk mi dp xs
    rule: sanitize_value_sanitize_entries_sanitize_items.induct)
  case (1 cfg ms mk mi dp v)
  show ?case
  proof (cases "dp > 5")
    case True
    then show ?thesis by (simp add: sanitize_value.simps)
  next
    case False
    show ?thesis
    proof (cases v)
      case (VDict d)
      then have "safe_result cfg (sanitize_entries cfg ms mk mi dp 0 d [])"
        using 1(2) False by simp
      then show ?thesis using False VDict
        by (simp add: sanitize_value.simps Let_def safe_result_dset safe_truncated
                 flip: safe_result_VDict del: dicts_in.simps(1))
    next
      case (VSeq k xs)
      then have "safe_dicts cfg (set (dicts_in_items (sanitize_items cfg ms mk mi dp xs)))"
        using 1(1) False by simp
      then show ?thesis using False VSeq
        by (simp add: sanitize_value.simps Let_def safe_list_slice dicts_in_items_append)
    qed (use False in \<open>simp_all add: sanitize_value.simps split: option.splits\<close>)
  qed
next
  case (3 cfg ms mk mi dp i key v kvs result)
  have masked: "safe_result cfg (dset k (VStr (mask_value cfg)) result)"
    if "py_lower k \<notin> set (excluded_fields cfg)" for k
    using 3(5) that by (intro safe_result_dset) (simp_all add: safe_entry_def)
  have plain: "safe_result cfg (dset k w result)"
    if "py_lower k \<notin> set (excluded_fields cfg)" "\<not> sensitive_pattern cfg k"
      "safe_dicts cfg (set (dicts_in w))" for k w
    using 3(5) that by (intro safe_result_dset) (simp_all add: safe_entry_def)
  show ?case
    using 3 masked plain by (auto simp: Let_def)
qed (simp_all add: ball_Un)

text \<open>
  C6: with sanitization on, whatever is logged (dictionaries nested in lists nested in
  dictionaries, to any depth), every dictionary of the output has string keys only, the value of
  every key that matches the sensitive pattern is the mask, and no excluded field is left; the one
  key the sanitizer adds itself is the truncation marker.
\<close>

theorem sanitize_for_log_masks_every_dict:
  assumes "sanitize_enabled (get_sanitization_config st)"
  shows "list_all (list_all (safe_entry (get_sanitization_config st)))
           (dicts_in (sanitize_for_log st value max_str max_keys max_items))"
  using assms sanitize_safe(1) [of "get_sanitization_config st" _ _ _ 0 "value"]
  by (simp add: sanitize_for_log_def Let_def list_all_iff)

definition no_log_settings :: log_settings where
  "no_log_settings = \<lparr>st_enabled = None, st_max_string_length = None, st_max_dict_keys = None,
     st_max_list_items = None, st_sensitive_pattern = None, st_mask_value = None,
     st_excluded_fields = None\<rparr>"

theorem sanitize_for_log_masks_every_dict_witness:
  "sanitize_for_log no_log_settings
     (str_dict [(''users'', VList [str_dict [(''API_Key'', VStr ''s3cr3t'')]])]) None None None
   = str_dict [(''users'', VList [str_dict [(''API_Key'', VStr ''***REDACTED***'')]])]
   \<and> list_all (list_all (safe_entry (get_sanitization_config no_log_settings)))
       (dicts_in (sanitize_for_log no_log_settings
          (str_dict [(''users'', VList [str_dict [(''API_Key'', VStr ''s3cr3t'')]])]) None None None))"
proof
  have "sanitize_enabled (get_sanitization_config no_log_settings)" by code_simp
  then show "list_all (list_all (safe_entry (get_sanitization_config no_log_settings)))
       (dicts_in (sanitize_for_log no_log_settings
          (str_dict [(''users'', VList [str_dict [(''API_Key'', VStr ''s3cr3t'')]])]) None None None))"
    by (rule sanitize_for_log_masks_every_dict)
qed code_simp

lemma length_dset_le: "length (dset k v d) \<le> Suc (length d)"
  by (simp add: dset_def length_update_le)

lemma sanitize_entries_length:
  "length result \<le> i \<Longrightarrow> int i \<le> mk \<Longrightarrow>
     int (length (sanitize_entries cfg ms mk mi dp i kvs result)) \<le> mk"
proof (induction kvs arbitrary: i result)
  case Nil
  then show ?case by simp
next
  case (Cons kv kvs)
  have "length (dset k v result) \<le> Suc i" for k v
    using Cons.prems(1) length_dset_le [of k v result] by linarith
  with Cons show ?case
    by (cases kv) (auto simp: Let_def)
qed

definition capped_nodes :: "int \<Rightarrow> int \<Rightarrow> pyval \<Rightarrow> bool" where
  "capped_nodes mk mi v \<longleftrightarrow>
     (\<forall>d \<in> set (dicts_in v). int (length d) \<le> mk + 1) \<and>
     (\<forall>xs \<in> set (seqs_in v). int (length xs) \<le> mi + 1)"

definition capped_pairs :: "int \<Rightarrow> int \<Rightarrow> pydict \<Rightarrow> bool" where
  "capped_pairs mk mi d \<longleftrightarrow> (\<forall>kv \<in> set d. capped_nodes mk mi (snd kv))"

lemma capped_pairs_dset:
  "capped_pairs mk mi d \<Longrightarrow> capped_nodes mk mi v \<Longrightarrow> capped_pairs mk mi (dset k v d)"
  using set_dset [of k v d] by (fastforce simp: capped_pairs_def)

lemma capped_scalar [simp]: "capped_nodes mk mi (VStr s)" "capped_pairs mk mi []"
  by (simp_all add: capped_nodes_def capped_pairs_def)

lemma capped_VDict:
  "int (length d) \<le> mk + 1 \<Longrightarrow> capped_pairs mk mi d \<Longrightarrow> capped_nodes mk mi (VDict d)"
  by (auto simp: capped_nodes_def capped_pairs_def nodes_set)

lemma capped_VList:
  "int (length xs) \<le> mi + 1 \<Longrightarrow> \<forall>x \<in> set xs. capped_nodes mk mi x \<Longrightarrow> capped_nodes mk mi (VList xs)"
  by (auto simp: capped_nodes_def nodes_set)

lemma sanitize_capped:
  "0 \<le> mk \<Longrightarrow> 0 \<le> mi \<Longrightarrow> capped_nodes mk mi (sanitize_value cfg ms mk mi dp v)"
  "0 \<le> mk \<Longrightarrow> 0 \<le> mi \<Longrightarrow> capped_pairs mk mi result \<Longrightarrow>
     capped_pairs mk mi (sanitize_entries cfg ms mk mi dp i kvs result)"
  "0 \<le> mk \<Longrightarrow> 0 \<le> mi \<Longrightarrow> \<forall>x \<in> set (sanitize_items cfg ms mk mi dp xs). capped_nodes mk mi x"
proof (induction cfg ms mk mi dp v and cfg ms mk mi dp i kvs result and cfg ms mk mi dp xs
    rule: sanitize_value_sanitize_entries_sanitize_items.induct)
  case (1 cfg ms mk mi dp v)
  show ?case
  proof (cases v)
    case (VDict d)
    let ?r = "sanitize_entries cfg ms mk mi dp 0 d []"
    have "int (length ?r) \<le> mk"
      using sanitize_entries_length [of "[]" 0] 1(3) by simp
    then have "int (length (dset k w ?r)) \<le> mk + 1" for k w
      using length_dset_le [of k w ?r] by linarith
    moreover have "int (length ?r) \<le> mk + 1"
      using \<open>int (length ?r) \<le> mk\<close> by simp
    ultimately show ?thesis using VDict 1
      by (auto simp: sanitize_value.simps Let_def intro!: capped_VDict capped_pairs_dset)
  next
    case (VSeq k xs)
    let ?r = "slice_to (sanitize_items cfg ms mk mi dp xs) mi"
    have "int (length ?r) \<le> mi" using length_slice_to [of mi] 1(4)
      by (metis nat_le_iff int_nat_eq of_nat_le_iff)
    moreover have "\<forall>x \<in> set ?r. capped_nodes mk mi x" if "\<not> dp > 5"
      using that set_slice_to [of "sanitize_items cfg ms mk mi dp xs" mi] 1 VSeq by auto
    ultimately show ?thesis using VSeq
      by (auto simp: sanitize_value.simps Let_def intro!: capped_VList)
  qed (simp_all add: sanitize_value.simps capped_nodes_def split: option.splits)
next
  case (3 cfg ms mk mi dp i key v kvs result)
  then show ?case by (auto simp: Let_def capped_pairs_dset)
qed simp_all

text \<open>
  With sanitization on and non-negative caps, a log record cannot grow with its input: every
  dictionary of the output has at most \<open>max_keys + 1\<close> entries and every sequence at most
  \<open>max_items + 1\<close> elements (the extra one is the truncation note), at every depth.
\<close>

theorem sanitize_for_log_bounded_fanout:
  assumes "sanitize_enabled (get_sanitization_config st)"
    and "max_keys = Some mk" "1 \<le> mk" and "max_items = Some mi" "1 \<le> mi"
  shows "capped_nodes mk mi (sanitize_for_log st value max_str max_keys max_items)"
  using assms sanitize_capped(1) [of mk mi]
  by (simp add: sanitize_for_log_def Let_def or_int_def)

theorem sanitize_for_log_bounded_fanout_witness:
  "capped_nodes 2 1 (sanitize_for_log no_log_settings
     (VList [VInt 1, VInt 2, VInt 3]) None (Some 2) (Some 1))"
proof (rule sanitize_for_log_bounded_fanout)
  show "sanitize_enabled (get_sanitization_config no_log_settings)" by code_simp
qed simp_all

end
