(* ===== verification/Exceptions.thy ===== *)
theory Exceptions
  imports PyValue
begin

text \<open>
  The exception hierarchy: \<open>apps/core/base/exception.py\<close>, \<open>apps/core/exceptions/\<close>
  (\<open>api\<close>, \<open>auth\<close>, \<open>infrastructure\<close>, \<open>rate_limit\<close>, \<open>repository\<close>, \<open>validation\<close>) and
  \<open>apps/accounts/exceptions.py\<close>. Classes are values with their base classes and their own class
  attributes, instances are records, attribute lookup follows the base classes as Python's does.
  Classes of the frameworks the code only meets are carried by name (\<open>DRFException\<close> for
  \<open>rest_framework\<close>, \<open>OtherException\<close> for the rest); \<open>Subclass\<close> is a further class a domain
  app derives, with its own \<open>error_code\<close> and \<open>status_code\<close> when it sets them. The kit's
  \<open>ResilienceKitError\<close> is an \<open>Exception\<close> without a \<open>status_code\<close> attribute, which is what the
  handler's map lookup relies on.
\<close>

section \<open>Classes\<close>

datatype exc_class =
    PyBaseException
  | PyException
  | PyKeyboardInterrupt
  | PyValueError
  | PyTypeError
  | PyKeyError
  | PyAttributeError
  | PyRuntimeError
  | DRFException string
  | OtherException string
  | ResilienceKitError
  | BaseCustomError
  | APIError
  | AuthenticationFailedError
  | APIKeyRevokedError
  | PermissionDeniedError
  | TokenExpiredError
  | TokenInvalidError
  | TokenRevokedError
  | InfrastructureError
  | ServiceUnavailableError
  | ExternalServiceError
  | TransientError
  | ExternalTimeoutError
  | S3Exception
  | S3NotFoundError
  | SESException
  | OutboundURLNotAllowedError
  | PartnerPushError
  | RateLimitError
  | RepositoryError
  | EntityNotFoundError
  | InactiveParentError
  | InvalidInputError
  | ValidationError
  | APIKeyGenerationError
  | NoFieldsToUpdateError
  | InvalidTimezoneError
  | Subclass string "string option" "int option" exc_class

abbreviation custom_bases :: "exc_class list" where
  "custom_bases \<equiv> [BaseCustomError, ResilienceKitError, PyException, PyBaseException]"

text \<open>The base classes of a class, nearest first.\<close>

fun superclasses :: "exc_class \<Rightarrow> exc_class list" where
  "superclasses PyBaseException = []"
| "superclasses PyException = [PyBaseException]"
| "superclasses PyKeyboardInterrupt = [PyBaseException]"
| "superclasses PyValueError = [PyException, PyBaseException]"
| "superclasses PyTypeError = [PyException, PyBaseException]"
| "superclasses PyKeyError = [PyException, PyBaseException]"
| "superclasses PyAttributeError = [PyException, PyBaseException]"
| "superclasses PyRuntimeError = [PyException, PyBaseException]"
| "superclasses (DRFException n) = [PyException, PyBaseException]"
| "superclasses (OtherException n) = [PyException, PyBaseException]"
| "superclasses ResilienceKitError = [PyException, PyBaseException]"
| "superclasses BaseCustomError = [ResilienceKitError, PyException, PyBaseException]"
| "superclasses APIError = custom_bases"
| "superclasses AuthenticationFailedError = custom_bases"
| "superclasses APIKeyRevokedError = AuthenticationFailedError # custom_bases"
| "superclasses PermissionDeniedError = custom_bases"
| "superclasses TokenExpiredError = AuthenticationFailedError # custom_bases"
| "superclasses TokenInvalidError = AuthenticationFailedError # custom_bases"
| "superclasses TokenRevokedError = AuthenticationFailedError # custom_bases"
| "superclasses InfrastructureError = custom_bases"
| "superclasses ServiceUnavailableError = InfrastructureError # custom_bases"
| "superclasses ExternalServiceError = InfrastructureError # custom_bases"
| "superclasses TransientError = [ExternalServiceError, InfrastructureError] @ custom_bases"
| "superclasses ExternalTimeoutError = [ExternalServiceError, InfrastructureError] @ custom_bases"
| "superclasses S3Exception = [ExternalServiceError, InfrastructureError] @ custom_bases"
| "superclasses S3NotFoundError =
     [S3Exception, ExternalServiceError, InfrastructureError] @ custom_bases"
| "superclasses SESException = [ExternalServiceError, InfrastructureError] @ custom_bases"
| "superclasses OutboundURLNotAllowedError = InfrastructureError # custom_bases"
| "superclasses PartnerPushError = [ExternalServiceError, InfrastructureError] @ custom_bases"
| "superclasses RateLimitError = custom_bases"
| "superclasses RepositoryError = custom_bases"
| "superclasses EntityNotFoundError = RepositoryError # custom_bases"
| "superclasses InactiveParentError = RepositoryError # custom_bases"
| "superclasses InvalidInputError = RepositoryError # custom_bases"
| "superclasses ValidationError = custom_bases"
| "superclasses APIKeyGenerationError = InfrastructureError # custom_bases"
| "superclasses NoFieldsToUpdateError = custom_bases"
| "superclasses InvalidTimezoneError = custom_bases"
| "superclasses (Subclass n ec sc base) = base # superclasses base"

definition issubclass :: "exc_class \<Rightarrow> exc_class \<Rightarrow> bool" where
  "issubclass c d \<longleftrightarrow> c = d \<or> d \<in> set (superclasses c)"

fun class_name :: "exc_class \<Rightarrow> string" where
  "class_name PyBaseException = ''BaseException''"
| "class_name PyException = ''Exception''"
| "class_name PyKeyboardInterrupt = ''KeyboardInterrupt''"
| "class_name PyValueError = ''ValueError''"
| "class_name PyTypeError = ''TypeError''"
| "class_name PyKeyError = ''KeyError''"
| "class_name PyAttributeError = ''AttributeError''"
| "class_name PyRuntimeError = ''RuntimeError''"
| "class_name (DRFException n) = n"
| "class_name (OtherException n) = n"
| "class_name ResilienceKitError = ''ResilienceKitError''"
| "class_name BaseCustomError = ''BaseCustomError''"
| "class_name APIError = ''APIError''"
| "class_name AuthenticationFailedError = ''AuthenticationFailedError''"
| "class_name APIKeyRevokedError = ''APIKeyRevokedError''"
| "class_name PermissionDeniedError = ''PermissionDeniedError''"
| "class_name TokenExpiredError = ''TokenExpiredError''"
| "class_name TokenInvalidError = ''TokenInvalidError''"
| "class_name TokenRevokedError = ''TokenRevokedError''"
| "class_name InfrastructureError = ''InfrastructureError''"
| "class_name ServiceUnavailableError = ''ServiceUnavailableError''"
| "class_name ExternalServiceError = ''ExternalServiceError''"
| "class_name TransientError = ''TransientError''"
| "class_name ExternalTimeoutError = ''ExternalTimeoutError''"
| "class_name S3Exception = ''S3Exception''"
| "class_name S3NotFoundError = ''S3NotFoundError''"
| "class_name SESException = ''SESException''"
| "class_name OutboundURLNotAllowedError = ''OutboundURLNotAllowedError''"
| "class_name PartnerPushError = ''PartnerPushError''"
| "class_name RateLimitError = ''RateLimitError''"
| "class_name RepositoryError = ''RepositoryError''"
| "class_name EntityNotFoundError = ''EntityNotFoundError''"
| "class_name InactiveParentError = ''InactiveParentError''"
| "class_name InvalidInputError = ''InvalidInputError''"
| "class_name ValidationError = ''ValidationError''"
| "class_name APIKeyGenerationError = ''APIKeyGenerationError''"
| "class_name NoFieldsToUpdateError = ''NoFieldsToUpdateError''"
| "class_name InvalidTimezoneError = ''InvalidTimezoneError''"
| "class_name (Subclass n ec sc base) = n"

section \<open>Class attributes\<close>

fun own_default_message :: "exc_class \<Rightarrow> string option" where
  "own_default_message BaseCustomError = Some ''An unexpected error occurred.''"
| "own_default_message APIError = Some ''HTTP request failed.''"
| "own_default_message AuthenticationFailedError = Some ''Authentication failed.''"
| "own_default_message APIKeyRevokedError = Some ''API key has been revoked.''"
| "own_default_message PermissionDeniedError = Some ''Permission denied.''"
| "own_default_message TokenExpiredError = Some ''Token has expired.''"
| "own_default_message TokenInvalidError = Some ''Token is invalid.''"
| "own_default_message TokenRevokedError = Some ''Token has been revoked.''"
| "own_default_message InfrastructureError = Some ''An internal system error occurred.''"
| "own_default_message ServiceUnavailableError = Some ''Service is currently unavailable.''"
| "own_default_message ExternalServiceError = Some ''An external service error occurred.''"
| "own_default_message TransientError = Some ''A temporary failure occurred. Please retry.''"
| "own_default_message ExternalTimeoutError = Some ''External service call timed out.''"
| "own_default_message S3Exception = Some ''An S3 operation failed.''"
| "own_default_message S3NotFoundError = Some ''S3 object not found.''"
| "own_default_message SESException = Some ''An SES email operation failed.''"
| "own_default_message OutboundURLNotAllowedError = Some ''Outbound URL is not allowed.''"
| "own_default_message PartnerPushError = Some ''Failed to push lead to partner.''"
| "own_default_message RateLimitError = Some ''Rate limit exceeded.''"
| "own_default_message RepositoryError = Some ''A data access error occurred.''"
| "own_default_message EntityNotFoundError = Some ''Entity not found.''"
| "own_default_message InactiveParentError = Some ''Cannot activate: parent resource is inactive.''"
| "own_default_message InvalidInputError = Some ''Invalid input.''"
| "own_default_message ValidationError = Some ''Validation failed.''"
| "own_default_message APIKeyGenerationError =
     Some ''Failed to generate a unique API key prefix after 3 attempts.''"
| "own_default_message NoFieldsToUpdateError = Some ''No valid fields to update.''"
| "own_default_message InvalidTimezoneError =
     Some ''Invalid timezone. Use a valid IANA timezone identifier.''"
| "own_default_message _ = None"

fun own_error_code :: "exc_class \<Rightarrow> string option" where
  "own_error_code APIError = Some ''API_ERROR''"
| "own_error_code AuthenticationFailedError = Some ''AUTHENTICATION_FAILED''"
| "own_error_code APIKeyRevokedError = Some ''API_KEY_REVOKED''"
| "own_error_code PermissionDeniedError = Some ''PERMISSION_DENIED''"
| "own_error_code TokenExpiredError = Some ''TOKEN_EXPIRED''"
| "own_error_code TokenInvalidError = Some ''TOKEN_INVALID''"
| "own_error_code TokenRevokedError = Some ''TOKEN_REVOKED''"
| "own_error_code InfrastructureError = Some ''INFRASTRUCTURE_ERROR''"
| "own_error_code ServiceUnavailableError = Some ''SERVICE_UNAVAILABLE''"
| "own_error_code ExternalServiceError = Some ''EXTERNAL_SERVICE_ERROR''"
| "own_error_code TransientError = Some ''TRANSIENT_ERROR''"
| "own_error_code ExternalTimeoutError = Some ''EXTERNAL_TIMEOUT''"
| "own_error_code S3Exception = Some ''S3_ERROR''"
| "own_error_code S3NotFoundError = Some ''S3_NOT_FOUND_ERROR''"
| "own_error_code SESException = Some ''SES_ERROR''"
| "own_error_code OutboundURLNotAllowedError = Some ''OUTBOUND_URL_NOT_ALLOWED''"
| "own_error_code PartnerPushError = Some ''PARTNER_PUSH_ERROR''"
| "own_error_code RateLimitError = Some ''RATE_LIMITED''"
| "own_error_code RepositoryError = Some ''REPOSITORY_ERROR''"
| "own_error_code EntityNotFoundError = Some ''ENTITY_NOT_FOUND''"
| "own_error_code InactiveParentError = Some ''INACTIVE_PARENT''"
| "own_error_code InvalidInputError = Some ''INVALID_INPUT''"
| "own_error_code ValidationError = Some ''VALIDATION_ERROR''"
| "own_error_code APIKeyGenerationError = Some ''API_KEY_GENERATION''"
| "own_error_code NoFieldsToUpdateError = Some ''NO_FIELDS_TO_UPDATE''"
| "own_error_code InvalidTimezoneError = Some ''INVALID_TIMEZONE''"
| "own_error_code (Subclass n ec sc base) = ec"
| "own_error_code _ = None"

fun own_status_code :: "exc_class \<Rightarrow> int option" where
  "own_status_code APIError = Some 502"
| "own_status_code AuthenticationFailedError = Some 401"
| "own_status_code PermissionDeniedError = Some 403"
| "own_status_code RateLimitError = Some 429"
| "own_status_code ValidationError = Some 400"
| "own_status_code (Subclass n ec sc base) = sc"
| "own_status_code _ = None"

fun first_some :: "'a option list \<Rightarrow> 'a option" where
  "first_some [] = None"
| "first_some (Some a # xs) = Some a"
| "first_some (None # xs) = first_some xs"

text \<open>Attribute lookup on a class: its own attribute, else that of the nearest base.\<close>

definition class_attr :: "(exc_class \<Rightarrow> 'a option) \<Rightarrow> exc_class \<Rightarrow> 'a option" where
  "class_attr own c = first_some (map own (c # superclasses c))"

section \<open>Error codes\<close>

text \<open>\<open>re.sub("(Error|Exception)$", "", name)\<close>.\<close>

definition strip_error_suffix :: "string \<Rightarrow> string" where
  "strip_error_suffix name =
     (if suffix ''Error'' name then take (length name - 5) name
      else if suffix ''Exception'' name then take (length name - 9) name
      else name)"

text \<open>\<open>re.sub("(?<=[a-z0-9])(?=[A-Z])", "_", name)\<close>.\<close>

fun camel_to_snake :: "string \<Rightarrow> string" where
  "camel_to_snake (a # b # s) =
     (if (is_lower a \<or> is_digit a) \<and> is_upper b then a # CHR ''_'' # camel_to_snake (b # s)
      else a # camel_to_snake (b # s))"
| "camel_to_snake s = s"

definition derive_error_code :: "string \<Rightarrow> bool \<Rightarrow> string" where
  "derive_error_code name strip_suffix =
     py_upper (camel_to_snake (if strip_suffix then strip_error_suffix name else name))"

section \<open>Instances\<close>

datatype exc_fields =
    NoFields
  | EntityFields string pyval
  | ServiceFields string
  | ApiFields "string option" pydict
  | ValidationFields "string option" pydict
  | RateFields int int int int int

record exn =
  exc_cls :: exc_class
  exc_message :: string
  exc_status :: "int option"
  exc_request_id :: "string option"
  exc_fields :: exc_fields

definition isinstance :: "exn \<Rightarrow> exc_class \<Rightarrow> bool" where
  "isinstance e c = issubclass (exc_cls e) c"

text \<open>An exception raised by a framework or the language.\<close>

definition raw_exn :: "exc_class \<Rightarrow> string \<Rightarrow> exn" where
  "raw_exn c msg = \<lparr>exc_cls = c, exc_message = msg, exc_status = None, exc_request_id = None,
     exc_fields = NoFields\<rparr>"

definition default_message :: "exc_class \<Rightarrow> string" where
  "default_message c = (case class_attr own_default_message c of Some m \<Rightarrow> m | None \<Rightarrow> [])"

text \<open>\<open>BaseCustomError.__init__\<close>; \<open>rid\<close> is the request id of the current context.\<close>

definition new_custom ::
  "string option \<Rightarrow> exc_class \<Rightarrow> string option \<Rightarrow> int option \<Rightarrow> exc_fields \<Rightarrow> exn" where
  "new_custom rid c message status_code flds =
     \<lparr>exc_cls = c,
      exc_message = (case or_str message (Some (default_message c)) of Some m \<Rightarrow> m | None \<Rightarrow> []),
      exc_status = status_code,
      exc_request_id = rid,
      exc_fields = flds\<rparr>"

definition text_of :: "pyval \<Rightarrow> string" where
  "text_of v = (case py_str v of Some s \<Rightarrow> s | None \<Rightarrow> [])"

definition new_EntityNotFoundError ::
  "string option \<Rightarrow> string \<Rightarrow> pyval \<Rightarrow> int option \<Rightarrow> exn" where
  "new_EntityNotFoundError rid entity_name entity_id status_code =
     new_custom rid EntityNotFoundError
       (Some (entity_name @ '' with id='' @ text_of entity_id @ '' not found.''))
       status_code (EntityFields entity_name entity_id)"

definition new_InactiveParentError :: "string option \<Rightarrow> string option \<Rightarrow> int option \<Rightarrow> exn" where
  "new_InactiveParentError rid message status_code =
     new_custom rid InactiveParentError
       (or_str message (Some (default_message InactiveParentError))) status_code NoFields"

definition new_ServiceUnavailableError ::
  "string option \<Rightarrow> string \<Rightarrow> string option \<Rightarrow> int option \<Rightarrow> exn" where
  "new_ServiceUnavailableError rid service_name message status_code =
     new_custom rid ServiceUnavailableError
       (or_str message (Some (''Service '' @ [squote] @ service_name @ [squote]
          @ '' is currently unavailable (circuit breaker open).'')))
       status_code (ServiceFields service_name)"

definition new_APIError ::
  "string option \<Rightarrow> string option \<Rightarrow> int option \<Rightarrow> string option \<Rightarrow> pydict option \<Rightarrow> exn" where
  "new_APIError rid message status_code response_body details =
     new_custom rid APIError message status_code
       (ApiFields response_body (case details of Some d \<Rightarrow> d | None \<Rightarrow> []))"

definition new_ValidationError ::
  "string option \<Rightarrow> string option \<Rightarrow> string option \<Rightarrow> pydict option \<Rightarrow> exn" where
  "new_ValidationError rid message field details =
     new_custom rid ValidationError message None
       (ValidationFields field (case details of Some d \<Rightarrow> d | None \<Rightarrow> []))"

definition new_RateLimitError ::
  "string option \<Rightarrow> int \<Rightarrow> int \<Rightarrow> int \<Rightarrow> int \<Rightarrow> int \<Rightarrow> string option \<Rightarrow> exn" where
  "new_RateLimitError rid limit window_seconds retry_after remaining reset_at message =
     new_custom rid RateLimitError
       (or_str message (Some (''Rate limit exceeded ('' @ int_str limit @ ''/''
          @ int_str window_seconds @ ''s).'')))
       None (RateFields limit window_seconds (max 1 retry_after) remaining reset_at)"

text \<open>\<open>exc.status_code\<close>: the instance attribute, else the class attribute; \<open>None\<close>: no such attribute.\<close>

definition status_attr :: "exn \<Rightarrow> int option" where
  "status_attr e =
     (case exc_status e of Some n \<Rightarrow> Some n | None \<Rightarrow> class_attr own_status_code (exc_cls e))"

definition get_error_code :: "exn \<Rightarrow> string" where
  "get_error_code e =
     (case or_str (class_attr own_error_code (exc_cls e)) None of
        Some c \<Rightarrow> c
      | None \<Rightarrow> derive_error_code (class_name (exc_cls e)) True)"

definition get_details :: "exn \<Rightarrow> pydict option" where
  "get_details e =
     (case exc_fields e of
        NoFields \<Rightarrow> None
      | EntityFields n i \<Rightarrow> Some [(KStr ''entity_name'', VStr n), (KStr ''entity_id'', i)]
      | ServiceFields n \<Rightarrow> Some [(KStr ''service_name'', VStr n)]
      | ApiFields body details \<Rightarrow>
          let out = details;
              out = (case body of Some b \<Rightarrow> dset ''response_body'' (VStr b) out | None \<Rightarrow> out)
          in Some (case status_attr e of
                     Some n \<Rightarrow> dset ''status_code'' (VInt n) out | None \<Rightarrow> out)
      | ValidationFields f details \<Rightarrow> (if details = [] then None else Some details)
      | RateFields l w ra rem rs \<Rightarrow>
          Some [(KStr ''limit'', VInt l), (KStr ''window_seconds'', VInt w),
                (KStr ''retry_after'', VInt ra), (KStr ''remaining'', VInt rem),
                (KStr ''reset_at'', VInt rs)])"

record error_item =
  ei_code :: string
  ei_message :: string
  ei_field :: "string option"
  ei_details :: "pydict option"

definition to_error_dict :: "exn \<Rightarrow> error_item" where
  "to_error_dict e =
     \<lparr>ei_code = get_error_code e,
      ei_message = exc_message e,
      ei_field = (case exc_fields e of ValidationFields f d \<Rightarrow> f | _ \<Rightarrow> None),
      ei_details = get_details e\<rparr>"

text \<open>\<open>RateLimitError.response_headers\<close>.\<close>

definition rate_limit_headers :: "exn \<Rightarrow> (string \<times> string) list" where
  "rate_limit_headers e =
     (case exc_fields e of
        RateFields l w ra rem rs \<Rightarrow>
          [(''Retry-After'', int_str ra), (''X-RateLimit-Limit'', int_str l),
           (''X-RateLimit-Remaining'', int_str rem), (''X-RateLimit-Reset'', int_str rs)]
      | _ \<Rightarrow> [])"

section \<open>Lemmas\<close>

lemma issubclass_refl [simp]: "issubclass c c"
  by (simp add: issubclass_def)

lemma superclasses_closed:
  "d \<in> set (superclasses c) \<Longrightarrow> set (superclasses d) \<subseteq> set (superclasses c)"
  by (induction c) auto

lemma issubclass_trans: "issubclass c d \<Longrightarrow> issubclass d e \<Longrightarrow> issubclass c e"
  using superclasses_closed by (auto simp: issubclass_def)

lemma issubclass_Subclass [simp]: "issubclass (Subclass n ec sc base) base"
  by (simp add: issubclass_def)

lemma underscore_class [simp]:
  "\<not> is_upper CHR ''_''" "\<not> is_lower CHR ''_''" "\<not> is_digit CHR ''_''"
  by (simp_all add: is_upper_def is_lower_def is_digit_def char_code_def)

lemma camel_to_snake_letters:
  "filter (\<lambda>c. c \<noteq> CHR ''_'') (camel_to_snake s) = filter (\<lambda>c. c \<noteq> CHR ''_'') s"
  by (induction s rule: camel_to_snake.induct) auto

lemma upper_char_code:
  "char_code (upper_char c) = (if is_lower c then char_code c - 32 else char_code c)"
  using char_code_less [of c] by (simp add: upper_char_def is_lower_def char_code_char_of)

lemma upper_char_underscore: "upper_char c = CHR ''_'' \<longleftrightarrow> c = CHR ''_''"
proof -
  have us: "char_code CHR ''_'' = 95" by (simp add: char_code_def)
  have "upper_char c = CHR ''_'' \<longleftrightarrow> char_code (upper_char c) = 95"
    using us char_code_eq_iff [of "upper_char c" "CHR ''_''"] by simp
  also have "\<dots> \<longleftrightarrow> char_code c = 95"
    by (auto simp: upper_char_code is_lower_def)
  also have "\<dots> \<longleftrightarrow> c = CHR ''_''"
    using us char_code_eq_iff [of c "CHR ''_''"] by simp
  finally show ?thesis .
qed

lemma py_upper_letters:
  "filter (\<lambda>c. c \<noteq> CHR ''_'') (py_upper s) = py_upper (filter (\<lambda>c. c \<noteq> CHR ''_'') s)"
  by (simp add: py_upper_def filter_map comp_def upper_char_underscore)

text \<open>
  A derived error code is the class name in upper case with underscores put in: it has no
  lower-case letter, and taking the underscores out of the code and of the (suffix-stripped) name
  leaves the same letters.
\<close>

theorem derive_error_code_spec:
  "(\<nexists>c. c \<in> set (derive_error_code name strip) \<and> is_lower c) \<and>
   filter (\<lambda>c. c \<noteq> CHR ''_'') (derive_error_code name strip) =
     py_upper (filter (\<lambda>c. c \<noteq> CHR ''_'') (if strip then strip_error_suffix name else name))"
  using py_upper_no_lower
  by (auto simp: derive_error_code_def py_upper_letters camel_to_snake_letters)

lemma first_some_append: "first_some (xs @ ys) =
    (case first_some xs of Some a \<Rightarrow> Some a | None \<Rightarrow> first_some ys)"
  by (induction xs rule: first_some.induct) auto

lemma class_attr_Subclass:
  "class_attr own (Subclass n ec sc base) =
     (case own (Subclass n ec sc base) of Some a \<Rightarrow> Some a | None \<Rightarrow> class_attr own base)"
  by (auto simp: class_attr_def split: option.splits)

text \<open>
  A rate-limit error always tells the client to wait at least one second, in the details and in
  the \<open>Retry-After\<close> header alike, whatever the throttle computed; its status is 429.
\<close>

theorem rate_limit_retry_after:
  "let e = new_RateLimitError rid limit window retry_after remaining reset_at message in
   \<exists>n. 1 \<le> n \<and> retry_after \<le> n \<and>
     map_of (rate_limit_headers e) ''Retry-After'' = Some (int_str n) \<and>
     map_option (\<lambda>d. dget d ''retry_after'') (get_details e) = Some (Some (VInt n)) \<and>
     status_attr e = Some 429"
  by (auto simp: Let_def new_RateLimitError_def new_custom_def rate_limit_headers_def
      get_details_def dget_def status_attr_def class_attr_def intro!: exI [of _ "max 1 retry_after"])

text \<open>
  The error code in a class's own documentation is not always the code it sends. The
  documentation of \<open>APIKeyGenerationError\<close> calls its code derived from the class name, but the
  derivation gives \<open>APIKEY_GENERATION\<close> while the class sends \<open>API_KEY_GENERATION\<close>; the
  documented \<open>REPOSITORY\<close>, \<open>INFRASTRUCTURE\<close>, \<open>EXTERNAL_SERVICE\<close>, \<open>TRANSIENT\<close>, \<open>S3\<close>,
  \<open>SES\<close> and \<open>PARTNER_PUSH\<close> are what the derivation gives, and each class overrides it with the
  suffix \<open>_ERROR\<close>.
\<close>

theorem documented_codes_not_sent:
  "derive_error_code (class_name APIKeyGenerationError) True = ''APIKEY_GENERATION'' \<and>
   class_attr own_error_code APIKeyGenerationError = Some ''API_KEY_GENERATION'' \<and>
   map (\<lambda>c. (derive_error_code (class_name c) True, class_attr own_error_code c))
     [RepositoryError, InfrastructureError, ExternalServiceError, TransientError, S3Exception,
      SESException, PartnerPushError] =
   [(''REPOSITORY'', Some ''REPOSITORY_ERROR''), (''INFRASTRUCTURE'', Some ''INFRASTRUCTURE_ERROR''),
    (''EXTERNAL_SERVICE'', Some ''EXTERNAL_SERVICE_ERROR''), (''TRANSIENT'', Some ''TRANSIENT_ERROR''),
    (''S3'', Some ''S3_ERROR''), (''SES'', Some ''SES_ERROR''), (''PARTNER_PUSH'', Some ''PARTNER_PUSH_ERROR'')]"
  by code_simp

end
