(* ===== verification/Responses.thy ===== *)
theory Responses
  imports Complex_Main Exceptions
begin

text \<open>
  The response envelope: \<open>apps/core/base/response.py\<close>, \<open>apps/core/responses/\<close> and
  \<open>apps/core/utils/pagination.py\<close>. The five-field payload is a record; \<open>ctx\<close> is the request id
  of the current context (\<open>_request_id_var.get(None)\<close>). A Django \<open>Page\<close> is the record of the
  values the code reads from it.
\<close>

record envelope =
  env_success :: bool
  env_message :: string
  env_data :: pyval
  env_errors :: "error_item list option"
  env_request_id :: "string option"

record http_response =
  rs_status :: int
  rs_body :: envelope
  rs_headers :: "(string \<times> string) list"

definition BaseResponse ::
  "string option \<Rightarrow> bool \<Rightarrow> string \<Rightarrow> pyval \<Rightarrow> error_item list option \<Rightarrow> string option \<Rightarrow> int
     \<Rightarrow> http_response" where
  "BaseResponse ctx success message data errors request_id status_code =
     \<lparr>rs_status = status_code,
      rs_body = \<lparr>env_success = success, env_message = message, env_data = data,
                 env_errors = errors, env_request_id = or_str request_id ctx\<rparr>,
      rs_headers = []\<rparr>"

definition SuccessResponse :: "string option \<Rightarrow> pyval \<Rightarrow> string \<Rightarrow> int \<Rightarrow> http_response" where
  "SuccessResponse ctx data message status_code =
     BaseResponse ctx True message data None None status_code"

definition ErrorResponse ::
  "string option \<Rightarrow> string \<Rightarrow> error_item list option \<Rightarrow> int \<Rightarrow> http_response" where
  "ErrorResponse ctx message errors status_code =
     BaseResponse ctx False message VNone errors None status_code"

record page_obj =
  pg_object_list :: "pyval list"
  pg_count :: int
  pg_per_page :: int
  pg_number :: int
  pg_num_pages :: int
  pg_has_previous :: bool
  pg_has_next :: bool

definition pagination_data ::
  "pyval list \<Rightarrow> int \<Rightarrow> int \<Rightarrow> int \<Rightarrow> int \<Rightarrow> bool \<Rightarrow> bool \<Rightarrow> pyval" where
  "pagination_data items total_count page_size page_number total_pages has_previous has_next =
     str_dict
       [(''items'', VList items),
        (''pagination'', str_dict
          [(''total_count'', VInt total_count),
           (''page_size'', VInt page_size),
           (''page_number'', VInt page_number),
           (''total_pages'', VInt total_pages),
           (''has_previous'', VBool has_previous),
           (''has_next'', VBool has_next)])]"

text \<open>
  \<open>math.ceil(total_count / page_size)\<close> is taken over the rationals; the float quotient of the
  source has the same ceiling for counts up to \<open>2 ^ 53\<close>.
\<close>

definition PaginatedResponse ::
  "string option \<Rightarrow> page_obj option \<Rightarrow> pyval list option \<Rightarrow> int option \<Rightarrow> int option \<Rightarrow> int option
     \<Rightarrow> string \<Rightarrow> int \<Rightarrow> (exn, http_response) result" where
  "PaginatedResponse ctx page items total_count page_size page_number message status_code =
     (case page of
        Some p \<Rightarrow>
          Inr (BaseResponse ctx True message
            (pagination_data (case items of Some xs \<Rightarrow> xs | None \<Rightarrow> pg_object_list p)
               (pg_count p) (pg_per_page p) (pg_number p) (pg_num_pages p)
               (pg_has_previous p) (pg_has_next p)) None None status_code)
      | None \<Rightarrow>
          let xs = (case items of Some xs \<Rightarrow> xs | None \<Rightarrow> []) in
          (case (total_count, page_size, page_number) of
             (Some total_n, Some psize, Some number) \<Rightarrow>
               let total_pages = (if psize > 0 then \<lceil>rat_of_int total_n / rat_of_int psize\<rceil> else 0);
                   has_previous = number > 1;
                   has_next = number < total_pages
               in Inr (BaseResponse ctx True message
                    (pagination_data xs total_n psize number total_pages has_previous has_next)
                    None None status_code)
           | _ \<Rightarrow> Inl (raw_exn PyValueError
                    (''When '' @ [squote] @ ''page'' @ [squote] @ '' is not provided, '' @ [squote]
                     @ ''total_count'' @ [squote] @ '', '' @ [squote] @ ''page_size'' @ [squote]
                     @ '', and '' @ [squote] @ ''page_number'' @ [squote] @ '' are required.''))))"

text \<open>\<open>StandardPageNumberPagination.get_paginated_response\<close>.\<close>

definition get_paginated_response ::
  "string option \<Rightarrow> page_obj \<Rightarrow> pyval list \<Rightarrow> (exn, http_response) result" where
  "get_paginated_response ctx page data =
     PaginatedResponse ctx (Some page) (Some data) None None None ''Success'' 200"

lemma or_str_ctx: "or_str None ctx = ctx"
  by (simp add: or_str_def)

lemma response_simps [simp]:
  "rs_status (SuccessResponse ctx d m st) = st"
  "env_success (rs_body (SuccessResponse ctx d m st)) = True"
  "env_data (rs_body (SuccessResponse ctx d m st)) = d"
  "env_message (rs_body (SuccessResponse ctx d m st)) = m"
  "rs_status (ErrorResponse ctx m es st) = st"
  "env_success (rs_body (ErrorResponse ctx m es st)) = False"
  "env_message (rs_body (ErrorResponse ctx m es st)) = m"
  "env_data (rs_body (ErrorResponse ctx m es st)) = VNone"
  by (simp_all add: SuccessResponse_def ErrorResponse_def BaseResponse_def)

lemma ceiling_pages:
  fixes total_n psize :: int
  assumes "0 < psize"
  defines "tp \<equiv> \<lceil>rat_of_int total_n / rat_of_int psize\<rceil>"
  shows "(tp - 1) * psize < total_n" "total_n \<le> tp * psize" "n < tp \<longleftrightarrow> n * psize < total_n"
proof -
  have pos: "(0 :: rat) < of_int psize" using assms by simp
  have mult_iff: "m * psize < total_n \<longleftrightarrow> rat_of_int m < rat_of_int total_n / rat_of_int psize" for m
    using pos by (simp add: pos_less_divide_eq flip: of_int_mult)
  have "n < tp \<longleftrightarrow> rat_of_int n < rat_of_int total_n / rat_of_int psize" for n
    unfolding tp_def by (simp add: less_ceiling_iff)
  with mult_iff have iff: "n < tp \<longleftrightarrow> n * psize < total_n" for n by simp
  show "n < tp \<longleftrightarrow> n * psize < total_n" by (rule iff)
  show "(tp - 1) * psize < total_n" using iff [of "tp - 1"] by simp
  show "total_n \<le> tp * psize" using iff [of tp] by simp
qed

text \<open>
  The hand-built page block is exact: with a positive page size the response is built, its
  page count is the least that holds every item, and \<open>has_next\<close> holds precisely when items remain
  after the current page.
\<close>

theorem paginated_response_exact:
  assumes "0 < psize"
  shows "\<exists>tp. PaginatedResponse ctx None items (Some total_n) (Some psize) (Some number) msg st =
      Inr (BaseResponse ctx True msg
        (pagination_data (case items of Some xs \<Rightarrow> xs | None \<Rightarrow> []) total_n psize number tp
           (number > 1) (number * psize < total_n)) None None st)
    \<and> (tp - 1) * psize < total_n \<and> total_n \<le> tp * psize"
  using assms ceiling_pages(1,2) [OF assms, of total_n] ceiling_pages(3) [OF assms, of number total_n]
  by (intro exI [of _ "\<lceil>rat_of_int total_n / rat_of_int psize\<rceil>"])
     (simp add: PaginatedResponse_def Let_def)

theorem paginated_response_exact_witness:
  "\<exists>tp. PaginatedResponse None None None (Some 41) (Some 20) (Some 2) ''Success'' 200 =
      Inr (BaseResponse None True ''Success''
        (pagination_data [] 41 20 2 tp True True) None None 200)
    \<and> (tp - 1) * 20 < 41 \<and> 41 \<le> tp * 20"
  using paginated_response_exact [of 20 None None 41 2 "''Success''" 200] by simp

text \<open>
  Without a \<open>Page\<close>, leaving out any of the three numbers is refused with a \<open>ValueError\<close>, and
  giving all three never is.
\<close>

theorem paginated_response_requires_numbers:
  "(\<exists>e. PaginatedResponse ctx None items total_n psize number msg st = Inl e \<and> exc_cls e = PyValueError)
     \<longleftrightarrow> total_n = None \<or> psize = None \<or> number = None"
  by (auto simp: PaginatedResponse_def Let_def raw_exn_def split: option.splits)

end
