(* ===== verification/ErrorHandler.thy ===== *)
theory ErrorHandler
  imports Responses
begin

text \<open>
  \<open>apps/core/exceptions/handler.py\<close>, \<open>apps/core/exceptions/utils.py\<close> and the registrations of
  \<open>apps/accounts/apps.py\<close>. The two module globals of the status map are a record; the handler is a
  function of that state, the request id of the context, DRF's own \<open>exception_handler\<close> and the
  resilience kit's \<open>from_exception\<close>, which are arguments because their code is not part of the
  repository. The last section follows the double-checked locking of the map step by step, for
  any number of threads.
\<close>

section \<open>The status map\<close>

type_synonym status_entry = "exc_class \<times> int"

record status_map =
  map_builder :: "status_entry list"
  map_cache :: "status_entry list option"

definition empty_status_map :: status_map where
  "empty_status_map = \<lparr>map_builder = [], map_cache = None\<rparr>"

definition get_status_map :: "status_map \<Rightarrow> status_entry list \<times> status_map" where
  "get_status_map s =
     (case map_cache s of
        Some cached \<Rightarrow> (cached, s)
      | None \<Rightarrow> (map_builder s, s\<lparr>map_cache := Some (map_builder s)\<rparr>))"

definition register_exception_mapping :: "exc_class \<Rightarrow> int \<Rightarrow> status_map \<Rightarrow> status_map" where
  "register_exception_mapping c n s =
     s\<lparr>map_builder := map_builder s @ [(c, n)], map_cache := None\<rparr>"

text \<open>The registrations at the end of \<open>handler.py\<close>, and those of \<open>AccountsConfig.ready\<close>.\<close>

definition core_registrations :: "status_entry list" where
  "core_registrations =
     [(EntityNotFoundError, 404),
      (ServiceUnavailableError, 503),
      (ExternalTimeoutError, 502),
      (S3Exception, 502),
      (SESException, 502),
      (ExternalServiceError, 502),
      (OutboundURLNotAllowedError, 400),
      (InactiveParentError, 409),
      (InvalidInputError, 400)]"

definition accounts_registrations :: "status_entry list" where
  "accounts_registrations =
     [(NoFieldsToUpdateError, 400), (InvalidTimezoneError, 400), (APIKeyGenerationError, 500)]"

definition register_all :: "status_entry list \<Rightarrow> status_map \<Rightarrow> status_map" where
  "register_all es s = fold (\<lambda>(c, n). register_exception_mapping c n) es s"

definition boot_status_map :: status_map where
  "boot_status_map = register_all (core_registrations @ accounts_registrations) empty_status_map"

section \<open>The exception handler\<close>

record drf_response =
  drf_status :: int
  drf_data :: pyval
  drf_headers :: "(string \<times> string) list"

definition drf_error_code :: "exn \<Rightarrow> string" where
  "drf_error_code e = derive_error_code (class_name (exc_cls e)) False"

definition build_error_dict :: "string \<Rightarrow> string \<Rightarrow> string option \<Rightarrow> pydict option \<Rightarrow> error_item" where
  "build_error_dict code message field details =
     \<lparr>ei_code = code, ei_message = message, ei_field = field, ei_details = details\<rparr>"

fun lookup_status :: "exn \<Rightarrow> status_entry list \<Rightarrow> int \<Rightarrow> int" where
  "lookup_status e [] dflt = dflt"
| "lookup_status e ((c, n) # es) dflt = (if isinstance e c then n else lookup_status e es dflt)"

definition error_envelope ::
  "string \<Rightarrow> error_item list \<Rightarrow> string option \<Rightarrow> envelope" where
  "error_envelope message errors request_id =
     \<lparr>env_success = False, env_message = message, env_data = VNone, env_errors = Some errors,
      env_request_id = request_id\<rparr>"

text \<open>The messages of one field of a DRF error dictionary.\<close>

definition field_errors :: "pykey \<times> pyval \<Rightarrow> error_item list" where
  "field_errors kv =
     (case kv of (k, msgs) \<Rightarrow>
        case msgs of
          VSeq SList ms \<Rightarrow>
            map (\<lambda>m. build_error_dict ''VALIDATION_ERROR'' (text_of m) (Some (key_str k)) None) ms
        | _ \<Rightarrow> [build_error_dict ''VALIDATION_ERROR'' (text_of msgs) (Some (key_str k)) None])"

text \<open>The message and the error list the handler makes of \<open>response.data\<close>.\<close>

definition reshape_drf_data :: "string \<Rightarrow> pyval \<Rightarrow> string \<times> error_item list" where
  "reshape_drf_data error_code data =
     (case data of
        VDict d \<Rightarrow>
          let detail = (case dget d ''detail'' of Some v \<Rightarrow> v | None \<Rightarrow> VNone);
              remaining = AList.delete (KStr ''detail'') d;
              message = (if truthy detail then text_of detail else ''Validation failed'')
          in (message,
              if remaining \<noteq> [] then concat (map field_errors remaining)
              else [build_error_dict error_code message None None])
      | VSeq SList es \<Rightarrow>
          (py_join ''; '' (map text_of es),
           map (\<lambda>x. build_error_dict error_code (text_of x) None None) es)
      | _ \<Rightarrow> (text_of data, [build_error_dict error_code (text_of data) None None]))"

definition custom_status :: "status_map \<Rightarrow> exn \<Rightarrow> int \<times> status_map" where
  "custom_status s e =
     (case status_attr e of
        Some n \<Rightarrow> (n, s)
      | None \<Rightarrow> (let (m, s') = get_status_map s in (lookup_status e m 500, s')))"

definition api_exception_handler ::
  "(exn \<Rightarrow> envelope \<times> int \<times> (string \<times> string) list) \<Rightarrow> (exn \<Rightarrow> drf_response option)
     \<Rightarrow> string option \<Rightarrow> status_map \<Rightarrow> exn \<Rightarrow> http_response \<times> status_map" where
  "api_exception_handler from_exception drf_handler ctx s e =
     (if isinstance e BaseCustomError then
        (let (status_code, s') = custom_status s e in
         (\<lparr>rs_status = status_code,
           rs_body = error_envelope (exc_message e) [to_error_dict e] (or_str (exc_request_id e) ctx),
           rs_headers = []\<rparr>, s'))
      else if isinstance e ResilienceKitError then
        (let (body, status_code, headers) = from_exception e in
         (\<lparr>rs_status = status_code, rs_body = body\<lparr>env_request_id := ctx\<rparr>, rs_headers = headers\<rparr>, s))
      else case drf_handler e of
        None \<Rightarrow>
          (\<lparr>rs_status = 500,
            rs_body = error_envelope ''An unexpected error occurred.''
              [build_error_dict ''INTERNAL_SERVER_ERROR'' ''An unexpected error occurred.'' None None]
              ctx,
            rs_headers = []\<rparr>, s)
      | Some r \<Rightarrow>
          (let (message, errors) = reshape_drf_data (drf_error_code e) (drf_data r) in
           (\<lparr>rs_status = drf_status r,
             rs_body = error_envelope message errors (or_str (exc_request_id e) ctx),
             rs_headers = drf_headers r\<rparr>, s)))"

section \<open>Outbound exceptions\<close>

text \<open>What \<open>getattr(exc, name, None)\<close> gives for the five attributes the helpers read.\<close>

record exc_view =
  at_response :: pyval
  at_response_body :: pyval
  at_details :: pyval
  at_response_status_code :: pyval
  at_status_code :: pyval

text \<open>\<open>json_loads\<close> parses a text; \<open>None\<close> is the \<open>ValueError\<close> of malformed input.\<close>

definition exception_response_payload :: "(string \<Rightarrow> pyval option) \<Rightarrow> exc_view \<Rightarrow> pyval" where
  "exception_response_payload json_loads x =
     (if is_dict (at_response x) then at_response x
      else
        let parsed = (case at_response_body x of
                        VStr b \<Rightarrow> if b \<noteq> []
                                   then (case json_loads b of Some v \<Rightarrow> v | None \<Rightarrow> VNone) else VNone
                      | _ \<Rightarrow> VNone)
        in if is_dict parsed then parsed
           else if is_dict (at_details x) \<and> truthy (at_details x) then at_details x
           else VNone)"

definition exception_wire_status :: "exc_view \<Rightarrow> pyval" where
  "exception_wire_status x =
     (if truthy (at_response_status_code x) then at_response_status_code x
      else if truthy (at_status_code x) then at_status_code x
      else VInt 502)"

definition normalize_outbound_exception :: "(string \<Rightarrow> pyval option) \<Rightarrow> exc_view \<Rightarrow> pyval" where
  "normalize_outbound_exception json_loads x =
     str_dict [(''status_code'', exception_wire_status x),
               (''response_body'', exception_response_payload json_loads x)]"

section \<open>The map is a transparent cache\<close>

definition map_ok :: "status_map \<Rightarrow> bool" where
  "map_ok s \<longleftrightarrow> (\<forall>m. map_cache s = Some m \<longrightarrow> m = map_builder s)"

lemma map_ok_empty: "map_ok empty_status_map"
  by (simp add: map_ok_def empty_status_map_def)

lemma map_ok_register: "map_ok (register_exception_mapping c n s)"
  by (simp add: map_ok_def register_exception_mapping_def)

lemma get_status_map_ok:
  "map_ok s \<Longrightarrow> fst (get_status_map s) = map_builder s \<and> map_ok (snd (get_status_map s))
     \<and> map_builder (snd (get_status_map s)) = map_builder s"
  by (auto simp: map_ok_def get_status_map_def split: option.splits)

datatype map_op = Register exc_class int | Read

fun run_map :: "status_map \<Rightarrow> map_op list \<Rightarrow> status_entry list list" where
  "run_map s [] = []"
| "run_map s (Register c n # ops) = run_map (register_exception_mapping c n s) ops"
| "run_map s (Read # ops) = (let (m, s') = get_status_map s in m # run_map s' ops)"

text \<open>The specification: no cache, every read is the list of registrations so far.\<close>

fun spec_map :: "status_entry list \<Rightarrow> map_op list \<Rightarrow> status_entry list list" where
  "spec_map b [] = []"
| "spec_map b (Register c n # ops) = spec_map (b @ [(c, n)]) ops"
| "spec_map b (Read # ops) = b # spec_map b ops"

lemma run_map_refines: "map_ok s \<Longrightarrow> run_map s ops = spec_map (map_builder s) ops"
proof (induction ops arbitrary: s)
  case Nil
  then show ?case by simp
next
  case (Cons op ops)
  show ?case
  proof (cases op)
    case (Register c n)
    then show ?thesis
      using Cons.IH [OF map_ok_register, of c n s] by (simp add: register_exception_mapping_def)
  next
    case Read
    then show ?thesis
      using Cons.IH [of "snd (get_status_map s)"] get_status_map_ok [OF Cons.prems]
      by (simp add: split_beta Let_def)
  qed
qed

text \<open>
  C23: the lazily built, invalidated-on-register tuple is invisible: any sequence of registrations
  and reads, however late the registrations come, reads exactly what a plain list of the
  registrations so far would give.
\<close>

theorem status_map_cache_transparent: "run_map empty_status_map ops = spec_map [] ops"
  using run_map_refines [OF map_ok_empty] by (simp add: empty_status_map_def)

section \<open>Statuses and envelopes\<close>

lemma register_all_builder: "map_builder (register_all es s) = map_builder s @ es"
  by (induction es arbitrary: s)
     (auto simp: register_all_def register_exception_mapping_def split_beta)

lemma map_ok_register_all: "map_ok s \<Longrightarrow> map_ok (register_all es s)"
  by (induction es arbitrary: s) (auto simp: register_all_def map_ok_register split_beta)

lemma lookup_status_append:
  "lookup_status e (xs @ ys) d = lookup_status e xs (lookup_status e ys d)"
  by (induction xs) auto

lemma lookup_status_covered:
  "list_ex (\<lambda>(c, n). isinstance e c) xs \<Longrightarrow> lookup_status e xs d = lookup_status e xs d'"
  by (induction xs) auto

lemma handler_custom_status:
  "isinstance e BaseCustomError \<Longrightarrow> map_ok s \<Longrightarrow>
     rs_status (fst (api_exception_handler kit drf ctx s e)) =
       (case status_attr e of Some n \<Rightarrow> n | None \<Rightarrow> lookup_status e (map_builder s) 500)"
  using get_status_map_ok [of s]
  by (auto simp: api_exception_handler_def custom_status_def split_beta Let_def split: option.splits)

text \<open>
  Once a registration covers an exception class, registrations a domain app makes later (for the
  class itself, for a base or for anything else) never change the status its instances get.
\<close>

theorem late_registrations_keep_statuses:
  assumes "isinstance e BaseCustomError" and "map_ok s"
    and "list_ex (\<lambda>(c, n). isinstance e c) (map_builder s)"
  shows "rs_status (fst (api_exception_handler kit drf ctx (register_all es s) e)) =
         rs_status (fst (api_exception_handler kit drf ctx s e))"
  using assms lookup_status_covered [OF assms(3), of "lookup_status e es 500" 500]
  by (simp add: handler_custom_status map_ok_register_all register_all_builder lookup_status_append
      split: option.splits)

lemma boot_status_map_ok: "map_ok boot_status_map"
  by (simp add: boot_status_map_def map_ok_register_all map_ok_empty)

theorem late_registrations_keep_statuses_witness:
  "rs_status (fst (api_exception_handler (\<lambda>e. (error_envelope [] [] None, 500, [])) (\<lambda>e. None) None
     (register_all [(InfrastructureError, 418)] boot_status_map)
     (new_custom None S3NotFoundError None None NoFields))) = 502"
proof -
  let ?e = "new_custom None S3NotFoundError None None NoFields"
  have 1: "isinstance ?e BaseCustomError" by code_simp
  have 2: "list_ex (\<lambda>(c, n). isinstance ?e c) (map_builder boot_status_map)" by code_simp
  have 3: "rs_status (fst (api_exception_handler (\<lambda>e. (error_envelope [] [] None, 500, []))
      (\<lambda>e. None) None boot_status_map ?e)) = 502" by code_simp
  show ?thesis
    using late_registrations_keep_statuses [OF 1 boot_status_map_ok 2,
      of "\<lambda>e. (error_envelope [] [] None, 500, [])" "\<lambda>e. None" None "[(InfrastructureError, 418)]"] 3
    by simp
qed

text \<open>
  The status every exception class of the project gets after both apps have booted, when it is
  raised without a status of its own.
\<close>

theorem project_status_table:
  "map (\<lambda>c. fst (custom_status boot_status_map (new_custom None c None None NoFields)))
     [BaseCustomError, APIError, AuthenticationFailedError, APIKeyRevokedError, TokenExpiredError,
      TokenInvalidError, TokenRevokedError, PermissionDeniedError, ValidationError, RateLimitError]
   = [500, 502, 401, 401, 401, 401, 401, 403, 400, 429] \<and>
   map (\<lambda>c. fst (custom_status boot_status_map (new_custom None c None None NoFields)))
     [RepositoryError, EntityNotFoundError, InactiveParentError, InvalidInputError,
      InfrastructureError, ServiceUnavailableError, ExternalServiceError, TransientError,
      ExternalTimeoutError, S3Exception, S3NotFoundError, SESException, PartnerPushError,
      OutboundURLNotAllowedError, NoFieldsToUpdateError, InvalidTimezoneError, APIKeyGenerationError]
   = [500, 404, 409, 400, 500, 503, 502, 502, 502, 502, 502, 502, 502, 400, 400, 400, 500]"
  by code_simp

text \<open>
  An exception neither the project, the kit nor DRF knows is answered with a 500 envelope that
  depends on nothing but the request id: its message, class and fields never reach the client.
\<close>

theorem unexpected_exception_leaks_nothing:
  assumes "\<not> isinstance e ResilienceKitError" and "drf e = None"
  shows "fst (api_exception_handler kit drf ctx s e) =
    \<lparr>rs_status = 500,
     rs_body = error_envelope ''An unexpected error occurred.''
       [build_error_dict ''INTERNAL_SERVER_ERROR'' ''An unexpected error occurred.'' None None] ctx,
     rs_headers = []\<rparr>"
proof -
  have "ResilienceKitError \<in> set (superclasses BaseCustomError)" by simp
  then have "issubclass BaseCustomError ResilienceKitError" by (simp add: issubclass_def)
  then have "\<not> isinstance e BaseCustomError"
    using assms(1) issubclass_trans by (auto simp: isinstance_def)
  with assms show ?thesis by (simp add: api_exception_handler_def)
qed

theorem unexpected_exception_leaks_nothing_witness:
  "env_message (rs_body (fst (api_exception_handler (\<lambda>e. (error_envelope [] [] None, 500, []))
     (\<lambda>e. None) None boot_status_map (raw_exn PyKeyError ''db password is hunter2''))))
   = ''An unexpected error occurred.''"
proof -
  have "\<not> isinstance (raw_exn PyKeyError ''db password is hunter2'') ResilienceKitError" by code_simp
  then show ?thesis
    using unexpected_exception_leaks_nothing [where drf = "\<lambda>e. None" and
        e = "raw_exn PyKeyError ''db password is hunter2''" and s = boot_status_map and ctx = None
        and kit = "\<lambda>e. (error_envelope [] [] None, 500, [])"]
    by (simp add: error_envelope_def)
qed

lemma field_errors_list:
  "it \<in> set (field_errors (k, VList ms)) \<longleftrightarrow>
     (\<exists>m \<in> set ms. it = build_error_dict ''VALIDATION_ERROR'' (text_of m) (Some (key_str k)) None)"
  by (auto simp: field_errors_def)

lemma delete_set: "set (AList.delete k d) = {kv \<in> set d. fst kv \<noteq> k}"
  by (induction d) auto

text \<open>
  A DRF validation error loses no message: each message of each field (other than \<open>detail\<close>) of
  the error dictionary becomes an error item that names its field, and every item of a body with
  field errors is one of those.
\<close>

theorem validation_errors_complete:
  assumes "\<forall>kv \<in> set d. \<exists>f ms. kv = (KStr f, VList ms)" and "AList.delete (KStr ''detail'') d \<noteq> []"
  shows "it \<in> set (snd (reshape_drf_data code (VDict d))) \<longleftrightarrow>
    (\<exists>f ms m. (KStr f, VList ms) \<in> set d \<and> f \<noteq> ''detail'' \<and> m \<in> set ms \<and>
       it = build_error_dict ''VALIDATION_ERROR'' (text_of m) (Some f) None)" (is "?L \<longleftrightarrow> ?R")
proof -
  have "snd (reshape_drf_data code (VDict d)) =
      concat (map field_errors (AList.delete (KStr ''detail'') d))"
    using assms(2) by (simp add: reshape_drf_data_def Let_def)
  then have "?L \<longleftrightarrow> (\<exists>kv \<in> set d. fst kv \<noteq> KStr ''detail'' \<and> it \<in> set (field_errors kv))"
    by (simp add: delete_set Bex_def conj_assoc)
  also have "\<dots> \<longleftrightarrow> ?R"
  proof
    assume "\<exists>kv \<in> set d. fst kv \<noteq> KStr ''detail'' \<and> it \<in> set (field_errors kv)"
    then obtain f ms where "(KStr f, VList ms) \<in> set d" "f \<noteq> ''detail''"
      "it \<in> set (field_errors (KStr f, VList ms))"
      using assms(1) by fastforce
    then show ?R by (force simp: field_errors_list)
  qed (force simp: field_errors_list)
  finally show ?thesis .
qed

theorem validation_errors_complete_witness:
  "build_error_dict ''VALIDATION_ERROR'' ''required'' (Some ''email'') None \<in>
     set (snd (reshape_drf_data ''VALIDATION_ERROR''
       (VDict [(KStr ''email'', VList [VStr ''required''])])))"
  using validation_errors_complete [of "[(KStr ''email'', VList [VStr ''required''])]"]
  by (simp add: text_of_def)

lemma wire_status_preference:
  "truthy (exception_wire_status x)"
  "truthy (at_response_status_code x) \<Longrightarrow> exception_wire_status x = at_response_status_code x"
  "\<not> truthy (at_response_status_code x) \<Longrightarrow> \<not> truthy (at_status_code x) \<Longrightarrow>
     exception_wire_status x = VInt 502"
  by (simp_all add: exception_wire_status_def)

section \<open>Concurrent readers and registrations\<close>

text \<open>
  Each thread is idle, inside \<open>_get_status_map\<close> (before the fast path, waiting for the lock, holding
  it before and after the rebuild, returned) or inside \<open>register_exception_mapping\<close> (waiting,
  holding the lock, after the append, after the invalidation). The number a reader carries is a
  ghost: how many registrations had returned when its call began; \<open>sys_completed\<close> counts them.
\<close>

datatype thread_pc =
    Idle
  | RFast nat
  | RWant nat
  | RIn nat
  | RBuilt nat
  | RDone nat "status_entry list"
  | WWant status_entry
  | WIn status_entry
  | WAppended
  | WInvalidated

record map_sys =
  sys_builder :: "status_entry list"
  sys_cache :: "status_entry list option"
  sys_lock :: "nat option"
  sys_completed :: nat
  sys_pc :: "nat \<Rightarrow> thread_pc"

definition init_sys :: map_sys where
  "init_sys = \<lparr>sys_builder = [], sys_cache = None, sys_lock = None, sys_completed = 0,
     sys_pc = (\<lambda>_. Idle)\<rparr>"

definition goto :: "nat \<Rightarrow> thread_pc \<Rightarrow> map_sys \<Rightarrow> map_sys" where
  "goto t p s = s\<lparr>sys_pc := (sys_pc s)(t := p)\<rparr>"

inductive map_step :: "map_sys \<Rightarrow> map_sys \<Rightarrow> bool" where
  read_call: "sys_pc s t = Idle \<Longrightarrow> map_step s (goto t (RFast (sys_completed s)) s)"
| fast_hit: "sys_pc s t = RFast k \<Longrightarrow> sys_cache s = Some m \<Longrightarrow> map_step s (goto t (RDone k m) s)"
| fast_miss: "sys_pc s t = RFast k \<Longrightarrow> sys_cache s = None \<Longrightarrow> map_step s (goto t (RWant k) s)"
| read_lock: "sys_pc s t = RWant k \<Longrightarrow> sys_lock s = None \<Longrightarrow>
    map_step s (goto t (RIn k) (s\<lparr>sys_lock := Some t\<rparr>))"
| rebuild: "sys_pc s t = RIn k \<Longrightarrow>
    map_step s (goto t (RBuilt k)
      (s\<lparr>sys_cache := (case sys_cache s of None \<Rightarrow> Some (sys_builder s) | Some m \<Rightarrow> Some m)\<rparr>))"
| read_return: "sys_pc s t = RBuilt k \<Longrightarrow> sys_cache s = Some m \<Longrightarrow>
    map_step s (goto t (RDone k m) (s\<lparr>sys_lock := None\<rparr>))"
| read_end: "sys_pc s t = RDone k m \<Longrightarrow> map_step s (goto t Idle s)"
| register_call: "sys_pc s t = Idle \<Longrightarrow> map_step s (goto t (WWant e) s)"
| register_lock: "sys_pc s t = WWant e \<Longrightarrow> sys_lock s = None \<Longrightarrow>
    map_step s (goto t (WIn e) (s\<lparr>sys_lock := Some t\<rparr>))"
| append_entry: "sys_pc s t = WIn e \<Longrightarrow>
    map_step s (goto t WAppended (s\<lparr>sys_builder := sys_builder s @ [e]\<rparr>))"
| invalidate: "sys_pc s t = WAppended \<Longrightarrow> map_step s (goto t WInvalidated (s\<lparr>sys_cache := None\<rparr>))"
| register_return: "sys_pc s t = WInvalidated \<Longrightarrow>
    map_step s (goto t Idle (s\<lparr>sys_lock := None, sys_completed := Suc (sys_completed s)\<rparr>))"

inductive map_reachable :: "map_sys \<Rightarrow> bool" where
  start: "map_reachable init_sys"
| step: "map_reachable s \<Longrightarrow> map_step s s' \<Longrightarrow> map_reachable s'"

fun holds_lock :: "thread_pc \<Rightarrow> bool" where
  "holds_lock (RIn k) = True"
| "holds_lock (RBuilt k) = True"
| "holds_lock (WIn e) = True"
| "holds_lock WAppended = True"
| "holds_lock WInvalidated = True"
| "holds_lock _ = False"

text \<open>How the builder, the cache and the count of finished registrations agree, by who holds the lock.\<close>

fun writer_view :: "thread_pc \<Rightarrow> status_entry list \<Rightarrow> status_entry list option \<Rightarrow> nat \<Rightarrow> bool" where
  "writer_view WAppended b c n = (length b = Suc n \<and> (\<forall>m. c = Some m \<longrightarrow> m = butlast b))"
| "writer_view WInvalidated b c n = (length b = Suc n \<and> c = None)"
| "writer_view (RBuilt k) b c n = (length b = n \<and> c = Some b)"
| "writer_view _ b c n = (length b = n \<and> (\<forall>m. c = Some m \<longrightarrow> m = b))"

definition map_inv :: "map_sys \<Rightarrow> bool" where
  "map_inv s \<longleftrightarrow>
     (\<forall>t. holds_lock (sys_pc s t) \<longleftrightarrow> sys_lock s = Some t) \<and>
     writer_view (case sys_lock s of Some t \<Rightarrow> sys_pc s t | None \<Rightarrow> Idle)
       (sys_builder s) (sys_cache s) (sys_completed s)"

fun reader_ok :: "status_entry list \<Rightarrow> nat \<Rightarrow> thread_pc \<Rightarrow> bool" where
  "reader_ok b n (RFast k) = (k \<le> n)"
| "reader_ok b n (RWant k) = (k \<le> n)"
| "reader_ok b n (RIn k) = (k \<le> n)"
| "reader_ok b n (RBuilt k) = (k \<le> n)"
| "reader_ok b n (RDone k m) = (prefix m b \<and> k \<le> length m)"
| "reader_ok b n _ = True"

lemma writer_view_cache:
  assumes "writer_view p b (Some m) n"
  shows "prefix m b \<and> n \<le> length m"
proof (cases "p = WAppended")
  case True
  with assms have "length b = Suc n" "m = butlast b" by simp_all
  then show ?thesis by (simp add: prefixeq_butlast)
next
  case False
  with assms show ?thesis by (cases p) auto
qed

lemma writer_view_count: "writer_view p b c n \<Longrightarrow> n \<le> length b"
  by (cases p) auto

lemma map_inv_init: "map_inv init_sys"
  by (simp add: map_inv_def init_sys_def)

lemma map_inv_holder:
  "map_inv s \<Longrightarrow> holds_lock (sys_pc s t) \<Longrightarrow>
     sys_lock s = Some t \<and>
     writer_view (sys_pc s t) (sys_builder s) (sys_cache s) (sys_completed s) \<and>
     (\<forall>u. u \<noteq> t \<longrightarrow> \<not> holds_lock (sys_pc s u))"
  by (auto simp: map_inv_def)

lemma map_inv_free:
  "map_inv s \<Longrightarrow> sys_lock s = None \<Longrightarrow>
     writer_view Idle (sys_builder s) (sys_cache s) (sys_completed s) \<and>
     (\<forall>u. \<not> holds_lock (sys_pc s u))"
  by (auto simp: map_inv_def)

lemma map_inv_goto_outside:
  "map_inv s \<Longrightarrow> \<not> holds_lock (sys_pc s t) \<Longrightarrow> \<not> holds_lock p \<Longrightarrow> map_inv (goto t p s)"
  by (auto simp: map_inv_def goto_def split: option.splits)

lemma map_inv_holderI:
  "sys_lock s' = Some t \<Longrightarrow> holds_lock (sys_pc s' t) \<Longrightarrow>
     (\<forall>u. u \<noteq> t \<longrightarrow> \<not> holds_lock (sys_pc s' u)) \<Longrightarrow>
     writer_view (sys_pc s' t) (sys_builder s') (sys_cache s') (sys_completed s') \<Longrightarrow> map_inv s'"
  unfolding map_inv_def by fastforce

lemma map_inv_freeI:
  "sys_lock s' = None \<Longrightarrow> \<forall>u. \<not> holds_lock (sys_pc s' u) \<Longrightarrow>
     writer_view Idle (sys_builder s') (sys_cache s') (sys_completed s') \<Longrightarrow> map_inv s'"
  by (simp add: map_inv_def)

lemma map_step_inv: "map_step s s' \<Longrightarrow> map_inv s \<Longrightarrow> map_inv s'"
proof (induction rule: map_step.induct)
  case (read_lock s t k)
  then show ?case
    by (intro map_inv_holderI [of _ t]) (use map_inv_free [of s] in \<open>auto simp: goto_def\<close>)
next
  case (register_lock s t e)
  then show ?case
    by (intro map_inv_holderI [of _ t]) (use map_inv_free [of s] in \<open>auto simp: goto_def\<close>)
next
  case (rebuild s t k)
  then show ?case
    by (intro map_inv_holderI [of _ t])
       (use map_inv_holder [of s t] in \<open>auto simp: goto_def split: option.splits\<close>)
next
  case (append_entry s t e)
  then show ?case
    by (intro map_inv_holderI [of _ t]) (use map_inv_holder [of s t] in \<open>auto simp: goto_def\<close>)
next
  case (invalidate s t)
  then show ?case
    by (intro map_inv_holderI [of _ t]) (use map_inv_holder [of s t] in \<open>auto simp: goto_def\<close>)
next
  case (read_return s t k m)
  then show ?case
    by (intro map_inv_freeI) (use map_inv_holder [of s t] in \<open>auto simp: goto_def\<close>)
next
  case (register_return s t)
  then show ?case
    by (intro map_inv_freeI) (use map_inv_holder [of s t] in \<open>auto simp: goto_def\<close>)
qed (auto intro: map_inv_goto_outside)

lemma map_step_grows:
  "map_step s s' \<Longrightarrow> prefix (sys_builder s) (sys_builder s') \<and> sys_completed s \<le> sys_completed s'"
  by (induction rule: map_step.induct) (auto simp: goto_def)

lemma reader_ok_mono:
  "reader_ok b n p \<Longrightarrow> prefix b b' \<Longrightarrow> n \<le> n' \<Longrightarrow> reader_ok b' n' p"
  by (cases p) (auto intro: prefix_order.trans)

definition readers_ok :: "map_sys \<Rightarrow> bool" where
  "readers_ok s \<longleftrightarrow> (\<forall>t. reader_ok (sys_builder s) (sys_completed s) (sys_pc s t))"

lemma map_inv_cached:
  "map_inv s \<Longrightarrow> sys_cache s = Some m \<Longrightarrow>
     prefix m (sys_builder s) \<and> sys_completed s \<le> length m"
  unfolding map_inv_def using writer_view_cache by fastforce

lemma readers_ok_goto:
  assumes "readers_ok s" "sys_pc s' = (sys_pc s)(t := p)"
    "prefix (sys_builder s) (sys_builder s')" "sys_completed s \<le> sys_completed s'"
    "reader_ok (sys_builder s') (sys_completed s') p"
  shows "readers_ok s'"
  unfolding readers_ok_def
proof
  fix u
  show "reader_ok (sys_builder s') (sys_completed s') (sys_pc s' u)"
    using assms reader_ok_mono [of "sys_builder s" "sys_completed s" "sys_pc s u"]
    by (auto simp: readers_ok_def)
qed

lemma goto_pc:
  "sys_pc (goto t p s) = (sys_pc s)(t := p)"
  "sys_pc (s\<lparr>sys_lock := l\<rparr>) = sys_pc s"
  "sys_pc (s\<lparr>sys_builder := b\<rparr>) = sys_pc s"
  "sys_pc (s\<lparr>sys_cache := c\<rparr>) = sys_pc s"
  "sys_pc (s\<lparr>sys_completed := n\<rparr>) = sys_pc s"
  by (simp_all add: goto_def)

lemma map_step_pc:
  "map_step s s' \<Longrightarrow> map_inv s \<Longrightarrow> readers_ok s \<Longrightarrow>
     \<exists>t p. sys_pc s' = (sys_pc s)(t := p) \<and> reader_ok (sys_builder s) (sys_completed s) p"
proof (induction rule: map_step.induct)
  case (fast_hit s t k m)
  then have "k \<le> sys_completed s" by (metis readers_ok_def reader_ok.simps(1))
  with map_inv_cached [OF \<open>map_inv s\<close> \<open>sys_cache s = Some m\<close>]
  show ?case by (intro exI [of _ t] exI [of _ "RDone k m"]) (simp add: goto_pc)
next
  case (read_return s t k m)
  then have "k \<le> sys_completed s" by (metis readers_ok_def reader_ok.simps(4))
  with map_inv_cached [OF \<open>map_inv s\<close> \<open>sys_cache s = Some m\<close>]
  show ?case by (intro exI [of _ t] exI [of _ "RDone k m"]) (simp add: goto_pc)
next
  case (fast_miss s t k)
  then have "reader_ok (sys_builder s) (sys_completed s) (RWant k)"
    by (metis readers_ok_def reader_ok.simps(1,2))
  then show ?case unfolding goto_pc by blast
next
  case (read_lock s t k)
  then have "reader_ok (sys_builder s) (sys_completed s) (RIn k)"
    by (metis readers_ok_def reader_ok.simps(2,3))
  then show ?case unfolding goto_pc by blast
next
  case (rebuild s t k)
  then have "reader_ok (sys_builder s) (sys_completed s) (RBuilt k)"
    by (metis readers_ok_def reader_ok.simps(3,4))
  then show ?case unfolding goto_pc by blast
qed (unfold goto_pc, (intro exI conjI, rule refl, simp)+)

lemma map_step_readers:
  assumes "map_step s s'" "map_inv s" "readers_ok s"
  shows "readers_ok s'"
proof -
  obtain t p where "sys_pc s' = (sys_pc s)(t := p)" "reader_ok (sys_builder s) (sys_completed s) p"
    using map_step_pc [OF assms] by blast
  then show ?thesis
    using assms map_step_grows [OF assms(1)] readers_ok_goto reader_ok_mono by blast
qed

lemma map_reachable_inv: "map_reachable s \<Longrightarrow> map_inv s \<and> readers_ok s"
proof (induction rule: map_reachable.induct)
  case start
  show ?case using map_inv_init by (simp add: readers_ok_def) (simp add: init_sys_def)
next
  case (step s s')
  then show ?case using map_step_inv map_step_readers by blast
qed

text \<open>
  C11: with any number of threads reading and registering in any interleaving, a call of
  \<open>_get_status_map\<close> returns a snapshot of the registrations: a prefix of the builder that holds
  every registration completed before the call began, and never a half-written one.
\<close>

theorem status_map_reads_are_snapshots:
  assumes "map_reachable s" and "sys_pc s t = RDone k m"
  shows "prefix m (sys_builder s) \<and> k \<le> length m"
proof -
  have "reader_ok (sys_builder s) (sys_completed s) (sys_pc s t)"
    using map_reachable_inv [OF assms(1)] by (simp add: readers_ok_def)
  with assms(2) show ?thesis by simp
qed

lemma reachable_read:
  "\<exists>s. map_reachable s \<and> sys_pc s 0 = RDone 1 [(PyKeyError, 404)]
     \<and> sys_builder s = [(PyKeyError, 404)]"
proof -
  let ?e = "(PyKeyError, 404) :: status_entry"
  define a where "a = goto 0 (WWant ?e) init_sys"
  define b where "b = goto 0 (WIn ?e) (a\<lparr>sys_lock := Some 0\<rparr>)"
  define c where "c = goto 0 WAppended (b\<lparr>sys_builder := sys_builder b @ [?e]\<rparr>)"
  define d where "d = goto 0 WInvalidated (c\<lparr>sys_cache := None\<rparr>)"
  define e where "e = goto 0 Idle (d\<lparr>sys_lock := None, sys_completed := Suc (sys_completed d)\<rparr>)"
  define f where "f = goto 0 (RFast (sys_completed e)) e"
  define g where "g = goto 0 (RWant 1) f"
  define h where "h = goto 0 (RIn 1) (g\<lparr>sys_lock := Some 0\<rparr>)"
  define i where "i = goto 0 (RBuilt 1) (h\<lparr>sys_cache :=
      (case sys_cache h of None \<Rightarrow> Some (sys_builder h) | Some m \<Rightarrow> Some m)\<rparr>)"
  define j where "j = goto 0 (RDone 1 [?e]) (i\<lparr>sys_lock := None\<rparr>)"
  note defs = a_def b_def c_def d_def e_def f_def g_def h_def i_def j_def goto_def init_sys_def
  have "map_step init_sys a" "map_step a b" "map_step b c" "map_step c d" "map_step d e"
    unfolding a_def b_def c_def d_def e_def
    by (rule map_step.intros; simp add: defs)+
  moreover have "map_step e f" "map_step f g" "map_step g h" "map_step h i" "map_step i j"
    unfolding f_def g_def h_def i_def j_def
    by (rule map_step.intros; simp add: defs)+
  ultimately have "map_reachable j"
    using map_reachable.intros by meson
  moreover have "sys_pc j 0 = RDone 1 [?e]" "sys_builder j = [?e]" by (simp_all add: defs)
  ultimately show ?thesis by blast
qed

theorem status_map_reads_are_snapshots_witness:
  "\<exists>s. map_reachable s \<and> sys_pc s 0 = RDone 1 [(PyKeyError, 404)] \<and>
     prefix [(PyKeyError, 404)] (sys_builder s)"
  using reachable_read status_map_reads_are_snapshots by blast

end
