(* ===== verification/Dispatch.thy ===== *)
theory Dispatch
  imports Complex_Main Prelude "HOL-Library.Multiset"
begin

text \<open>
  \<open>apps/core/dispatch/fire_and_forget.py\<close>: the bounded best-effort queue. Python's \<open>queue.Queue\<close>
  is an interface (a locale) with the list implementation the model uses; producers, the consumer
  thread, the executor's workers and the caller of \<open>stop\<close> are the threads of one step relation,
  with a step per atomic action. \<open>drain\<close> and \<open>drain_all\<close> are loops over a clock.
\<close>

section \<open>The bounded queue interface\<close>

locale bounded_queue =
  fixes items :: "'q \<Rightarrow> 'a list"
    and cap :: "'q \<Rightarrow> int"
    and put :: "'a \<Rightarrow> 'q \<Rightarrow> 'q option"
    and get :: "'q \<Rightarrow> ('a \<times> 'q) option"
  assumes put_full: "0 < cap q \<Longrightarrow> cap q \<le> int (length (items q)) \<Longrightarrow> put x q = None"
    and put_room: "cap q \<le> 0 \<or> int (length (items q)) < cap q \<Longrightarrow>
      \<exists>q'. put x q = Some q' \<and> items q' = items q @ [x] \<and> cap q' = cap q"
    and get_empty: "items q = [] \<Longrightarrow> get q = None"
    and get_head: "items q = x # xs \<Longrightarrow> \<exists>q'. get q = Some (x, q') \<and> items q' = xs \<and> cap q' = cap q"
begin

definition fits :: "'q \<Rightarrow> bool" where
  "fits q \<longleftrightarrow> (0 < cap q \<longrightarrow> int (length (items q)) \<le> cap q)"

lemma put_SomeD:
  assumes "put x q = Some q'"
  shows "items q' = items q @ [x]" and "cap q' = cap q"
    and "cap q \<le> 0 \<or> int (length (items q)) < cap q"
proof -
  show room: "cap q \<le> 0 \<or> int (length (items q)) < cap q"
    using assms put_full [of q x] by fastforce
  show "items q' = items q @ [x]" and "cap q' = cap q"
    using put_room [OF room, of x] assms by auto
qed

lemma put_NoneD:
  assumes "put x q = None"
  shows "0 < cap q" and "cap q \<le> int (length (items q))"
  using assms put_room [of q x] by fastforce+

lemma get_SomeD:
  assumes "get q = Some (x, q')"
  shows "items q = x # items q'" and "cap q' = cap q"
proof -
  obtain y ys where q: "items q = y # ys"
    using assms get_empty by (cases "items q") auto
  then show "items q = x # items q'" and "cap q' = cap q"
    using get_head [OF q] assms by auto
qed

lemma fits_put: "fits q \<Longrightarrow> put x q = Some q' \<Longrightarrow> fits q'"
  using put_SomeD [of x q q'] by (auto simp: fits_def)

lemma fits_get: "fits q \<Longrightarrow> get q = Some (x, q') \<Longrightarrow> fits q'"
  using get_SomeD [of q x q'] by (auto simp: fits_def)

end

section \<open>The queue, the executor and the threads\<close>

text \<open>
  \<open>queue.Queue\<close>: a capacity of zero or less is unbounded; \<open>unfinished_tasks\<close> is what \<open>task_done\<close>
  decrements, and \<open>None\<close> of \<open>task_done\<close> is its \<open>ValueError\<close>.
\<close>

record 'a pyqueue =
  q_items :: "'a list"
  q_maxsize :: int
  q_unfinished :: nat

definition new_pyqueue :: "int \<Rightarrow> 'a pyqueue" where
  "new_pyqueue n = \<lparr>q_items = [], q_maxsize = n, q_unfinished = 0\<rparr>"

definition put_nowait :: "'a \<Rightarrow> 'a pyqueue \<Rightarrow> 'a pyqueue option" where
  "put_nowait x q =
     (if 0 < q_maxsize q \<and> q_maxsize q \<le> int (length (q_items q)) then None
      else Some (q\<lparr>q_items := q_items q @ [x], q_unfinished := Suc (q_unfinished q)\<rparr>))"

definition get_nowait :: "'a pyqueue \<Rightarrow> ('a \<times> 'a pyqueue) option" where
  "get_nowait q = (case q_items q of [] \<Rightarrow> None | x # xs \<Rightarrow> Some (x, q\<lparr>q_items := xs\<rparr>))"

definition task_done :: "'a pyqueue \<Rightarrow> 'a pyqueue option" where
  "task_done q = (if q_unfinished q = 0 then None else Some (q\<lparr>q_unfinished := q_unfinished q - 1\<rparr>))"

interpretation pq: bounded_queue q_items q_maxsize put_nowait get_nowait
  by unfold_locales (auto simp: put_nowait_def get_nowait_def)

lemma put_unfinished: "put_nowait x q = Some q' \<Longrightarrow> q_unfinished q' = Suc (q_unfinished q)"
  by (auto simp: put_nowait_def split: if_splits)

lemma get_unfinished: "get_nowait q = Some (x, q') \<Longrightarrow> q_unfinished q' = q_unfinished q"
  by (auto simp: get_nowait_def split: list.splits)

text \<open>
  A producer is inside \<open>submit\<close>: about to put, told the queue is full, holding \<open>_dropped_lock\<close>,
  having read the counter, having written it, or returning.
\<close>

datatype 'a producer_pc =
    PIdle
  | PPut 'a
  | PFull
  | PLocked
  | PRead nat
  | PWrote nat
  | PReturn bool

datatype 'a consumer_pc =
    CTop
  | CGet
  | CEmpty
  | CGot 'a
  | CFinally bool
  | CExit
  | CDead

datatype stop_pc = SIdle | SJoin | SShutdown | SWait | SReturned

record 'a ffq =
  ff_queue :: "'a pyqueue"
  ff_workers :: nat
  ff_dropped :: nat
  ff_dropped_lock :: "nat option"
  ff_stop :: bool
  ff_drained :: bool
  ff_shutdown :: bool
  ff_pool :: "'a list"
  ff_running :: "'a list"
  ff_finished :: "'a list"
  ff_errors :: "'a list"
  ff_lost :: "'a list"
  ff_producer :: "nat \<Rightarrow> 'a producer_pc"
  ff_consumer :: "'a consumer_pc"
  ff_stopper :: stop_pc
  ff_accepted :: "'a list"
  ff_rejected :: nat

text \<open>
  \<open>ff_lost\<close> is what the consumer takes and the executor refuses; \<open>ff_accepted\<close> and \<open>ff_rejected\<close> are
  ghosts: the tasks \<open>put_nowait\<close> has taken, in order, and the number of \<open>submit\<close> calls that have
  seen \<open>Full\<close>.
\<close>

definition new_ffq :: "int \<Rightarrow> nat \<Rightarrow> 'a ffq" where
  "new_ffq max_in_flight max_workers =
     \<lparr>ff_queue = new_pyqueue max_in_flight, ff_workers = max_workers, ff_dropped = 0,
      ff_dropped_lock = None, ff_stop = False, ff_drained = False, ff_shutdown = False,
      ff_pool = [], ff_running = [], ff_finished = [], ff_errors = [], ff_lost = [],
      ff_producer = (\<lambda>_. PIdle), ff_consumer = CTop, ff_stopper = SIdle,
      ff_accepted = [], ff_rejected = 0\<rparr>"

definition pgoto :: "nat \<Rightarrow> 'a producer_pc \<Rightarrow> 'a ffq \<Rightarrow> 'a ffq" where
  "pgoto t p s = s\<lparr>ff_producer := (ff_producer s)(t := p)\<rparr>"

text \<open>\<open>raises x\<close> says that the task \<open>x\<close> raises; \<open>_run_task_safely\<close> logs that and goes on.\<close>

inductive ff_step :: "('a \<Rightarrow> bool) \<Rightarrow> 'a ffq \<Rightarrow> 'a ffq \<Rightarrow> bool" for raises where
  submit_call: "ff_producer s t = PIdle \<Longrightarrow> ff_step raises s (pgoto t (PPut x) s)"
| put_ok: "ff_producer s t = PPut x \<Longrightarrow> put_nowait x (ff_queue s) = Some q \<Longrightarrow>
    ff_step raises s (pgoto t (PReturn True) (s\<lparr>ff_queue := q, ff_accepted := ff_accepted s @ [x]\<rparr>))"
| put_overflow: "ff_producer s t = PPut x \<Longrightarrow> put_nowait x (ff_queue s) = None \<Longrightarrow>
    ff_step raises s (pgoto t PFull (s\<lparr>ff_rejected := Suc (ff_rejected s)\<rparr>))"
| drop_lock: "ff_producer s t = PFull \<Longrightarrow> ff_dropped_lock s = None \<Longrightarrow>
    ff_step raises s (pgoto t PLocked (s\<lparr>ff_dropped_lock := Some t\<rparr>))"
| drop_read: "ff_producer s t = PLocked \<Longrightarrow> ff_step raises s (pgoto t (PRead (ff_dropped s)) s)"
| drop_write: "ff_producer s t = PRead n \<Longrightarrow>
    ff_step raises s (pgoto t (PWrote (Suc n)) (s\<lparr>ff_dropped := Suc n\<rparr>))"
| drop_unlock: "ff_producer s t = PWrote n \<Longrightarrow>
    ff_step raises s (pgoto t (PReturn False) (s\<lparr>ff_dropped_lock := None\<rparr>))"
| submit_return: "ff_producer s t = PReturn b \<Longrightarrow> ff_step raises s (pgoto t PIdle s)"
| loop_test: "ff_consumer s = CTop \<Longrightarrow>
    ff_step raises s (s\<lparr>ff_consumer := (if ff_stop s then CExit else CGet)\<rparr>)"
| get_ok: "ff_consumer s = CGet \<Longrightarrow> get_nowait (ff_queue s) = Some (x, q) \<Longrightarrow>
    ff_step raises s (s\<lparr>ff_queue := q, ff_consumer := CGot x\<rparr>)"
| get_timeout: "ff_consumer s = CGet \<Longrightarrow> get_nowait (ff_queue s) = None \<Longrightarrow>
    ff_step raises s (s\<lparr>ff_consumer := CEmpty\<rparr>)"
| empty_test: "ff_consumer s = CEmpty \<Longrightarrow>
    ff_step raises s (s\<lparr>ff_consumer :=
      (if ff_stop s \<and> q_items (ff_queue s) = [] then CExit else CTop)\<rparr>)"
| hand_over: "ff_consumer s = CGot x \<Longrightarrow> \<not> ff_shutdown s \<Longrightarrow>
    ff_step raises s (s\<lparr>ff_pool := ff_pool s @ [x], ff_consumer := CFinally False\<rparr>)"
| hand_over_refused: "ff_consumer s = CGot x \<Longrightarrow> ff_shutdown s \<Longrightarrow>
    ff_step raises s (s\<lparr>ff_lost := ff_lost s @ [x], ff_consumer := CFinally True\<rparr>)"
| loop_finally: "ff_consumer s = CFinally brk \<Longrightarrow> task_done (ff_queue s) = Some q \<Longrightarrow>
    ff_step raises s (s\<lparr>ff_queue := q, ff_consumer := (if brk then CExit else CTop)\<rparr>)"
| loop_exit: "ff_consumer s = CExit \<Longrightarrow>
    ff_step raises s (s\<lparr>ff_drained := True, ff_consumer := CDead\<rparr>)"
| worker_start: "ff_pool s = x # xs \<Longrightarrow> length (ff_running s) < ff_workers s \<Longrightarrow>
    ff_step raises s (s\<lparr>ff_pool := xs, ff_running := x # ff_running s\<rparr>)"
| worker_finish: "x \<in> set (ff_running s) \<Longrightarrow>
    ff_step raises s (s\<lparr>ff_running := remove1 x (ff_running s), ff_finished := ff_finished s @ [x],
      ff_errors := (if raises x then ff_errors s @ [x] else ff_errors s)\<rparr>)"
| stop_call: "ff_stopper s = SIdle \<Longrightarrow> ff_step raises s (s\<lparr>ff_stop := True, ff_stopper := SJoin\<rparr>)"
| stop_joined: "ff_stopper s = SJoin \<Longrightarrow> ff_consumer s = CDead \<Longrightarrow>
    ff_step raises s (s\<lparr>ff_stopper := SShutdown\<rparr>)"
| stop_join_timeout: "ff_stopper s = SJoin \<Longrightarrow> ff_step raises s (s\<lparr>ff_stopper := SShutdown\<rparr>)"
| stop_shutdown: "ff_stopper s = SShutdown \<Longrightarrow>
    ff_step raises s (s\<lparr>ff_shutdown := True, ff_stopper := SWait\<rparr>)"
| stop_return: "ff_stopper s = SWait \<Longrightarrow> ff_pool s = [] \<Longrightarrow> ff_running s = [] \<Longrightarrow>
    ff_step raises s (s\<lparr>ff_stopper := SReturned\<rparr>)"

inductive ff_reachable :: "('a \<Rightarrow> bool) \<Rightarrow> 'a ffq \<Rightarrow> 'a ffq \<Rightarrow> bool" for raises s0 where
  ff_start: "ff_reachable raises s0 s0"
| ff_next: "ff_reachable raises s0 s \<Longrightarrow> ff_step raises s s' \<Longrightarrow> ff_reachable raises s0 s'"

section \<open>Conservation and capacity\<close>

fun in_hand :: "'a consumer_pc \<Rightarrow> 'a list" where
  "in_hand (CGot x) = [x]"
| "in_hand _ = []"

fun gave_up :: "'a consumer_pc \<Rightarrow> bool" where
  "gave_up (CFinally brk) = brk"
| "gave_up CExit = True"
| "gave_up CDead = True"
| "gave_up _ = False"

text \<open>
  \<open>line_up\<close>: the accepted tasks in order of acceptance are the ones workers have started, then the
  executor's own queue, then the one the executor refused, then the one in the consumer's hand, then
  the bounded queue. Only a consumer that is leaving after the executor was shut down has a refused task.
\<close>

definition line_up :: "'a ffq \<Rightarrow> 'a list \<Rightarrow> bool" where
  "line_up s started \<longleftrightarrow>
     ff_accepted s = started @ ff_pool s @ ff_lost s @ in_hand (ff_consumer s) @ q_items (ff_queue s) \<and>
     mset started = mset (ff_finished s) + mset (ff_running s)"

definition lost_ok :: "'a ffq \<Rightarrow> bool" where
  "lost_ok s \<longleftrightarrow> length (ff_lost s) \<le> 1 \<and>
     (ff_lost s \<noteq> [] \<longrightarrow> ff_shutdown s \<and> ff_stop s \<and> gave_up (ff_consumer s))"

definition task_inv :: "'a ffq \<Rightarrow> bool" where
  "task_inv s \<longleftrightarrow> (\<exists>started. line_up s started) \<and> lost_ok s \<and> pq.fits (ff_queue s) \<and>
     (ff_shutdown s \<longrightarrow> ff_stop s) \<and> (ff_stopper s \<noteq> SIdle \<longrightarrow> ff_stop s)"

lemma task_inv_init: "task_inv (new_ffq n w)"
  by (simp add: task_inv_def line_up_def lost_ok_def new_ffq_def new_pyqueue_def pq.fits_def)

lemma task_inv_frame:
  assumes "task_inv s" "ff_queue s' = ff_queue s" "ff_accepted s' = ff_accepted s"
    "ff_pool s' @ ff_lost s' @ in_hand (ff_consumer s') = ff_pool s @ ff_lost s @ in_hand (ff_consumer s)"
    "mset (ff_finished s') + mset (ff_running s') = mset (ff_finished s) + mset (ff_running s)"
    "lost_ok s \<Longrightarrow> lost_ok s'"
    "ff_shutdown s \<longrightarrow> ff_stop s \<Longrightarrow> ff_stopper s \<noteq> SIdle \<longrightarrow> ff_stop s \<Longrightarrow>
       (ff_shutdown s' \<longrightarrow> ff_stop s') \<and> (ff_stopper s' \<noteq> SIdle \<longrightarrow> ff_stop s')"
  shows "task_inv s'"
proof -
  obtain started where "line_up s started" using assms(1) by (auto simp: task_inv_def)
  then have "line_up s' started" using assms(2-5) by (auto simp: line_up_def)
  then show ?thesis using assms by (auto simp: task_inv_def)
qed

lemma task_inv_step:
  assumes "ff_step raises s s'" and "task_inv s"
  shows "task_inv s'"
  using assms
proof (induction rule: ff_step.induct)
  case (put_ok s t x q)
  then show ?case
    using pq.put_SomeD [OF put_ok(2)] pq.fits_put [OF _ put_ok(2)]
    by (auto simp: task_inv_def line_up_def lost_ok_def pgoto_def)
next
  case (get_ok s x q)
  then show ?case
    using pq.get_SomeD [OF get_ok(2)] pq.fits_get [OF _ get_ok(2)]
    by (auto simp: task_inv_def line_up_def lost_ok_def)
next
  case (hand_over s x)
  then show ?case
    by (intro task_inv_frame [OF hand_over(3)]) (auto simp: task_inv_def lost_ok_def)
next
  case (hand_over_refused s x)
  then show ?case
    by (intro task_inv_frame [OF hand_over_refused(3)]) (auto simp: task_inv_def lost_ok_def)
next
  case (loop_finally s brk q)
  then show ?case
    by (auto simp: task_inv_def line_up_def lost_ok_def task_done_def pq.fits_def split: if_splits)
next
  case (worker_start s x xs)
  then obtain started where "line_up s started" by (auto simp: task_inv_def)
  with worker_start have "line_up (s\<lparr>ff_pool := xs, ff_running := x # ff_running s\<rparr>) (started @ [x])"
    by (simp add: line_up_def)
  then show ?case using worker_start(3) by (auto simp: task_inv_def lost_ok_def)
next
  case (worker_finish x s)
  then show ?case by (intro task_inv_frame [OF worker_finish(2)]) (auto simp: task_inv_def lost_ok_def)
qed (erule task_inv_frame; auto simp: task_inv_def lost_ok_def pgoto_def)+

lemma task_inv_reachable: "ff_reachable raises (new_ffq n w) s \<Longrightarrow> task_inv s"
  by (induction rule: ff_reachable.induct) (auto intro: task_inv_init task_inv_step)

text \<open>
  C7: what the queue accepts is served first come, first served, and accounted for exactly once. In every
  reachable state, for any number of producers and any interleaving, the accepted tasks in order of
  acceptance are: the tasks workers have started, those waiting in the executor, the ones the executor
  refused, the one the consumer holds, and those still queued; the started tasks are exactly the finished
  and the running ones, with multiplicity. At most one accepted task is ever refused, and only after
  \<open>stop\<close> has set the event and shut the executor down.
\<close>

theorem ff_tasks_conserved:
  assumes "ff_reachable raises (new_ffq n w) s"
  shows "(\<exists>started. ff_accepted s =
        started @ ff_pool s @ ff_lost s @ in_hand (ff_consumer s) @ q_items (ff_queue s) \<and>
      mset started = mset (ff_finished s) + mset (ff_running s)) \<and>
    length (ff_lost s) \<le> 1 \<and> (ff_lost s \<noteq> [] \<longrightarrow> ff_stop s \<and> ff_shutdown s)"
  using task_inv_reachable [OF assms] by (auto simp: task_inv_def line_up_def lost_ok_def)

lemma ff_maxsize:
  "ff_step raises s s' \<Longrightarrow> q_maxsize (ff_queue s') = q_maxsize (ff_queue s)"
  by (induction rule: ff_step.induct)
     (auto simp: pgoto_def task_done_def split: if_splits dest: pq.put_SomeD(2) pq.get_SomeD(2))

lemma ff_reachable_maxsize:
  "ff_reachable raises (new_ffq n w) s \<Longrightarrow> q_maxsize (ff_queue s) = n"
  by (induction rule: ff_reachable.induct)
     (auto simp: new_ffq_def new_pyqueue_def dest: ff_maxsize)

text \<open>
  A queue made with a positive \<open>max_in_flight\<close> never holds more tasks than that.
\<close>

theorem ff_queue_bounded:
  assumes "ff_reachable raises (new_ffq n w) s" and "0 < n"
  shows "int (length (q_items (ff_queue s))) \<le> n"
  using task_inv_reachable [OF assms(1)] ff_reachable_maxsize [OF assms(1)] assms(2)
  by (simp add: task_inv_def pq.fits_def)

section \<open>The drop counter and \<open>task_done\<close>\<close>

fun holds_drop_lock :: "'a producer_pc \<Rightarrow> bool" where
  "holds_drop_lock PLocked = True"
| "holds_drop_lock (PRead n) = True"
| "holds_drop_lock (PWrote n) = True"
| "holds_drop_lock _ = False"

text \<open>The rejected calls that have not counted themselves yet.\<close>

fun uncounted :: "'a producer_pc \<Rightarrow> bool" where
  "uncounted PFull = True"
| "uncounted PLocked = True"
| "uncounted (PRead n) = True"
| "uncounted _ = False"

fun read_value_ok :: "nat \<Rightarrow> 'a producer_pc \<Rightarrow> bool" where
  "read_value_ok d (PRead n) = (n = d)"
| "read_value_ok d _ = True"

definition pending_drops :: "'a ffq \<Rightarrow> nat set" where
  "pending_drops s = {t. uncounted (ff_producer s t)}"

definition drop_inv :: "'a ffq \<Rightarrow> bool" where
  "drop_inv s \<longleftrightarrow>
     (\<forall>t. holds_drop_lock (ff_producer s t) \<longleftrightarrow> ff_dropped_lock s = Some t) \<and>
     (\<forall>t. read_value_ok (ff_dropped s) (ff_producer s t)) \<and>
     finite (pending_drops s) \<and> ff_rejected s = ff_dropped s + card (pending_drops s)"

lemma in_pending_drops: "t \<in> pending_drops s \<longleftrightarrow> uncounted (ff_producer s t)"
  by (simp add: pending_drops_def)

lemma drop_inv_frame:
  "drop_inv s \<Longrightarrow> ff_producer s' = ff_producer s \<Longrightarrow> ff_dropped s' = ff_dropped s \<Longrightarrow>
     ff_dropped_lock s' = ff_dropped_lock s \<Longrightarrow> ff_rejected s' = ff_rejected s \<Longrightarrow> drop_inv s'"
  by (simp add: drop_inv_def pending_drops_def)

lemma drop_inv_outside:
  assumes "drop_inv s" "\<not> holds_drop_lock (ff_producer s t)" "\<not> holds_drop_lock p"
    "uncounted (ff_producer s t) = uncounted p" "ff_producer s' = (ff_producer s)(t := p)"
    "ff_dropped s' = ff_dropped s" "ff_dropped_lock s' = ff_dropped_lock s"
    "ff_rejected s' = ff_rejected s"
  shows "drop_inv s'"
proof -
  have "pending_drops s' = pending_drops s" using assms(4,5) by (auto simp: pending_drops_def)
  moreover have "read_value_ok d p" for d using assms(3) by (cases p) auto
  ultimately show ?thesis using assms by (auto simp: drop_inv_def)
qed

lemma drop_inv_step:
  assumes "ff_step raises s s'" and "drop_inv s"
  shows "drop_inv s'"
  using assms
proof (induction rule: ff_step.induct)
  case (put_overflow s t x)
  have "pending_drops (pgoto t PFull (s\<lparr>ff_rejected := Suc (ff_rejected s)\<rparr>)) = insert t (pending_drops s)"
    by (auto simp: pending_drops_def pgoto_def)
  moreover have "t \<notin> pending_drops s" using put_overflow by (simp add: in_pending_drops)
  moreover have "ff_dropped_lock s \<noteq> Some t"
    using put_overflow by (metis drop_inv_def holds_drop_lock.simps(5))
  ultimately show ?case using put_overflow by (auto simp: drop_inv_def pgoto_def)
next
  case (drop_lock s t)
  have "pending_drops (pgoto t PLocked (s\<lparr>ff_dropped_lock := Some t\<rparr>)) = pending_drops s"
    using drop_lock by (auto simp: pending_drops_def pgoto_def)
  then show ?case using drop_lock by (auto simp: drop_inv_def pgoto_def)
next
  case (drop_read s t)
  have "pending_drops (pgoto t (PRead (ff_dropped s)) s) = pending_drops s"
    using drop_read by (auto simp: pending_drops_def pgoto_def)
  then show ?case using drop_read by (auto simp: drop_inv_def pgoto_def)
next
  case (drop_write s t n)
  let ?s = "pgoto t (PWrote (Suc n)) (s\<lparr>ff_dropped := Suc n\<rparr>)"
  have n: "n = ff_dropped s" using drop_write by (metis drop_inv_def read_value_ok.simps(1))
  have holder: "holds_drop_lock (ff_producer s u) \<longleftrightarrow> u = t" for u
    using drop_write by (metis drop_inv_def holds_drop_lock.simps(2) option.inject)
  have "read_value_ok (Suc n) (ff_producer s u)" if "u \<noteq> t" for u
    using holder [of u] that by (cases "ff_producer s u") auto
  moreover have "pending_drops ?s = pending_drops s - {t}" "t \<in> pending_drops s"
    using drop_write by (auto simp: pending_drops_def pgoto_def)
  moreover from this drop_write(2) have "card (pending_drops s) = Suc (card (pending_drops ?s))"
    using card_Suc_Diff1 [of "pending_drops s" t] by (simp add: drop_inv_def)
  ultimately show ?case using drop_write n by (auto simp: drop_inv_def pgoto_def)
next
  case (drop_unlock s t n)
  have "pending_drops (pgoto t (PReturn False) (s\<lparr>ff_dropped_lock := None\<rparr>)) = pending_drops s"
    using drop_unlock by (auto simp: pending_drops_def pgoto_def)
  moreover have "holds_drop_lock (ff_producer s u) \<longleftrightarrow> u = t" for u
    using drop_unlock by (metis drop_inv_def holds_drop_lock.simps(3) option.inject)
  ultimately show ?case using drop_unlock by (auto simp: drop_inv_def pgoto_def)
next
  case (submit_call s t x)
  then show ?case
    using drop_inv_outside [of s t "PPut x" "pgoto t (PPut x) s"] by (simp add: pgoto_def)
next
  case (put_ok s t x q)
  then show ?case
    using drop_inv_outside [of s t "PReturn True"
      "pgoto t (PReturn True) (s\<lparr>ff_queue := q, ff_accepted := ff_accepted s @ [x]\<rparr>)"]
    by (simp add: pgoto_def)
next
  case (submit_return s t b)
  then show ?case
    using drop_inv_outside [of s t PIdle "pgoto t PIdle s"] by (simp add: pgoto_def)
qed (auto elim!: drop_inv_frame)

lemma drop_inv_reachable: "ff_reachable raises (new_ffq n w) s \<Longrightarrow> drop_inv s"
proof (induction rule: ff_reachable.induct)
  case ff_start
  show ?case by (simp add: drop_inv_def pending_drops_def new_ffq_def)
qed (rule drop_inv_step)

text \<open>
  \<open>dropped_count\<close> under-reports nothing: it is the number of \<open>submit\<close> calls that met a full
  queue, less the calls that are still on their way to the increment; with no such call in flight
  it is exact, however many producers raced.
\<close>

theorem ff_dropped_exact:
  assumes "ff_reachable raises (new_ffq n w) s" and "\<forall>t. \<not> uncounted (ff_producer s t)"
  shows "ff_dropped s = ff_rejected s"
  using drop_inv_reachable [OF assms(1)] assms(2) by (simp add: drop_inv_def pending_drops_def)

fun owes_task_done :: "'a consumer_pc \<Rightarrow> nat" where
  "owes_task_done (CGot x) = 1"
| "owes_task_done (CFinally b) = 1"
| "owes_task_done _ = 0"

definition done_inv :: "'a ffq \<Rightarrow> bool" where
  "done_inv s \<longleftrightarrow>
     q_unfinished (ff_queue s) = length (q_items (ff_queue s)) + owes_task_done (ff_consumer s)"

lemma done_inv_step:
  assumes "ff_step raises s s'" and "done_inv s"
  shows "done_inv s'"
  using assms
proof (induction rule: ff_step.induct)
  case (put_ok s t x q)
  then show ?case
    using pq.put_SomeD [OF put_ok(2)] put_unfinished [OF put_ok(2)] by (simp add: done_inv_def pgoto_def)
next
  case (get_ok s x q)
  then show ?case
    using pq.get_SomeD [OF get_ok(2)] get_unfinished [OF get_ok(2)] by (simp add: done_inv_def)
next
  case (loop_finally s brk q)
  then show ?case by (auto simp: done_inv_def task_done_def split: if_splits)
qed (auto simp: done_inv_def pgoto_def)

lemma done_inv_reachable: "ff_reachable raises (new_ffq n w) s \<Longrightarrow> done_inv s"
proof (induction rule: ff_reachable.induct)
  case ff_start
  show ?case by (simp add: done_inv_def new_ffq_def new_pyqueue_def)
qed (rule done_inv_step)

text \<open>
  The consumer is never stuck in its \<open>finally\<close>: \<open>task_done\<close> is called once per task taken, so it
  never raises the \<open>ValueError\<close> that would kill the loop.
\<close>

theorem ff_task_done_never_raises:
  assumes "ff_reachable raises (new_ffq n w) s" and "ff_consumer s = CFinally brk"
  shows "task_done (ff_queue s) \<noteq> None"
  using done_inv_reachable [OF assms(1)] assms(2) by (simp add: done_inv_def task_done_def)

section \<open>Stopping\<close>

lemma dead_consumer_step:
  assumes "ff_step raises s s'" "ff_consumer s = CDead" "ff_pool s = []" "ff_running s = []"
  shows "ff_consumer s' = CDead \<and> ff_pool s' = [] \<and> ff_running s' = [] \<and> ff_finished s' = ff_finished s \<and>
     set (q_items (ff_queue s)) \<subseteq> set (q_items (ff_queue s'))"
  using assms
proof (induction rule: ff_step.induct)
  case (put_ok s t x q)
  then show ?case using pq.put_SomeD(1) [OF put_ok(2)] by (auto simp: pgoto_def)
qed (auto simp: pgoto_def)

lemma dead_consumer_forever:
  "ff_reachable raises s s' \<Longrightarrow> ff_consumer s = CDead \<Longrightarrow> ff_pool s = [] \<Longrightarrow> ff_running s = [] \<Longrightarrow>
     ff_consumer s' = CDead \<and> ff_pool s' = [] \<and> ff_running s' = [] \<and> ff_finished s' = ff_finished s \<and>
     set (q_items (ff_queue s)) \<subseteq> set (q_items (ff_queue s'))"
proof (induction rule: ff_reachable.induct)
  case ff_start
  then show ?case by simp
next
  case (ff_next s1 s2)
  then show ?case using dead_consumer_step [OF ff_next(2)] by auto
qed

text \<open>
  One \<open>submit\<close> that succeeds and has returned (\<open>waiting\<close>), then a \<open>stop\<close> that joins the consumer and
  returns (\<open>stranded\<close>), before the consumer has looked at the queue again.
\<close>

definition waiting :: "'a \<Rightarrow> 'a ffq" where
  "waiting x = (new_ffq 1000 4)
     \<lparr>ff_queue := \<lparr>q_items = [x], q_maxsize = 1000, q_unfinished = 1\<rparr>, ff_accepted := [x]\<rparr>"

definition stranded :: "'a \<Rightarrow> 'a ffq" where
  "stranded x = (waiting x)\<lparr>ff_stop := True, ff_consumer := CDead, ff_drained := True,
      ff_shutdown := True, ff_stopper := SReturned\<rparr>"

lemma ff_reachable_trans:
  "ff_reachable raises s1 s2 \<Longrightarrow> ff_reachable raises s0 s1 \<Longrightarrow> ff_reachable raises s0 s2"
  by (induction rule: ff_reachable.induct) (auto intro: ff_reachable.intros)

lemma waiting_reachable: "ff_reachable raises (new_ffq 1000 4) (waiting x)"
proof -
  define a where "a = pgoto 0 (PPut x) (new_ffq 1000 4)"
  define q where "q = \<lparr>q_items = [x], q_maxsize = 1000, q_unfinished = 1\<rparr>"
  define b where "b = pgoto 0 (PReturn True) (a\<lparr>ff_queue := q, ff_accepted := ff_accepted a @ [x]\<rparr>)"
  define c where "c = pgoto 0 PIdle b"
  note defs = a_def b_def c_def pgoto_def new_ffq_def
  have "put_nowait x (ff_queue a) = Some q"
    by (simp add: put_nowait_def defs q_def new_pyqueue_def)
  then have "ff_step raises a b"
    unfolding b_def by (rule ff_step.put_ok [rotated]) (simp add: defs)
  moreover have "ff_step raises (new_ffq 1000 4) a" "ff_step raises b c"
    unfolding a_def c_def by (rule ff_step.intros; simp add: defs)+
  ultimately have "ff_reachable raises (new_ffq 1000 4) c"
    using ff_reachable.intros by meson
  moreover have "c = waiting x" by (simp add: defs waiting_def q_def fun_upd_idem)
  ultimately show ?thesis by simp
qed

lemma stranded_from_waiting: "ff_reachable raises (waiting x) (stranded x)"
proof -
  define d where "d = (waiting x)\<lparr>ff_stop := True, ff_stopper := SJoin\<rparr>"
  define e where "e = d\<lparr>ff_consumer := (if ff_stop d then CExit else CGet)\<rparr>"
  define f where "f = e\<lparr>ff_drained := True, ff_consumer := CDead\<rparr>"
  define g where "g = f\<lparr>ff_stopper := SShutdown\<rparr>"
  define h where "h = g\<lparr>ff_shutdown := True, ff_stopper := SWait\<rparr>"
  define i where "i = h\<lparr>ff_stopper := SReturned\<rparr>"
  note defs = d_def e_def f_def g_def h_def i_def waiting_def new_ffq_def
  have "ff_step raises (waiting x) d" "ff_step raises d e"
    unfolding d_def e_def by (rule ff_step.intros; simp add: defs)+
  moreover have "ff_step raises e f" "ff_step raises g h" "ff_step raises h i"
    unfolding f_def h_def i_def by (rule ff_step.intros; simp add: defs)+
  moreover have "ff_step raises f g"
    unfolding g_def by (rule ff_step.stop_joined; simp add: defs)
  ultimately have "ff_reachable raises (waiting x) i"
    using ff_reachable.intros by meson
  moreover have "i = stranded x" by (simp add: defs stranded_def)
  ultimately show ?thesis by simp
qed

lemma stranded_reachable: "ff_reachable raises (new_ffq 1000 4) (stranded x)"
  by (rule ff_reachable_trans [OF stranded_from_waiting waiting_reachable])

text \<open>
  C31: \<open>stop\<close> does not drain. There is a run in which a \<open>submit\<close> has returned \<open>True\<close> before \<open>stop\<close> is
  called, and \<open>stop\<close> then joins the consumer, shuts the executor down and returns while the task is still
  in the queue: the consumer has left at its \<open>while\<close> test and set \<open>_drained\<close>. From there no step ever
  runs the task, nor takes it from the queue.
\<close>

theorem stop_strands_accepted_tasks:
  "\<exists>before after. ff_reachable raises (new_ffq 1000 4) before \<and>
     ff_accepted before = [x] \<and> ff_producer before = (\<lambda>_. PIdle) \<and> \<not> ff_stop before \<and>
     ff_reachable raises before after \<and> ff_accepted after = [x] \<and> ff_stopper after = SReturned \<and>
     ff_consumer after = CDead \<and> ff_drained after \<and> q_items (ff_queue after) = [x] \<and>
     \<not> (\<exists>s'. ff_reachable raises after s' \<and> x \<in> set (ff_finished s')) \<and>
     \<not> (\<exists>s'. ff_reachable raises after s' \<and> x \<in> set (ff_running s')) \<and>
     \<not> (\<exists>s'. ff_reachable raises after s' \<and> x \<notin> set (q_items (ff_queue s')))"
proof -
  have "x \<notin> set (ff_finished s') \<and> x \<notin> set (ff_running s') \<and> x \<in> set (q_items (ff_queue s'))"
    if "ff_reachable raises (stranded x) s'" for s'
    using dead_consumer_forever [OF that] by (simp add: stranded_def waiting_def new_ffq_def)
  moreover have "ff_stopper (stranded x) = SReturned" "ff_accepted (stranded x) = [x]"
    "ff_consumer (stranded x) = CDead" "ff_drained (stranded x)" "q_items (ff_queue (stranded x)) = [x]"
    by (simp_all add: stranded_def waiting_def new_ffq_def)
  moreover have "ff_accepted (waiting x) = [x]" "ff_producer (waiting x) = (\<lambda>_. PIdle)" "\<not> ff_stop (waiting x)"
    by (simp_all add: waiting_def new_ffq_def)
  ultimately show ?thesis using waiting_reachable [of raises x] stranded_from_waiting [of raises x]
    by (intro exI [of _ "waiting x"] exI [of _ "stranded x"]) blast
qed

section \<open>Draining against a deadline\<close>

text \<open>
  Time is read from \<open>time.monotonic\<close>; \<open>is_empty t\<close> is what \<open>_queue.empty()\<close> answers at time \<open>t\<close> and
  \<open>wake t\<close> the time after a \<open>time.sleep(0.05)\<close> entered at \<open>t\<close>. The results carry the time of return.
\<close>

partial_function (option) drain_loop ::
  "(rat \<Rightarrow> bool) \<Rightarrow> (rat \<Rightarrow> rat) \<Rightarrow> rat \<Rightarrow> rat \<Rightarrow> (bool \<times> rat) option" where
  "drain_loop is_empty wake deadline now =
     (if is_empty now then Some (True, now)
      else if deadline \<le> now then Some (False, now)
      else drain_loop is_empty wake deadline (wake now))"

definition drain :: "(rat \<Rightarrow> bool) \<Rightarrow> (rat \<Rightarrow> rat) \<Rightarrow> rat \<Rightarrow> rat \<Rightarrow> (bool \<times> rat) option" where
  "drain is_empty wake timeout now = drain_loop is_empty wake (now + timeout) now"

fun drain_each ::
  "(rat \<Rightarrow> bool) list \<Rightarrow> (rat \<Rightarrow> rat) \<Rightarrow> rat \<Rightarrow> rat \<Rightarrow> bool \<Rightarrow> (bool \<times> rat) option" where
  "drain_each [] wake deadline now all_drained = Some (all_drained, now)"
| "drain_each (q # qs) wake deadline now all_drained =
     (case drain q wake (max 0 (deadline - now)) now of
        None \<Rightarrow> None
      | Some (b, later) \<Rightarrow> drain_each qs wake deadline later (if b then all_drained else False))"

definition drain_all ::
  "(rat \<Rightarrow> bool) list \<Rightarrow> (rat \<Rightarrow> rat) \<Rightarrow> rat \<Rightarrow> rat \<Rightarrow> (bool \<times> rat) option" where
  "drain_all queues wake timeout now = drain_each queues wake (now + timeout) now True"

definition is_saturated :: "'a pyqueue \<Rightarrow> rat \<Rightarrow> bool" where
  "is_saturated q threshold =
     (if q_maxsize q \<le> 0 then False
      else threshold \<le> rat_of_nat (length (q_items q)) / rat_of_int (q_maxsize q))"

lemma drain_loop_returns:
  assumes wake: "\<And>t. t + 1 / 20 \<le> wake t" "\<And>t. wake t \<le> t + slack"
    and "deadline - now \<le> rat_of_nat n / 20"
  shows "\<exists>b later. drain_loop is_empty wake deadline now = Some (b, later) \<and> b = is_empty later \<and>
     now \<le> later \<and> later \<le> max now (deadline + slack) \<and> (deadline \<le> now \<longrightarrow> later = now)"
  using assms(3)
proof (induction n arbitrary: now)
  case 0
  then show ?case by (auto simp: drain_loop.simps [of _ _ _ now])
next
  case (Suc n)
  show ?case
  proof (cases "is_empty now \<or> deadline \<le> now")
    case True
    then show ?thesis by (auto simp: drain_loop.simps [of _ _ _ now])
  next
    case False
    have "deadline - wake now \<le> rat_of_nat n / 20"
      using Suc.prems wake(1) [of now] by (simp add: field_simps)
    from Suc.IH [OF this] obtain b later where
      "drain_loop is_empty wake deadline (wake now) = Some (b, later)" "b = is_empty later"
      "wake now \<le> later" "later \<le> max (wake now) (deadline + slack)" by blast
    with False wake [of now] show ?thesis
      by (auto simp: drain_loop.simps [of _ _ _ now] max_def split: if_splits)
  qed
qed

lemma drain_returns:
  assumes wake: "\<And>t. t + 1 / 20 \<le> wake t" "\<And>t. wake t \<le> t + slack"
  shows "\<exists>b later. drain is_empty wake timeout now = Some (b, later) \<and> b = is_empty later \<and>
     now \<le> later \<and> later \<le> max now (now + timeout + slack) \<and> (timeout \<le> 0 \<longrightarrow> later = now)"
proof -
  obtain n where "20 * timeout \<le> rat_of_nat n" using real_arch_simple by blast
  then show ?thesis
    unfolding drain_def
    using drain_loop_returns [OF wake, of "now + timeout" now n] by simp
qed

lemma drain_each_returns:
  assumes wake: "\<And>t. t + 1 / 20 \<le> wake t" "\<And>t. wake t \<le> t + slack"
  shows "\<exists>b later. drain_each queues wake deadline now acc = Some (b, later) \<and> now \<le> later \<and>
     later \<le> max now (deadline + slack) \<and>
     (b \<longrightarrow> acc \<and> (\<forall>q \<in> set queues. \<exists>t. now \<le> t \<and> t \<le> later \<and> q t))"
proof (induction queues arbitrary: now acc)
  case Nil
  then show ?case by simp
next
  case (Cons q qs)
  obtain b t1 where 1: "drain q wake (max 0 (deadline - now)) now = Some (b, t1)" "b = q t1"
      "now \<le> t1" "t1 \<le> max now (now + max 0 (deadline - now) + slack)"
      "max 0 (deadline - now) \<le> 0 \<longrightarrow> t1 = now"
    using drain_returns [OF wake] by blast
  obtain b' t2 where 2: "drain_each qs wake deadline t1 (if b then acc else False) = Some (b', t2)"
      "t1 \<le> t2" "t2 \<le> max t1 (deadline + slack)"
      "b' \<longrightarrow> (if b then acc else False) \<and> (\<forall>q \<in> set qs. \<exists>t. t1 \<le> t \<and> t \<le> t2 \<and> q t)"
    using Cons.IH by blast
  have bound: "t2 \<le> max now (deadline + slack)"
    using 1 2(2,3) by (auto simp: max_def split: if_splits)
  have "\<exists>t. now \<le> t \<and> t \<le> t2 \<and> q' t" if "b'" "q' \<in> set (q # qs)" for q'
  proof (cases "q' = q")
    case True
    with that(1) 1 2 show ?thesis by (metis (full_types))
  next
    case False
    with that 2(4) obtain t where "t1 \<le> t" "t \<le> t2" "q' t" by auto
    with 1(3) show ?thesis by (meson order_trans)
  qed
  moreover have "b' \<longrightarrow> acc" using 2(4) by presburger
  moreover have "drain_each (q # qs) wake deadline now acc = Some (b', t2)" using 1(1) 2(1) by simp
  moreover have "now \<le> t2" using 1(3) 2(2) by (rule order_trans)
  ultimately show ?case using bound by blast
qed

text \<open>
  C30: \<open>drain_all\<close> always returns, and within its one budget plus a single sleep, however many queues
  there are and whether or not they ever empty; when it answers \<open>True\<close> each queue was empty at some
  moment of the call. The hypotheses are what \<open>time.sleep(0.05)\<close> promises: it sleeps at least that
  long, and at most \<open>slack\<close>.
\<close>

theorem drain_all_within_budget:
  assumes "\<And>t. t + 1 / 20 \<le> wake t" and "\<And>t. wake t \<le> t + slack" and "0 \<le> timeout"
  shows "\<exists>b later. drain_all queues wake timeout now = Some (b, later) \<and>
     later \<le> now + timeout + slack \<and>
     (b \<longrightarrow> (\<forall>q \<in> set queues. \<exists>t. now \<le> t \<and> t \<le> later \<and> q t))"
proof -
  have "0 \<le> slack" using assms(1,2) [of 0] by simp
  then show ?thesis
    unfolding drain_all_def
    using drain_each_returns [OF assms(1,2), of queues "now + timeout" now True] assms(3)
    by (force simp: max_def split: if_splits)
qed

theorem drain_all_within_budget_witness:
  "\<exists>b later. drain_all [\<lambda>t. False, \<lambda>t. t > 3] (\<lambda>t. t + 1 / 10) 5 0 = Some (b, later) \<and> later \<le> 51 / 10"
  using drain_all_within_budget [of "\<lambda>t. t + 1 / 10" "1 / 10" 5 "[\<lambda>t. False, \<lambda>t. t > 3]" 0] by auto

section \<open>The registry\<close>

text \<open>
  The module registry by name; a queue is its identity. A constructor registers under its name and
  so hides an earlier queue of that name; \<open>None\<close> of \<open>get_queue\<close> is the \<open>KeyError\<close>.
\<close>

type_synonym queue_registry = "(string \<times> nat) list"

definition register_queue :: "string \<Rightarrow> nat \<Rightarrow> queue_registry \<Rightarrow> queue_registry" where
  "register_queue name qid r = AList.update name qid r"

definition get_queue :: "string \<Rightarrow> queue_registry \<Rightarrow> nat option" where
  "get_queue name r = map_of r name"

definition registered_queues :: "queue_registry \<Rightarrow> nat list" where
  "registered_queues r = map snd r"

lemma get_registered: "get_queue n (register_queue m i r) = (if n = m then Some i else get_queue n r)"
  by (simp add: get_queue_def register_queue_def AList.update_conv')

section \<open>Concrete runs\<close>

lemma run_to_finally:
  "\<exists>s. ff_reachable (\<lambda>x. False) (new_ffq 1 1 :: char ffq) s \<and> ff_consumer s = CFinally False"
proof -
  define a where "a = pgoto 0 (PPut CHR ''t'') (new_ffq 1 1)"
  define q where "q = \<lparr>q_items = ''t'', q_maxsize = 1, q_unfinished = 1\<rparr>"
  define b where "b = pgoto 0 (PReturn True) (a\<lparr>ff_queue := q, ff_accepted := ff_accepted a @ ''t''\<rparr>)"
  define c where "c = b\<lparr>ff_consumer := (if ff_stop b then CExit else CGet)\<rparr>"
  define d where "d = c\<lparr>ff_queue := q\<lparr>q_items := []\<rparr>, ff_consumer := CGot CHR ''t''\<rparr>"
  define e where "e = d\<lparr>ff_pool := ff_pool d @ ''t'', ff_consumer := CFinally False\<rparr>"
  note defs = a_def b_def c_def d_def e_def pgoto_def new_ffq_def q_def
  have "ff_step (\<lambda>x. False) (new_ffq 1 1) a"
    unfolding a_def by (rule ff_step.submit_call) (simp add: new_ffq_def)
  moreover have "ff_step (\<lambda>x. False) a b"
    unfolding b_def by (rule ff_step.put_ok) (simp_all add: defs put_nowait_def new_pyqueue_def)
  moreover have "ff_step (\<lambda>x. False) b c" unfolding c_def by (rule ff_step.loop_test) (simp add: defs)
  moreover have "ff_step (\<lambda>x. False) c d"
    unfolding d_def by (rule ff_step.get_ok) (simp_all add: defs get_nowait_def)
  moreover have "ff_step (\<lambda>x. False) d e"
    unfolding e_def by (rule ff_step.hand_over) (simp_all add: defs)
  ultimately have "ff_reachable (\<lambda>x. False) (new_ffq 1 1) e"
    using ff_reachable.intros by meson
  moreover have "ff_consumer e = CFinally False" by (simp add: e_def)
  ultimately show ?thesis by blast
qed

theorem ff_tasks_conserved_witness:
  "\<exists>started. ff_accepted (stranded CHR ''t'') =
     started @ q_items (ff_queue (stranded CHR ''t'')) \<and> mset started = {#}"
  using ff_tasks_conserved [OF stranded_reachable, of "CHR ''t''"]
  by (simp add: stranded_def waiting_def new_ffq_def)

theorem ff_queue_bounded_witness:
  "int (length (q_items (ff_queue (stranded CHR ''t'')))) \<le> 1000"
  using ff_queue_bounded [OF stranded_reachable, of "CHR ''t''"] by simp

lemma run_to_drop:
  "\<exists>s. ff_reachable (\<lambda>x. False) (new_ffq 1 1 :: char ffq) s \<and> ff_rejected s = 1 \<and>
     (\<forall>t. \<not> uncounted (ff_producer s t))"
proof -
  define a where "a = pgoto 0 (PPut CHR ''t'') (new_ffq 1 1)"
  define q where "q = \<lparr>q_items = ''t'', q_maxsize = 1, q_unfinished = 1\<rparr>"
  define b where "b = pgoto 0 (PReturn True) (a\<lparr>ff_queue := q, ff_accepted := ff_accepted a @ ''t''\<rparr>)"
  define c where "c = pgoto 1 (PPut CHR ''u'') b"
  define d where "d = pgoto 1 PFull (c\<lparr>ff_rejected := Suc (ff_rejected c)\<rparr>)"
  define e where "e = pgoto 1 PLocked (d\<lparr>ff_dropped_lock := Some 1\<rparr>)"
  define f where "f = pgoto 1 (PRead (ff_dropped e)) e"
  define g where "g = pgoto 1 (PWrote (Suc 0)) (f\<lparr>ff_dropped := Suc 0\<rparr>)"
  note defs = a_def b_def c_def d_def e_def f_def g_def pgoto_def new_ffq_def q_def
  have "ff_step (\<lambda>x. False) (new_ffq 1 1) a"
    unfolding a_def by (rule ff_step.submit_call) (simp add: new_ffq_def)
  moreover have "ff_step (\<lambda>x. False) a b"
    unfolding b_def by (rule ff_step.put_ok) (simp_all add: defs put_nowait_def new_pyqueue_def)
  moreover have "ff_step (\<lambda>x. False) b c" unfolding c_def by (rule ff_step.submit_call) (simp add: defs)
  moreover have "ff_step (\<lambda>x. False) c d"
    unfolding d_def by (rule ff_step.put_overflow) (simp_all add: defs put_nowait_def)
  moreover have "ff_step (\<lambda>x. False) d e" unfolding e_def by (rule ff_step.drop_lock) (simp_all add: defs)
  moreover have "ff_step (\<lambda>x. False) e f" unfolding f_def by (rule ff_step.drop_read) (simp add: defs)
  moreover have "ff_step (\<lambda>x. False) f g" unfolding g_def by (rule ff_step.drop_write) (simp add: defs)
  ultimately have "ff_reachable (\<lambda>x. False) (new_ffq 1 1) g"
    using ff_reachable.intros by meson
  moreover have "ff_rejected g = 1" "\<forall>t. \<not> uncounted (ff_producer g t)" by (simp_all add: defs)
  ultimately show ?thesis by blast
qed

theorem ff_dropped_exact_witness:
  "\<exists>s. ff_reachable (\<lambda>x. False) (new_ffq 1 1 :: char ffq) s \<and> ff_dropped s = 1"
  using run_to_drop ff_dropped_exact by metis

theorem ff_task_done_never_raises_witness:
  "\<exists>s. ff_reachable (\<lambda>x. False) (new_ffq 1 1 :: char ffq) s \<and> task_done (ff_queue s) \<noteq> None"
  using run_to_finally ff_task_done_never_raises by blast

end
