(* ===== verification/RequestContext.thy ===== *)
theory RequestContext
  imports Complex_Main LogSanitization Exceptions
begin

text \<open>
  The ambient context of a request: \<open>apps/core/context.py\<close>, \<open>utils/logging.py\<close>, \<open>metrics.py\<close>,
  \<open>utils/timing.py\<close>, \<open>utils/network.py\<close>, \<open>utils/function_logger.py\<close> and the middlewares
  \<open>request_logging\<close> and \<open>metrics_middleware\<close>. The context variables and the log of one thread are a
  record; code that runs inside a context manager or a decorator is a function on that record that
  returns a value or an exception. Durations are the measured floats, carried by their \<open>repr\<close>.
\<close>

section \<open>The ambient state\<close>

datatype log_level = DEBUG | INFO | WARNING | ERROR

record log_record =
  lr_logger :: string
  lr_level :: log_level
  lr_msg :: string
  lr_args :: "pyval list"
  lr_extra :: "(string \<times> pyval) list"

text \<open>
  The context variables of \<open>apps/core/context.py\<close> and the log. \<open>w_kit_id\<close> is the resilience kit's own
  \<open>request_id\<close> variable, which the project reads only through \<open>bind_to\<close>.
\<close>

record ctx_world =
  w_request_id :: "string option"
  w_partner_id :: "int option"
  w_app_number :: "string option"
  w_query_id :: "int option"
  w_log :: "log_record list"
  w_kit_id :: "string option"

type_synonym 'a comp = "ctx_world \<Rightarrow> (exn + 'a) \<times> ctx_world"

definition fresh_world :: ctx_world where
  "fresh_world = \<lparr>w_request_id = None, w_partner_id = None, w_app_number = None, w_query_id = None,
     w_log = [], w_kit_id = None\<rparr>"

text \<open>
  \<open>Logger.makeRecord\<close> refuses an \<open>extra\<close> key that is an attribute of every record. All levels the
  code logs at are taken to be enabled.
\<close>

definition LOG_RECORD_ATTRS :: "string list" where
  "LOG_RECORD_ATTRS =
     [''name'', ''msg'', ''args'', ''levelname'', ''levelno'', ''pathname'', ''filename'', ''module'',
      ''exc_info'', ''exc_text'', ''stack_info'', ''lineno'', ''funcName'', ''created'', ''msecs'',
      ''relativeCreated'', ''thread'', ''threadName'', ''processName'', ''process'', ''taskName'',
      ''message'', ''asctime'']"

fun first_reserved :: "(string \<times> pyval) list \<Rightarrow> string option" where
  "first_reserved [] = None"
| "first_reserved ((k, v) # kvs) = (if k \<in> set LOG_RECORD_ATTRS then Some k else first_reserved kvs)"

definition emit_log ::
  "string \<Rightarrow> log_level \<Rightarrow> string \<Rightarrow> pyval list \<Rightarrow> (string \<times> pyval) list \<Rightarrow> unit comp" where
  "emit_log logger level msg args extra w =
     (case first_reserved extra of
        Some k \<Rightarrow> (Inl (raw_exn PyKeyError (''Attempt to overwrite '' @ repr_str k @ '' in LogRecord'')), w)
      | None \<Rightarrow> (Inr (), w\<lparr>w_log := w_log w @ [\<lparr>lr_logger = logger, lr_level = level, lr_msg = msg,
                     lr_args = args, lr_extra = extra\<rparr>]\<rparr>))"

text \<open>\<open>{**a, **b}\<close> for string keys.\<close>

definition merge_extra ::
  "(string \<times> pyval) list \<Rightarrow> (string \<times> pyval) list \<Rightarrow> (string \<times> pyval) list" where
  "merge_extra a b = fold (\<lambda>(k, v). AList.update k v) b a"

section \<open>Request id and domain identifiers\<close>

text \<open>A token is the value the variable had before the \<open>set\<close>.\<close>

definition set_request_context :: "string option \<Rightarrow> ctx_world \<Rightarrow> string option \<times> ctx_world" where
  "set_request_context rid w = (w_request_id w, w\<lparr>w_request_id := rid\<rparr>)"

definition clear_request_context :: "string option option \<Rightarrow> ctx_world \<Rightarrow> ctx_world" where
  "clear_request_context token w =
     (case token of Some old \<Rightarrow> w\<lparr>w_request_id := old\<rparr> | None \<Rightarrow> w\<lparr>w_request_id := None\<rparr>)"

definition get_request_id :: "ctx_world \<Rightarrow> string option" where
  "get_request_id w = w_request_id w"

definition legacy_set_request_context :: "string option \<Rightarrow> ctx_world \<Rightarrow> ctx_world" where
  "legacy_set_request_context rid w = (if rid \<noteq> None then snd (set_request_context rid w) else w)"

definition legacy_clear_request_context :: "ctx_world \<Rightarrow> ctx_world" where
  "legacy_clear_request_context w = clear_request_context None w"

definition domain_context ::
  "int option \<Rightarrow> string option \<Rightarrow> int option \<Rightarrow> 'a comp \<Rightarrow> 'a comp" where
  "domain_context partner_id app_number query_id body w =
     (let t1 = w_partner_id w;
          w1 = (if partner_id \<noteq> None then w\<lparr>w_partner_id := partner_id\<rparr> else w);
          t2 = w_app_number w1;
          w2 = (if app_number \<noteq> None then w1\<lparr>w_app_number := app_number\<rparr> else w1);
          t3 = w_query_id w2;
          w3 = (if query_id \<noteq> None then w2\<lparr>w_query_id := query_id\<rparr> else w2);
          (r, w4) = body w3;
          w5 = (if query_id \<noteq> None then w4\<lparr>w_query_id := t3\<rparr> else w4);
          w6 = (if app_number \<noteq> None then w5\<lparr>w_app_number := t2\<rparr> else w5);
          w7 = (if partner_id \<noteq> None then w6\<lparr>w_partner_id := t1\<rparr> else w6)
      in (r, w7))"

text \<open>\<open>RequestContextFilter.filter\<close> on the attributes of a record.\<close>

definition set_missing ::
  "string \<Rightarrow> pyval option \<Rightarrow> (string \<times> pyval) list \<Rightarrow> (string \<times> pyval) list" where
  "set_missing k v attrs =
     (case v of None \<Rightarrow> attrs
      | Some x \<Rightarrow> if map_of attrs k = None then AList.update k x attrs else attrs)"

definition filter_record :: "ctx_world \<Rightarrow> (string \<times> pyval) list \<Rightarrow> (string \<times> pyval) list" where
  "filter_record w attrs =
     set_missing ''query_id'' (map_option VInt (w_query_id w))
       (set_missing ''app_number'' (map_option VStr (w_app_number w))
         (set_missing ''partner_id'' (map_option VInt (w_partner_id w))
           (AList.update ''request_id''
              (case or_str (w_request_id w) None of
                 Some r \<Rightarrow> VStr r
               | None \<Rightarrow> (case map_of attrs ''request_id'' of Some v \<Rightarrow> v | None \<Rightarrow> VNone))
              attrs)))"

section \<open>Metrics\<close>

definition BOUNDED_LABEL_KEYS :: "string list" where
  "BOUNDED_LABEL_KEYS = [''event'', ''subsystem'', ''status'', ''partner_slug'', ''outcome'']"

definition FORBIDDEN_LABEL_KEYS :: "string list" where
  "FORBIDDEN_LABEL_KEYS =
     [''request_id'', ''app_number'', ''query_id'', ''partner_id'', ''user_id'', ''remark_id'',
      ''outbox_id'', ''url'', ''error'', ''error_message'', ''email'', ''phone'', ''pan'', ''aadhaar'']"

definition CardinalityViolation :: exc_class where
  "CardinalityViolation = Subclass ''CardinalityViolation'' None None PyValueError"

fun assert_bounded :: "(string \<times> pyval) list \<Rightarrow> (exn, unit) result" where
  "assert_bounded [] = Inr ()"
| "assert_bounded ((key, v) # labels) =
     (if key \<in> set FORBIDDEN_LABEL_KEYS then
        Inl (raw_exn CardinalityViolation
          (''metrics label '' @ repr_str key @ '' is forbidden (unbounded cardinality). '' @
           ''Pass it via the log `extra=` payload instead. See docs/observability.md.''))
      else if key \<notin> set BOUNDED_LABEL_KEYS then
        Inl (raw_exn CardinalityViolation
          (''metrics label '' @ repr_str key @ '' is not in the bounded allow-list '' @
           text_of (VList (map VStr ([''event'', ''outcome'', ''partner_slug'', ''status'', ''subsystem'']))) @
           ''. If this value is truly low-cardinality, add it to _BOUNDED_LABEL_KEYS and update '' @
           ''docs/observability.md.''))
      else assert_bounded labels)"

definition record_duration ::
  "string \<Rightarrow> string \<Rightarrow> string \<Rightarrow> (string \<times> pyval) list \<Rightarrow> unit comp" where
  "record_duration event duration_ms status labels w =
     (case assert_bounded labels of
        Inl e \<Rightarrow> (Inl e, w)
      | Inr _ \<Rightarrow> emit_log ''core.metrics'' INFO ''%s metric'' [VStr event]
          (merge_extra [(''metric'', VStr ''duration''), (''event'', VStr event),
             (''duration_ms'', VFloat duration_ms), (''status'', VStr status)] labels) w)"

definition record_counter ::
  "string \<Rightarrow> string \<Rightarrow> int \<Rightarrow> (string \<times> pyval) list \<Rightarrow> unit comp" where
  "record_counter event status n labels w =
     (case assert_bounded labels of
        Inl e \<Rightarrow> (Inl e, w)
      | Inr _ \<Rightarrow> emit_log ''core.metrics'' INFO ''%s counter'' [VStr event]
          (merge_extra [(''metric'', VStr ''counter''), (''event'', VStr event),
             (''n'', VInt n), (''status'', VStr status)] labels) w)"

definition record_gauge :: "string \<Rightarrow> string \<Rightarrow> (string \<times> pyval) list \<Rightarrow> unit comp" where
  "record_gauge name val labels w =
     (case assert_bounded labels of
        Inl e \<Rightarrow> (Inl e, w)
      | Inr _ \<Rightarrow> emit_log ''core.metrics'' INFO ''%s gauge'' [VStr name]
          (merge_extra [(''metric'', VStr ''gauge''), (''event'', VStr name),
             (''value'', VFloat val)] labels) w)"

section \<open>Timed blocks\<close>

text \<open>\<open>isinstance(v, str | int | float)\<close>; a \<open>bool\<close> is an \<open>int\<close>.\<close>

fun is_scalar_label :: "pyval \<Rightarrow> bool" where
  "is_scalar_label (VStr s) = True"
| "is_scalar_label (VInt i) = True"
| "is_scalar_label (VFloat f) = True"
| "is_scalar_label (VBool b) = True"
| "is_scalar_label _ = False"

text \<open>
  The call \<open>record_duration(event, duration_ms, status=status, **bounded)\<close> is a \<open>TypeError\<close> when
  \<open>bounded\<close> repeats a parameter.
\<close>

definition record_metric_safe ::
  "string \<Rightarrow> string \<Rightarrow> string \<Rightarrow> (string \<times> pyval) list \<Rightarrow> unit comp" where
  "record_metric_safe event duration_ms status extras w =
     (let bounded = filter (\<lambda>(k, v). k \<in> set BOUNDED_LABEL_KEYS \<and> is_scalar_label v) extras in
      if ''status'' \<in> fst ` set bounded then
        (Inl (raw_exn PyTypeError (''core.metrics.record_duration() got multiple values for '' @
          ''keyword argument '' @ repr_str ''status'')), w)
      else if ''event'' \<in> fst ` set bounded then
        (Inl (raw_exn PyTypeError (''record_duration() got multiple values for argument '' @
          repr_str ''event'')), w)
      else record_duration event duration_ms status bounded w)"

definition log_duration ::
  "string \<Rightarrow> string \<Rightarrow> bool \<Rightarrow> (string \<times> pyval) list \<Rightarrow> string \<Rightarrow> 'a comp \<Rightarrow> 'a comp" where
  "log_duration logger event metric extras duration_ms body w =
     (case body w of
        (Inl e, w1) \<Rightarrow>
          (case emit_log logger ERROR ''%s failed after %.2fms'' [VStr event, VFloat duration_ms]
                  (merge_extra [(''event'', VStr event), (''duration_ms'', VFloat duration_ms),
                                (''ok'', VBool False)] extras) w1 of
             (Inl e', w2) \<Rightarrow> (Inl e', w2)
           | (Inr _, w2) \<Rightarrow>
               if metric then
                 (case record_metric_safe event duration_ms ''error'' extras w2 of
                    (Inl e', w3) \<Rightarrow> (Inl e', w3)
                  | (Inr _, w3) \<Rightarrow> (Inl e, w3))
               else (Inl e, w2))
      | (Inr a, w1) \<Rightarrow>
          (case emit_log logger INFO ''%s completed in %.2fms'' [VStr event, VFloat duration_ms]
                  (merge_extra [(''event'', VStr event), (''duration_ms'', VFloat duration_ms),
                                (''ok'', VBool True)] extras) w1 of
             (Inl e', w2) \<Rightarrow> (Inl e', w2)
           | (Inr _, w2) \<Rightarrow>
               if metric then
                 (case record_metric_safe event duration_ms ''ok'' extras w2 of
                    (Inl e', w3) \<Rightarrow> (Inl e', w3)
                  | (Inr _, w3) \<Rightarrow> (Inr a, w3))
               else (Inr a, w2)))"

record perf_timer =
  pt_start :: rat
  pt_end :: "rat option"

definition new_perf_timer :: "rat \<Rightarrow> perf_timer" where
  "new_perf_timer now = \<lparr>pt_start = now, pt_end = None\<rparr>"

definition elapsed_ms :: "perf_timer \<Rightarrow> rat \<Rightarrow> rat" where
  "elapsed_ms t now = ((case pt_end t of Some e \<Rightarrow> e | None \<Rightarrow> now) - pt_start t) * 1000"

definition stop_timer :: "rat \<Rightarrow> perf_timer \<Rightarrow> perf_timer" where
  "stop_timer now t = t\<lparr>pt_end := Some now\<rparr>"

section \<open>Function tracing\<close>

definition is_function_logging_enabled :: "string option \<Rightarrow> bool" where
  "is_function_logging_enabled env =
     (py_lower (py_strip (case env of Some v \<Rightarrow> v | None \<Rightarrow> ''false''))
        \<in> set [''1'', ''true'', ''yes'', ''on''])"

definition summarize :: "pyval \<Rightarrow> int \<Rightarrow> string" where
  "summarize obj max_length =
     (let scalar = (\<lambda>t. if int (length t) > max_length then slice_to t max_length @ ''...'' else t) in
      case obj of
        VDict d \<Rightarrow> ''<dict with '' @ nat_str (length d) @ '' keys>''
      | VSeq SList xs \<Rightarrow> ''<list with '' @ nat_str (length xs) @ '' items>''
      | VSeq STuple xs \<Rightarrow>
          (if xs \<noteq> [] then ''<tuple with '' @ nat_str (length xs) @ '' items>'' else ''<tuple>'')
      | VSeq SSet xs \<Rightarrow> ''<set>''
      | VSeq SFrozenset xs \<Rightarrow> ''<frozenset>''
      | VBytes b \<Rightarrow> ''<bytes>''
      | VObj t r \<Rightarrow> ''<'' @ t @ ''>''
      | _ \<Rightarrow> scalar (text_of obj))"

definition type_name :: "pyval \<Rightarrow> string" where
  "type_name v =
     (case v of VNone \<Rightarrow> ''NoneType'' | VBool b \<Rightarrow> ''bool'' | VInt i \<Rightarrow> ''int'' | VFloat f \<Rightarrow> ''float''
      | VStr s \<Rightarrow> ''str'' | VBytes s \<Rightarrow> ''bytes'' | VDict d \<Rightarrow> ''dict'' | VObj t s \<Rightarrow> t
      | VSeq k xs \<Rightarrow> (case k of SList \<Rightarrow> ''list'' | STuple \<Rightarrow> ''tuple'' | SSet \<Rightarrow> ''set''
                                 | SFrozenset \<Rightarrow> ''frozenset''))"

text \<open>
  The trace helpers; \<open>secs\<close> and \<open>ms\<close> are the rounded durations. The wrapper runs \<open>body\<close> (the wrapped
  function on its arguments).
\<close>

definition log_enter :: "string option \<Rightarrow> string \<Rightarrow> string \<Rightarrow> pyval list \<Rightarrow> pydict \<Rightarrow> unit comp" where
  "log_enter env lg func args kwargs w =
     (if \<not> is_function_logging_enabled env then (Inr (), w)
      else emit_log lg DEBUG ''Executing %s'' [VStr func]
        [(''func_args'', VStr (summarize (VSeq STuple args) 200)),
         (''func_kwargs'', VStr (summarize (VDict kwargs) 200)),
         (''args_count'', VInt (int (length args))), (''kwargs_count'', VInt (int (length kwargs))),
         (''event'', VStr ''function_enter'')] w)"

definition log_exit :: "string option \<Rightarrow> string \<Rightarrow> string \<Rightarrow> pyval \<Rightarrow> string \<Rightarrow> string \<Rightarrow> unit comp" where
  "log_exit env lg func res secs ms w =
     (if \<not> is_function_logging_enabled env then (Inr (), w)
      else emit_log lg DEBUG ''Completed %s'' [VStr func]
        [(''duration_seconds'', VFloat secs), (''duration_ms'', VFloat ms),
         (''result_summary'', VStr (summarize res 200)), (''result_type'', VStr (type_name res)),
         (''event'', VStr ''function_exit'')] w)"

definition log_error :: "string \<Rightarrow> string \<Rightarrow> exn \<Rightarrow> string \<Rightarrow> string \<Rightarrow> string \<Rightarrow> unit comp" where
  "log_error lg func e modname secs ms w =
     (case emit_log lg ERROR ''Function %s failed: %s'' [VStr func, VStr (class_name (exc_cls e))]
        [(''error_type'', VStr (class_name (exc_cls e))),
         (''error_message'', VStr (summarize (VStr (exc_message e)) 200)),
         (''duration_seconds'', VFloat secs), (''event'', VStr ''function_error'')] w of
       (Inl e', w1) \<Rightarrow> (Inl e', w1)
     | (Inr _, w1) \<Rightarrow>
         emit_log lg DEBUG ''Function %s raised exception - full stack trace'' [VStr func]
           [(''duration_seconds'', VFloat secs), (''duration_ms'', VFloat ms),
            (''error_type'', VStr (class_name (exc_cls e))),
            (''error_message_full'', VStr (exc_message e)),
            (''error_class'', VStr (class_name (exc_cls e))), (''error_module'', VStr modname),
            (''event'', VStr ''function_error_detailed'')] w1)"

definition log_function ::
  "string option \<Rightarrow> string \<Rightarrow> string \<Rightarrow> string \<Rightarrow> string \<Rightarrow> string \<Rightarrow> pyval list \<Rightarrow> pydict
     \<Rightarrow> pyval comp \<Rightarrow> pyval comp" where
  "log_function env lg func modname secs ms args kwargs body w =
     (case log_enter env lg func args kwargs w of
        (Inl e, w1) \<Rightarrow> (Inl e, w1)
      | (Inr _, w1) \<Rightarrow>
          (case (case body w1 of
                   (Inl e, w2) \<Rightarrow> (Inl e, w2)
                 | (Inr res, w2) \<Rightarrow>
                     (case log_exit env lg func res secs ms w2 of
                        (Inl e, w3) \<Rightarrow> (Inl e, w3)
                      | (Inr _, w3) \<Rightarrow> (Inr res, w3))) of
             (Inr res, w3) \<Rightarrow> (Inr res, w3)
           | (Inl e, w3) \<Rightarrow>
               if isinstance e PyException then
                 (case log_error lg func e modname secs ms w3 of
                    (Inl e', w4) \<Rightarrow> (Inl e', w4)
                  | (Inr _, w4) \<Rightarrow> (Inl e, w4))
               else (Inl e, w3)))"

section \<open>Middlewares\<close>

record http_request =
  rq_method :: string
  rq_path :: string
  rq_user :: "(int \<times> bool) option"
  rq_meta :: "(string \<times> string) list"

definition get_user_id :: "http_request \<Rightarrow> int option" where
  "get_user_id rq = (case rq_user rq of Some (pk, auth) \<Rightarrow> if auth then Some pk else None | None \<Rightarrow> None)"

definition client_ip :: "bool \<Rightarrow> http_request \<Rightarrow> string" where
  "client_ip use_xff rq =
     (let direct = (case or_str (map_of (rq_meta rq) ''REMOTE_ADDR'') None of
                      Some a \<Rightarrow> a | None \<Rightarrow> ''unknown'') in
      if use_xff then
        (case or_str (map_of (rq_meta rq) ''HTTP_X_FORWARDED_FOR'') None of
           Some xff \<Rightarrow> py_strip (hd (py_split '','' xff))
         | None \<Rightarrow>
             (case or_str (map_of (rq_meta rq) ''HTTP_X_REAL_IP'') None of
                Some ip \<Rightarrow> py_strip ip
              | None \<Rightarrow> direct))
      else direct)"

definition opt_int_val :: "int option \<Rightarrow> pyval" where
  "opt_int_val i = (case i of Some n \<Rightarrow> VInt n | None \<Rightarrow> VNone)"

definition extra_of :: "pyval \<Rightarrow> (string \<times> pyval) list" where
  "extra_of v = (case v of VDict d \<Rightarrow> map (\<lambda>(k, x). (key_str k, x)) d | _ \<Rightarrow> [])"

text \<open>The response is its status code, the only part the middlewares read.\<close>

definition request_logging ::
  "log_settings \<Rightarrow> bool \<Rightarrow> string \<Rightarrow> (http_request \<Rightarrow> int comp) \<Rightarrow> http_request \<Rightarrow> int comp" where
  "request_logging st use_xff duration_ms get_response rq w =
     (let lg = ''core.middleware.request_logging'' in
      case emit_log lg INFO ''Incoming request'' []
             (extra_of (safe_log_dict st
               [(''method'', VStr (rq_method rq)), (''path'', VStr (shorten (rq_path rq) 200)),
                (''user_id'', opt_int_val (get_user_id rq)),
                (''remote_addr'', VStr (client_ip use_xff rq))])) w of
        (Inl e, w1) \<Rightarrow> (Inl e, w1)
      | (Inr _, w1) \<Rightarrow>
          (case get_response rq w1 of
             (Inl e, w2) \<Rightarrow> (Inl e, w2)
           | (Inr status_code, w2) \<Rightarrow>
               (case emit_log lg INFO ''Request completed'' []
                       (extra_of (safe_log_dict st
                         [(''method'', VStr (rq_method rq)), (''path'', VStr (shorten (rq_path rq) 200)),
                          (''user_id'', opt_int_val (get_user_id rq)),
                          (''status_code'', VInt status_code), (''duration_ms'', VFloat duration_ms)])) w2 of
                  (Inl e, w3) \<Rightarrow> (Inl e, w3)
                | (Inr _, w3) \<Rightarrow> (Inr status_code, w3))))"

definition metrics_middleware ::
  "string \<Rightarrow> (http_request \<Rightarrow> int comp) \<Rightarrow> http_request \<Rightarrow> int comp" where
  "metrics_middleware duration_ms get_response rq w =
     (case get_response rq w of
        (Inl e, w1) \<Rightarrow> (Inl e, w1)
      | (Inr status_code, w1) \<Rightarrow>
          (case record_duration ''http_request'' duration_ms
                  (if status_code < 500 then ''ok'' else ''error'') [] w1 of
             (Inl e, w2) \<Rightarrow> (Inl e, w2)
           | (Inr _, w2) \<Rightarrow> (Inr status_code, w2)))"

section \<open>Lexical scoping of the identifiers\<close>

text \<open>
  Programs that log, fail and open nested \<open>domain_context\<close> blocks. \<open>run_scoped\<close> runs them on the
  context variables, each record passing the filter; \<open>lexical\<close> says what they should log by reading
  the identifiers off the enclosing blocks, with no mutable state at all. Its flag is the absence
  of an exception.
\<close>

datatype scoped =
    SEmit "(string \<times> pyval) list"
  | SFail exn
  | SSeq scoped scoped
  | SDomain "int option" "string option" "int option" scoped

definition log_attrs :: "(string \<times> pyval) list \<Rightarrow> ctx_world \<Rightarrow> ctx_world" where
  "log_attrs attrs w = w\<lparr>w_log := w_log w @ [\<lparr>lr_logger = [], lr_level = INFO, lr_msg = [], lr_args = [],
     lr_extra = filter_record w attrs\<rparr>]\<rparr>"

fun run_scoped :: "scoped \<Rightarrow> unit comp" where
  "run_scoped (SEmit attrs) w = (Inr (), log_attrs attrs w)"
| "run_scoped (SFail e) w = (Inl e, w)"
| "run_scoped (SSeq a b) w =
     (case run_scoped a w of (Inl e, w1) \<Rightarrow> (Inl e, w1) | (Inr _, w1) \<Rightarrow> run_scoped b w1)"
| "run_scoped (SDomain p a q body) w = domain_context p a q (run_scoped body) w"

definition inner_or :: "'a option \<Rightarrow> 'a option \<Rightarrow> 'a option" where
  "inner_or i outer = (if i \<noteq> None then i else outer)"

definition scoped_attrs ::
  "string option \<Rightarrow> int option \<Rightarrow> string option \<Rightarrow> int option \<Rightarrow> (string \<times> pyval) list
     \<Rightarrow> (string \<times> pyval) list" where
  "scoped_attrs rid p a q attrs =
     filter_record \<lparr>w_request_id = rid, w_partner_id = p, w_app_number = a, w_query_id = q, w_log = [], w_kit_id = None\<rparr>
       attrs"

fun lexical ::
  "string option \<Rightarrow> int option \<Rightarrow> string option \<Rightarrow> int option \<Rightarrow> scoped
     \<Rightarrow> (string \<times> pyval) list list \<times> exn option" where
  "lexical rid p a q (SEmit attrs) = ([scoped_attrs rid p a q attrs], None)"
| "lexical rid p a q (SFail e) = ([], Some e)"
| "lexical rid p a q (SSeq x y) =
     (let (l1, r1) = lexical rid p a q x in
      if r1 \<noteq> None then (l1, r1)
      else let (l2, r2) = lexical rid p a q y in (l1 @ l2, r2))"
| "lexical rid p a q (SDomain p' a' q' x) = lexical rid (inner_or p' p) (inner_or a' a) (inner_or q' q) x"

definition same_ids :: "ctx_world \<Rightarrow> ctx_world \<Rightarrow> bool" where
  "same_ids w w' \<longleftrightarrow> w_request_id w' = w_request_id w \<and> w_partner_id w' = w_partner_id w \<and>
     w_app_number w' = w_app_number w \<and> w_query_id w' = w_query_id w"

definition agrees :: "ctx_world \<Rightarrow> (exn + unit) \<times> ctx_world \<Rightarrow> (string \<times> pyval) list list \<times> exn option \<Rightarrow> bool" where
  "agrees w out spec \<longleftrightarrow>
     same_ids w (snd out) \<and> fst out = (case snd spec of Some e \<Rightarrow> Inl e | None \<Rightarrow> Inr ()) \<and>
     map lr_extra (w_log (snd out)) = map lr_extra (w_log w) @ fst spec"

abbreviation lexical_in :: "ctx_world \<Rightarrow> scoped \<Rightarrow> (string \<times> pyval) list list \<times> exn option" where
  "lexical_in w x \<equiv> lexical (w_request_id w) (w_partner_id w) (w_app_number w) (w_query_id w) x"

lemma filter_record_scoped:
  "filter_record w attrs =
     scoped_attrs (w_request_id w) (w_partner_id w) (w_app_number w) (w_query_id w) attrs"
  by (simp add: scoped_attrs_def filter_record_def)

lemma run_scoped_lexical: "agrees w (run_scoped x w) (lexical_in w x)"
proof (induction x arbitrary: w)
  case (SEmit attrs)
  then show ?case
    by (simp add: agrees_def same_ids_def log_attrs_def) (rule filter_record_scoped)
next
  case (SFail e)
  then show ?case by (simp add: agrees_def same_ids_def)
next
  case (SSeq x y)
  obtain r1 w1 where 1: "run_scoped x w = (r1, w1)" by force
  obtain l1 e1 where 2: "lexical_in w x = (l1, e1)" by force
  have ids: "same_ids w w1" and r: "r1 = (case e1 of Some e \<Rightarrow> Inl e | None \<Rightarrow> Inr ())"
    and lg: "map lr_extra (w_log w1) = map lr_extra (w_log w) @ l1"
    using SSeq.IH(1) [of w] by (auto simp: agrees_def 1 2)
  show ?case
  proof (cases e1)
    case (Some e)
    then show ?thesis using 1 2 ids r lg by (simp add: agrees_def)
  next
    case None
    then show ?thesis
      using 1 2 ids r lg SSeq.IH(2) [of w1]
      by (auto simp: agrees_def same_ids_def split_beta)
  qed
next
  case (SDomain p a q x)
  let ?w = "w\<lparr>w_partner_id := inner_or p (w_partner_id w), w_app_number := inner_or a (w_app_number w),
      w_query_id := inner_or q (w_query_id w)\<rparr>"
  obtain r w1 where 1: "run_scoped x ?w = (r, w1)" by force
  have entered: "(if q \<noteq> None then (if a \<noteq> None then (if p \<noteq> None then w\<lparr>w_partner_id := p\<rparr> else w)
         \<lparr>w_app_number := a\<rparr> else (if p \<noteq> None then w\<lparr>w_partner_id := p\<rparr> else w))\<lparr>w_query_id := q\<rparr>
       else (if a \<noteq> None then (if p \<noteq> None then w\<lparr>w_partner_id := p\<rparr> else w)\<lparr>w_app_number := a\<rparr>
         else (if p \<noteq> None then w\<lparr>w_partner_id := p\<rparr> else w))) = ?w"
    by (simp add: inner_or_def)
  have "agrees ?w (r, w1) (lexical_in ?w x)" using SDomain.IH [of ?w] 1 by simp
  then show ?case
    unfolding run_scoped.simps domain_context_def Let_def entered 1
    by (auto simp: agrees_def same_ids_def inner_or_def)
qed

text \<open>
  C26: \<open>domain_context\<close> gives the identifiers lexical scope. For any nesting of blocks, log calls and
  exceptions, every record carries what the enclosing blocks supply (innermost first), the outcome
  is the block's own, and when it ends, normally or by an exception, all context variables are back
  to what they were.
\<close>

theorem domain_context_lexical:
  "let out = run_scoped x w; spec = lexical_in w x in
     map lr_extra (w_log (snd out)) = map lr_extra (w_log w) @ fst spec \<and>
     fst out = (case snd spec of Some e \<Rightarrow> Inl e | None \<Rightarrow> Inr ()) \<and>
     same_ids w (snd out)"
  using run_scoped_lexical [of w x] by (simp add: agrees_def)

section \<open>The label gate\<close>

lemma bounded_not_forbidden: "k \<in> set BOUNDED_LABEL_KEYS \<Longrightarrow> k \<notin> set FORBIDDEN_LABEL_KEYS"
  by (auto simp: BOUNDED_LABEL_KEYS_def FORBIDDEN_LABEL_KEYS_def)

lemma bounded_not_reserved: "k \<in> set BOUNDED_LABEL_KEYS \<Longrightarrow> k \<notin> set LOG_RECORD_ATTRS"
  by (auto simp: BOUNDED_LABEL_KEYS_def LOG_RECORD_ATTRS_def)

lemma assert_bounded_iff:
  "assert_bounded labels = Inr () \<longleftrightarrow> fst ` set labels \<subseteq> set BOUNDED_LABEL_KEYS"
  using bounded_not_forbidden by (induction labels rule: assert_bounded.induct) auto

lemma first_reserved_iff:
  "first_reserved kvs = None \<longleftrightarrow> fst ` set kvs \<inter> set LOG_RECORD_ATTRS = {}"
  by (induction kvs rule: first_reserved.induct) auto

lemma keys_update: "fst ` set (AList.update k v d) = insert k (fst ` set d)"
  by (induction d) auto

lemma keys_merge_extra: "fst ` set (merge_extra a b) = fst ` set a \<union> fst ` set b"
  by (induction b arbitrary: a) (auto simp: merge_extra_def keys_update split_beta)

lemma merge_extra_unreserved:
  "first_reserved (merge_extra a b) = None \<longleftrightarrow> first_reserved a = None \<and> first_reserved b = None"
  by (auto simp: first_reserved_iff keys_merge_extra)

lemma bounded_unreserved:
  "fst ` set labels \<subseteq> set BOUNDED_LABEL_KEYS \<Longrightarrow> first_reserved labels = None"
  using bounded_not_reserved by (fastforce simp: first_reserved_iff)

lemma emit_log_ok:
  "first_reserved extra = None \<Longrightarrow>
     emit_log lg level msg args extra w =
       (Inr (), w\<lparr>w_log := w_log w @ [\<lparr>lr_logger = lg, lr_level = level, lr_msg = msg, lr_args = args,
          lr_extra = extra\<rparr>]\<rparr>)"
  by (simp add: emit_log_def)

lemma record_duration_ok:
  assumes "fst ` set labels \<subseteq> set BOUNDED_LABEL_KEYS"
  shows "record_duration event ms status labels w =
    emit_log ''core.metrics'' INFO ''%s metric'' [VStr event]
      (merge_extra [(''metric'', VStr ''duration''), (''event'', VStr event),
         (''duration_ms'', VFloat ms), (''status'', VStr status)] labels) w"
  using assms by (simp add: record_duration_def assert_bounded_iff [THEN iffD2])

lemma recorded_iff:
  assumes "first_reserved base = None"
  shows "w_log (snd (case assert_bounded labels of Inl e \<Rightarrow> (Inl e, w)
           | Inr _ \<Rightarrow> emit_log lg level msg args (merge_extra base labels) w)) \<noteq> w_log w
     \<longleftrightarrow> fst ` set labels \<subseteq> set BOUNDED_LABEL_KEYS"
  using assms bounded_unreserved [of labels] assert_bounded_iff [of labels]
  by (auto simp: emit_log_ok merge_extra_unreserved split: sum.splits)

text \<open>
  Nothing unbounded reaches a metric: each of the three recorders emits its record exactly when
  all label keys are on the allow-list, and no key of the allow-list is a forbidden one.
\<close>

theorem metrics_only_bounded_labels:
  "(w_log (snd (record_duration event ms status labels w)) \<noteq> w_log w
      \<longleftrightarrow> fst ` set labels \<subseteq> set BOUNDED_LABEL_KEYS) \<and>
   (w_log (snd (record_counter event status n labels w)) \<noteq> w_log w
      \<longleftrightarrow> fst ` set labels \<subseteq> set BOUNDED_LABEL_KEYS) \<and>
   (w_log (snd (record_gauge event ms labels w)) \<noteq> w_log w
      \<longleftrightarrow> fst ` set labels \<subseteq> set BOUNDED_LABEL_KEYS) \<and>
   set BOUNDED_LABEL_KEYS \<inter> set FORBIDDEN_LABEL_KEYS = {}"
  unfolding record_duration_def record_counter_def record_gauge_def
  by (intro conjI recorded_iff) (use bounded_not_forbidden in \<open>auto simp: LOG_RECORD_ATTRS_def\<close>)

section \<open>Transparency of the wrappers\<close>

definition metric_safe_extras :: "bool \<Rightarrow> (string \<times> pyval) list \<Rightarrow> bool" where
  "metric_safe_extras metric extras \<longleftrightarrow>
     first_reserved extras = None \<and>
     (metric \<longrightarrow> ''status'' \<notin> fst ` set extras \<and> ''event'' \<notin> fst ` set extras)"

lemma record_metric_safe_ok:
  assumes "metric_safe_extras True extras"
  shows "fst (record_metric_safe event ms status extras w) = Inr ()"
proof -
  let ?b = "filter (\<lambda>(k, v). k \<in> set BOUNDED_LABEL_KEYS \<and> is_scalar_label v) extras"
  have b: "fst ` set ?b \<subseteq> set BOUNDED_LABEL_KEYS" by auto
  have "''status'' \<notin> fst ` set ?b" "''event'' \<notin> fst ` set ?b"
    using assms by (auto simp: metric_safe_extras_def)
  then have "record_metric_safe event ms status extras w = record_duration event ms status ?b w"
    by (simp add: record_metric_safe_def Let_def)
  then show ?thesis
    using bounded_unreserved [OF b]
    by (simp add: record_duration_ok [OF b] emit_log_ok merge_extra_unreserved LOG_RECORD_ATTRS_def)
qed

text \<open>
  \<open>log_duration\<close> changes nothing for its caller: as long as no extra is a reserved record
  attribute and, with \<open>metric=True\<close>, none is named \<open>status\<close> or \<open>event\<close>, the block's value is
  returned and its exception is re-raised, whichever it was.
\<close>

theorem log_duration_transparent:
  assumes "metric_safe_extras metric extras"
  shows "fst (log_duration lg event metric extras ms body w) = fst (body w)"
proof -
  have safe: "r = Inr ()" if "record_metric_safe event ms st extras v = (r, v')" metric for st v r v'
    using record_metric_safe_ok [of extras event ms st v] assms that by simp
  have "first_reserved extras = None" using assms by (simp add: metric_safe_extras_def)
  then show ?thesis
    by (auto simp: log_duration_def emit_log_ok merge_extra_unreserved LOG_RECORD_ATTRS_def
        split: prod.splits sum.splits dest: safe)
qed

theorem log_duration_transparent_witness:
  "fst (log_duration ''app'' ''push'' True [(''app_number'', VStr ''A1''), (''outcome'', VStr ''success'')] ''1.5''
      (\<lambda>w. (Inl (raw_exn PyValueError ''boom'') :: exn + nat, w)) fresh_world)
   = Inl (raw_exn PyValueError ''boom'')"
proof -
  have "metric_safe_extras True [(''app_number'', VStr ''A1''), (''outcome'', VStr ''success'')]"
    by code_simp
  from log_duration_transparent [OF this, of "''app''" "''push''" "''1.5''"
      "\<lambda>w. (Inl (raw_exn PyValueError ''boom''), w)" fresh_world]
  show ?thesis by simp
qed

text \<open>
  With \<open>metric=True\<close> an extra named \<open>status\<close> (a bounded label, so it is forwarded) collides with
  the keyword the helper passes itself: the caller gets a \<open>TypeError\<close> instead of the block's value
  and, worse, instead of the exception the block raised.
\<close>

theorem log_duration_status_extra_masks_outcome:
  "fst (log_duration lg event True [(''status'', VStr v)] ms body w) =
     Inl (raw_exn PyTypeError (''core.metrics.record_duration() got multiple values for '' @
       ''keyword argument '' @ repr_str ''status''))"
proof -
  obtain r w1 where "body w = (r, w1)" by force
  then show ?thesis
    by (cases r)
       (simp_all add: log_duration_def emit_log_ok merge_extra_unreserved LOG_RECORD_ATTRS_def
         record_metric_safe_def BOUNDED_LABEL_KEYS_def)
qed

lemma trace_helpers_ok:
  "fst (log_enter env lg func args kwargs w) = Inr ()"
  "fst (log_exit env lg func res secs ms w) = Inr ()"
  "fst (log_error lg func e modname secs ms w) = Inr ()"
  by (simp_all add: log_enter_def log_exit_def log_error_def emit_log_ok LOG_RECORD_ATTRS_def)

lemma log_error_leaves_error:
  "\<exists>r \<in> set (w_log (snd (log_error lg func e modname secs ms w))).
     lr_level r = ERROR \<and> map_of (lr_extra r) ''error_type'' = Some (VStr (class_name (exc_cls e)))"
  by (simp add: log_error_def emit_log_ok LOG_RECORD_ATTRS_def)

text \<open>
  The tracing decorator is invisible and never blind: whatever the flag, the wrapped call's value
  is returned and its exception re-raised, and an \<open>Exception\<close> always leaves an \<open>ERROR\<close> record naming
  its type, also when tracing is off.
\<close>

theorem log_function_transparent:
  "let w1 = snd (log_enter env lg func args kwargs w);
       out = log_function env lg func modname secs ms args kwargs body w in
   fst out = fst (body w1) \<and>
   (case fst (body w1) of
      Inr _ \<Rightarrow> True
    | Inl e \<Rightarrow> \<not> isinstance e PyException \<or>
        (\<exists>r \<in> set (w_log (snd out)). lr_level r = ERROR \<and>
           map_of (lr_extra r) ''error_type'' = Some (VStr (class_name (exc_cls e)))))"
proof -
  obtain w1 where 1: "log_enter env lg func args kwargs w = (Inr (), w1)"
    using trace_helpers_ok(1) by (metis prod.collapse)
  obtain r w2 where 2: "body w1 = (r, w2)" by force
  show ?thesis
  proof (cases r)
    case (Inl e)
    obtain w3 where "log_error lg func e modname secs ms w2 = (Inr (), w3)"
      using trace_helpers_ok(3) by (metis prod.collapse)
    then show ?thesis
      using 1 2 Inl log_error_leaves_error [of lg func e modname secs ms w2]
      by (simp add: log_function_def)
  next
    case (Inr res)
    obtain w3 where "log_exit env lg func res secs ms w2 = (Inr (), w3)"
      using trace_helpers_ok(2) by (metis prod.collapse)
    then show ?thesis using 1 2 Inr by (simp add: log_function_def)
  qed
qed

definition idle_world :: ctx_world where
  "idle_world = \<lparr>w_request_id = None, w_partner_id = None, w_app_number = None, w_query_id = None, w_log = [],
     w_kit_id = None\<rparr>"

theorem log_function_transparent_witness:
  "\<exists>r \<in> set (w_log (snd (log_function None ''app'' ''f'' ''m'' ''0.1'' ''100'' [] []
      (\<lambda>w. (Inl (raw_exn PyValueError ''boom''), w)) idle_world))).
     map_of (lr_extra r) ''error_type'' = Some (VStr ''ValueError'')"
proof -
  have "isinstance (raw_exn PyValueError ''boom'') PyException"
    by (simp add: isinstance_def issubclass_def raw_exn_def)
  moreover have "class_name (exc_cls (raw_exn PyValueError ''boom'')) = ''ValueError''" by (simp add: raw_exn_def)
  ultimately show ?thesis
    using log_function_transparent [of None "''app''" "''f''" "[]" "[]" idle_world "''m''" "''0.1''" "''100''"
      "\<lambda>w. (Inl (raw_exn PyValueError ''boom''), w)"]
    by (auto simp: Let_def)
qed

section \<open>The client address\<close>

text \<open>
  Without \<open>USE_X_FORWARDED_FOR\<close> a client cannot choose its own address: no header changes what
  \<open>client_ip\<close> answers, only the socket peer does, and the answer is never blank.
\<close>

theorem client_ip_ignores_headers:
  assumes "map_of (rq_meta rq) ''REMOTE_ADDR'' = map_of (rq_meta rq') ''REMOTE_ADDR''"
  shows "client_ip False rq = client_ip False rq' \<and> client_ip False rq \<noteq> []"
  using assms by (auto simp: client_ip_def or_str_def split: option.splits)

theorem client_ip_ignores_headers_witness:
  "client_ip False \<lparr>rq_method = ''GET'', rq_path = ''/'', rq_user = None,
     rq_meta = [(''REMOTE_ADDR'', ''10.0.0.9''), (''HTTP_X_FORWARDED_FOR'', ''127.0.0.1'')]\<rparr> = ''10.0.0.9''"
  using client_ip_ignores_headers [of
      "\<lparr>rq_method = ''GET'', rq_path = ''/'', rq_user = None,
        rq_meta = [(''REMOTE_ADDR'', ''10.0.0.9''), (''HTTP_X_FORWARDED_FOR'', ''127.0.0.1'')]\<rparr>"
      "\<lparr>rq_method = ''GET'', rq_path = ''/'', rq_user = None, rq_meta = [(''REMOTE_ADDR'', ''10.0.0.9'')]\<rparr>"]
  by (simp add: client_ip_def or_str_def)

text \<open>
  Behind a trusted proxy the answer can be blank, against the promise that it never is: a
  forwarded header that starts with a comma has an empty first hop, and neither \<open>X-Real-IP\<close> nor the
  peer is consulted then.
\<close>

theorem client_ip_can_be_blank:
  "client_ip True \<lparr>rq_method = m, rq_path = p, rq_user = u,
     rq_meta = [(''HTTP_X_FORWARDED_FOR'', '', 10.0.0.9''), (''HTTP_X_REAL_IP'', ''10.0.0.9''),
                (''REMOTE_ADDR'', ''10.0.0.1'')]\<rparr> = []"
proof -
  have "py_strip (hd (py_split '','' '', 10.0.0.9'')) = []" by code_simp
  then show ?thesis by (simp add: client_ip_def or_str_def)
qed

end
