(* ===== verification/ApiLog.thy ===== *)
theory ApiLog
  imports RequestContext Dispatch
begin

text \<open>
  The audit pipeline, \<open>apps/core/api_log/\<close> with \<open>apps/core/db/transaction.py\<close>: the payload
  sanitizers, the error summary, the backend and queue wiring, the time-and-dispatch orchestrator
  and the two decorators that build the rows. The JSON library and UTF-8 decoding are a record of
  functions, so the theorems hold for whatever they compute.
\<close>

section \<open>Sanitizers\<close>

text \<open>
  \<open>json.loads\<close> (\<open>None\<close>: \<open>ValueError\<close>), \<open>json.dumps(..., default=str)\<close> (\<open>None\<close>: it raised) and
  \<open>bytes.decode("utf-8", errors="replace")\<close>.
\<close>

record codec =
  json_loads :: "string \<Rightarrow> pyval option"
  json_dumps :: "pyval \<Rightarrow> string option"
  utf8_decode :: "string \<Rightarrow> string"

text \<open>The settings the pipeline reads; \<open>None\<close> is an absent setting.\<close>

record api_settings =
  API_LOG_SENSITIVE_HEADERS :: "string list option"
  API_LOG_MAX_BODY_LEN :: "int option"
  API_LOG_TTL_DAYS :: "int option"
  API_LOG_BACKEND :: "string option"
  API_LOG_QUEUE_MAX_IN_FLIGHT :: "int option"
  API_LOG_QUEUE_WORKERS :: "int option"
  sanitization :: log_settings

definition DEFAULT_SENSITIVE :: "string list" where
  "DEFAULT_SENSITIVE = [''authorization'', ''cookie'', ''set-cookie'', ''x-api-key'', ''x-auth-token'',
     ''proxy-authorization'']"

definition sensitive_headers :: "api_settings \<Rightarrow> string list" where
  "sensitive_headers cfg =
     map py_lower (case API_LOG_SENSITIVE_HEADERS cfg of Some hs \<Rightarrow> hs | None \<Rightarrow> DEFAULT_SENSITIVE)"

definition redact_headers ::
  "api_settings \<Rightarrow> (string \<times> string) list \<Rightarrow> (string \<times> string) list" where
  "redact_headers cfg headers =
     map (\<lambda>(k, v). (k, if py_lower k \<in> set (sensitive_headers cfg) then ''[REDACTED]'' else v)) headers"

definition ellipsis :: string where
  "ellipsis = [CHR 0x85]"

definition truncate_text :: "string option \<Rightarrow> int \<Rightarrow> string option" where
  "truncate_text text max_len =
     (case text of
        None \<Rightarrow> None
      | Some t \<Rightarrow> Some (if int (length t) \<le> max_len then t
                        else slice_to t max_len @ ellipsis @ ''[truncated]''))"

definition audit_safe :: "pyval \<Rightarrow> pyval" where
  "audit_safe v =
     (case v of VBytes b \<Rightarrow> str_dict [(''__bytes__'', VBool True), (''size_bytes'', VInt (int (length b)))]
      | _ \<Rightarrow> v)"

text \<open>
  A body as \<open>summarise_body_for_audit\<close> tells them apart: a \<open>QueryDict\<close> (each key with its list), a
  multipart encoder object (its fields: the \<open>name\<close> attribute and \<open>str()\<close>; \<open>None\<close> when reading them
  raises) or any other value.
\<close>

datatype form_item =
    FFile "string option" "string option" "int option"
  | FBytes string
  | FStr string
  | FOther string

datatype audit_body =
    BQueryDict "(string \<times> form_item list) list"
  | BEncoder pyval "(string option \<times> string) list option"
  | BValue pyval

definition opt_str_val :: "string option \<Rightarrow> pyval" where
  "opt_str_val s = (case s of Some t \<Rightarrow> VStr t | None \<Rightarrow> VNone)"

definition form_entry :: "string \<Rightarrow> form_item \<Rightarrow> (string \<times> pyval) list" where
  "form_entry key item =
     (''name'', VStr key) #
     (case item of
        FFile name ctype sz \<Rightarrow>
          (''filename'', opt_str_val name) #
          (case or_str ctype None of Some c \<Rightarrow> [(''content_type'', VStr c)] | None \<Rightarrow> []) @
          [(''size_bytes'', opt_int_val sz)]
      | FBytes b \<Rightarrow> [(''size_bytes'', VInt (int (length b)))]
      | FStr s \<Rightarrow> [(''value'', VStr (if length s \<le> 200 then s else take 200 s @ ellipsis))]
      | FOther t \<Rightarrow> [(''value'', VStr t)])"

definition form_entries :: "(string \<times> form_item list) list \<Rightarrow> (string \<times> (string \<times> pyval) list) list" where
  "form_entries qd = concat (map (\<lambda>(key, items). map (\<lambda>i. (key, form_entry key i)) items) qd)"

definition scalar_view :: "(string \<times> (string \<times> pyval) list) list \<Rightarrow> pydict" where
  "scalar_view flds =
     fold (\<lambda>(key, e) d. case map_of e ''value'' of Some v \<Rightarrow> dset key v d | None \<Rightarrow> d) flds []"

definition redact_entry :: "pyval \<Rightarrow> string \<times> (string \<times> pyval) list \<Rightarrow> pyval" where
  "redact_entry redacted ke =
     (case ke of (key, e) \<Rightarrow>
        str_dict
          (case redacted of
             VDict d \<Rightarrow>
               (case (map_of e ''value'', dget d key) of
                  (Some _, Some v) \<Rightarrow> AList.update ''value'' v e
                | _ \<Rightarrow> e)
           | _ \<Rightarrow> e))"

definition summarise_body_for_audit :: "log_settings \<Rightarrow> audit_body \<Rightarrow> pyval" where
  "summarise_body_for_audit st body =
     (case body of
        BQueryDict qd \<Rightarrow>
          let flds = form_entries qd;
              redacted_scalars = sanitize_for_log st (VDict (scalar_view flds)) None None None
          in str_dict [(''__multipart__'', VBool True),
                       (''fields'', VList (map (redact_entry redacted_scalars) flds))]
      | BEncoder v flds \<Rightarrow>
          (case flds of
             Some fs \<Rightarrow>
               str_dict [(''__multipart__'', VBool True),
                 (''fields'', VList (map (\<lambda>(n, t). str_dict [(''name'', VStr
                    (case or_str n None of Some x \<Rightarrow> x | None \<Rightarrow> t))]) fs))]
           | None \<Rightarrow> audit_safe v)
      | BValue v \<Rightarrow> (case v of VNone \<Rightarrow> VNone | _ \<Rightarrow> audit_safe v))"

definition max_body_len :: "api_settings \<Rightarrow> int option \<Rightarrow> int" where
  "max_body_len cfg max_len =
     (case max_len of Some n \<Rightarrow> n
      | None \<Rightarrow> (case API_LOG_MAX_BODY_LEN cfg of Some n \<Rightarrow> n | None \<Rightarrow> 4096))"

definition serialize_error_body :: "codec \<Rightarrow> api_settings \<Rightarrow> pyval \<Rightarrow> int option \<Rightarrow> string option" where
  "serialize_error_body js cfg body max_len =
     (case body of
        VNone \<Rightarrow> None
      | VStr s \<Rightarrow> truncate_text (Some s) (max_body_len cfg max_len)
      | _ \<Rightarrow> truncate_text (Some (case json_dumps js body of Some t \<Rightarrow> t | None \<Rightarrow> text_of body))
               (max_body_len cfg max_len))"

definition try_parse_json :: "codec \<Rightarrow> string \<Rightarrow> pyval \<Rightarrow> pyval" where
  "try_parse_json js text fallback =
     (case json_loads js text of
        None \<Rightarrow> fallback
      | Some parsed \<Rightarrow> if is_dict parsed \<or> is_list parsed then parsed else fallback)"

text \<open>\<open>None\<close> as value also stands for \<open>UNSET\<close>.\<close>

definition serialize_body :: "codec \<Rightarrow> api_settings \<Rightarrow> pyval \<Rightarrow> int option \<Rightarrow> string option" where
  "serialize_body js cfg v max_len =
     (if v = VNone then None
      else
        let n = max_body_len cfg max_len;
            structured = (case v of
                            VBytes b \<Rightarrow> (let d = utf8_decode js b in try_parse_json js d (VStr d))
                          | VStr s \<Rightarrow> try_parse_json js s (VStr s)
                          | _ \<Rightarrow> v);
            redacted = sanitize_for_log (sanitization cfg) structured (Some n) None None
        in case redacted of
             VStr t \<Rightarrow> truncate_text (Some t) n
           | _ \<Rightarrow> (case json_dumps js redacted of Some t \<Rightarrow> truncate_text (Some t) n | None \<Rightarrow> None))"

text \<open>\<open>now\<close> is the epoch time in seconds.\<close>

definition compute_ttl :: "api_settings \<Rightarrow> rat \<Rightarrow> int option" where
  "compute_ttl cfg now =
     (let days = (case API_LOG_TTL_DAYS cfg of Some d \<Rightarrow> d | None \<Rightarrow> 0) in
      if days \<le> 0 then None else Some \<lfloor>now + of_int (days * 86400)\<rfloor>)"

section \<open>Error messages\<close>

definition build_error_message :: "exn \<Rightarrow> string" where
  "build_error_message e =
     py_join '' | ''
       ((class_name (exc_cls e) @ '': '' @ exc_message e) #
        (if isinstance e BaseCustomError then
           (case status_attr e of Some n \<Rightarrow> [''status_code='' @ int_str n] | None \<Rightarrow> []) @
           (case get_details e of
              Some d \<Rightarrow> if d \<noteq> [] then [''details='' @ text_of (VDict d)] else []
            | None \<Rightarrow> []) @
           (case exc_fields e of
              ApiFields (Some b) _ \<Rightarrow> if b \<noteq> [] then [''response_body='' @ b] else []
            | _ \<Rightarrow> [])
         else []))"

section \<open>Rows, backends and wiring\<close>

datatype direction = INBOUND | OUTBOUND

record api_row =
  row_direction :: direction
  row_service_name :: string
  row_request_id :: string
  row_method :: string
  row_url :: string
  row_status_code :: pyval
  row_duration_ms :: string
  row_request_headers :: "(string \<times> string) list"
  row_request_body :: "string option"
  row_response_headers :: "(string \<times> string) list"
  row_response_body :: "string option"
  row_error :: "(string \<times> string) option"

datatype backend = NoopApiLogBackend | OrmApiLogBackend

definition build_backend :: "api_settings \<Rightarrow> backend" where
  "build_backend cfg =
     (let name = py_lower (py_strip (case API_LOG_BACKEND cfg of Some n \<Rightarrow> n | None \<Rightarrow> ''orm'')) in
      if name = ''noop'' then NoopApiLogBackend
      else if name \<in> set [''orm'', ''django'', ''db''] then OrmApiLogBackend
      else OrmApiLogBackend)"

text \<open>
  The module state of the pipeline: the cached backend, the \<open>api_log\<close> queue of the registry (absent
  until first use) with its drop counter, what the noop backend retains, the \<open>api_logs\<close> table, and
  the number of records the failure branches log.
\<close>

record audit_state =
  au_backend :: "backend option"
  au_queue :: "(backend \<times> api_row) pyqueue option"
  au_dropped :: nat
  au_noop_rows :: "api_row list"
  au_table :: "api_row list"
  au_failures :: nat

definition empty_audit :: audit_state where
  "empty_audit = \<lparr>au_backend = None, au_queue = None, au_dropped = 0, au_noop_rows = [], au_table = [],
     au_failures = 0\<rparr>"

text \<open>A \<open>ThreadPoolExecutor\<close> refuses a worker count that is not positive.\<close>

definition ensure_queue ::
  "api_settings \<Rightarrow> audit_state \<Rightarrow> (exn + (backend \<times> api_row) pyqueue) \<times> audit_state" where
  "ensure_queue cfg s =
     (case au_queue s of
        Some q \<Rightarrow> (Inr q, s)
      | None \<Rightarrow>
          if (case API_LOG_QUEUE_WORKERS cfg of Some n \<Rightarrow> n | None \<Rightarrow> 4) \<le> 0
          then (Inl (raw_exn PyValueError ''max_workers must be greater than 0''), s)
          else let q = new_pyqueue (case API_LOG_QUEUE_MAX_IN_FLIGHT cfg of Some n \<Rightarrow> n | None \<Rightarrow> 1000)
               in (Inr q, s\<lparr>au_queue := Some q, au_dropped := 0\<rparr>))"

definition get_backend :: "api_settings \<Rightarrow> audit_state \<Rightarrow> backend \<times> audit_state" where
  "get_backend cfg s =
     (case au_backend s of
        Some b \<Rightarrow> (b, s)
      | None \<Rightarrow> (build_backend cfg, s\<lparr>au_backend := Some (build_backend cfg)\<rparr>))"

definition init_repository :: "api_settings \<Rightarrow> audit_state \<Rightarrow> (exn + unit) \<times> audit_state" where
  "init_repository cfg s =
     (case ensure_queue cfg (snd (get_backend cfg s)) of
        (Inl e, s1) \<Rightarrow> (Inl e, s1)
      | (Inr q, s1) \<Rightarrow> (Inr (), s1))"

definition reset_for_tests :: "audit_state \<Rightarrow> audit_state" where
  "reset_for_tests s = s\<lparr>au_backend := None\<rparr>"

text \<open>\<open>FireAndForgetQueue.submit\<close> on the api_log queue, as one call.\<close>

definition submit_row :: "backend \<times> api_row \<Rightarrow> audit_state \<Rightarrow> bool \<times> audit_state" where
  "submit_row task s =
     (case au_queue s of
        None \<Rightarrow> (False, s)
      | Some q \<Rightarrow>
          (case put_nowait task q of
             Some q' \<Rightarrow> (True, s\<lparr>au_queue := Some q'\<rparr>)
           | None \<Rightarrow> (False, s\<lparr>au_dropped := Suc (au_dropped s)\<rparr>)))"

text \<open>
  \<open>best_effort_atomic\<close>: the block runs in a transaction on the database \<open>db\<close>; an \<open>Exception\<close> rolls it
  back, is logged and swallowed. The result's flag says whether it was logged.
\<close>

definition best_effort_atomic :: "('db \<Rightarrow> exn + 'db) \<Rightarrow> 'db \<Rightarrow> (exn + bool) \<times> 'db" where
  "best_effort_atomic block db =
     (case block db of
        Inr db' \<Rightarrow> (Inr False, db')
      | Inl e \<Rightarrow> if isinstance e PyException then (Inr True, db) else (Inl e, db))"

text \<open>\<open>persist\<close>, with what the ORM's \<open>create\<close> does to the table as \<open>create\<close>.\<close>

definition persist ::
  "(api_row \<Rightarrow> api_row list \<Rightarrow> exn + api_row list) \<Rightarrow> backend \<times> api_row \<Rightarrow> audit_state
     \<Rightarrow> (exn + unit) \<times> audit_state" where
  "persist create task s =
     (case task of
        (NoopApiLogBackend, row) \<Rightarrow> (Inr (), s\<lparr>au_noop_rows := au_noop_rows s @ [row]\<rparr>)
      | (OrmApiLogBackend, row) \<Rightarrow>
          (case best_effort_atomic (create row) (au_table s) of
             (Inl e, t) \<Rightarrow> (Inl e, s\<lparr>au_table := t\<rparr>)
           | (Inr logged, t) \<Rightarrow>
               (Inr (), s\<lparr>au_table := t,
                  au_failures := (if logged then Suc (au_failures s) else au_failures s)\<rparr>)))"

section \<open>Time and dispatch\<close>

definition fire_and_forget :: "api_settings \<Rightarrow> api_row \<Rightarrow> audit_state \<Rightarrow> audit_state" where
  "fire_and_forget cfg row s =
     (case ensure_queue cfg s of
        (Inl e, s1) \<Rightarrow> s1\<lparr>au_failures := Suc (au_failures s1)\<rparr>
      | (Inr q, s1) \<Rightarrow>
          (let (b, s2) = get_backend cfg s1 in snd (submit_row (b, row) s2)))"

text \<open>
  A builder is a function of the optional \<open>log_id\<close>, the result or exception and the elapsed
  milliseconds; it may raise.
\<close>

type_synonym 'r row_builder = "string option \<Rightarrow> 'r option \<Rightarrow> exn option \<Rightarrow> string \<Rightarrow> exn + api_row"

definition build_with_log_id ::
  "'r row_builder \<Rightarrow> string \<Rightarrow> 'r option \<Rightarrow> exn option \<Rightarrow> string \<Rightarrow> exn + api_row" where
  "build_with_log_id build_row log_id res exc elapsed =
     (case build_row (Some log_id) res exc elapsed of
        Inl e \<Rightarrow> if isinstance e PyTypeError then build_row None res exc elapsed else Inl e
      | Inr row \<Rightarrow> Inr row)"

text \<open>
  The wrapped callable acts on the program state \<open>'w\<close> and on the pipeline (it may make audited calls
  itself). An exception of the builder that is no \<open>Exception\<close> escapes, as in the code.
\<close>

definition capture_and_dispatch ::
  "api_settings \<Rightarrow> string \<Rightarrow> string \<Rightarrow> 'r row_builder \<Rightarrow> ('w \<times> audit_state \<Rightarrow> (exn + 'r) \<times> 'w \<times> audit_state)
     \<Rightarrow> 'w \<times> audit_state \<Rightarrow> (exn + 'r) \<times> 'w \<times> audit_state" where
  "capture_and_dispatch cfg log_id elapsed build_row fn ws =
     (case fn ws of
        (Inl exc, w, s) \<Rightarrow>
          (case build_with_log_id build_row log_id None (Some exc) elapsed of
             Inr row \<Rightarrow> (Inl exc, w, fire_and_forget cfg row s)
           | Inl e \<Rightarrow>
               if isinstance e PyException then (Inl exc, w, s\<lparr>au_failures := Suc (au_failures s)\<rparr>)
               else (Inl e, w, s))
      | (Inr res, w, s) \<Rightarrow>
          (case build_with_log_id build_row log_id (Some res) None elapsed of
             Inr row \<Rightarrow> (Inr res, w, fire_and_forget cfg row s)
           | Inl e \<Rightarrow>
               if isinstance e PyException then (Inr res, w, s\<lparr>au_failures := Suc (au_failures s)\<rparr>)
               else (Inl e, w, s)))"

section \<open>The decorators\<close>

text \<open>
  What the inbound builder reads of the request (\<open>None\<close> where reading it raises) and of the view's
  response.
\<close>

record view_request =
  vr_method :: string
  vr_path :: string
  vr_content_type :: string
  vr_headers :: "(string \<times> string) list option"
  vr_body :: "string option"
  vr_post :: "(string \<times> form_item list) list"
  vr_files :: "(string \<times> form_item) list"

record view_response =
  vp_status_code :: pyval
  vp_data :: pyval
  vp_headers :: "(string \<times> string) list option"

definition appendlist ::
  "(string \<times> form_item list) list \<Rightarrow> string \<times> form_item \<Rightarrow> (string \<times> form_item list) list" where
  "appendlist qd kv =
     (case kv of (k, v) \<Rightarrow>
        AList.update k ((case map_of qd k of Some xs \<Rightarrow> xs | None \<Rightarrow> []) @ [v]) qd)"

definition inbound_request_body :: "codec \<Rightarrow> api_settings \<Rightarrow> view_request \<Rightarrow> string option" where
  "inbound_request_body js cfg rq =
     (if prefix ''multipart/form-data'' (py_lower (vr_content_type rq)) then
        serialize_body js cfg
          (summarise_body_for_audit (sanitization cfg)
             (BQueryDict (foldl appendlist (vr_post rq) (vr_files rq)))) None
      else serialize_body js cfg (case vr_body rq of Some b \<Rightarrow> VBytes b | None \<Rightarrow> VNone) None)"

definition error_pair :: "exn \<Rightarrow> string \<times> string" where
  "error_pair e = (class_name (exc_cls e), build_error_message e)"

definition request_headers :: "view_request option \<Rightarrow> (string \<times> string) list" where
  [simp]: "request_headers rq = (case rq of Some r \<Rightarrow> (case vr_headers r of Some h \<Rightarrow> h | None \<Rightarrow> []) | None \<Rightarrow> [])"

definition inbound_row ::
  "codec \<Rightarrow> api_settings \<Rightarrow> string \<Rightarrow> string option \<Rightarrow> view_request option \<Rightarrow>
     view_response option \<Rightarrow> exn option \<Rightarrow> string \<Rightarrow> api_row" where
  "inbound_row js cfg service rid rq res exc elapsed =
     \<lparr>row_direction = INBOUND,
      row_service_name = service,
      row_request_id = (case rid of Some r \<Rightarrow> r | None \<Rightarrow> []),
      row_method = (case rq of Some r \<Rightarrow> vr_method r | None \<Rightarrow> []),
      row_url = (case rq of Some r \<Rightarrow> vr_path r | None \<Rightarrow> []),
      row_status_code = (case (exc, res) of (None, Some p) \<Rightarrow> vp_status_code p | _ \<Rightarrow> VNone),
      row_duration_ms = elapsed,
      row_request_headers =
        redact_headers cfg (request_headers rq),
      row_request_body = (case rq of Some r \<Rightarrow> inbound_request_body js cfg r | None \<Rightarrow> None),
      row_response_headers =
        redact_headers cfg (case (exc, res) of
          (None, Some p) \<Rightarrow> (case vp_headers p of Some h \<Rightarrow> h | None \<Rightarrow> []) | _ \<Rightarrow> []),
      row_response_body =
        (case (exc, res) of (None, Some p) \<Rightarrow> serialize_body js cfg (vp_data p) None | _ \<Rightarrow> None),
      row_error = map_option error_pair exc\<rparr>"

text \<open>Neither builder has a \<open>log_id\<close> parameter: passing one is a \<open>TypeError\<close>.\<close>

definition unexpected_kwarg :: exn where
  "unexpected_kwarg = raw_exn PyTypeError ''build_row() got an unexpected keyword argument: log_id''"

definition inbound_builder ::
  "codec \<Rightarrow> api_settings \<Rightarrow> string \<Rightarrow> string option \<Rightarrow> view_request option \<Rightarrow> view_response row_builder" where
  "inbound_builder js cfg service rid rq log_id res exc elapsed =
     (if log_id \<noteq> None then Inl unexpected_kwarg
      else Inr (inbound_row js cfg service rid rq res exc elapsed))"

definition log_inbound ::
  "codec \<Rightarrow> api_settings \<Rightarrow> string \<Rightarrow> string option \<Rightarrow> string \<Rightarrow> string \<Rightarrow> view_request option
     \<Rightarrow> ('w \<times> audit_state \<Rightarrow> (exn + view_response) \<times> 'w \<times> audit_state)
     \<Rightarrow> 'w \<times> audit_state \<Rightarrow> (exn + view_response) \<times> 'w \<times> audit_state" where
  "log_inbound js cfg service rid log_id elapsed rq view ws =
     capture_and_dispatch cfg log_id elapsed (inbound_builder js cfg service rid rq) view ws"

text \<open>The outbound result: its \<open>request\<close> context (a dict or anything else), status, body and headers.\<close>

record out_request =
  or_url :: pyval
  or_method :: pyval
  or_headers :: "(string \<times> string) list option"
  or_body :: pyval

record out_result =
  ot_request :: "out_request option"
  ot_status_code :: pyval
  ot_body :: pyval
  ot_headers :: "(string \<times> string) list option"

definition str_or_empty :: "pyval \<Rightarrow> string" where
  "str_or_empty v = (if truthy v then text_of v else [])"

definition outbound_row ::
  "codec \<Rightarrow> api_settings \<Rightarrow> string \<Rightarrow> string option \<Rightarrow> out_result option \<Rightarrow> exn option \<Rightarrow> string \<Rightarrow> api_row" where
  "outbound_row js cfg service rid res exc elapsed =
     (let ctx = (if exc = None then (case res of Some r \<Rightarrow> ot_request r | None \<Rightarrow> None) else None);
          ok = (if exc = None then res else None)
      in \<lparr>row_direction = OUTBOUND,
          row_service_name = service,
          row_request_id = (case rid of Some r \<Rightarrow> r | None \<Rightarrow> []),
          row_method = (case ctx of Some c \<Rightarrow> str_or_empty (or_method c) | None \<Rightarrow> []),
          row_url = (case ctx of Some c \<Rightarrow> str_or_empty (or_url c) | None \<Rightarrow> []),
          row_status_code = (case ok of Some r \<Rightarrow> ot_status_code r | None \<Rightarrow> VNone),
          row_duration_ms = elapsed,
          row_request_headers = redact_headers cfg
            (case ctx of Some c \<Rightarrow> (case or_headers c of Some h \<Rightarrow> h | None \<Rightarrow> []) | None \<Rightarrow> []),
          row_request_body = (case ctx of Some c \<Rightarrow> serialize_body js cfg (or_body c) None | None \<Rightarrow> None),
          row_response_headers = redact_headers cfg
            (case ok of Some r \<Rightarrow> (case ot_headers r of Some h \<Rightarrow> h | None \<Rightarrow> []) | None \<Rightarrow> []),
          row_response_body = (case ok of Some r \<Rightarrow> serialize_body js cfg (ot_body r) None | None \<Rightarrow> None),
          row_error = map_option error_pair exc\<rparr>)"

definition outbound_builder ::
  "codec \<Rightarrow> api_settings \<Rightarrow> string \<Rightarrow> string option \<Rightarrow> out_result row_builder" where
  "outbound_builder js cfg service rid log_id res exc elapsed =
     (if log_id \<noteq> None then Inl unexpected_kwarg
      else Inr (outbound_row js cfg service rid res exc elapsed))"

definition log_outbound ::
  "codec \<Rightarrow> api_settings \<Rightarrow> string \<Rightarrow> string option \<Rightarrow> string \<Rightarrow> string
     \<Rightarrow> ('w \<times> audit_state \<Rightarrow> (exn + out_result) \<times> 'w \<times> audit_state)
     \<Rightarrow> 'w \<times> audit_state \<Rightarrow> (exn + out_result) \<times> 'w \<times> audit_state" where
  "log_outbound js cfg service rid log_id elapsed fn ws =
     capture_and_dispatch cfg log_id elapsed (outbound_builder js cfg service rid) fn ws"

section \<open>What reaches a row\<close>

lemma redact_headers_spec:
  "(k, v) \<in> set (redact_headers cfg hs) \<Longrightarrow> py_lower k \<in> set (sensitive_headers cfg) \<Longrightarrow> v = ''[REDACTED]''"
  by (auto simp: redact_headers_def)

text \<open>
  No audit row carries the value of a sensitive header, in whatever case the header is written:
  inbound and outbound, request and response, on success and on error.
\<close>

theorem audit_rows_redact_headers:
  assumes "(k, v) \<in> set (row_request_headers (inbound_row js cfg sv rid rq res exc ms)) \<union>
             set (row_response_headers (inbound_row js cfg sv rid rq res exc ms)) \<union>
             set (row_request_headers (outbound_row js cfg sv rid res' exc ms)) \<union>
             set (row_response_headers (outbound_row js cfg sv rid res' exc ms))"
    and "py_lower k \<in> set (sensitive_headers cfg)"
  shows "v = ''[REDACTED]''"
  using assms redact_headers_spec
  by (auto simp: inbound_row_def outbound_row_def Let_def)

definition default_api_settings :: api_settings where
  "default_api_settings = \<lparr>API_LOG_SENSITIVE_HEADERS = None, API_LOG_MAX_BODY_LEN = None,
     API_LOG_TTL_DAYS = None, API_LOG_BACKEND = None, API_LOG_QUEUE_MAX_IN_FLIGHT = None,
     API_LOG_QUEUE_WORKERS = None, sanitization = no_log_settings\<rparr>"

definition plain_codec :: codec where
  "plain_codec = \<lparr>json_loads = (\<lambda>s. None), json_dumps = py_str, utf8_decode = (\<lambda>s. s)\<rparr>"

theorem audit_rows_redact_headers_witness:
  "row_request_headers (inbound_row plain_codec default_api_settings ''api'' None
     (Some \<lparr>vr_method = ''GET'', vr_path = ''/'', vr_content_type = [], vr_headers = Some [(''Cookie'', ''s=1'')],
        vr_body = None, vr_post = [], vr_files = []\<rparr>) None None ''1.0'') = [(''Cookie'', ''[REDACTED]'')]"
proof -
  let ?row = "inbound_row plain_codec default_api_settings ''api'' None
     (Some \<lparr>vr_method = ''GET'', vr_path = ''/'', vr_content_type = [], vr_headers = Some [(''Cookie'', ''s=1'')],
        vr_body = None, vr_post = [], vr_files = []\<rparr>) None None ''1.0''"
  have "\<exists>v. row_request_headers ?row = [(''Cookie'', v)]"
    by (simp add: inbound_row_def redact_headers_def)
  then obtain v where v: "row_request_headers ?row = [(''Cookie'', v)]" by blast
  have "py_lower ''Cookie'' \<in> set (sensitive_headers default_api_settings)" by code_simp
  then have "v = ''[REDACTED]''"
    using v audit_rows_redact_headers [of "''Cookie''" v plain_codec default_api_settings "''api''" None
        "Some \<lparr>vr_method = ''GET'', vr_path = ''/'', vr_content_type = [], vr_headers = Some [(''Cookie'', ''s=1'')],
          vr_body = None, vr_post = [], vr_files = []\<rparr>" None None "''1.0''" None] by simp
  with v show ?thesis by simp
qed

lemma truncate_length:
  assumes "0 \<le> n" and "truncate_text t n = Some r"
  shows "int (length r) \<le> n + 12"
proof -
  have "int (length (slice_to x n)) \<le> n" for x :: string
    using length_slice_to [of n x] assms(1) by linarith
  then show ?thesis
    using assms by (auto simp: truncate_text_def ellipsis_def split: option.splits if_splits)
qed

text \<open>
  A stored body is bounded: whatever the value, the codec and the configuration, the text is at
  most the configured cap plus the twelve characters of the truncation marker.
\<close>

theorem serialized_bodies_bounded:
  assumes "0 \<le> max_body_len cfg max_len"
    and "serialize_body js cfg v max_len = Some t \<or> serialize_error_body js cfg v max_len = Some t"
  shows "int (length t) \<le> max_body_len cfg max_len + 12"
  using assms truncate_length
  by (auto simp: serialize_body_def serialize_error_body_def Let_def split: if_splits pyval.splits option.splits)
















theorem serialized_bodies_bounded_witness:
  "\<exists>t. serialize_error_body plain_codec default_api_settings (VStr ''abcdef'') (Some 3) = Some t \<and>
     int (length t) \<le> 3 + 12"
proof -
  have "0 \<le> max_body_len default_api_settings (Some 3)" by code_simp
  moreover have "serialize_error_body plain_codec default_api_settings (VStr ''abcdef'') (Some 3) =
      Some (''abc'' @ ellipsis @ ''[truncated]'')" by code_simp
  ultimately show ?thesis
    using serialized_bodies_bounded [of default_api_settings "Some 3" plain_codec "VStr ''abcdef''"
        "''abc'' @ ellipsis @ ''[truncated]''"]
    by (simp add: max_body_len_def)
qed

definition project_log_settings :: log_settings where
  "project_log_settings = no_log_settings\<lparr>st_excluded_fields :=
     Some [''password'', ''secret_ref'', ''api_key'', ''private_key'', ''access_token'']\<rparr>"

text \<open>
  The excluded fields of the shipped settings undo the redaction of a multipart form. The scalar
  view is sanitized first, which drops an excluded name altogether, and the loop then leaves the
  entry of a name it does not find as it was: a posted \<open>password\<close> is summarised in plain text, under
  the harmless keys \<open>name\<close> and \<open>value\<close> that no later step hides.
\<close>

theorem multipart_password_in_plain_text:
  "summarise_body_for_audit project_log_settings (BQueryDict [(''password'', [FStr ''hunter2''])]) =
     str_dict [(''__multipart__'', VBool True),
       (''fields'', VList [str_dict [(''name'', VStr ''password''), (''value'', VStr ''hunter2'')]])] \<and>
   sanitize_for_log project_log_settings
     (summarise_body_for_audit project_log_settings (BQueryDict [(''password'', [FStr ''hunter2''])])) None None None =
     str_dict [(''__multipart__'', VBool True),
       (''fields'', VList [str_dict [(''name'', VStr ''password''), (''value'', VStr ''hunter2'')]])]"
  by code_simp

section \<open>The orchestrator\<close>

text \<open>A builder that raises nothing but \<open>Exception\<close>s.\<close>

definition tame_builder :: "'r row_builder \<Rightarrow> bool" where
  "tame_builder build_row \<longleftrightarrow>
     (\<forall>log_id res exc ms e. build_row log_id res exc ms = Inl e \<longrightarrow> isinstance e PyException)"

lemma tame_build:
  "tame_builder b \<Longrightarrow> build_with_log_id b log_id res exc ms = Inl e \<Longrightarrow> isinstance e PyException"
  by (auto simp: tame_builder_def build_with_log_id_def split: sum.splits if_splits)

lemma unexpected_kwarg_simps [simp]:
  "isinstance unexpected_kwarg PyException" "isinstance unexpected_kwarg PyTypeError"
  by code_simp+

lemma project_builders_tame:
  "tame_builder (inbound_builder js cfg sv rid rq)" "tame_builder (outbound_builder js cfg sv rid)"
  by (auto simp: tame_builder_def inbound_builder_def outbound_builder_def split: if_splits)

text \<open>
  C8: the audit decorator is observability only: for every builder that raises nothing worse than an
  \<open>Exception\<close>, whatever goes wrong in building, queueing or wiring, the caller sees the value or the
  exception of the wrapped call and the program state it left.
\<close>

theorem capture_is_transparent:
  assumes "tame_builder build_row"
  shows "fst (capture_and_dispatch cfg log_id ms build_row fn ws) = fst (fn ws) \<and>
     fst (snd (capture_and_dispatch cfg log_id ms build_row fn ws)) = fst (snd (fn ws))"
  using tame_build [OF assms]
  by (auto simp: capture_and_dispatch_def split: prod.splits sum.splits)

theorem capture_is_transparent_witness:
  "fst (capture_and_dispatch default_api_settings ''id'' ''1.0'' (inbound_builder plain_codec default_api_settings
      ''api'' None None) (\<lambda>ws. (Inl (raw_exn PyValueError ''boom''), ws)) ((), empty_audit))
   = Inl (raw_exn PyValueError ''boom'')"
  using capture_is_transparent [OF project_builders_tame(1), of default_api_settings "''id''" "''1.0''"
      plain_codec default_api_settings "''api''" None None
      "\<lambda>ws. (Inl (raw_exn PyValueError ''boom''), ws)" "((), empty_audit)"] by simp

text \<open>Rows waiting, rows dropped on overflow and logged failures.\<close>

definition accounted :: "audit_state \<Rightarrow> nat" where
  "accounted s = (case au_queue s of Some q \<Rightarrow> length (q_items q) | None \<Rightarrow> 0) + au_dropped s + au_failures s"

definition audit_ok :: "audit_state \<Rightarrow> bool" where
  "audit_ok s \<longleftrightarrow> (au_queue s = None \<longrightarrow> au_dropped s = 0)"

lemma get_backend_frame:
  "au_queue (snd (get_backend cfg s)) = au_queue s" "au_dropped (snd (get_backend cfg s)) = au_dropped s"
  "au_failures (snd (get_backend cfg s)) = au_failures s"
  by (auto simp: get_backend_def split: option.splits)

lemma submit_row_accounted:
  assumes "au_queue s = Some q"
  shows "accounted (snd (submit_row task s)) = Suc (accounted s)" and "audit_ok (snd (submit_row task s))"
proof -
  show "accounted (snd (submit_row task s)) = Suc (accounted s)"
  proof (cases "put_nowait task q")
    case None
    then show ?thesis using assms by (simp add: submit_row_def accounted_def)
  next
    case (Some q')
    then show ?thesis using assms pq.put_SomeD(1) [OF Some] by (simp add: submit_row_def accounted_def)
  qed
  show "audit_ok (snd (submit_row task s))"
    using assms by (auto simp: submit_row_def audit_ok_def split: option.splits)
qed

lemma fire_and_forget_accounted:
  assumes "audit_ok s"
  shows "accounted (fire_and_forget cfg row s) = Suc (accounted s)" and "audit_ok (fire_and_forget cfg row s)"
proof -
  have "accounted (fire_and_forget cfg row s) = Suc (accounted s) \<and> audit_ok (fire_and_forget cfg row s)"
  proof (cases "fst (ensure_queue cfg s)")
    case (Inl e)
    then have "ensure_queue cfg s = (Inl e, s)"
      by (auto simp: ensure_queue_def Let_def split: option.splits if_splits)
    then show ?thesis using assms by (simp add: fire_and_forget_def accounted_def audit_ok_def)
  next
    case (Inr q)
    then obtain s1 where 1: "ensure_queue cfg s = (Inr q, s1)" by (metis prod.collapse)
    then have 2: "au_queue s1 = Some q" "accounted s1 = accounted s"
      using assms by (auto simp: ensure_queue_def accounted_def audit_ok_def new_pyqueue_def Let_def
          split: option.splits if_splits)
    let ?s2 = "snd (get_backend cfg s1)"
    have "au_queue ?s2 = Some q" "accounted ?s2 = accounted s"
      using 2 by (simp_all add: accounted_def get_backend_frame)
    then show ?thesis
      using 1 submit_row_accounted [of ?s2 q "(fst (get_backend cfg s1), row)"]
      by (simp add: fire_and_forget_def split_beta)
  qed
  then show "accounted (fire_and_forget cfg row s) = Suc (accounted s)" "audit_ok (fire_and_forget cfg row s)"
    by simp_all
qed

text \<open>
  C17: no audited call vanishes without a trace: after each one exactly one more row is queued, or
  counted as dropped, or a failure has been logged, relative to the state the call itself left.
\<close>

theorem every_call_is_accounted:
  assumes "tame_builder build_row" and "audit_ok (snd (snd (fn ws)))"
  shows "accounted (snd (snd (capture_and_dispatch cfg log_id ms build_row fn ws))) =
         Suc (accounted (snd (snd (fn ws))))"
  using assms(2) tame_build [OF assms(1)] fire_and_forget_accounted(1)
  by (auto simp: capture_and_dispatch_def accounted_def split: prod.splits sum.splits)

theorem every_call_is_accounted_witness:
  "accounted (snd (snd (log_outbound plain_codec default_api_settings ''partner'' None ''id'' ''1.0''
     (\<lambda>ws. (Inl (raw_exn PyValueError ''boom''), ws)) ((), empty_audit)))) = 1"
proof -
  have "accounted empty_audit = 0" "audit_ok empty_audit" by code_simp+
  then show ?thesis
    using every_call_is_accounted [OF project_builders_tame(2),
        of "\<lambda>ws. (Inl (raw_exn PyValueError ''boom''), ws)" "((), empty_audit)" default_api_settings
          "''id''" "''1.0''" plain_codec default_api_settings "''partner''" None]
    by (simp add: log_outbound_def)
qed

lemma builders_drop_log_id:
  "build_with_log_id (inbound_builder js cfg sv rid rq) log_id res exc ms =
     Inr (inbound_row js cfg sv rid rq res exc ms)"
  "build_with_log_id (outbound_builder js cfg sv rid) log_id out exc ms =
     Inr (outbound_row js cfg sv rid out exc ms)"
  by (simp_all add: build_with_log_id_def inbound_builder_def outbound_builder_def)

text \<open>
  The correlation id generated for a call never reaches its row: the whole outcome, queue
  included, is the same for any two ids. (Both builders reject the keyword, and the fallback builds
  the row without it.)
\<close>

theorem log_id_never_reaches_row:
  "log_inbound js cfg sv rid log_id ms rq view ws = log_inbound js cfg sv rid log_id' ms rq view ws \<and>
   log_outbound js cfg sv rid log_id ms fn vs = log_outbound js cfg sv rid log_id' ms fn vs"
  by (auto simp: log_inbound_def log_outbound_def capture_and_dispatch_def builders_drop_log_id
      split: prod.splits sum.splits)

section \<open>Persistence\<close>

text \<open>
  Persisting a row is all or nothing and raises nothing into the worker: when the ORM's \<open>create\<close>
  fails with an \<open>Exception\<close> the table is as before and one failure is logged, otherwise the table is
  what \<open>create\<close> made of it.
\<close>

theorem persist_all_or_nothing:
  assumes "\<And>e. create row (au_table s) = Inl e \<Longrightarrow> isinstance e PyException"
  shows "fst (persist create (OrmApiLogBackend, row) s) = Inr () \<and>
    (case create row (au_table s) of
       Inl e \<Rightarrow> au_table (snd (persist create (OrmApiLogBackend, row) s)) = au_table s \<and>
                au_failures (snd (persist create (OrmApiLogBackend, row) s)) = Suc (au_failures s)
     | Inr t \<Rightarrow> au_table (snd (persist create (OrmApiLogBackend, row) s)) = t \<and>
                au_failures (snd (persist create (OrmApiLogBackend, row) s)) = au_failures s)"
  using assms by (auto simp: persist_def best_effort_atomic_def split: sum.splits)

theorem persist_all_or_nothing_witness:
  "fst (persist (\<lambda>r t. Inl (raw_exn PyValueError ''db down''))
     (OrmApiLogBackend, inbound_row plain_codec default_api_settings ''api'' None None None None ''1.0'') empty_audit)
   = Inr ()"
proof -
  have "isinstance (raw_exn PyValueError ''db down'') PyException" by code_simp
  then show ?thesis
    using persist_all_or_nothing [of "\<lambda>r t. Inl (raw_exn PyValueError ''db down'')"
        "inbound_row plain_codec default_api_settings ''api'' None None None None ''1.0''" empty_audit]
    by simp
qed

section \<open>The cache of the sensitive names\<close>

text \<open>
  The redaction above reads the names as the settings have them. In the code \<open>_sensitive_headers\<close> is cached for the life of the process (\<open>lru_cache\<close> of one entry); \<open>setting_changed\<close> clears it. The slot holds what
  was read first.
\<close>

type_synonym header_slot = "string list option"

definition cached_sensitive_headers :: "api_settings \<Rightarrow> header_slot \<Rightarrow> string list \<times> header_slot" where
  "cached_sensitive_headers cfg slot =
     (case slot of Some hs \<Rightarrow> (hs, slot) | None \<Rightarrow> (sensitive_headers cfg, Some (sensitive_headers cfg)))"

definition bust_sensitive_headers_cache :: "string \<Rightarrow> header_slot \<Rightarrow> header_slot" where
  "bust_sensitive_headers_cache setting slot = (if setting = ''API_LOG_SENSITIVE_HEADERS'' then None else slot)"

text \<open>A run of the process: the settings change, with Django's signal, and the headers are read.\<close>

datatype header_op = ChangeSetting string api_settings | ReadHeaders

fun run_headers :: "api_settings \<Rightarrow> header_slot \<Rightarrow> header_op list \<Rightarrow> string list list" where
  "run_headers cfg slot [] = []"
| "run_headers cfg slot (ChangeSetting n cfg' # ops) = run_headers cfg' (bust_sensitive_headers_cache n slot) ops"
| "run_headers cfg slot (ReadHeaders # ops) =
     (case cached_sensitive_headers cfg slot of (hs, slot') \<Rightarrow> hs # run_headers cfg slot' ops)"

fun spec_headers :: "api_settings \<Rightarrow> header_op list \<Rightarrow> string list list" where
  "spec_headers cfg [] = []"
| "spec_headers cfg (ChangeSetting n cfg' # ops) = spec_headers cfg' ops"
| "spec_headers cfg (ReadHeaders # ops) = sensitive_headers cfg # spec_headers cfg ops"

text \<open>A change is honest when the signal names the setting that changed.\<close>

fun honest :: "api_settings \<Rightarrow> header_op list \<Rightarrow> bool" where
  "honest cfg [] = True"
| "honest cfg (ChangeSetting n cfg' # ops) =
     ((n \<noteq> ''API_LOG_SENSITIVE_HEADERS'' \<longrightarrow> sensitive_headers cfg' = sensitive_headers cfg) \<and> honest cfg' ops)"
| "honest cfg (ReadHeaders # ops) = honest cfg ops"

lemma header_cache_transparent:
  assumes "honest cfg ops" and "slot \<in> {None, Some (sensitive_headers cfg)}"
  shows "run_headers cfg slot ops = spec_headers cfg ops"
  using assms
  by (induction cfg ops arbitrary: slot rule: honest.induct)
     (auto simp: cached_sensitive_headers_def bust_sensitive_headers_cache_def)

end
