(* ===== verification/Effects.thy ===== *)
theory Effects
  imports Exceptions
begin

text \<open>
  Calls into the outside world: an \<open>act\<close> takes a state and gives a value or an exception, and the state
  it leaves. The combinators are Python's sequencing, \<open>except Exception\<close>, selective \<open>except\<close> and
  \<open>finally\<close>; the lemmas say which exceptions can come out.
\<close>

section \<open>Combinators\<close>

type_synonym ('a, 's) act = "'s \<Rightarrow> (exn + 'a) \<times> 's"

text \<open>\<open>try: ... except Exception as exc: return f(exc)\<close>.\<close>

definition rescue :: "(exn \<Rightarrow> 'a) \<Rightarrow> (exn + 'a) \<times> 's \<Rightarrow> (exn + 'a) \<times> 's" where
  "rescue f out =
     (case out of
        (Inl e, s) \<Rightarrow> if isinstance e PyException then (Inr (f e), s) else (Inl e, s)
      | (Inr a, s) \<Rightarrow> (Inr a, s))"

definition andthen :: "(exn + 'a) \<times> 's \<Rightarrow> ('a \<Rightarrow> ('b, 's) act) \<Rightarrow> (exn + 'b) \<times> 's" where
  "andthen out f = (case out of (Inl e, s) \<Rightarrow> (Inl e, s) | (Inr a, s) \<Rightarrow> f a s)"

text \<open>\<open>except (cs) as exc: raise f(exc)\<close>.\<close>

definition translate :: "exc_class list \<Rightarrow> (exn \<Rightarrow> exn) \<Rightarrow> (exn + 'a) \<times> 's \<Rightarrow> (exn + 'a) \<times> 's" where
  "translate cs f out =
     (case out of
        (Inl e, s) \<Rightarrow> if list_ex (isinstance e) cs then (Inl (f e), s) else (Inl e, s)
      | (Inr a, s) \<Rightarrow> (Inr a, s))"

text \<open>A pure step that may raise.\<close>

definition pure_step :: "(exn, 'a) result \<Rightarrow> ('a, 's) act" where
  "pure_step r s = (r, s)"

text \<open>\<open>try: a finally: b\<close>: \<open>b\<close> always runs, and its exception replaces that of \<open>a\<close>.\<close>

definition finally_do :: "(exn + 'a) \<times> 's \<Rightarrow> (unit, 's) act \<Rightarrow> (exn + 'a) \<times> 's" where
  "finally_do out b = (case out of (r, s) \<Rightarrow> (case b s of (Inl e, s') \<Rightarrow> (Inl e, s') | (Inr _, s') \<Rightarrow> (r, s')))"

section \<open>What can come out\<close>

text \<open>A world whose calls raise nothing worse than an \<open>Exception\<close>.\<close>

definition tame :: "('a, 's) act \<Rightarrow> bool" where
  "tame a \<longleftrightarrow> (\<forall>s e s'. a s = (Inl e, s') \<longrightarrow> isinstance e PyException)"

lemma rescue_returns:
  "(\<And>e. fst out = Inl e \<Longrightarrow> isinstance e PyException) \<Longrightarrow> \<exists>a. fst (rescue f out) = Inr a"
  by (cases out; cases "fst out") (auto simp: rescue_def)

lemma tame_andthen: "tame a \<Longrightarrow> (\<And>x. tame (f x)) \<Longrightarrow> tame (\<lambda>s. andthen (a s) f)"
  by (auto simp: tame_def andthen_def split: prod.splits sum.splits)

lemma tame_rescue: "tame a \<Longrightarrow> tame (\<lambda>s. rescue f (a s))"
  by (auto simp: tame_def rescue_def split: prod.splits sum.splits)

lemma tame_finally: "tame a \<Longrightarrow> tame b \<Longrightarrow> tame (\<lambda>s. finally_do (a s) b)"
  by (fastforce simp: tame_def finally_do_def split: prod.splits sum.splits)

lemma tame_return: "tame (\<lambda>s. (Inr x, s))"
  by (simp add: tame_def)

lemma tame_if: "tame a \<Longrightarrow> tame b \<Longrightarrow> tame (\<lambda>s. if c then a s else b s)"
  by (cases c) simp_all

lemmas tame_intros = tame_andthen tame_rescue tame_finally tame_return tame_if

lemma andthen_Inr_iff:
  "andthen out f = (Inr b, s') \<longleftrightarrow> (\<exists>a s. out = (Inr a, s) \<and> f a s = (Inr b, s'))"
  by (auto simp: andthen_def split: prod.splits sum.splits)

lemma andthen_Inl_iff:
  "andthen out f = (Inl e, s') \<longleftrightarrow> out = (Inl e, s') \<or> (\<exists>a s. out = (Inr a, s) \<and> f a s = (Inl e, s'))"
  by (auto simp: andthen_def split: prod.splits sum.splits)

lemma andthen_simps [simp]:
  "andthen (Inr a, s) f = f a s"
  "andthen (Inl e, s) f = (Inl e, s)"
  by (simp_all add: andthen_def)

end
