(* ===== verification/Service.thy ===== *)
theory Service
  imports Effects "HOL-Library.Multiset" "HOL-Library.Char_ord" "HOL-Library.List_Lexorder"
begin

text \<open>
  \<open>apps/core/base/service.py\<close>, \<open>repository.py\<close>, \<open>audit.py\<close>, \<open>model.py\<close> and \<open>manager.py\<close>: the write
  and read paths over the ORM, the audit stamps and the soft-delete cascade. Django's ORM is a
  record of functions on an abstract database; what the code relies on is the locale \<open>orm_store\<close>,
  interpreted at the end on a list of rows. A model instance is the dictionary of its attributes.
\<close>

section \<open>The ORM\<close>

type_synonym obj = "string \<times> int"
type_synonym row = "(string \<times> pyval) list"
type_synonym user = "int option"

text \<open>
  \<open>find_row\<close>: the row of a model and primary key; \<open>all_objs\<close>: the rows in the default order;
  \<open>write_row\<close>: \<open>UPDATE\<close> or \<open>INSERT\<close> of one row; \<open>remove_obj\<close>: \<open>Model.delete()\<close>; \<open>fresh_pk\<close>: the next
  key; \<open>construct\<close>: \<open>Model(**data)\<close>; \<open>full_clean\<close>: \<open>Some e\<close> when it raises \<open>e\<close>.
\<close>

record 'db orm =
  find_row :: "'db \<Rightarrow> obj \<Rightarrow> row option"
  all_objs :: "'db \<Rightarrow> obj list"
  write_row :: "obj \<Rightarrow> row \<Rightarrow> 'db \<Rightarrow> 'db"
  remove_obj :: "obj \<Rightarrow> 'db \<Rightarrow> 'db"
  fresh_pk :: "'db \<Rightarrow> string \<Rightarrow> int"
  construct :: "string \<Rightarrow> (string \<times> pyval) list \<Rightarrow> exn + row"
  full_clean :: "'db \<Rightarrow> obj \<Rightarrow> row \<Rightarrow> exn option"

locale orm_store =
  fixes orm :: "'db orm"
  assumes find_write: "find_row orm (write_row orm x r db) y = (if y = x then Some r else find_row orm db y)"
    and objs_find: "x \<in> set (all_objs orm db) \<longleftrightarrow> find_row orm db x \<noteq> None"
    and objs_distinct: "distinct (all_objs orm db)"
    and fresh_unused: "find_row orm db (m, fresh_pk orm db m) = None"

text \<open>A reverse relation of a model: the child model, its foreign key, and whether it cascades.\<close>

record relation =
  rel_model :: string
  rel_field :: string
  rel_cascade :: bool

record model_meta =
  meta_related :: "relation list"
  meta_fields :: "string list"

type_synonym schema = "string \<Rightarrow> model_meta"

definition has_field :: "schema \<Rightarrow> string \<Rightarrow> string \<Rightarrow> bool" where
  "has_field sch m f \<longleftrightarrow> f \<in> set (meta_fields (sch m))"

definition is_active :: "row \<Rightarrow> bool" where
  "is_active r \<longleftrightarrow> map_of r ''is_active'' = Some (VBool True)"

definition setattr :: "string \<Rightarrow> pyval \<Rightarrow> row \<Rightarrow> row" where
  "setattr f v r = AList.update f v r"

lemma map_of_setattr [simp]: "map_of (setattr f v r) g = (if g = f then Some v else map_of r g)"
  by (simp add: setattr_def AList.update_conv')

definition active_row :: "'db orm \<Rightarrow> 'db \<Rightarrow> obj \<Rightarrow> bool" where
  "active_row orm db x = (case find_row orm db x of Some r \<Rightarrow> is_active r | None \<Rightarrow> False)"

section \<open>Saving\<close>

text \<open>
  A block of database code is an \<open>act\<close>: when it raises it leaves whatever it has written so far.
  \<open>transaction.atomic\<close> puts the database back in that case; nested, it is a savepoint.
\<close>

definition atomic :: "('a, 'db) act \<Rightarrow> ('a, 'db) act" where
  "atomic block db =
     (case block db of
        (Inl e, written) \<Rightarrow> (Inl e, db)
      | (Inr a, written) \<Rightarrow> (Inr a, written))"

text \<open>\<open>BaseModel.save\<close>: \<open>full_clean\<close> unless skipped, then the write with the \<open>auto_now\<close> stamps.\<close>

definition save_row ::
  "'db orm \<Rightarrow> pyval \<Rightarrow> bool \<Rightarrow> bool \<Rightarrow> obj \<Rightarrow> row \<Rightarrow> (row, 'db) act" where
  "save_row orm now skip_validation adding x r db =
     (case (if skip_validation then None else full_clean orm db x r) of
        Some e \<Rightarrow> (Inl e, db)
      | None \<Rightarrow>
          (let r' = setattr ''updated_at'' now (if adding then setattr ''created_at'' now r else r)
           in (Inr r', write_row orm x r' db)))"

definition apply_audit_to_data ::
  "user \<Rightarrow> bool \<Rightarrow> (string \<times> pyval) list \<Rightarrow> (string \<times> pyval) list" where
  "apply_audit_to_data u on_create data =
     (case u of
        None \<Rightarrow> data
      | Some uid \<Rightarrow>
          (let f = (if on_create then ''created_by'' else ''updated_by'') in
           if map_of data f = None then AList.update f (VInt uid) data else data))"

definition apply_audit_to_instance :: "schema \<Rightarrow> string \<Rightarrow> user \<Rightarrow> bool \<Rightarrow> row \<Rightarrow> row" where
  "apply_audit_to_instance sch m u on_create r =
     (case u of
        None \<Rightarrow> r
      | Some uid \<Rightarrow>
          (let f = (if on_create then ''created_by'' else ''updated_by'') in
           if has_field sch m f then setattr f (VInt uid) r else r))"

section \<open>The service\<close>

text \<open>
  The class attributes and hooks of a \<open>BaseService\<close> subclass. A hook may touch the database, and may
  raise after it has.
\<close>

record 'db service =
  sv_model :: string
  sv_allowed_filter :: "string list option"
  sv_allowed_order :: "string list option"
  sv_max_cascade_depth :: nat
  sv_max_page_size :: int
  pre_create :: "(string \<times> pyval) list \<Rightarrow> user \<Rightarrow> ((string \<times> pyval) list, 'db) act"
  post_create :: "obj \<Rightarrow> row \<Rightarrow> user \<Rightarrow> (unit, 'db) act"
  pre_update :: "row \<Rightarrow> (string \<times> pyval) list \<Rightarrow> user \<Rightarrow> ((string \<times> pyval) list, 'db) act"
  post_update :: "obj \<Rightarrow> row \<Rightarrow> user \<Rightarrow> (unit, 'db) act"
  pre_delete :: "obj \<Rightarrow> row \<Rightarrow> (unit, 'db) act"
  post_delete :: "obj \<Rightarrow> row \<Rightarrow> user \<Rightarrow> (unit, 'db) act"

definition base_service :: "string \<Rightarrow> 'db service" where
  "base_service m =
     \<lparr>sv_model = m, sv_allowed_filter = None, sv_allowed_order = None, sv_max_cascade_depth = 10,
      sv_max_page_size = 100, pre_create = (\<lambda>data u db. (Inr data, db)),
      post_create = (\<lambda>x r u db. (Inr (), db)), pre_update = (\<lambda>r data u db. (Inr data, db)),
      post_update = (\<lambda>x r u db. (Inr (), db)), pre_delete = (\<lambda>x r db. (Inr (), db)),
      post_delete = (\<lambda>x r u db. (Inr (), db))\<rparr>"

definition base_field :: "string \<Rightarrow> string" where
  "base_field key = hd (py_split ''__'' key)"

definition refusal :: "string \<Rightarrow> string \<Rightarrow> string list \<Rightarrow> exn" where
  "refusal what key ok =
     raw_exn PyValueError (what @ [squote] @ key @ [squote] @ '' is not allowed. Allowed fields: '' @
       text_of (VList (map VStr (sort (remdups ok)))))"

fun validate_filter_keys :: "string list option \<Rightarrow> (string \<times> pyval) list \<Rightarrow> (exn, unit) result" where
  "validate_filter_keys None filters = Inr ()"
| "validate_filter_keys (Some ok) [] = Inr ()"
| "validate_filter_keys (Some ok) ((key, v) # rest) =
     (if base_field key \<notin> set ok then Inl (refusal ''Filter on '' key ok)
      else validate_filter_keys (Some ok) rest)"

fun validate_order_keys :: "string list option \<Rightarrow> string list \<Rightarrow> (exn, unit) result" where
  "validate_order_keys None keys = Inr ()"
| "validate_order_keys (Some ok) [] = Inr ()"
| "validate_order_keys (Some ok) (raw # rest) =
     (if base_field (lstrip_chars (\<lambda>c. c = CHR ''-'') raw) \<notin> set ok then Inl (refusal ''Ordering by '' raw ok)
      else validate_order_keys (Some ok) rest)"

definition get_by_id :: "'db orm \<Rightarrow> 'db service \<Rightarrow> 'db \<Rightarrow> int \<Rightarrow> row option" where
  "get_by_id orm sv db pk = find_row orm db (sv_model sv, pk)"

definition get_active_by_id :: "'db orm \<Rightarrow> 'db service \<Rightarrow> 'db \<Rightarrow> int \<Rightarrow> row option" where
  "get_active_by_id orm sv db pk =
     (case find_row orm db (sv_model sv, pk) of
        Some r \<Rightarrow> if is_active r then Some r else None | None \<Rightarrow> None)"

definition not_found :: "string option \<Rightarrow> 'db service \<Rightarrow> int \<Rightarrow> exn" where
  "not_found rid sv pk = new_EntityNotFoundError rid (sv_model sv) (VInt pk) None"

definition get_by_id_or_fail ::
  "string option \<Rightarrow> 'db orm \<Rightarrow> 'db service \<Rightarrow> 'db \<Rightarrow> int \<Rightarrow> exn + row" where
  "get_by_id_or_fail rid orm sv db pk =
     (case get_by_id orm sv db pk of Some r \<Rightarrow> Inr r | None \<Rightarrow> Inl (not_found rid sv pk))"

definition get_active_by_id_or_fail ::
  "string option \<Rightarrow> 'db orm \<Rightarrow> 'db service \<Rightarrow> 'db \<Rightarrow> int \<Rightarrow> exn + row" where
  "get_active_by_id_or_fail rid orm sv db pk =
     (case get_active_by_id orm sv db pk of Some r \<Rightarrow> Inr r | None \<Rightarrow> Inl (not_found rid sv pk))"

text \<open>
  Query evaluation is the ORM's: \<open>matches\<close> decides one lookup on one row, \<open>sorted_by\<close> orders the rows
  found. A queryset refuses negative slice bounds.
\<close>

definition select_objs ::
  "'db orm \<Rightarrow> (row \<Rightarrow> string \<times> pyval \<Rightarrow> bool) \<Rightarrow> string \<Rightarrow> (string \<times> pyval) list \<Rightarrow> 'db \<Rightarrow> obj list" where
  "select_objs orm matches m filters db =
     filter (\<lambda>x. fst x = m \<and>
        (case find_row orm db x of Some r \<Rightarrow> list_all (matches r) filters | None \<Rightarrow> False)) (all_objs orm db)"

definition qs_slice :: "int option \<Rightarrow> int \<Rightarrow> 'a list \<Rightarrow> exn + 'a list" where
  "qs_slice offset n xs =
     (let lo = (case offset of Some k \<Rightarrow> k | None \<Rightarrow> 0); hi = lo + n in
      if lo < 0 \<or> hi < 0 then Inl (raw_exn PyValueError ''Negative indexing is not supported.'')
      else Inr (take (nat hi - nat lo) (drop (nat lo) xs)))"

definition service_list ::
  "'db orm \<Rightarrow> (row \<Rightarrow> string \<times> pyval \<Rightarrow> bool) \<Rightarrow> (string list \<Rightarrow> obj list \<Rightarrow> obj list) \<Rightarrow> 'db service
     \<Rightarrow> 'db \<Rightarrow> (string \<times> pyval) list option \<Rightarrow> string list \<Rightarrow> int option \<Rightarrow> int option \<Rightarrow> bool
     \<Rightarrow> exn + obj list" where
  "service_list orm matches sorted_by sv db filters order_by limit offset active_only =
     (let fs = (case filters of Some f \<Rightarrow> f | None \<Rightarrow> []);
          fs = (if active_only then AList.update ''is_active'' (VBool True) fs else fs)
      in rbind (if fs \<noteq> [] then validate_filter_keys (sv_allowed_filter sv) fs else Inr ()) (\<lambda>_.
         let xs = select_objs orm matches (sv_model sv) fs db in
         rbind (if order_by \<noteq> [] then validate_order_keys (sv_allowed_order sv) order_by else Inr ()) (\<lambda>_.
         let ys = (if order_by \<noteq> [] then sorted_by order_by xs else xs);
             asked = (case limit of Some n \<Rightarrow> n | None \<Rightarrow> sv_max_page_size sv);
             capped = (if asked > sv_max_page_size sv then sv_max_page_size sv else asked)
         in qs_slice offset capped ys)))"

definition list_active ::
  "'db orm \<Rightarrow> (row \<Rightarrow> string \<times> pyval \<Rightarrow> bool) \<Rightarrow> (string list \<Rightarrow> obj list \<Rightarrow> obj list) \<Rightarrow> 'db service
     \<Rightarrow> 'db \<Rightarrow> (string \<times> pyval) list option \<Rightarrow> string list \<Rightarrow> int option \<Rightarrow> int option \<Rightarrow> exn + obj list" where
  "list_active orm matches sorted_by sv db filters order_by limit offset =
     service_list orm matches sorted_by sv db filters order_by limit offset True"

definition service_filter ::
  "'db orm \<Rightarrow> (row \<Rightarrow> string \<times> pyval \<Rightarrow> bool) \<Rightarrow> 'db service \<Rightarrow> 'db \<Rightarrow> (string \<times> pyval) list \<Rightarrow> exn + obj list" where
  "service_filter orm matches sv db kwargs =
     rbind (validate_filter_keys (sv_allowed_filter sv) kwargs)
       (\<lambda>_. Inr (select_objs orm matches (sv_model sv) kwargs db))"

definition service_exists ::
  "'db orm \<Rightarrow> (row \<Rightarrow> string \<times> pyval \<Rightarrow> bool) \<Rightarrow> 'db service \<Rightarrow> 'db \<Rightarrow> (string \<times> pyval) list \<Rightarrow> exn + bool" where
  "service_exists orm matches sv db kwargs =
     rbind (validate_filter_keys (sv_allowed_filter sv) kwargs)
       (\<lambda>_. Inr (select_objs orm matches (sv_model sv) kwargs db \<noteq> []))"

definition service_count ::
  "'db orm \<Rightarrow> (row \<Rightarrow> string \<times> pyval \<Rightarrow> bool) \<Rightarrow> 'db service \<Rightarrow> 'db \<Rightarrow> (string \<times> pyval) list option \<Rightarrow> exn + nat" where
  "service_count orm matches sv db filters =
     (let fs = (case filters of Some f \<Rightarrow> f | None \<Rightarrow> []) in
      rbind (if fs \<noteq> [] then validate_filter_keys (sv_allowed_filter sv) fs else Inr ())
        (\<lambda>_. Inr (length (select_objs orm matches (sv_model sv) fs db))))"

section \<open>Writing\<close>

definition create_block ::
  "'db orm \<Rightarrow> pyval \<Rightarrow> 'db service \<Rightarrow> (string \<times> pyval) list \<Rightarrow> user \<Rightarrow> (obj \<times> row, 'db) act" where
  "create_block orm now sv data u db =
     andthen (pre_create sv data u db) (\<lambda>data db.
     let data = apply_audit_to_data u True data in
     andthen (pure_step (construct orm (sv_model sv) data) db) (\<lambda>r db.
     let x = (sv_model sv, fresh_pk orm db (sv_model sv)) in
     andthen (save_row orm now False True x r db) (\<lambda>r db.
     andthen (post_create sv x r u db) (\<lambda>_ db. (Inr (x, r), db)))))"

definition service_create ::
  "'db orm \<Rightarrow> pyval \<Rightarrow> 'db service \<Rightarrow> (string \<times> pyval) list \<Rightarrow> user \<Rightarrow> (obj \<times> row, 'db) act" where
  "service_create orm now sv data u = atomic (create_block orm now sv data u)"





definition update_block ::
  "'db orm \<Rightarrow> schema \<Rightarrow> pyval \<Rightarrow> 'db service \<Rightarrow> int \<Rightarrow> (string \<times> pyval) list \<Rightarrow> user \<Rightarrow> bool
     \<Rightarrow> (row option, 'db) act" where
  "update_block orm sch now sv pk data u active_only db =
     (let x = (sv_model sv, pk) in
      case (case find_row orm db x of
              Some r \<Rightarrow> if active_only \<and> \<not> is_active r then None else Some r
            | None \<Rightarrow> None) of
        None \<Rightarrow> (Inr None, db)
      | Some inst \<Rightarrow>
          andthen (pre_update sv inst data u db) (\<lambda>data db.
          let inst = fold (\<lambda>(f, v). setattr f v) data inst;
              inst = apply_audit_to_instance sch (sv_model sv) u False inst in
          andthen (save_row orm now False False x inst db) (\<lambda>inst db.
          andthen (post_update sv x inst u db) (\<lambda>_ db. (Inr (Some inst), db)))))"

definition service_update ::
  "'db orm \<Rightarrow> schema \<Rightarrow> pyval \<Rightarrow> 'db service \<Rightarrow> int \<Rightarrow> (string \<times> pyval) list \<Rightarrow> user \<Rightarrow> bool
     \<Rightarrow> (row option, 'db) act" where
  "service_update orm sch now sv pk data u active_only =
     atomic (update_block orm sch now sv pk data u active_only)"




section \<open>The cascade\<close>

definition deactivated :: "schema \<Rightarrow> pyval \<Rightarrow> user \<Rightarrow> string \<Rightarrow> row \<Rightarrow> row" where
  "deactivated sch now u m r =
     (let r' = setattr ''updated_at'' now (setattr ''is_active'' (VBool False) r) in
      case u of
        Some uid \<Rightarrow> if has_field sch m ''updated_by'' then setattr ''updated_by'' (VInt uid) r' else r'
      | None \<Rightarrow> r')"

text \<open>The rows an accessor lists: children of the relation's model whose key points to the parent.\<close>

definition points_to :: "relation \<Rightarrow> obj \<Rightarrow> obj \<Rightarrow> row \<Rightarrow> bool" where
  "points_to rel parent x r \<longleftrightarrow> fst x = rel_model rel \<and> map_of r (rel_field rel) = Some (VInt (snd parent))"

definition active_children :: "'db orm \<Rightarrow> 'db \<Rightarrow> relation \<Rightarrow> obj \<Rightarrow> obj list" where
  "active_children orm db rel parent =
     filter (\<lambda>x. case find_row orm db x of
               Some r \<Rightarrow> points_to rel parent x r \<and> is_active r | None \<Rightarrow> False) (all_objs orm db)"

definition deactivate :: "'db orm \<Rightarrow> schema \<Rightarrow> pyval \<Rightarrow> user \<Rightarrow> obj \<Rightarrow> 'db \<Rightarrow> 'db" where
  "deactivate orm sch now u x db =
     (case find_row orm db x of
        Some r \<Rightarrow> write_row orm x (deactivated sch now u (fst x) r) db | None \<Rightarrow> db)"

text \<open>
  The relations are foreign keys, whose accessor is a queryset; the accessor of a one-to-one relation is a single object
  and has no \<open>filter\<close>, and the project has none that cascades to a soft-deletable model. The clock is read once
  per relation in the code and once for the walk here, and \<open>updated_at\<close> is written to every child, as
  the code does.
\<close>

fun cascade_relations ::
  "'db orm \<Rightarrow> schema \<Rightarrow> pyval \<Rightarrow> user \<Rightarrow> obj \<Rightarrow> relation list \<Rightarrow> 'db \<Rightarrow> obj list \<times> 'db" where
  "cascade_relations orm sch now u current [] db = ([], db)"
| "cascade_relations orm sch now u current (rel # rels) db =
     (if \<not> rel_cascade rel then cascade_relations orm sch now u current rels db
      else if \<not> has_field sch (rel_model rel) ''is_active'' then cascade_relations orm sch now u current rels db
      else let children = active_children orm db rel current;
               db1 = fold (deactivate orm sch now u) children db;
               (more, db2) = cascade_relations orm sch now u current rels db1
           in (children @ more, db2))"

function cascade_soft_delete_bfs ::
  "'db orm \<Rightarrow> schema \<Rightarrow> pyval \<Rightarrow> user \<Rightarrow> nat \<Rightarrow> (obj \<times> nat) list \<Rightarrow> 'db \<Rightarrow> 'db" where
  "cascade_soft_delete_bfs orm sch now u cap [] db = db"
| "cascade_soft_delete_bfs orm sch now u cap ((current, depth) # frontier) db =
     (if cap \<le> depth then cascade_soft_delete_bfs orm sch now u cap frontier db
      else let (children, db') =
                 cascade_relations orm sch now u current (meta_related (sch (fst current))) db
           in cascade_soft_delete_bfs orm sch now u cap
                (frontier @ map (\<lambda>c. (c, Suc depth)) children) db')"
  by pat_completeness auto

text \<open>
  The depth cap alone makes the walk finite, whatever the database answers: the multiset of the
  frontier's remaining depths decreases, since a popped entry is replaced by deeper ones.
\<close>

definition remaining_depths :: "nat \<Rightarrow> (obj \<times> nat) list \<Rightarrow> nat multiset" where
  "remaining_depths cap frontier = mset (map (\<lambda>(x, d). cap - d) frontier)"

lemma remaining_depths_pop:
  "(remaining_depths cap frontier, remaining_depths cap ((x, d) # frontier)) \<in> mult less_than"
  using one_step_implies_mult [of "{#cap - d#}" "{#}" less_than "remaining_depths cap frontier"]
  by (simp add: remaining_depths_def)

lemma remaining_depths_push:
  assumes "d < cap"
  shows "(remaining_depths cap (frontier @ map (\<lambda>c. (c, Suc d)) children),
          remaining_depths cap ((x, d) # frontier)) \<in> mult less_than"
proof -
  let ?K = "mset (map (\<lambda>c. cap - Suc d) children)"
  have "\<forall>k \<in> set_mset ?K. \<exists>j \<in> set_mset {#cap - d#}. (k, j) \<in> less_than" using assms by auto
  then have "(remaining_depths cap frontier + ?K, remaining_depths cap frontier + {#cap - d#}) \<in> mult less_than"
    by (intro one_step_implies_mult) auto
  then show ?thesis by (simp add: remaining_depths_def comp_def)
qed

termination cascade_soft_delete_bfs
proof (relation "inv_image (mult less_than) (\<lambda>(orm, sch, now, u, cap, frontier, db). remaining_depths cap frontier)",
    goal_cases)
  case 1
  show ?case by (intro wf_inv_image wf_mult wf_less_than)
next
  case (2 orm sch now u cap current depth frontier db)
  show ?case by (simp add: remaining_depths_pop)
next
  case (3 orm sch now u cap current depth frontier db p children db')
  then show ?case by (simp add: remaining_depths_push not_le)
qed

definition service_delete ::
  "'db orm \<Rightarrow> schema \<Rightarrow> pyval \<Rightarrow> 'db service \<Rightarrow> int \<Rightarrow> bool \<Rightarrow> bool \<Rightarrow> bool \<Rightarrow> user
     \<Rightarrow> (bool, 'db) act" where
  "service_delete orm sch now sv pk soft active_only cascade u =
     atomic (\<lambda>db.
       let x = (sv_model sv, pk) in
       case (case find_row orm db x of
               Some r \<Rightarrow> if active_only \<and> \<not> is_active r then None else Some r
             | None \<Rightarrow> None) of
         None \<Rightarrow> (Inr False, db)
       | Some inst \<Rightarrow>
           andthen (pre_delete sv x inst db) (\<lambda>_ db.
           andthen
             (if soft \<and> has_field sch (sv_model sv) ''is_active'' then
                (let inst = setattr ''is_active'' (VBool False) inst;
                     inst = (case u of
                               Some uid \<Rightarrow> if has_field sch (sv_model sv) ''updated_by''
                                            then setattr ''updated_by'' (VInt uid) inst else inst
                             | None \<Rightarrow> inst) in
                 andthen (save_row orm now False False x inst db) (\<lambda>inst db.
                 (Inr inst, if cascade
                   then cascade_soft_delete_bfs orm sch now u (sv_max_cascade_depth sv) [(x, 0)] db
                   else db)))
              else (Inr inst, remove_obj orm x db)) (\<lambda>inst db.
           andthen (post_delete sv x inst u db) (\<lambda>_ db. (Inr True, db)))))"

section \<open>The repository facade\<close>

definition repo_get_active_by_id :: "'db orm \<Rightarrow> schema \<Rightarrow> string \<Rightarrow> 'db \<Rightarrow> int \<Rightarrow> row option" where
  "repo_get_active_by_id orm sch m db pk =
     (case find_row orm db (m, pk) of
        Some r \<Rightarrow> if has_field sch m ''is_active'' \<and> \<not> is_active r then None else Some r
      | None \<Rightarrow> None)"

definition repo_list :: "'db orm \<Rightarrow> schema \<Rightarrow> string \<Rightarrow> bool \<Rightarrow> 'db \<Rightarrow> obj list" where
  "repo_list orm sch m active_only db =
     filter (\<lambda>x. fst x = m \<and> (active_only \<and> has_field sch m ''is_active'' \<longrightarrow> active_row orm db x))
       (all_objs orm db)"

definition repo_list_paginated ::
  "'db orm \<Rightarrow> schema \<Rightarrow> string \<Rightarrow> int \<Rightarrow> int \<Rightarrow> bool \<Rightarrow> 'db \<Rightarrow> exn + obj list \<times> nat" where
  "repo_list_paginated orm sch m page page_size active_only db =
     (let qs = repo_list orm sch m active_only db;
          offset = max (page - 1) 0 * page_size
      in rbind (qs_slice (Some offset) page_size qs) (\<lambda>xs. Inr (xs, length qs)))"




section \<open>What the cascade reaches\<close>

text \<open>
  The specification: \<open>reach E A n X\<close> are the points within \<open>n\<close> steps of \<open>X\<close> along \<open>E\<close> through points
  of \<open>A\<close>. An edge of the database is a cascading foreign key to a soft-deletable model.
\<close>

primrec reach :: "('a \<Rightarrow> 'a \<Rightarrow> bool) \<Rightarrow> ('a \<Rightarrow> bool) \<Rightarrow> nat \<Rightarrow> 'a set \<Rightarrow> 'a set" where
  "reach E A 0 X = {}"
| "reach E A (Suc n) X = {y. A y \<and> (\<exists>x \<in> X \<union> reach E A n X. E x y)}"

definition child_via :: "'db orm \<Rightarrow> schema \<Rightarrow> 'db \<Rightarrow> relation list \<Rightarrow> obj \<Rightarrow> obj \<Rightarrow> bool" where
  "child_via orm sch db rels x y \<longleftrightarrow>
     (\<exists>rel \<in> set rels. rel_cascade rel \<and> has_field sch (rel_model rel) ''is_active'' \<and>
        (case find_row orm db y of Some r \<Rightarrow> points_to rel x y r | None \<Rightarrow> False))"

definition edge :: "'db orm \<Rightarrow> schema \<Rightarrow> 'db \<Rightarrow> obj \<Rightarrow> obj \<Rightarrow> bool" where
  "edge orm sch db x y = child_via orm sch db (meta_related (sch (fst x))) x y"

definition stamps :: "string set" where
  "stamps = {''is_active'', ''updated_at'', ''updated_by''}"

definition schema_ok :: "schema \<Rightarrow> bool" where
  "schema_ok sch \<longleftrightarrow> (\<forall>m. \<forall>rel \<in> set (meta_related (sch m)). rel_field rel \<notin> stamps)"

definition off :: "'db orm \<Rightarrow> schema \<Rightarrow> pyval \<Rightarrow> user \<Rightarrow> obj set \<Rightarrow> 'db \<Rightarrow> obj \<Rightarrow> row option" where
  "off orm sch now u S db y =
     (if y \<in> S then map_option (deactivated sch now u (fst y)) (find_row orm db y) else find_row orm db y)"

lemma reach_level:
  fixes E :: "'a \<Rightarrow> 'a \<Rightarrow> bool" and A X
  defines "K \<equiv> {y. A y \<and> (\<exists>x \<in> X. E x y)}"
  shows "reach E A (Suc n) X = K \<union> reach E (\<lambda>y. A y \<and> y \<notin> K) n K"
proof (induction n)
  case 0
  then show ?case by (auto simp: K_def)
next
  case (Suc n)
  have "reach E A (Suc (Suc n)) X = {y. A y \<and> (\<exists>x \<in> X \<union> reach E A (Suc n) X. E x y)}"
    by (simp only: reach.simps)
  also have "\<dots> = K \<union> {y. A y \<and> (\<exists>x \<in> K \<union> reach E (\<lambda>y. A y \<and> y \<notin> K) n K. E x y)}"
    unfolding Suc.IH by (auto simp: K_def)
  also have "\<dots> = K \<union> reach E (\<lambda>y. A y \<and> y \<notin> K) (Suc n) K" by auto
  finally show ?case .
qed

lemma reach_subset: "reach E A n X \<subseteq> {y. A y}"
  by (cases n) auto

lemma deactivated_inactive: "\<not> is_active (deactivated sch now u m r)"
  by (auto simp: deactivated_def is_active_def Let_def split: option.splits)

lemma deactivated_other: "f \<notin> stamps \<Longrightarrow> map_of (deactivated sch now u m r) f = map_of r f"
  by (auto simp: deactivated_def stamps_def Let_def split: option.splits)

lemma off_active:
  "(case off orm sch now u S db y of Some r \<Rightarrow> is_active r | None \<Rightarrow> False) \<longleftrightarrow> active_row orm db y \<and> y \<notin> S"
  by (auto simp: off_def active_row_def deactivated_inactive split: option.splits)

lemma off_points_to:
  "rel_field rel \<notin> stamps \<Longrightarrow>
     (case off orm sch now u S db y of Some r \<Rightarrow> points_to rel x y r | None \<Rightarrow> False) =
     (case find_row orm db y of Some r \<Rightarrow> points_to rel x y r | None \<Rightarrow> False)"
  by (auto simp: off_def points_to_def deactivated_other split: option.splits)

lemma off_off:
  "S \<inter> T = {} \<Longrightarrow> (\<And>y. find_row orm db' y = off orm sch now u S db y) \<Longrightarrow>
     off orm sch now u T db' y = off orm sch now u (S \<union> T) db y"
  by (auto simp: off_def)

fun expand_level ::
  "'db orm \<Rightarrow> schema \<Rightarrow> pyval \<Rightarrow> user \<Rightarrow> obj list \<Rightarrow> 'db \<Rightarrow> obj list \<times> 'db" where
  "expand_level orm sch now u [] db = ([], db)"
| "expand_level orm sch now u (x # xs) db =
     (let (ks, db1) = cascade_relations orm sch now u x (meta_related (sch (fst x))) db;
          (more, db2) = expand_level orm sch now u xs db1
      in (ks @ more, db2))"

lemma bfs_level:
  "d < cap \<Longrightarrow>
     cascade_soft_delete_bfs orm sch now u cap (map (\<lambda>x. (x, d)) xs @ map (\<lambda>x. (x, Suc d)) ys) db =
     (let (ks, db') = expand_level orm sch now u xs db in
      cascade_soft_delete_bfs orm sch now u cap (map (\<lambda>x. (x, Suc d)) (ys @ ks)) db')"
proof (induction xs arbitrary: ys db)
  case Nil
  then show ?case by simp
next
  case (Cons x xs)
  obtain ks db1 where "cascade_relations orm sch now u x (meta_related (sch (fst x))) db = (ks, db1)" by force
  then show ?case using Cons.prems Cons.IH [of "ys @ ks" db1] by (simp add: split_beta Let_def)
qed

lemma bfs_capped:
  "cap \<le> d \<Longrightarrow> cascade_soft_delete_bfs orm sch now u cap (map (\<lambda>x. (x, d)) xs) db = db"
  by (induction xs) auto

context orm_store
begin

lemma find_deactivate:
  "find_row orm (deactivate orm sch now u x db) y = off orm sch now u {x} db y"
  by (auto simp: deactivate_def off_def find_write split: option.splits)

lemma find_fold_deactivate:
  "distinct xs \<Longrightarrow> find_row orm (fold (deactivate orm sch now u) xs db) y = off orm sch now u (set xs) db y"
proof (induction xs arbitrary: db)
  case Nil
  then show ?case by (simp add: off_def)
next
  case (Cons x xs)
  then show ?case
    using off_off [of "{x}" "set xs" orm "deactivate orm sch now u x db" sch now u db y]
    by (simp add: find_deactivate)
qed

lemma active_children_set:
  "set (active_children orm db rel x) =
     {y. active_row orm db y \<and> (case find_row orm db y of Some r \<Rightarrow> points_to rel x y r | None \<Rightarrow> False)}"
  by (auto simp: active_children_def active_row_def objs_find split: option.splits)

lemma cascade_relations_spec:
  assumes "\<forall>rel \<in> set rels. rel_field rel \<notin> stamps"
  shows "let (ks, db') = cascade_relations orm sch now u x rels db in
     set ks = {y. active_row orm db y \<and> child_via orm sch db rels x y} \<and>
     (\<forall>y. find_row orm db' y = off orm sch now u (set ks) db y)"
  using assms
proof (induction rels arbitrary: db)
  case Nil
  then show ?case by (simp add: off_def child_via_def)
next
  case (Cons rel rels)
  show ?case
  proof (cases "rel_cascade rel \<and> has_field sch (rel_model rel) ''is_active''")
    case False
    then have "child_via orm sch db (rel # rels) x y = child_via orm sch db rels x y" for y
      by (auto simp: child_via_def)
    then show ?thesis using False Cons by auto
  next
    case True
    define C where "C = active_children orm db rel x"
    define db1 where "db1 = fold (deactivate orm sch now u) C db"
    have "distinct C" by (simp add: C_def active_children_def objs_distinct)
    then have db1: "find_row orm db1 y = off orm sch now u (set C) db y" for y
      by (simp add: db1_def find_fold_deactivate)
    obtain ks db2 where rest: "cascade_relations orm sch now u x rels db1 = (ks, db2)" by force
    have both: "set ks = {y. active_row orm db1 y \<and> child_via orm sch db1 rels x y} \<and>
        (\<forall>y. find_row orm db2 y = off orm sch now u (set ks) db1 y)"
      using Cons.IH [of db1] Cons.prems rest by simp
    then have ks: "set ks = {y. active_row orm db1 y \<and> child_via orm sch db1 rels x y}"
      and db2: "find_row orm db2 y = off orm sch now u (set ks) db1 y" for y
      by blast+
    have act: "active_row orm db1 y \<longleftrightarrow> active_row orm db y \<and> y \<notin> set C" for y
      using off_active by (simp add: active_row_def db1)
    have via: "child_via orm sch db1 rels x y = child_via orm sch db rels x y" for y
      using Cons.prems by (auto simp: child_via_def db1 off_points_to)
    have "set C \<inter> set ks = {}" using ks act by auto
    then have "find_row orm db2 y = off orm sch now u (set (C @ ks)) db y" for y
      using db2 off_off [of "set C" "set ks" orm db1 sch now u db y] db1 by simp
    moreover have "set (C @ ks) = {y. active_row orm db y \<and> child_via orm sch db (rel # rels) x y}"
      using ks act via True by (auto simp: C_def active_children_set child_via_def)
    moreover have "cascade_relations orm sch now u x (rel # rels) db = (C @ ks, db2)"
      using True rest by (simp add: C_def db1_def)
    ultimately show ?thesis by simp
  qed
qed

lemma expand_level_spec:
  assumes "schema_ok sch"
  shows "let (ks, db') = expand_level orm sch now u xs db in
     set ks = {y. active_row orm db y \<and> (\<exists>x \<in> set xs. edge orm sch db x y)} \<and>
     (\<forall>y. find_row orm db' y = off orm sch now u (set ks) db y)"
proof (induction xs arbitrary: db)
  case Nil
  then show ?case by (simp add: off_def)
next
  case (Cons x xs)
  have ok: "\<forall>rel \<in> set (meta_related (sch m)). rel_field rel \<notin> stamps" for m
    using assms by (simp add: schema_ok_def)
  obtain ks db1 where 1: "cascade_relations orm sch now u x (meta_related (sch (fst x))) db = (ks, db1)"
    by force
  have "set ks = {y. active_row orm db y \<and> edge orm sch db x y} \<and>
      (\<forall>y. find_row orm db1 y = off orm sch now u (set ks) db y)"
    using cascade_relations_spec [OF ok [of "fst x"], where sch = sch and now = now and u = u and x = x
        and db = db] 1 by (simp add: edge_def)
  then have ks: "set ks = {y. active_row orm db y \<and> edge orm sch db x y}"
    and db1: "find_row orm db1 y = off orm sch now u (set ks) db y" for y
    by blast+
  obtain more db2 where 2: "expand_level orm sch now u xs db1 = (more, db2)" by force
  have "set more = {y. active_row orm db1 y \<and> (\<exists>x \<in> set xs. edge orm sch db1 x y)} \<and>
      (\<forall>y. find_row orm db2 y = off orm sch now u (set more) db1 y)"
    using Cons.IH [of db1] 2 by simp
  then have more: "set more = {y. active_row orm db1 y \<and> (\<exists>x \<in> set xs. edge orm sch db1 x y)}"
    and db2: "find_row orm db2 y = off orm sch now u (set more) db1 y" for y
    by blast+
  have act: "active_row orm db1 y \<longleftrightarrow> active_row orm db y \<and> y \<notin> set ks" for y
    using off_active [of orm sch now u "set ks" db y] db1 by (simp add: active_row_def)
  have ed: "edge orm sch db1 a y = edge orm sch db a y" for a y
    using ok by (auto simp: edge_def child_via_def db1 off_points_to)
  have "set ks \<inter> set more = {}" using more act by auto
  then have "find_row orm db2 y = off orm sch now u (set (ks @ more)) db y" for y
    using db2 off_off [of "set ks" "set more" orm db1 sch now u db y] db1 by simp
  moreover have "set (ks @ more) = {y. active_row orm db y \<and> (\<exists>x \<in> set (x # xs). edge orm sch db x y)}"
    using ks more act ed by auto
  ultimately show ?case using 1 2 by simp
qed

lemma bfs_spec:
  assumes "schema_ok sch"
  shows "find_row orm (cascade_soft_delete_bfs orm sch now u (d + n) (map (\<lambda>x. (x, d)) xs) db) y =
     off orm sch now u (reach (edge orm sch db) (active_row orm db) n (set xs)) db y"
proof (induction n arbitrary: d xs db)
  case 0
  then show ?case by (simp add: bfs_capped off_def)
next
  case (Suc n)
  obtain ks db1 where 1: "expand_level orm sch now u xs db = (ks, db1)" by force
  define K where "K = {y. active_row orm db y \<and> (\<exists>x \<in> set xs. edge orm sch db x y)}"
  have "set ks = K \<and> (\<forall>y. find_row orm db1 y = off orm sch now u (set ks) db y)"
    using expand_level_spec [OF assms, of now u xs db] 1 by (simp add: K_def)
  then have ks: "set ks = K" and db1: "find_row orm db1 y = off orm sch now u K db y" for y
    by metis+
  have act: "active_row orm db1 = (\<lambda>y. active_row orm db y \<and> y \<notin> K)"
    using off_active [of orm sch now u K db] db1 by (auto simp: active_row_def)
  have ed: "edge orm sch db1 = edge orm sch db"
    using assms by (auto simp: edge_def child_via_def db1 off_points_to schema_ok_def intro!: ext)
  let ?R = "reach (edge orm sch db) (\<lambda>y. active_row orm db y \<and> y \<notin> K) n K"
  have disj: "K \<inter> ?R = {}" using reach_subset by fastforce
  have "cascade_soft_delete_bfs orm sch now u (d + Suc n) (map (\<lambda>x. (x, d)) xs) db =
      cascade_soft_delete_bfs orm sch now u (Suc d + n) (map (\<lambda>x. (x, Suc d)) ks) db1"
    using bfs_level [of d "d + Suc n" orm sch now u xs "[]" db] 1 by simp
  then have "find_row orm (cascade_soft_delete_bfs orm sch now u (d + Suc n) (map (\<lambda>x. (x, d)) xs) db) y =
      off orm sch now u ?R db1 y"
    using Suc.IH [of "Suc d" ks db1] by (simp add: ks act ed)
  also have "\<dots> = off orm sch now u (K \<union> ?R) db y" using off_off [OF disj, of orm db1 sch now u db y] db1 by simp
  also have "K \<union> ?R = reach (edge orm sch db) (active_row orm db) (Suc n) (set xs)"
    unfolding K_def by (rule reach_level [symmetric])
  finally show ?case .
qed

end

text \<open>
  C5: the cascade deactivates exactly what it promises. From the rows of the frontier it reaches every
  active row within \<open>cap\<close> steps of cascading foreign keys, through active rows; each of those is
  stamped and made inactive, and every other row of the database is left as it was. Cycles do no
  harm: the walk always ends.
\<close>

theorem cascade_exact:
  assumes "orm_store orm" and "schema_ok sch"
  shows "find_row orm (cascade_soft_delete_bfs orm sch now u cap [(x, 0)] db) y =
     (if y \<in> reach (edge orm sch db) (active_row orm db) cap {x}
      then map_option (deactivated sch now u (fst y)) (find_row orm db y)
      else find_row orm db y)"
  using orm_store.bfs_spec [OF assms, of now u 0 cap "[x]" db y] by (simp add: off_def)






section \<open>Soft deletion\<close>

definition differ_in_stamps :: "row \<Rightarrow> row \<Rightarrow> bool" where
  "differ_in_stamps r r' \<longleftrightarrow> (\<forall>f. f \<notin> stamps \<longrightarrow> map_of r' f = map_of r f)"

definition soft_deleted_row :: "schema \<Rightarrow> pyval \<Rightarrow> user \<Rightarrow> string \<Rightarrow> row \<Rightarrow> row" where
  "soft_deleted_row sch now u m r =
     (let r1 = setattr ''is_active'' (VBool False) r;
          r2 = (case u of
                  Some uid \<Rightarrow> if has_field sch m ''updated_by'' then setattr ''updated_by'' (VInt uid) r1 else r1
                | None \<Rightarrow> r1)
      in setattr ''updated_at'' now r2)"

lemma soft_deleted_row_props:
  "\<not> is_active (soft_deleted_row sch now u m r)" "differ_in_stamps r (soft_deleted_row sch now u m r)"
  by (auto simp: soft_deleted_row_def is_active_def differ_in_stamps_def stamps_def Let_def split: option.splits)

lemma service_delete_soft:
  assumes "find_row orm db (m, pk) = Some r" "is_active r" "has_field sch m ''is_active''"
    "\<And>r'. full_clean orm db (m, pk) r' = None"
  shows "service_delete orm sch now (base_service m) pk True True True u db =
     (Inr True, cascade_soft_delete_bfs orm sch now u 10 [((m, pk), 0)]
        (write_row orm (m, pk) (soft_deleted_row sch now u m r) db))"
  using assms
  by (simp add: service_delete_def atomic_def base_service_def save_row_def soft_deleted_row_def Let_def
      split: option.splits)

context orm_store
begin

lemma write_keeps_edges:
  assumes "schema_ok sch" "find_row orm db x = Some r" "differ_in_stamps r r'"
  shows "edge orm sch (write_row orm x r' db) = edge orm sch db"
proof (intro ext)
  fix a y
  have "(case find_row orm (write_row orm x r' db) y of Some s \<Rightarrow> points_to rel a y s | None \<Rightarrow> False) =
        (case find_row orm db y of Some s \<Rightarrow> points_to rel a y s | None \<Rightarrow> False)"
    if "rel \<in> set (meta_related (sch (fst a)))" for rel
    using that assms by (auto simp: find_write points_to_def differ_in_stamps_def schema_ok_def)
  then show "edge orm sch (write_row orm x r' db) a y = edge orm sch db a y"
    by (auto simp: edge_def child_via_def)
qed

lemma write_inactive:
  "\<not> is_active r' \<Longrightarrow> active_row orm (write_row orm x r' db) = (\<lambda>y. active_row orm db y \<and> y \<noteq> x)"
  by (rule ext) (auto simp: active_row_def find_write)

end

text \<open>
  A soft delete through the service deactivates the row and, within the depth limit of ten, exactly
  the active rows that depend on it by cascading keys; all of them carry the acting user and the time,
  and no other row changes.
\<close>

theorem soft_delete_exact:
  assumes "orm_store orm" and "schema_ok sch" and "find_row orm db (m, pk) = Some r" and "is_active r"
    and "has_field sch m ''is_active''" and "\<And>r'. full_clean orm db (m, pk) r' = None"
  shows "\<exists>db'. service_delete orm sch now (base_service m) pk True True True u db = (Inr True, db') \<and>
     find_row orm db' (m, pk) = Some (soft_deleted_row sch now u m r) \<and>
     (\<forall>y. y \<noteq> (m, pk) \<longrightarrow> find_row orm db' y =
        (if y \<in> reach (edge orm sch db) (\<lambda>y. active_row orm db y \<and> y \<noteq> (m, pk)) 10 {(m, pk)}
         then map_option (deactivated sch now u (fst y)) (find_row orm db y) else find_row orm db y))"
proof -
  let ?x = "(m, pk)" and ?r = "soft_deleted_row sch now u m r"
  let ?db = "write_row orm ?x ?r db"
  let ?R = "reach (edge orm sch db) (\<lambda>y. active_row orm db y \<and> y \<noteq> ?x) 10 {?x}"
  have R: "reach (edge orm sch ?db) (active_row orm ?db) 10 {?x} = ?R"
    using orm_store.write_keeps_edges [OF assms(1-3)] orm_store.write_inactive [OF assms(1)]
    by (simp add: soft_deleted_row_props del: reach.simps)
  have "find_row orm (cascade_soft_delete_bfs orm sch now u 10 [(?x, 0)] ?db) y =
      off orm sch now u ?R ?db y" for y
    using orm_store.bfs_spec [OF assms(1,2), of now u 0 10 "[?x]" ?db y] R by (simp del: reach.simps)
  moreover have "?x \<notin> ?R"
    using reach_subset [of "edge orm sch db" "\<lambda>y. active_row orm db y \<and> y \<noteq> ?x" 10 "{?x}"] by blast
  ultimately show ?thesis
    using service_delete_soft [OF assms(3-6)] orm_store.find_write [OF assms(1)]
    by (simp add: off_def del: reach.simps)
qed

section \<open>Creating, reading back and updating\<close>

text \<open>
  What \<open>create\<close> returns is what is stored: with the default hooks a successful create puts one new
  row under a key that was free, reading that key gives the returned instance, stamped with the time
  and, when the data names no creator, with the acting user's construction data, and no other row
  changes.
\<close>

theorem create_then_get:
  assumes "orm_store orm" and "service_create orm now (base_service m) data u db = (Inr (x, r), db')"
  shows "find_row orm db x = None \<and> get_by_id orm (base_service m) db' (snd x) = Some r \<and> fst x = m \<and>
     map_of r ''created_at'' = Some now \<and> map_of r ''updated_at'' = Some now \<and>
     (\<exists>r0. construct orm m (apply_audit_to_data u True data) = Inr r0 \<and>
        (\<forall>f. f \<notin> {''created_at'', ''updated_at''} \<longrightarrow> map_of r f = map_of r0 f)) \<and>
     (\<forall>y. y \<noteq> x \<longrightarrow> find_row orm db' y = find_row orm db y)"
proof (cases "construct orm m (apply_audit_to_data u True data)")
  case (Inl e)
  then show ?thesis
    using assms(2) by (simp add: service_create_def create_block_def pure_step_def atomic_def base_service_def Let_def)
next
  case (Inr r0)
  then show ?thesis
    using assms(2) orm_store.find_write [OF assms(1)] orm_store.fresh_unused [OF assms(1)]
    by (auto simp: service_create_def create_block_def pure_step_def atomic_def base_service_def save_row_def
        get_by_id_def Let_def
        split: option.splits if_splits)
qed

text \<open>
  An update of a missing row, or of an inactive one without the opt-out, reports \<open>None\<close> and changes
  nothing; otherwise the stored row is the old one with the data assigned, then the acting user and
  the time stamped over it, and no other row changes.
\<close>

theorem update_exact:
  assumes "orm_store orm" and "\<And>r'. full_clean orm db (m, pk) r' = None"
  shows "case get_by_id orm (base_service m) db pk of
      None \<Rightarrow> service_update orm sch now (base_service m) pk data u ao db = (Inr None, db)
    | Some r \<Rightarrow>
        if ao \<and> \<not> is_active r
        then service_update orm sch now (base_service m) pk data u ao db = (Inr None, db)
        else \<exists>db'.
          let r' = setattr ''updated_at'' now
                (apply_audit_to_instance sch m u False (fold (\<lambda>(f, v). setattr f v) data r)) in
          service_update orm sch now (base_service m) pk data u ao db = (Inr (Some r'), db') \<and>
          find_row orm db' = (find_row orm db)((m, pk) := Some r')"
  using assms orm_store.find_write [OF assms(1)]
  by (auto simp: service_update_def update_block_def atomic_def base_service_def get_by_id_def
      save_row_def Let_def split: option.splits)

section \<open>Listing\<close>

lemma qs_slice_length: "qs_slice offset n xs = Inr ys \<Longrightarrow> int (length ys) \<le> max 0 n"
  by (auto simp: qs_slice_def Let_def split: if_splits option.splits)

lemma qs_slice_subset: "qs_slice offset n xs = Inr ys \<Longrightarrow> set ys \<subseteq> set xs"
  by (auto simp: qs_slice_def Let_def split: if_splits dest!: in_set_takeD in_set_dropD)

lemma list_all_update: "list_all P (AList.update k v fs) \<Longrightarrow> P (k, v)"
  by (induction fs) (auto split: if_splits)

text \<open>
  C27: a default listing is fail-safe: it returns at most \<open>max_page_size\<close> rows whatever limit is asked,
  all of the service's model and all active. The hypotheses are what the ORM promises: the lookup
  \<open>is_active=True\<close> finds active rows, and ordering adds no rows.
\<close>

theorem list_default_is_safe:
  assumes "\<And>r. matches r (''is_active'', VBool True) = is_active r"
    and "\<And>ks xs. set (sorted_by ks xs) \<subseteq> set xs"
    and "service_list orm matches sorted_by sv db filters order_by limit offset True = Inr xs"
  shows "int (length xs) \<le> max 0 (sv_max_page_size sv) \<and>
     (\<forall>x \<in> set xs. fst x = sv_model sv \<and> active_row orm db x)"
proof -
  let ?fs = "AList.update ''is_active'' (VBool True) (case filters of Some f \<Rightarrow> f | None \<Rightarrow> [])"
  let ?xs = "select_objs orm matches (sv_model sv) ?fs db"
  let ?ys = "if order_by \<noteq> [] then sorted_by order_by ?xs else ?xs"
  obtain n where n: "qs_slice offset n ?ys = Inr xs" "n \<le> sv_max_page_size sv"
    using assms(3) by (auto simp: service_list_def Let_def rbind_Inr_iff split: if_splits)
  have "x \<in> set ?xs" if "x \<in> set xs" for x
    using that qs_slice_subset [OF n(1)] assms(2) by (auto split: if_splits)
  moreover have "fst x = sv_model sv \<and> active_row orm db x" if "x \<in> set ?xs" for x
    using that assms(1) list_all_update [of _ "''is_active''" "VBool True"]
    by (fastforce simp: select_objs_def active_row_def split: option.splits)
  ultimately show ?thesis using qs_slice_length [OF n(1)] n(2) by fastforce
qed

lemma base_field_is_active: "base_field ''is_active'' = ''is_active''"
  by code_simp

lemma validate_filter_refuses:
  "(key, v) \<in> set fs \<Longrightarrow> base_field key \<notin> set ok \<Longrightarrow>
     \<exists>e. validate_filter_keys (Some ok) fs = Inl e \<and> exc_cls e = PyValueError"
  by (induction fs) (auto simp: refusal_def raw_exn_def)

lemma update_in_set: "(k, v) \<in> set (AList.update k v fs)"
  by (induction fs) auto

text \<open>
  A service that restricts its filter fields and does not list \<open>is_active\<close> cannot be listed at all
  in the default way: the filter the method adds itself fails the method's own check.
\<close>

theorem list_default_trips_own_allowlist:
  assumes "sv_allowed_filter sv = Some ok" and "''is_active'' \<notin> set ok"
  shows "\<exists>e. service_list orm matches sorted_by sv db filters order_by limit offset True = Inl e \<and>
     exc_cls e = PyValueError"
proof -
  let ?fs = "AList.update ''is_active'' (VBool True) (case filters of Some f \<Rightarrow> f | None \<Rightarrow> [])"
  obtain e where e: "validate_filter_keys (Some ok) ?fs = Inl e" "exc_cls e = PyValueError"
    using validate_filter_refuses [OF update_in_set] assms(2) base_field_is_active by metis
  have "?fs \<noteq> []" using update_in_set by (metis empty_iff empty_set)
  with e assms(1) show ?thesis by (simp add: service_list_def Let_def)
qed

lemma pages_concat: "concat (map (\<lambda>i. take n (drop (i * n) xs)) [0..<k]) = take (k * n) xs"
proof (induction k)
  case (Suc k)
  then show ?case by (simp add: take_add [of "k * n" n xs, symmetric] add.commute)
qed simp

text \<open>
  Walking the pages of the repository sees every row exactly once, in order: for a positive page
  size and enough pages, the concatenation of the pages is the whole listing, and each page reports
  the full count.
\<close>

theorem pages_partition_listing:
  assumes "0 < n" and "length (repo_list orm sch m ao db) \<le> k * n"
  shows "\<exists>pages. map (\<lambda>i. repo_list_paginated orm sch m (int i + 1) (int n) ao db) [0..<k] =
       map (\<lambda>p. Inr (p, length (repo_list orm sch m ao db))) pages \<and>
     concat pages = repo_list orm sch m ao db"
proof -
  let ?xs = "repo_list orm sch m ao db"
  have "repo_list_paginated orm sch m (int i + 1) (int n) ao db =
      Inr (take n (drop (i * n) ?xs), length ?xs)" for i
    by (simp add: repo_list_paginated_def qs_slice_def Let_def nat_mult_distrib nat_add_distrib not_less)
  then show ?thesis
    using assms(2) pages_concat [of n ?xs k]
    by (intro exI [of _ "map (\<lambda>i. take n (drop (i * n) ?xs)) [0..<k]"]) (simp add: comp_def)
qed

section \<open>A database of rows\<close>

definition list_orm :: "(obj \<times> row) list orm" where
  "list_orm =
     \<lparr>find_row = map_of,
      all_objs = (\<lambda>db. remdups (map fst db)),
      write_row = AList.update,
      remove_obj = AList.delete,
      fresh_pk = (\<lambda>db m. 1 + foldr max (map (\<lambda>((m', pk), r). pk) db) 0),
      construct = (\<lambda>m data. Inr (AList.update ''is_active'' (VBool True) data)),
      full_clean = (\<lambda>db x r. None)\<rparr>"

lemma foldr_max_bound: "x \<in> set xs \<Longrightarrow> (x :: int) \<le> foldr max xs 0"
  by (induction xs) auto

lemma fresh_list_pk:
  assumes "((m, pk), r) \<in> set db"
  shows "(pk :: int) \<le> foldr max (map (\<lambda>((m', pk), r). pk) db) 0"
  using foldr_max_bound [of pk "map (\<lambda>((m', pk), r). pk) db"] assms by force

interpretation lorm: orm_store list_orm
proof
  fix db :: "(obj \<times> row) list" and x y :: obj and r :: row and m :: string
  show "find_row list_orm (write_row list_orm x r db) y = (if y = x then Some r else find_row list_orm db y)"
    by (simp add: list_orm_def AList.update_conv')
  show "x \<in> set (all_objs list_orm db) \<longleftrightarrow> find_row list_orm db x \<noteq> None"
    by (simp add: list_orm_def map_of_eq_None_iff)
  show "distinct (all_objs list_orm db)" by (simp add: list_orm_def)
  show "find_row list_orm db (m, fresh_pk list_orm db m) = None"
  proof (rule ccontr)
    let ?n = "fresh_pk list_orm db m"
    assume "find_row list_orm db (m, ?n) \<noteq> None"
    then obtain r where "((m, ?n), r) \<in> set db"
      by (auto simp: list_orm_def dest: map_of_SomeD)
    from fresh_list_pk [OF this] show False by (simp add: list_orm_def)
  qed
qed

text \<open>Two tables: a partner with an account, which has a card; the keys cascade, and a cycle closes.\<close>

definition demo_schema :: schema where
  "demo_schema m =
     \<lparr>meta_related =
        (if m = ''Partner'' then [\<lparr>rel_model = ''Account'', rel_field = ''partner_id'', rel_cascade = True\<rparr>]
         else if m = ''Account'' then [\<lparr>rel_model = ''Account'', rel_field = ''parent_id'', rel_cascade = True\<rparr>]
         else []),
      meta_fields = [''is_active'', ''updated_at'', ''updated_by'']\<rparr>"

definition live_row :: "(string \<times> pyval) list \<Rightarrow> row" where
  "live_row keys = (''is_active'', VBool True) # keys"

definition demo_db :: "(obj \<times> row) list" where
  "demo_db = [((''Partner'', 1), live_row []),
     ((''Account'', 1), live_row [(''partner_id'', VInt 1), (''parent_id'', VInt 2)]),
     ((''Account'', 2), live_row [(''parent_id'', VInt 1)]),
     ((''Account'', 3), live_row [(''partner_id'', VInt 9)])]"

lemma demo_schema_ok: "schema_ok demo_schema"
  by (simp add: schema_ok_def demo_schema_def stamps_def)

theorem cascade_exact_witness:
  "map (\<lambda>y. find_row list_orm (cascade_soft_delete_bfs list_orm demo_schema VNone None 10
        [((''Partner'', 1), 0)] demo_db) y = find_row list_orm demo_db y)
     [(''Account'', 1), (''Account'', 2), (''Account'', 3)] = [False, False, True] \<and>
   find_row list_orm (cascade_soft_delete_bfs list_orm demo_schema VNone None 10
        [((''Partner'', 1), 0)] demo_db) (''Account'', 3) =
     (if (''Account'', 3) \<in> reach (edge list_orm demo_schema demo_db) (active_row list_orm demo_db) 10 {(''Partner'', 1)}
      then map_option (deactivated demo_schema VNone None ''Account'') (find_row list_orm demo_db (''Account'', 3))
      else find_row list_orm demo_db (''Account'', 3))"
proof
  show "map (\<lambda>y. find_row list_orm (cascade_soft_delete_bfs list_orm demo_schema VNone None 10
        [((''Partner'', 1), 0)] demo_db) y = find_row list_orm demo_db y)
     [(''Account'', 1), (''Account'', 2), (''Account'', 3)] = [False, False, True]"
    by code_simp
qed (use cascade_exact [OF lorm.orm_store_axioms demo_schema_ok, of VNone None 10 "(''Partner'', 1)" demo_db
      "(''Account'', 3)"] in \<open>simp del: reach.simps\<close>)

theorem soft_delete_exact_witness:
  "\<exists>db'. service_delete list_orm demo_schema VNone (base_service ''Partner'') 1 True True True (Some 7) demo_db
     = (Inr True, db') \<and>
     find_row list_orm db' (''Partner'', 1) =
       Some (soft_deleted_row demo_schema VNone (Some 7) ''Partner'' (live_row []))"
proof -
  have 1: "find_row list_orm demo_db (''Partner'', 1) = Some (live_row [])" by code_simp
  have 2: "is_active (live_row [])" "has_field demo_schema ''Partner'' ''is_active''" by code_simp+
  have 3: "full_clean list_orm demo_db (''Partner'', 1) r' = None" for r' by (simp add: list_orm_def)
  show ?thesis
    using soft_delete_exact [OF lorm.orm_store_axioms demo_schema_ok 1 2 3, of VNone "Some 7"] by blast
qed


lemma not_isl_result: "\<not> isl (fst t) \<Longrightarrow> \<exists>x r db'. t = (Inr (x, r), db')"
  by (cases t; cases "fst t") auto

theorem create_then_get_witness:
  "\<exists>x r db'. service_create list_orm VNone (base_service ''Partner'') [(''name'', VStr ''Acme'')] (Some 7) demo_db
      = (Inr (x, r), db') \<and> get_by_id list_orm (base_service ''Partner'') db' (snd x) = Some r"
proof -
  let ?out = "service_create list_orm VNone (base_service ''Partner'') [(''name'', VStr ''Acme'')] (Some 7) demo_db"
  have "\<not> isl (fst ?out)" by code_simp
  from not_isl_result [OF this] obtain x r db' where out: "?out = (Inr (x, r), db')" by (elim exE)
  have "get_by_id list_orm (base_service ''Partner'') db' (snd x) = Some r"
    using create_then_get [OF lorm.orm_store_axioms out] by (elim conjE)
  with out show ?thesis by (intro exI conjI)
qed

theorem update_exact_witness:
  "service_update list_orm demo_schema VNone (base_service ''Partner'') 5 [] None True demo_db = (Inr None, demo_db)"
proof -
  have "full_clean list_orm demo_db (''Partner'', 5) r' = None" for r' by (simp add: list_orm_def)
  moreover have "get_by_id list_orm (base_service ''Partner'') demo_db 5 = None" by code_simp
  ultimately show ?thesis
    using update_exact [OF lorm.orm_store_axioms, of demo_db "''Partner''" 5 demo_schema VNone "[]" None True]
    by simp
qed

definition exact_match :: "row \<Rightarrow> string \<times> pyval \<Rightarrow> bool" where
  "exact_match r kv = (map_of r (fst kv) = Some (snd kv))"

theorem list_default_is_safe_witness:
  "\<exists>xs. service_list list_orm exact_match (\<lambda>ks xs. xs) (base_service ''Account'') demo_db None [] None None True
     = Inr xs \<and> length xs = 3 \<and> (\<forall>x \<in> set xs. active_row list_orm demo_db x)"
proof -
  let ?xs = "[(''Account'', 1), (''Account'', 2), (''Account'', 3)] :: obj list"
  have 1: "service_list list_orm exact_match (\<lambda>ks xs. xs) (base_service ''Account'') demo_db None [] None None True
      = Inr ?xs" by code_simp
  have 2: "exact_match r (''is_active'', VBool True) = is_active r" for r
    by (simp add: exact_match_def is_active_def)
  show ?thesis using list_default_is_safe [OF 2 _ 1] 1 by auto
qed

theorem list_default_trips_own_allowlist_witness:
  "\<exists>e. service_list list_orm exact_match (\<lambda>ks xs. xs) ((base_service ''Account'')\<lparr>sv_allowed_filter := Some [''name'']\<rparr>)
     demo_db None [] None None True = Inl e \<and> exc_cls e = PyValueError"
  by (rule list_default_trips_own_allowlist [where ok = "[''name'']"]) simp_all

theorem pages_partition_listing_witness:
  "\<exists>pages. map (\<lambda>i. repo_list_paginated list_orm demo_schema ''Account'' (int i + 1) (int 2) True demo_db) [0..<2] =
       map (\<lambda>p. Inr (p, 3)) pages \<and> concat pages = repo_list list_orm demo_schema ''Account'' True demo_db"
proof -
  have "length (repo_list list_orm demo_schema ''Account'' True demo_db) = 3" by code_simp
  then show ?thesis
    using pages_partition_listing [of 2 list_orm demo_schema "''Account''" True demo_db 2] by simp
qed

end
