(* ===== verification/Rbac.thy ===== *)
theory Rbac
  imports Exceptions "HOL-Library.Product_Lexorder"
begin

text \<open>
  Role-based access control: \<open>apps/core/enums.py\<close>, \<open>apps/core/rbac_registry.py\<close>,
  \<open>apps/core/permissions.py\<close>, \<open>apps/accounts/backends.py\<close>, \<open>apps/accounts/permissions.py\<close> and the
  \<open>Permission\<close>, \<open>Role\<close> and \<open>User\<close> models. A user carries the roles its \<open>roles\<close> relation lists, a role
  its permissions; a query over that relation is a test on those lists.
\<close>

section \<open>The vocabulary\<close>

datatype resource = ACCOUNT | ROLE | API_KEY
datatype action = CREATE | READ | UPDATE | DELETE

text \<open>Both are ordered by their database values, the ordering of \<open>Permission.Meta\<close>.\<close>

primrec resource_value :: "resource \<Rightarrow> string" where
  "resource_value ACCOUNT = ''account''"
| "resource_value ROLE = ''role''"
| "resource_value API_KEY = ''api_key''"

primrec action_value :: "action \<Rightarrow> string" where
  "action_value CREATE = ''create''"
| "action_value READ = ''read''"
| "action_value UPDATE = ''update''"
| "action_value DELETE = ''delete''"

primrec resource_rank :: "resource \<Rightarrow> nat" where
  "resource_rank ACCOUNT = 0"
| "resource_rank API_KEY = 1"
| "resource_rank ROLE = 2"

primrec action_rank :: "action \<Rightarrow> nat" where
  "action_rank CREATE = 0"
| "action_rank DELETE = 1"
| "action_rank READ = 2"
| "action_rank UPDATE = 3"

lemma rank_inj: "resource_rank r = resource_rank r' \<longleftrightarrow> r = r'" "action_rank a = action_rank a' \<longleftrightarrow> a = a'"
  by (cases r; cases r'; simp) (cases a; cases a'; simp)

instantiation resource :: linorder
begin

definition less_eq_resource :: "resource \<Rightarrow> resource \<Rightarrow> bool" where
  "less_eq_resource r r' \<longleftrightarrow> resource_rank r \<le> resource_rank r'"

definition less_resource :: "resource \<Rightarrow> resource \<Rightarrow> bool" where
  "less_resource r r' \<longleftrightarrow> resource_rank r < resource_rank r'"

instance
  by standard (auto simp: less_eq_resource_def less_resource_def rank_inj)

end

instantiation action :: linorder
begin

definition less_eq_action :: "action \<Rightarrow> action \<Rightarrow> bool" where
  "less_eq_action a a' \<longleftrightarrow> action_rank a \<le> action_rank a'"

definition less_action :: "action \<Rightarrow> action \<Rightarrow> bool" where
  "less_action a a' \<longleftrightarrow> action_rank a < action_rank a'"

instance
  by standard (auto simp: less_eq_action_def less_action_def rank_inj)

end

section \<open>Models\<close>

record permission =
  perm_resource :: resource
  perm_action :: action

record role =
  role_name :: string
  is_superuser_role :: bool
  is_default :: bool
  role_permissions :: "permission list"

record account =
  user_pk :: int
  user_email :: string
  user_username :: string
  user_first_name :: string
  user_last_name :: string
  user_is_active :: bool
  user_is_authenticated :: bool
  user_roles :: "role list"

definition ordered_permissions :: "permission list \<Rightarrow> permission list" where
  "ordered_permissions ps = sort_key (\<lambda>p. (perm_resource p, perm_action p)) ps"

definition permission_str :: "permission \<Rightarrow> string" where
  "permission_str p = resource_value (perm_resource p) @ '':'' @ action_value (perm_action p)"

definition full_name :: "account \<Rightarrow> string" where
  "full_name u = py_strip (user_first_name u @ '' '' @ user_last_name u)"

definition user_str :: "account \<Rightarrow> string" where
  "user_str u = (if user_email u \<noteq> [] then user_email u else user_username u)"

definition has_superuser_role :: "account \<Rightarrow> bool" where
  "has_superuser_role u = list_ex is_superuser_role (user_roles u)"

text \<open>
  \<open>user.roles.filter(permissions__resource=r, permissions__action=a).exists()\<close>: both conditions are in
  one \<open>filter\<close>, so they speak of the same permission row.
\<close>

definition roles_grant :: "account \<Rightarrow> resource \<Rightarrow> action \<Rightarrow> bool" where
  "roles_grant u r a =
     list_ex (\<lambda>rl. list_ex (\<lambda>p. perm_resource p = r \<and> perm_action p = a) (role_permissions rl)) (user_roles u)"

definition roles_touch :: "account \<Rightarrow> resource list \<Rightarrow> bool" where
  "roles_touch u rs =
     list_ex (\<lambda>rl. list_ex (\<lambda>p. perm_resource p \<in> set rs) (role_permissions rl)) (user_roles u)"

definition holds_superuser_role :: "account \<Rightarrow> bool" where
  "holds_superuser_role u = (if \<not> user_is_authenticated u then False else has_superuser_role u)"

section \<open>The registry\<close>

type_synonym registry = "(string \<times> resource) list"

definition register_resource :: "string \<Rightarrow> resource \<Rightarrow> registry \<Rightarrow> (exn, registry) result" where
  "register_resource model_dotted_name r reg =
     (let key = py_lower model_dotted_name in
      case map_of reg key of
        None \<Rightarrow> Inr (AList.update key r reg)
      | Some existing \<Rightarrow>
          if existing \<noteq> r then
            Inl (raw_exn PyValueError (''register_resource('' @ repr_str key @ ''): already mapped to '' @
              repr_str (resource_value existing) @ '', refusing to overwrite with '' @
              repr_str (resource_value r) @ ''.''))
          else Inr reg)"

definition resource_for :: "registry \<Rightarrow> string \<Rightarrow> string \<Rightarrow> resource option" where
  "resource_for reg app_label model_name = map_of reg (py_lower (app_label @ ''.'' @ model_name))"

definition app_resources :: "registry \<Rightarrow> string \<Rightarrow> resource list" where
  "app_resources reg app_label =
     (let pre = py_lower (app_label @ ''.'') in map snd (filter (\<lambda>(k, r). prefix pre k) reg))"

definition accounts_resources :: "(string \<times> resource) list" where
  "accounts_resources = [(''accounts.user'', ACCOUNT), (''accounts.role'', ROLE),
     (''accounts.permission'', ROLE), (''accounts.apikey'', API_KEY)]"

fun register_each :: "(string \<times> resource) list \<Rightarrow> registry \<Rightarrow> (exn, registry) result" where
  "register_each [] reg = Inr reg"
| "register_each ((m, r) # rest) reg = rbind (register_resource m r reg) (register_each rest)"

section \<open>The backend\<close>

definition PERM_ACTION_MAP :: "(string \<times> action) list" where
  "PERM_ACTION_MAP = [(''view'', READ), (''add'', CREATE), (''change'', UPDATE), (''delete'', DELETE)]"

text \<open>\<open>codename.split("_", 1)\<close> unpacked into two names; \<open>None\<close> is the \<open>ValueError\<close>.\<close>

definition split_once :: "char \<Rightarrow> string \<Rightarrow> (string \<times> string) option" where
  "split_once c s =
     (case dropWhile (\<lambda>x. x \<noteq> c) s of [] \<Rightarrow> None | _ # rest \<Rightarrow> Some (takeWhile (\<lambda>x. x \<noteq> c) s, rest))"

definition parse_perm :: "string \<Rightarrow> (string \<times> string \<times> string) option" where
  "parse_perm perm =
     (case py_split ''.'' perm of
        [app_label, codename] \<Rightarrow> map_option (\<lambda>(pre, m). (app_label, pre, m)) (split_once CHR ''_'' codename)
      | _ \<Rightarrow> None)"

definition has_perm :: "registry \<Rightarrow> account \<Rightarrow> string \<Rightarrow> bool" where
  "has_perm reg u perm =
     (if \<not> user_is_active u then False
      else if has_superuser_role u then True
      else case parse_perm perm of
        None \<Rightarrow> False
      | Some (app_label, action_prefix, model_name) \<Rightarrow>
          (case (map_of PERM_ACTION_MAP action_prefix, resource_for reg app_label model_name) of
             (Some a, Some r) \<Rightarrow> roles_grant u r a
           | _ \<Rightarrow> False))"

definition has_module_perms :: "registry \<Rightarrow> account \<Rightarrow> string \<Rightarrow> bool" where
  "has_module_perms reg u app_label =
     (if \<not> user_is_active u then False
      else if has_superuser_role u then True
      else let rs = app_resources reg app_label in
        if rs = [] then False else roles_touch u rs)"

section \<open>The DRF permission\<close>

text \<open>
  The cache is the attribute \<open>_permission_cache\<close> of the request (absent at first); the outer \<open>option\<close>
  is the \<open>request\<close> argument.
\<close>

type_synonym perm_cache = "((resource \<times> action) \<times> bool) list option"

definition user_has_permission ::
  "account option \<Rightarrow> resource \<Rightarrow> action \<Rightarrow> perm_cache option \<Rightarrow> bool \<times> perm_cache option" where
  "user_has_permission user r a request =
     (case user of
        None \<Rightarrow> (False, request)
      | Some u \<Rightarrow>
          if \<not> user_is_authenticated u then (False, request)
          else if has_superuser_role u then (True, request)
          else case request of
            None \<Rightarrow> (roles_grant u r a, None)
          | Some slot \<Rightarrow>
              (let cache = (case slot of Some c \<Rightarrow> c | None \<Rightarrow> []) in
               case map_of cache (r, a) of
                 Some b \<Rightarrow> (b, Some (Some cache))
               | None \<Rightarrow> (let b = roles_grant u r a in (b, Some (Some (AList.update (r, a) b cache))))))"

definition has_resource_permission ::
  "resource option \<Rightarrow> action option \<Rightarrow> account option \<Rightarrow> perm_cache \<Rightarrow> bool \<times> perm_cache" where
  "has_resource_permission view_resource view_action user cache =
     (case (view_resource, view_action) of
        (Some r, Some a) \<Rightarrow>
          (case user_has_permission user r a (Some cache) of
             (b, Some cache') \<Rightarrow> (b, cache') | (b, None) \<Rightarrow> (b, cache))
      | _ \<Rightarrow> (False, cache))"

section \<open>Parsing permission names\<close>

lemma split_acc_char:
  "split_acc [c] acc (c # s) = rev acc # split_acc [c] [] s"
  "x \<noteq> c \<Longrightarrow> split_acc [c] acc (x # s) = split_acc [c] (x # acc) s"
  "split_acc [c] acc [] = [rev acc]"
  by (subst split_acc.simps; simp)+

lemma split_acc_no_sep: "c \<notin> set s \<Longrightarrow> split_acc [c] acc (s @ t) = split_acc [c] (rev s @ acc) t"
  by (induction s arbitrary: acc) (auto simp: split_acc_char)

lemma split_two:
  "c \<notin> set a \<Longrightarrow> c \<notin> set b \<Longrightarrow> py_split [c] (a @ c # b) = [a, b]"
  using split_acc_no_sep [of c b "[]" "[]"] by (simp add: py_split_def split_acc_no_sep split_acc_char)

lemma split_once_found: "c \<notin> set a \<Longrightarrow> split_once c (a @ c # b) = Some (a, b)"
  by (induction a) (auto simp: split_once_def split: list.splits)

lemma parse_perm_ok:
  assumes "CHR ''.'' \<notin> set app" "CHR ''.'' \<notin> set pre" "CHR ''.'' \<notin> set m" "CHR ''_'' \<notin> set pre"
  shows "parse_perm (app @ ''.'' @ pre @ ''_'' @ m) = Some (app, pre, m)"
  using assms split_two [of "CHR ''.''" app "pre @ CHR ''_'' # m"] split_once_found [of "CHR ''_''" pre m]
  by (simp add: parse_perm_def)

text \<open>
  C16: Django's permission strings mean what the roles say. For a name \<open>app.prefix_model\<close> the backend
  answers exactly: the user is active, and holds a superuser role or some role with a permission for
  the registered resource and the action of the prefix; an unregistered model, an unknown prefix or an
  inactive user is refused.
\<close>

theorem has_perm_exact:
  assumes "CHR ''.'' \<notin> set app" and "CHR ''.'' \<notin> set pre" and "CHR ''.'' \<notin> set m" and "CHR ''_'' \<notin> set pre"
  shows "has_perm reg u (app @ ''.'' @ pre @ ''_'' @ m) \<longleftrightarrow>
     user_is_active u \<and>
     (has_superuser_role u \<or>
      (\<exists>r a rl p. resource_for reg app m = Some r \<and> map_of PERM_ACTION_MAP pre = Some a \<and>
         rl \<in> set (user_roles u) \<and> p \<in> set (role_permissions rl) \<and> perm_resource p = r \<and> perm_action p = a))"
  using parse_perm_ok [OF assms]
  by (auto simp: has_perm_def roles_grant_def list_ex_iff split: option.splits)

definition reader_role :: role where
  "reader_role = \<lparr>role_name = ''reader'', is_superuser_role = False, is_default = True,
     role_permissions = [\<lparr>perm_resource = API_KEY, perm_action = READ\<rparr>]\<rparr>"

definition demo_user :: account where
  "demo_user = \<lparr>user_pk = 7, user_email = ''a@b.c'', user_username = ''a'', user_first_name = ''A'',
     user_last_name = ''B'', user_is_active = True, user_is_authenticated = True, user_roles = [reader_role]\<rparr>"

theorem has_perm_exact_witness:
  "has_perm accounts_resources demo_user (''accounts'' @ ''.'' @ ''view'' @ ''_'' @ ''apikey'')"
proof -
  have "resource_for accounts_resources ''accounts'' ''apikey'' = Some API_KEY"
    "map_of PERM_ACTION_MAP ''view'' = Some READ" by code_simp+
  moreover have "user_is_active demo_user" by code_simp
  moreover have "reader_role \<in> set (user_roles demo_user)"
    "\<lparr>perm_resource = API_KEY, perm_action = READ\<rparr> \<in> set (role_permissions reader_role)"
    by (simp_all add: demo_user_def reader_role_def)
  ultimately show ?thesis
    using has_perm_exact [of "''accounts''" "''view''" "''apikey''" accounts_resources demo_user] by force
qed

section \<open>The registry never changes its mind\<close>

lemma register_keeps:
  "register_resource m r reg = Inr reg' \<Longrightarrow> map_of reg k = Some x \<Longrightarrow> map_of reg' k = Some x"
  by (auto simp: register_resource_def Let_def AList.update_conv' split: option.splits if_splits)

lemma register_binds: "register_resource m r reg = Inr reg' \<Longrightarrow> map_of reg' (py_lower m) = Some r"
  by (auto simp: register_resource_def Let_def AList.update_conv' split: option.splits if_splits)

lemma register_again: "map_of reg (py_lower m) = Some r \<Longrightarrow> register_resource m r reg = Inr reg"
  by (simp add: register_resource_def Let_def)

lemma register_each_keeps:
  "register_each es reg = Inr reg' \<Longrightarrow> map_of reg k = Some x \<Longrightarrow> map_of reg' k = Some x"
proof (induction es arbitrary: reg)
  case (Cons e es)
  obtain m r where "e = (m, r)" by force
  with Cons show ?case by (auto simp: rbind_Inr_iff dest: register_keeps)
qed simp

text \<open>
  A resource mapping is permanent: after any sequence of successful registrations every one of them
  is in force, whatever the case of the name, and registering any of them once more changes nothing.
\<close>

theorem registrations_are_permanent:
  assumes "register_each es reg = Inr reg'" and "(m, r) \<in> set es"
  shows "map_of reg' (py_lower m) = Some r \<and> register_resource m r reg' = Inr reg'"
proof -
  have "map_of reg' (py_lower m) = Some r"
    using assms
  proof (induction es arbitrary: reg)
    case (Cons e es)
    obtain m' r' where e: "e = (m', r')" by force
    then obtain reg1 where 1: "register_resource m' r' reg = Inr reg1" "register_each es reg1 = Inr reg'"
      using Cons.prems(1) by (auto simp: rbind_Inr_iff)
    show ?case
    proof (cases "(m, r) \<in> set es")
      case True
      then show ?thesis using Cons.IH 1 by blast
    next
      case False
      then have "(m, r) = (m', r')" using Cons.prems(2) e by simp
      then show ?thesis using register_binds [OF 1(1)] register_each_keeps [OF 1(2)] by simp
    qed
  qed simp
  then show ?thesis by (simp add: register_again)
qed

theorem registrations_are_permanent_witness:
  "map_of accounts_resources (py_lower ''Accounts.User'') = Some ACCOUNT \<and>
   register_resource ''Accounts.User'' ACCOUNT accounts_resources = Inr accounts_resources"
proof -
  have "register_each [(''Accounts.User'', ACCOUNT), (''accounts.role'', ROLE), (''accounts.permission'', ROLE),
      (''accounts.apikey'', API_KEY)] [] = Inr accounts_resources" by code_simp
  then show ?thesis by (rule registrations_are_permanent) simp
qed

section \<open>The cache of the DRF check\<close>

text \<open>A cache of answers for one user.\<close>

definition cache_for :: "account \<Rightarrow> perm_cache \<Rightarrow> bool" where
  "cache_for u slot \<longleftrightarrow> (\<forall>c r a b. slot = Some c \<longrightarrow> map_of c (r, a) = Some b \<longrightarrow> b = roles_grant u r a)"

lemma cached_check:
  assumes "cache_for u slot"
  shows "fst (user_has_permission (Some u) r a (Some slot)) = fst (user_has_permission (Some u) r a None) \<and>
     (\<exists>slot'. snd (user_has_permission (Some u) r a (Some slot)) = Some slot' \<and> cache_for u slot')"
  using assms
  by (auto simp: user_has_permission_def cache_for_def Let_def AList.update_conv' split: option.splits if_splits)

fun check_all :: "account \<Rightarrow> (resource \<times> action) list \<Rightarrow> perm_cache \<Rightarrow> bool list" where
  "check_all u [] slot = []"
| "check_all u ((r, a) # rest) slot =
     (case has_resource_permission (Some r) (Some a) (Some u) slot of (b, slot') \<Rightarrow> b # check_all u rest slot')"

lemma check_all_cached:
  "cache_for u slot \<Longrightarrow> check_all u qs slot = map (\<lambda>(r, a). fst (user_has_permission (Some u) r a None)) qs"
proof (induction qs arbitrary: slot)
  case (Cons q qs)
  obtain r a where "q = (r, a)" by force
  moreover obtain slot' where "user_has_permission (Some u) r a (Some slot) =
      (fst (user_has_permission (Some u) r a None), Some slot')" "cache_for u slot'"
    using cached_check [OF Cons.prems, of r a]
    by (cases "user_has_permission (Some u) r a (Some slot)") auto
  ultimately show ?case using Cons.IH by (simp add: has_resource_permission_def)
qed simp

text \<open>
  Within a request of one user the cache is invisible: any sequence of checks gets the answers the
  roles give.
\<close>

theorem permission_cache_transparent:
  "check_all u qs None = map (\<lambda>(r, a). user_is_authenticated u \<and> (has_superuser_role u \<or> roles_grant u r a)) qs"
proof -
  have "cache_for u None" by (simp add: cache_for_def)
  from check_all_cached [OF this, of qs] show ?thesis
    by (auto simp: user_has_permission_def)
qed

text \<open>
  The cache key does not name the user: once a check has granted (or refused) a permission to one
  user, every later check on the same request gives the same answer to any other authenticated user
  without a superuser role, whatever that user's roles are.
\<close>

theorem permission_cache_ignores_user:
  assumes "user_is_authenticated u" and "\<not> has_superuser_role u"
    and "user_is_authenticated v" and "\<not> has_superuser_role v"
  shows "let (b, request) = user_has_permission (Some u) r a (Some None) in
     fst (user_has_permission (Some v) r a request) = roles_grant u r a"
  using assms by (simp add: user_has_permission_def Let_def)

theorem permission_cache_ignores_user_witness:
  "let (b, request) = user_has_permission (Some demo_user) API_KEY READ (Some None) in
     fst (user_has_permission (Some (demo_user\<lparr>user_pk := 8, user_roles := []\<rparr>)) API_KEY READ request)"
proof -
  have "roles_grant demo_user API_KEY READ" by code_simp
  then show ?thesis
    using permission_cache_ignores_user [of demo_user "demo_user\<lparr>user_pk := 8, user_roles := []\<rparr>" API_KEY READ]
    by (simp add: demo_user_def has_superuser_role_def reader_role_def)
qed

section \<open>The two checks agree\<close>

lemma last_check:
  "last (check_all u (qs @ [(r, a)]) None) = (user_is_authenticated u \<and> (has_superuser_role u \<or> roles_grant u r a))"
proof -
  have "cache_for u None" by (simp add: cache_for_def)
  from check_all_cached [OF this, of "qs @ [(r, a)]"] show ?thesis by (simp add: user_has_permission_def)
qed

text \<open>
  C29: the admin and the API enforce the same rule. Take a registered model, a Django permission name for it, and a
  request of one user on which any checks have been made before. Then the DRF permission class, with the cache those checks
  left on the request, answers the model's resource and the name's action as the backend answers the name: both say yes to an active and
  authenticated user in exactly the same cases. (Only the backend asks whether the user is active, and only the API
  whether it is authenticated. A second user on the same request is another matter: \<open>permission_cache_ignores_user\<close>.)
\<close>

theorem admin_and_api_agree:
  assumes "CHR ''.'' \<notin> set app" and "CHR ''.'' \<notin> set m" and "(pre, a) \<in> set PERM_ACTION_MAP"
    and "resource_for reg app m = Some r"
  shows "(user_is_active u \<and> last (check_all u (earlier @ [(r, a)]) None)) =
    (user_is_authenticated u \<and> has_perm reg u (app @ ''.'' @ pre @ ''_'' @ m))"
proof -
  have pre: "CHR ''.'' \<notin> set pre" "CHR ''_'' \<notin> set pre" "map_of PERM_ACTION_MAP pre = Some a"
    using assms(3) by (auto simp: PERM_ACTION_MAP_def)
  have "has_perm reg u (app @ ''.'' @ pre @ ''_'' @ m) = (user_is_active u \<and> (has_superuser_role u \<or> roles_grant u r a))"
    using parse_perm_ok [OF assms(1) pre(1) assms(2) pre(2)] pre(3) assms(4) by (simp add: has_perm_def)
  then show ?thesis unfolding last_check by blast
qed

theorem admin_and_api_agree_witness:
  "has_perm accounts_resources demo_user (''accounts'' @ ''.'' @ ''view'' @ ''_'' @ ''apikey'') =
   last (check_all demo_user [(API_KEY, DELETE), (API_KEY, READ)] None)"
proof -
  have "resource_for accounts_resources ''accounts'' ''apikey'' = Some API_KEY" by code_simp
  moreover have "(''view'', READ) \<in> set PERM_ACTION_MAP" by (simp add: PERM_ACTION_MAP_def)
  ultimately show ?thesis
    using admin_and_api_agree [of "''accounts''" "''apikey''" "''view''" READ accounts_resources API_KEY demo_user "[(API_KEY, DELETE)]"]
    by (simp add: demo_user_def)
qed

end
