(* ===== verification/ApiKeys.thy ===== *)
theory ApiKeys
  imports Responses Rbac
begin

text \<open>
  API keys: the \<open>APIKey\<close> model and \<open>create_key\<close> of \<open>apps/accounts/models.py\<close>, \<open>APIKeyAuthentication\<close>,
  \<open>APIKeyService.revoke\<close> and \<open>delete\<close>, and the two views of \<open>apps/accounts/views.py\<close>. Encryption at rest
  is transparent (the field decrypts on read). Model validation and the database's insert are
  arguments; what the code relies on is the locale \<open>key_db\<close>.
\<close>

section \<open>Data\<close>

record api_key =
  ak_pk :: int
  ak_user :: int
  ak_name :: string
  ak_prefix :: string
  ak_secret :: string
  ak_active :: bool
  ak_revoked_at :: "nat option"
  ak_last_used_at :: "nat option"
  ak_created_by :: "int option"
  ak_updated_by :: "int option"

text \<open>The table, the users' \<open>is_active\<close> flags, and the debounce entries of the \<open>rate_limit\<close> cache with
  the time they expire.\<close>

record key_store =
  ks_keys :: "api_key list"
  ks_users :: "(int \<times> bool) list"
  ks_debounce :: "(int \<times> nat) list"

definition is_revoked :: "api_key \<Rightarrow> bool" where
  "is_revoked k \<longleftrightarrow> ak_revoked_at k \<noteq> None"

definition usable :: "api_key \<Rightarrow> bool" where
  "usable k \<longleftrightarrow> ak_active k \<and> \<not> is_revoked k"

text \<open>
  \<open>full_clean\<close> of a key (\<open>Some e\<close> when it raises), and the \<open>INSERT\<close>: the new primary key, or the
  database error.
\<close>

record key_orm =
  clean_key :: "key_store \<Rightarrow> api_key \<Rightarrow> exn option"
  insert_key :: "key_store \<Rightarrow> api_key \<Rightarrow> exn + int"

locale key_db =
  fixes db :: key_orm
  assumes fresh_pk: "insert_key db s k = Inr pk \<Longrightarrow> pk \<notin> ak_pk ` set (ks_keys s)"
    and unique_prefix: "insert_key db s k = Inr pk \<Longrightarrow> ak_prefix k \<notin> ak_prefix ` set (ks_keys s)"

definition IntegrityError :: exc_class where
  "IntegrityError = OtherException ''IntegrityError''"

definition DjangoValidationError :: exc_class where
  "DjangoValidationError = OtherException ''ValidationError''"

section \<open>Creating\<close>

definition save_new_key :: "key_orm \<Rightarrow> api_key \<Rightarrow> key_store \<Rightarrow> exn + api_key \<times> key_store" where
  "save_new_key db k s =
     (case clean_key db s k of
        Some e \<Rightarrow> Inl e
      | None \<Rightarrow>
          (case insert_key db s k of
             Inl e \<Rightarrow> Inl e
           | Inr pk \<Rightarrow> (let k' = k\<lparr>ak_pk := pk\<rparr> in Inr (k', s\<lparr>ks_keys := k' # ks_keys s\<rparr>))))"

definition new_key :: "int \<Rightarrow> string \<Rightarrow> int option \<Rightarrow> string \<Rightarrow> api_key" where
  "new_key user name created_by raw_key =
     \<lparr>ak_pk = 0, ak_user = user, ak_name = name, ak_prefix = take 8 raw_key, ak_secret = raw_key,
      ak_active = True, ak_revoked_at = None, ak_last_used_at = None, ak_created_by = created_by,
      ak_updated_by = created_by\<rparr>"

text \<open>The loop over the tokens the generator gives, one per attempt.\<close>

fun create_attempts ::
  "key_orm \<Rightarrow> string option \<Rightarrow> int \<Rightarrow> string \<Rightarrow> int option \<Rightarrow> string list \<Rightarrow> key_store
     \<Rightarrow> (exn + api_key \<times> string) \<times> key_store" where
  "create_attempts db rid user name created_by [] s =
     (Inl (new_custom rid APIKeyGenerationError None None NoFields), s)"
| "create_attempts db rid user name created_by (raw_key # raws) s =
     (case save_new_key db (new_key user name created_by raw_key) s of
        Inr (k, s') \<Rightarrow> (Inr (k, raw_key), s')
      | Inl e \<Rightarrow> if isinstance e IntegrityError then create_attempts db rid user name created_by raws s
                 else (Inl e, s))"

definition create_key ::
  "key_orm \<Rightarrow> string option \<Rightarrow> int \<Rightarrow> string \<Rightarrow> int option \<Rightarrow> (nat \<Rightarrow> string) \<Rightarrow> key_store
     \<Rightarrow> (exn + api_key \<times> string) \<times> key_store" where
  "create_key db rid user name created_by token_urlsafe s =
     create_attempts db rid user name created_by (map token_urlsafe [0, 1, 2]) s"

section \<open>Authenticating\<close>

definition AuthenticationFailed :: "string \<Rightarrow> exn" where
  "AuthenticationFailed msg = raw_exn (DRFException ''AuthenticationFailed'') msg"

definition is_ascii :: "string \<Rightarrow> bool" where
  "is_ascii s = list_all (\<lambda>c. char_code c < 128) s"

text \<open>\<open>secrets.compare_digest\<close> on strings raises \<open>TypeError\<close> unless both are ASCII.\<close>

definition compare_digest :: "string \<Rightarrow> string \<Rightarrow> (exn, bool) result" where
  "compare_digest a b =
     (if is_ascii a \<and> is_ascii b then Inr (a = b)
      else Inl (raw_exn PyTypeError ''comparing strings with non-ASCII characters is not supported''))"

definition find_key :: "string \<Rightarrow> key_store \<Rightarrow> api_key option" where
  "find_key pre s = find (\<lambda>k. ak_prefix k = pre \<and> ak_active k \<and> ak_revoked_at k = None) (ks_keys s)"

definition stamp_last_used :: "nat \<Rightarrow> int \<Rightarrow> key_store \<Rightarrow> key_store" where
  "stamp_last_used now pk s =
     s\<lparr>ks_keys := map (\<lambda>k. if ak_pk k = pk then k\<lparr>ak_last_used_at := Some now\<rparr> else k) (ks_keys s)\<rparr>"

definition debounced :: "nat \<Rightarrow> int \<Rightarrow> key_store \<Rightarrow> bool" where
  "debounced now pk s = (case map_of (ks_debounce s) pk of Some expiry \<Rightarrow> now < expiry | None \<Rightarrow> False)"

definition authenticate ::
  "nat \<Rightarrow> string option \<Rightarrow> key_store \<Rightarrow> (exn + (int \<times> api_key) option) \<times> key_store" where
  "authenticate now header s =
     (case or_str header None of
        None \<Rightarrow> (Inr None, s)
      | Some key \<Rightarrow>
          if length key < 8 then (Inl (AuthenticationFailed ''Invalid API key.''), s)
          else
            (case find_key (take 8 key) s of
               None \<Rightarrow> (Inl (AuthenticationFailed ''Invalid API key.''), s)
             | Some k \<Rightarrow>
                 (case compare_digest (ak_secret k) key of
                    Inl e \<Rightarrow> (Inl e, s)
                  | Inr False \<Rightarrow> (Inl (AuthenticationFailed ''Invalid API key.''), s)
                  | Inr True \<Rightarrow>
                      if map_of (ks_users s) (ak_user k) \<noteq> Some True
                      then (Inl (AuthenticationFailed ''User account is disabled.''), s)
                      else
                        (Inr (Some (ak_user k, k)),
                         if debounced now (ak_pk k) s then s
                         else (stamp_last_used now (ak_pk k) s)
                                \<lparr>ks_debounce := AList.update (ak_pk k) (now + 300) (ks_debounce s)\<rparr>))))"

section \<open>Revoking and deleting\<close>

definition replace_key :: "api_key \<Rightarrow> key_store \<Rightarrow> key_store" where
  "replace_key k s = s\<lparr>ks_keys := map (\<lambda>x. if ak_pk x = ak_pk k then k else x) (ks_keys s)\<rparr>"

definition find_active :: "int \<Rightarrow> key_store \<Rightarrow> api_key option" where
  "find_active pk s = find (\<lambda>k. ak_pk k = pk \<and> ak_active k) (ks_keys s)"

definition revoke ::
  "key_orm \<Rightarrow> nat \<Rightarrow> int \<Rightarrow> int \<Rightarrow> key_store \<Rightarrow> (exn + bool \<times> bool) \<times> key_store" where
  "revoke db now pk user s =
     (case find_active pk s of
        None \<Rightarrow> (Inr (False, False), s)
      | Some k \<Rightarrow>
          if ak_revoked_at k \<noteq> None then (Inr (False, True), s)
          else
            (let k' = k\<lparr>ak_revoked_at := Some now, ak_updated_by := Some user\<rparr> in
             case clean_key db s k' of
               Some e \<Rightarrow> (Inl e, s)
             | None \<Rightarrow> (Inr (True, False), replace_key k' s)))"

text \<open>
  \<open>BaseService.delete\<close> with its defaults on the key model, which has no reverse relations to cascade to.
\<close>

definition delete_key ::
  "key_orm \<Rightarrow> int \<Rightarrow> int \<Rightarrow> key_store \<Rightarrow> (exn + bool) \<times> key_store" where
  "delete_key db pk user s =
     (case find_active pk s of
        None \<Rightarrow> (Inr False, s)
      | Some k \<Rightarrow>
          (let k' = k\<lparr>ak_active := False, ak_updated_by := Some user\<rparr> in
           case clean_key db s k' of
             Some e \<Rightarrow> (Inl e, s)
           | None \<Rightarrow> (Inr True, replace_key k' s)))"

definition permission_denied :: exn where
  "permission_denied = raw_exn (DRFException ''PermissionDenied'') ''You do not have permission to perform this action.''"

text \<open>The handlers of the two views, and the views: \<open>initial\<close> names the action, the permission class checks it, the handler runs.\<close>

definition api_key_delete ::
  "string option \<Rightarrow> key_orm \<Rightarrow> account \<Rightarrow> int \<Rightarrow> key_store \<Rightarrow> (exn + http_response) \<times> key_store" where
  "api_key_delete ctx db u pk s =
     (case delete_key db pk (user_pk u) s of
        (Inl e, s') \<Rightarrow> (Inl e, s')
      | (Inr deleted, s') \<Rightarrow>
          (Inr (if \<not> deleted then ErrorResponse ctx ''API key not found.'' None 404
                else SuccessResponse ctx VNone ''API key deleted.'' 200), s'))"

definition api_key_revoke ::
  "string option \<Rightarrow> key_orm \<Rightarrow> nat \<Rightarrow> account \<Rightarrow> int \<Rightarrow> key_store \<Rightarrow> (exn + http_response) \<times> key_store" where
  "api_key_revoke ctx db now u pk s =
     (case revoke db now pk (user_pk u) s of
        (Inl e, s') \<Rightarrow> (Inl e, s')
      | (Inr (revoked_now, already_revoked), s') \<Rightarrow>
          (Inr (if \<not> revoked_now \<and> \<not> already_revoked then ErrorResponse ctx ''API key not found.'' None 404
                else if already_revoked then SuccessResponse ctx VNone ''API key already revoked.'' 200
                else SuccessResponse ctx VNone ''API key revoked.'' 200), s'))"

definition api_key_delete_view ::
  "string option \<Rightarrow> key_orm \<Rightarrow> account \<Rightarrow> int \<Rightarrow> key_store \<Rightarrow> (exn + http_response) \<times> key_store" where
  "api_key_delete_view ctx db u pk s =
     (if \<not> fst (has_resource_permission (Some API_KEY) (Some DELETE) (Some u) None) then (Inl permission_denied, s)
      else api_key_delete ctx db u pk s)"

definition api_key_revoke_view ::
  "string option \<Rightarrow> key_orm \<Rightarrow> nat \<Rightarrow> account \<Rightarrow> int \<Rightarrow> key_store \<Rightarrow> (exn + http_response) \<times> key_store" where
  "api_key_revoke_view ctx db now u pk s =
     (if \<not> fst (has_resource_permission (Some API_KEY) (Some UPDATE) (Some u) None) then (Inl permission_denied, s)
      else api_key_revoke ctx db now u pk s)"

section \<open>The life of a key\<close>

datatype key_op =
    OpCreate "string option" int string "int option" "nat \<Rightarrow> string"
  | OpAuthenticate nat "string option"
  | OpRevoke nat int int
  | OpDelete int int

fun key_step :: "key_orm \<Rightarrow> key_op \<Rightarrow> key_store \<Rightarrow> key_store" where
  "key_step db (OpCreate rid user name who tokens) s = snd (create_key db rid user name who tokens s)"
| "key_step db (OpAuthenticate now header) s = snd (authenticate now header s)"
| "key_step db (OpRevoke now pk user) s = snd (revoke db now pk user s)"
| "key_step db (OpDelete pk user) s = snd (delete_key db pk user s)"

definition run_keys :: "key_orm \<Rightarrow> key_op list \<Rightarrow> key_store \<Rightarrow> key_store" where
  "run_keys db ops s = fold (key_step db) ops s"

section \<open>Dead keys stay dead\<close>

definition dead :: "int \<Rightarrow> key_store \<Rightarrow> bool" where
  "dead pk s \<longleftrightarrow> pk \<in> ak_pk ` set (ks_keys s) \<and> (\<forall>k \<in> set (ks_keys s). ak_pk k = pk \<longrightarrow> \<not> usable k)"

lemma find_active_SomeD:
  "find_active pk s = Some k \<Longrightarrow> k \<in> set (ks_keys s) \<and> ak_pk k = pk \<and> ak_active k"
  by (auto simp: find_active_def find_Some_iff)

lemma find_key_SomeD:
  "find_key pre s = Some k \<Longrightarrow> k \<in> set (ks_keys s) \<and> ak_prefix k = pre \<and> usable k"
  by (auto simp: find_key_def find_Some_iff usable_def is_revoked_def)

lemma pks_replace: "ak_pk ` set (ks_keys (replace_key k s)) = ak_pk ` set (ks_keys s)"
proof -
  have "map ak_pk (ks_keys (replace_key k s)) = map ak_pk (ks_keys s)" by (simp add: replace_key_def)
  from arg_cong [OF this, of set] show ?thesis by simp
qed

lemma pks_stamp: "ak_pk ` set (ks_keys (stamp_last_used now pk s)) = ak_pk ` set (ks_keys s)"
proof -
  have "map ak_pk (ks_keys (stamp_last_used now pk s)) = map ak_pk (ks_keys s)"
    by (simp add: stamp_last_used_def)
  from arg_cong [OF this, of set] show ?thesis by simp
qed

lemma dead_replace:
  "dead pk s \<Longrightarrow> \<not> usable k \<Longrightarrow> dead pk (replace_key k s)"
  by (auto simp: dead_def pks_replace) (auto simp: replace_key_def)

lemma dead_killed:
  "ak_pk k \<in> ak_pk ` set (ks_keys s) \<Longrightarrow> \<not> usable k \<Longrightarrow> dead (ak_pk k) (replace_key k s)"
  by (auto simp: dead_def pks_replace) (auto simp: replace_key_def)

lemma dead_stamp: "dead pk s \<Longrightarrow> dead pk (stamp_last_used now pk' s)"
  by (auto simp: dead_def pks_stamp) (auto simp: stamp_last_used_def usable_def is_revoked_def)

lemma dead_frame: "ks_keys s' = ks_keys s \<Longrightarrow> dead pk s' = dead pk s"
  by (simp add: dead_def)

lemma authenticate_state:
  "\<exists>d. snd (authenticate now header s) = s \<or>
     (\<exists>pk. snd (authenticate now header s) = (stamp_last_used now pk s)\<lparr>ks_debounce := d\<rparr>)"
  by (auto simp: authenticate_def split: option.splits sum.splits bool.splits)

lemma dead_authenticate: "dead pk s \<Longrightarrow> dead pk (snd (authenticate now header s))"
  using authenticate_state [of now header s] dead_stamp dead_frame
  by (metis key_store.select_convs(1) key_store.surjective key_store.update_convs(3))

lemma revoke_state:
  "snd (revoke db now pk user s) = s \<or>
   (\<exists>k. ak_pk k = pk \<and> \<not> usable k \<and> pk \<in> ak_pk ` set (ks_keys s) \<and> snd (revoke db now pk user s) = replace_key k s)"
proof (cases "snd (revoke db now pk user s) = s")
  case False
  then obtain k where k: "find_active pk s = Some k"
    and out: "snd (revoke db now pk user s) =
      replace_key (k\<lparr>ak_revoked_at := Some now, ak_updated_by := Some user\<rparr>) s"
    by (auto simp: revoke_def Let_def split: option.splits if_splits)
  let ?k = "k\<lparr>ak_revoked_at := Some now, ak_updated_by := Some user\<rparr>"
  have "ak_pk ?k = pk" "\<not> usable ?k" "pk \<in> ak_pk ` set (ks_keys s)"
    using find_active_SomeD [OF k] by (auto simp: usable_def is_revoked_def)
  with out show ?thesis by blast
qed simp

lemma delete_state:
  "snd (delete_key db pk user s) = s \<or>
   (\<exists>k. ak_pk k = pk \<and> \<not> usable k \<and> pk \<in> ak_pk ` set (ks_keys s) \<and> snd (delete_key db pk user s) = replace_key k s)"
proof (cases "snd (delete_key db pk user s) = s")
  case False
  then obtain k where k: "find_active pk s = Some k"
    and out: "snd (delete_key db pk user s) =
      replace_key (k\<lparr>ak_active := False, ak_updated_by := Some user\<rparr>) s"
    by (auto simp: delete_key_def Let_def split: option.splits if_splits)
  let ?k = "k\<lparr>ak_active := False, ak_updated_by := Some user\<rparr>"
  have "ak_pk ?k = pk" "\<not> usable ?k" "pk \<in> ak_pk ` set (ks_keys s)"
    using find_active_SomeD [OF k] by (auto simp: usable_def)
  with out show ?thesis by blast
qed simp

context key_db
begin

lemma save_new_key_state:
  "save_new_key db k s = Inr (k', s') \<Longrightarrow>
     ks_keys s' = k' # ks_keys s \<and> ak_pk k' \<notin> ak_pk ` set (ks_keys s) \<and>
     ak_prefix k' \<notin> ak_prefix ` set (ks_keys s) \<and> (\<exists>pk. k' = k\<lparr>ak_pk := pk\<rparr>) \<and> ks_users s' = ks_users s"
  using fresh_pk [of s k] unique_prefix [of s k]
  by (auto simp: save_new_key_def Let_def image_iff split: option.splits sum.splits)

lemma create_attempts_state:
  "create_attempts db rid user name who raws s = (r, s') \<Longrightarrow>
     (case r of
        Inl e \<Rightarrow> s' = s
      | Inr (k, raw) \<Rightarrow> raw \<in> set raws \<and> save_new_key db (new_key user name who raw) s = Inr (k, s'))"
  by (induction raws) (auto split: sum.splits if_splits prod.splits)

lemma create_key_state:
  "snd (create_key db rid user name who tokens s) = s \<or>
   (\<exists>k. ks_keys (snd (create_key db rid user name who tokens s)) = k # ks_keys s \<and>
      ak_pk k \<notin> ak_pk ` set (ks_keys s))"
proof -
  obtain r s' where out: "create_key db rid user name who tokens s = (r, s')" by force
  then show ?thesis
    using create_attempts_state [of rid user name who "map tokens [0, 1, 2]" s r s'] save_new_key_state
    by (cases r) (auto simp: create_key_def)
qed

lemma dead_step:
  assumes "dead pk s"
  shows "dead pk (key_step db op s)"
proof (cases op)
  case (OpCreate rid user name who tokens)
  then show ?thesis
    using create_key_state [of rid user name who tokens s] assms by (auto simp: dead_def)
next
  case (OpAuthenticate now header)
  then show ?thesis using assms by (simp add: dead_authenticate)
next
  case (OpRevoke now pk' user)
  then show ?thesis using revoke_state [of db now pk' user s] dead_replace assms by auto
next
  case (OpDelete pk' user)
  then show ?thesis using delete_state [of db pk' user s] dead_replace assms by auto
qed

lemma dead_run: "dead pk s \<Longrightarrow> dead pk (run_keys db ops s)"
  by (induction ops arbitrary: s) (auto simp: run_keys_def dead_step)

end

lemma authenticate_sound:
  assumes "fst (authenticate now header s) = Inr (Some (u, k))"
  shows "header = Some (ak_secret k) \<and> k \<in> set (ks_keys s) \<and> usable k \<and> u = ak_user k \<and>
     map_of (ks_users s) u = Some True \<and> 8 \<le> length (ak_secret k)"
  using assms
  by (auto simp: authenticate_def compare_digest_def or_str_def dest!: find_key_SomeD
      split: option.splits sum.splits bool.splits if_splits)

lemma killed:
  assumes "revoke db now pk user s = (Inr (True, False), s1) \<or> delete_key db pk user s = (Inr True, s1)"
  shows "dead pk s1"
  using assms
proof
  assume "revoke db now pk user s = (Inr (True, False), s1)"
  then show ?thesis
    by (auto simp: revoke_def Let_def split: option.splits if_splits dest!: find_active_SomeD
        intro!: dead_killed [of "_\<lparr>ak_revoked_at := Some now, ak_updated_by := Some user\<rparr>", simplified]
        simp: usable_def is_revoked_def)
next
  assume "delete_key db pk user s = (Inr True, s1)"
  then show ?thesis
    by (auto simp: delete_key_def Let_def split: option.splits if_splits dest!: find_active_SomeD
        intro!: dead_killed [of "_\<lparr>ak_active := False, ak_updated_by := Some user\<rparr>", simplified]
        simp: usable_def)
qed

text \<open>
  C1: revocation and deletion are final. Once a call has reported that it revoked or deleted a key,
  then whatever keys are created, used, revoked or deleted afterwards, at any later time and with any
  header, no authentication ever answers with that key.
\<close>

theorem revoked_key_never_authenticates:
  assumes "key_db db"
    and "revoke db now pk user s = (Inr (True, False), s1) \<or> delete_key db pk user s = (Inr True, s1)"
    and "fst (authenticate t header (run_keys db ops s1)) = Inr (Some (u, k))"
  shows "ak_pk k \<noteq> pk"
proof -
  have "dead pk (run_keys db ops s1)" by (rule key_db.dead_run [OF assms(1) killed [OF assms(2)]])
  moreover have "k \<in> set (ks_keys (run_keys db ops s1)) \<and> usable k"
    using authenticate_sound [OF assms(3)] by simp
  ultimately show ?thesis by (auto simp: dead_def)
qed

section \<open>A key table\<close>

text \<open>Validation and insert of a table with a unique prefix; \<open>clean\<close> off is a table that validates nothing.\<close>

definition taken_prefix :: "key_store \<Rightarrow> api_key \<Rightarrow> bool" where
  "taken_prefix s k \<longleftrightarrow> ak_prefix k \<in> set (map ak_prefix (ks_keys s))"

definition list_key_orm :: "bool \<Rightarrow> key_orm" where
  "list_key_orm validate =
     \<lparr>clean_key = (\<lambda>s k. if validate \<and> list_ex (\<lambda>x. ak_prefix x = ak_prefix k \<and> ak_pk x \<noteq> ak_pk k) (ks_keys s)
        then Some (raw_exn DjangoValidationError ''Api key with this Prefix already exists.'') else None),
      insert_key = (\<lambda>s k. if taken_prefix s k then Inl (raw_exn IntegrityError ''duplicate key value'')
        else Inr (1 + foldr max (map ak_pk (ks_keys s)) 0))\<rparr>"

lemma pk_below_max: "k \<in> set ks \<Longrightarrow> ak_pk k \<le> foldr max (map ak_pk ks) 0"
  by (induction ks) auto

interpretation lkeys: key_db "list_key_orm v"
  by unfold_locales (force simp: list_key_orm_def taken_prefix_def dest: pk_below_max split: if_splits)+

definition demo_key :: api_key where
  "demo_key = (new_key 7 ''ci'' None ''abcdefgh-secret'')\<lparr>ak_pk := 1\<rparr>"

definition demo_store :: key_store where
  "demo_store = \<lparr>ks_keys = [demo_key], ks_users = [(7, True)], ks_debounce = []\<rparr>"

theorem revoked_key_never_authenticates_witness:
  "\<exists>s1 k. revoke (list_key_orm True) 5 1 7 demo_store = (Inr (True, False), s1) \<and>
     fst (authenticate 9 (Some ''zyxwvuts-new'') (run_keys (list_key_orm True)
        [OpCreate None 7 ''new'' None (\<lambda>i. ''zyxwvuts-new'')] s1)) = Inr (Some (7, k)) \<and> ak_pk k \<noteq> 1"
proof -
  let ?s1 = "demo_store\<lparr>ks_keys := [demo_key\<lparr>ak_revoked_at := Some 5, ak_updated_by := Some 7\<rparr>]\<rparr>"
  let ?k = "(new_key 7 ''new'' None ''zyxwvuts-new'')\<lparr>ak_pk := 2\<rparr>"
  have 1: "revoke (list_key_orm True) 5 1 7 demo_store = (Inr (True, False), ?s1)" by code_simp
  have 2: "fst (authenticate 9 (Some ''zyxwvuts-new'') (run_keys (list_key_orm True)
        [OpCreate None 7 ''new'' None (\<lambda>i. ''zyxwvuts-new'')] ?s1)) = Inr (Some (7, ?k))" by code_simp
  have "ak_pk ?k \<noteq> 1"
    by (rule revoked_key_never_authenticates [OF lkeys.key_db_axioms disjI1 [OF 1] 2])
  with 1 2 show ?thesis by blast
qed

section \<open>What authentication accepts\<close>

text \<open>
  An accepted header is the full secret of a stored key, compared whole and not by its prefix; that
  key is active and not revoked, its user is active, and the user answered is the key's owner.
\<close>

theorem authenticated_means_valid_key:
  assumes "fst (authenticate now header s) = Inr (Some (u, k))"
  shows "header = Some (ak_secret k) \<and> k \<in> set (ks_keys s) \<and> ak_active k \<and> ak_revoked_at k = None \<and>
     u = ak_user k \<and> map_of (ks_users s) u = Some True"
  using authenticate_sound [OF assms] by (auto simp: usable_def is_revoked_def)

theorem authenticated_means_valid_key_witness:
  "fst (authenticate 9 (Some ''abcdefgh-secret'') demo_store) = Inr (Some (7, demo_key)) \<and>
   map_of (ks_users demo_store) 7 = Some True"
proof -
  have "fst (authenticate 9 (Some ''abcdefgh-secret'') demo_store) = Inr (Some (7, demo_key))" by code_simp
  with authenticated_means_valid_key [OF this] show ?thesis by simp
qed

lemma created_key:
  assumes "key_db db" and "create_key db rid user name who tokens s = (Inr (k, raw), s')"
  obtains pk where "k = (new_key user name who raw)\<lparr>ak_pk := pk\<rparr>" and "ks_keys s' = k # ks_keys s"
    and "ak_prefix k \<notin> ak_prefix ` set (ks_keys s)" and "ks_users s' = ks_users s"
proof -
  have "save_new_key db (new_key user name who raw) s = Inr (k, s')"
    using key_db.create_attempts_state [OF assms(1), of rid user name who "map tokens [0, 1, 2]" s] assms(2)
    by (simp add: create_key_def)
  from key_db.save_new_key_state [OF assms(1) this] that show ?thesis by blast
qed

lemma created_key_authenticates:
  assumes "key_db db" and "create_key db rid user name who tokens s = (Inr (k, raw), s')"
    and "is_ascii raw" and "8 \<le> length raw" and "map_of (ks_users s) user = Some True"
  shows "fst (authenticate now (Some raw) s') = Inr (Some (user, k))"
proof -
  obtain pk where k: "k = (new_key user name who raw)\<lparr>ak_pk := pk\<rparr>"
    and st: "ks_keys s' = k # ks_keys s" "ks_users s' = ks_users s"
    by (rule created_key [OF assms(1,2)])
  have fields: "ak_prefix k = take 8 raw" "ak_secret k = raw" "ak_active k" "ak_revoked_at k = None" "ak_user k = user"
    by (simp_all add: k new_key_def)
  have "find_key (take 8 raw) s' = Some k" using st fields by (simp add: find_key_def)
  then show ?thesis
    using assms(3-5) st fields by (auto simp: authenticate_def or_str_def compare_digest_def)
qed

text \<open>
  A fresh key works: when \<open>create_key\<close> returns, the raw key it hands out (of ASCII characters, at least
  eight) authenticates its active owner at once, with the key just stored.
\<close>

theorem create_then_authenticate:
  assumes "key_db db" and "create_key db rid user name who tokens s = (Inr (k, raw), s')"
    and "is_ascii raw" and "8 \<le> length raw" and "map_of (ks_users s) user = Some True"
  shows "fst (authenticate now (Some raw) s') = Inr (Some (user, k))"
  by (rule created_key_authenticates [OF assms])

theorem create_then_authenticate_witness:
  "\<exists>k s'. create_key (list_key_orm True) None 7 ''new'' None (\<lambda>i. ''zyxwvuts-new'') demo_store
      = (Inr (k, ''zyxwvuts-new''), s') \<and> fst (authenticate 9 (Some ''zyxwvuts-new'') s') = Inr (Some (7, k))"
proof -
  let ?k = "(new_key 7 ''new'' None ''zyxwvuts-new'')\<lparr>ak_pk := 2\<rparr>"
  have 1: "create_key (list_key_orm True) None 7 ''new'' None (\<lambda>i. ''zyxwvuts-new'') demo_store
      = (Inr (?k, ''zyxwvuts-new''), demo_store\<lparr>ks_keys := [?k, demo_key]\<rparr>)" by code_simp
  have 2: "is_ascii ''zyxwvuts-new''" "8 \<le> length ''zyxwvuts-new''" "map_of (ks_users demo_store) 7 = Some True"
    by code_simp+
  from create_then_authenticate [OF lkeys.key_db_axioms 1 2] 1 show ?thesis by blast
qed

lemma find_replaced:
  "k \<in> set ks \<Longrightarrow> ak_pk k = ak_pk k' \<Longrightarrow> ak_active k' \<Longrightarrow>
     find (\<lambda>x. ak_pk x = ak_pk k' \<and> ak_active x) (map (\<lambda>x. if ak_pk x = ak_pk k' then k' else x) ks) = Some k'"
  by (induction ks) auto

text \<open>
  Revoking is idempotent: a second call reports the key as already revoked, changes nothing and so
  keeps the first timestamp, whoever calls and whenever.
\<close>

theorem revoke_twice:
  assumes "revoke db now pk user s = (Inr (True, False), s1)"
  shows "revoke db later pk other s1 = (Inr (False, True), s1)"
proof -
  obtain k where k: "find_active pk s = Some k"
    and s1: "s1 = replace_key (k\<lparr>ak_revoked_at := Some now, ak_updated_by := Some user\<rparr>) s"
    using assms(1) by (auto simp: revoke_def Let_def split: option.splits if_splits)
  have "find_active pk s1 = Some (k\<lparr>ak_revoked_at := Some now, ak_updated_by := Some user\<rparr>)"
    using find_active_SomeD [OF k]
      find_replaced [of k "ks_keys s" "k\<lparr>ak_revoked_at := Some now, ak_updated_by := Some user\<rparr>"]
    by (auto simp: s1 replace_key_def find_active_def)
  then show ?thesis by (simp add: revoke_def)
qed

theorem revoke_twice_witness:
  "\<exists>s1. revoke (list_key_orm True) 5 1 7 demo_store = (Inr (True, False), s1) \<and>
     revoke (list_key_orm True) 6 1 8 s1 = (Inr (False, True), s1)"
proof -
  let ?s1 = "demo_store\<lparr>ks_keys := [demo_key\<lparr>ak_revoked_at := Some 5, ak_updated_by := Some 7\<rparr>]\<rparr>"
  have "revoke (list_key_orm True) 5 1 7 demo_store = (Inr (True, False), ?s1)" by code_simp
  with revoke_twice [OF this] show ?thesis by blast
qed

section \<open>Failures\<close>

text \<open>
  The retry loop does not retry. \<open>save\<close> validates before it inserts, and the validation of the unique
  prefix raises a \<open>ValidationError\<close>, which the loop's \<open>except IntegrityError\<close> does not catch: on a prefix
  collision the first attempt ends the call with that error, whatever the generator would have given
  next, and \<open>APIKeyGenerationError\<close> is never reached.
\<close>

theorem prefix_collision_not_retried:
  assumes "clean_key db s (new_key user name who (tokens 0)) = Some (raw_exn DjangoValidationError msg)"
  shows "create_key db rid user name who tokens s = (Inl (raw_exn DjangoValidationError msg), s)"
proof -
  have "\<not> isinstance (raw_exn DjangoValidationError msg) IntegrityError"
    by (simp add: isinstance_def issubclass_def raw_exn_def DjangoValidationError_def IntegrityError_def)
  with assms show ?thesis by (simp add: create_key_def save_new_key_def)
qed

theorem prefix_collision_not_retried_witness:
  "create_key (list_key_orm True) None 7 ''new'' None (\<lambda>i. if i = 0 then ''abcdefgh-other'' else ''fresh-token-1'') demo_store
   = (Inl (raw_exn DjangoValidationError ''Api key with this Prefix already exists.''), demo_store)"
  by (rule prefix_collision_not_retried) code_simp

text \<open>
  A header with a character outside ASCII whose first eight characters are a live key's prefix is not
  answered with the authentication error: the constant-time comparison raises a \<open>TypeError\<close>.
\<close>

theorem non_ascii_key_raises_type_error:
  assumes "find_key (take 8 key) s = Some k" and "8 \<le> length key" and "\<not> is_ascii key"
  shows "\<exists>e. authenticate now (Some key) s = (Inl e, s) \<and> exc_cls e = PyTypeError"
proof -
  have "key \<noteq> []" using assms(2) by auto
  with assms show ?thesis by (simp add: authenticate_def or_str_def compare_digest_def raw_exn_def)
qed

theorem non_ascii_key_raises_type_error_witness:
  "\<exists>e. authenticate 9 (Some (''abcdefgh'' @ [CHR 0xE9])) demo_store = (Inl e, demo_store) \<and> exc_cls e = PyTypeError"
proof -
  have "find_key (take 8 (''abcdefgh'' @ [CHR 0xE9])) demo_store = Some demo_key"
    "8 \<le> length (''abcdefgh'' @ [CHR 0xE9])" "\<not> is_ascii (''abcdefgh'' @ [CHR 0xE9])" by code_simp+
  then show ?thesis by (rule non_ascii_key_raises_type_error)
qed

end
