(* ===== verification/AuthChain.thy ===== *)
theory AuthChain
  imports ApiKeys
begin

text \<open>
  The pluggable authentication chain: \<open>apps/core/auth/\<close> (contract, registry, composite) and the providers
  of \<open>apps/accounts/auth_providers.py\<close>. The provider contract is a locale; the API-key and Google
  providers are interpreted in it, and simple-jwt's authentication is a parameter assumed to honour it.
\<close>

section \<open>The provider contract\<close>

text \<open>
  A provider answers a request with a user and credentials, with \<open>None\<close> when it sees no credentials of
  its kind, or by raising. \<open>valid\<close> is what an accepted answer means.
\<close>

locale auth_provider =
  fixes valid :: "'rq \<Rightarrow> 's \<Rightarrow> 'u \<times> 'a \<Rightarrow> bool"
    and authn :: "'rq \<Rightarrow> 's \<Rightarrow> (exn + ('u \<times> 'a) option) \<times> 's"
  assumes sound: "authn rq s = (Inr (Some r), s') \<Longrightarrow> valid rq s r"
    and skip_pure: "authn rq s = (Inr None, s') \<Longrightarrow> s' = s"

record ('rq, 's, 'u, 'a) provider =
  prov_name :: string
  prov_authenticate :: "'rq \<Rightarrow> 's \<Rightarrow> (exn + ('u \<times> 'a) option) \<times> 's"
  prov_header :: "('rq \<Rightarrow> string option) option"

section \<open>The registry\<close>

record ('rq, 's, 'u, 'a) auth_registry =
  reg_providers :: "(string \<times> ('rq, 's, 'u, 'a) provider) list"
  reg_warned :: "string list"
  reg_log :: "string list"

definition empty_auth_registry :: "('rq, 's, 'u, 'a) auth_registry" where
  "empty_auth_registry = \<lparr>reg_providers = [], reg_warned = [], reg_log = []\<rparr>"

definition register ::
  "('rq, 's, 'u, 'a) provider \<Rightarrow> ('rq, 's, 'u, 'a) auth_registry \<Rightarrow> ('rq, 's, 'u, 'a) auth_registry" where
  "register p g = g\<lparr>reg_providers := AList.update (prov_name p) p (reg_providers g)\<rparr>"

definition unregister :: "string \<Rightarrow> ('rq, 's, 'u, 'a) auth_registry \<Rightarrow> ('rq, 's, 'u, 'a) auth_registry" where
  "unregister name g = g\<lparr>reg_providers := AList.delete name (reg_providers g)\<rparr>"

definition registered_names :: "('rq, 's, 'u, 'a) auth_registry \<Rightarrow> string list" where
  "registered_names g = map fst (reg_providers g)"

text \<open>\<open>reg_log\<close> collects the names the warning is emitted for; \<open>names\<close> is \<open>AUTH_ENABLED_PROVIDERS\<close>.\<close>

fun enabled_loop ::
  "string list \<Rightarrow> ('rq, 's, 'u, 'a) auth_registry
     \<Rightarrow> ('rq, 's, 'u, 'a) provider list \<times> ('rq, 's, 'u, 'a) auth_registry" where
  "enabled_loop [] g = ([], g)"
| "enabled_loop (name # names) g =
     (case map_of (reg_providers g) name of
        None \<Rightarrow>
          enabled_loop names
            (if name \<in> set (reg_warned g) then g
             else g\<lparr>reg_warned := reg_warned g @ [name], reg_log := reg_log g @ [name]\<rparr>)
      | Some p \<Rightarrow> (let (out, g') = enabled_loop names g in (p # out, g')))"

definition enabled_providers ::
  "string list option \<Rightarrow> ('rq, 's, 'u, 'a) auth_registry
     \<Rightarrow> ('rq, 's, 'u, 'a) provider list \<times> ('rq, 's, 'u, 'a) auth_registry" where
  "enabled_providers setting g = enabled_loop (case setting of Some ns \<Rightarrow> ns | None \<Rightarrow> [''api_key'']) g"

definition reset_auth_registry :: "('rq, 's, 'u, 'a) auth_registry \<Rightarrow> ('rq, 's, 'u, 'a) auth_registry" where
  "reset_auth_registry g = g\<lparr>reg_providers := [], reg_warned := []\<rparr>"

section \<open>The composite\<close>

text \<open>\<open>_providers_for\<close>: the chain cached on the request, or a walk of the registry that fills the slot.\<close>

definition providers_for ::
  "string list option \<Rightarrow> ('rq, 's, 'u, 'a) provider list option \<Rightarrow> ('rq, 's, 'u, 'a) auth_registry
     \<Rightarrow> ('rq, 's, 'u, 'a) provider list \<times> ('rq, 's, 'u, 'a) provider list option \<times> ('rq, 's, 'u, 'a) auth_registry" where
  "providers_for setting slot g =
     (case slot of
        Some ps \<Rightarrow> (ps, slot, g)
      | None \<Rightarrow> (let (ps, g') = enabled_providers setting g in (ps, Some ps, g')))"

fun chain ::
  "('rq, 's, 'u, 'a) provider list \<Rightarrow> 'rq \<Rightarrow> 's \<Rightarrow> (exn + ('u \<times> 'a) option) \<times> 's" where
  "chain [] rq s = (Inr None, s)"
| "chain (p # ps) rq s =
     (case prov_authenticate p rq s of
        (Inl e, s') \<Rightarrow> (Inl e, s')
      | (Inr (Some r), s') \<Rightarrow> (Inr (Some r), s')
      | (Inr None, s') \<Rightarrow> chain ps rq s')"

fun first_header :: "('rq, 's, 'u, 'a) provider list \<Rightarrow> 'rq \<Rightarrow> string option" where
  "first_header [] rq = None"
| "first_header (p # ps) rq =
     (case prov_header p of
        Some h \<Rightarrow> (case or_str (h rq) None of Some v \<Rightarrow> Some v | None \<Rightarrow> first_header ps rq)
      | None \<Rightarrow> first_header ps rq)"

section \<open>The providers of the accounts app\<close>

text \<open>The request is its \<open>X-API-Key\<close> header and the time; the state is the key table.\<close>

type_synonym auth_request = "nat \<times> string option"

definition APIKeyProvider :: "(auth_request, key_store, int, api_key option) provider" where
  "APIKeyProvider =
     \<lparr>prov_name = ''api_key'',
      prov_authenticate = (\<lambda>(now, header) s.
        case authenticate now header s of
          (Inl e, s') \<Rightarrow> (Inl e, s')
        | (Inr None, s') \<Rightarrow> (Inr None, s')
        | (Inr (Some (u, k)), s') \<Rightarrow> (Inr (Some (u, Some k)), s')),
      prov_header = Some (\<lambda>rq. Some ''X-API-Key'')\<rparr>"

definition GoogleOAuthProvider :: "('rq, 's, 'u, 'a) provider" where
  "GoogleOAuthProvider =
     \<lparr>prov_name = ''oauth_google'', prov_authenticate = (\<lambda>rq s. (Inr None, s)), prov_header = None\<rparr>"

definition JWTProvider ::
  "(auth_request \<Rightarrow> key_store \<Rightarrow> (exn + (int \<times> api_key option) option) \<times> key_store) \<Rightarrow> (auth_request \<Rightarrow> string option)
     \<Rightarrow> (auth_request, key_store, int, api_key option) provider" where
  "JWTProvider jwt hdr = \<lparr>prov_name = ''jwt'', prov_authenticate = jwt, prov_header = Some hdr\<rparr>"

text \<open>\<open>AccountsConfig.ready\<close> registers the three.\<close>

definition boot_providers ::
  "(auth_request \<Rightarrow> key_store \<Rightarrow> (exn + (int \<times> api_key option) option) \<times> key_store) \<Rightarrow> (auth_request \<Rightarrow> string option)
     \<Rightarrow> (auth_request, key_store, int, api_key option) auth_registry" where
  "boot_providers jwt hdr =
     register GoogleOAuthProvider (register APIKeyProvider (register (JWTProvider jwt hdr) empty_auth_registry))"

section \<open>What the registry hands out\<close>

lemma in_set_map_filter: "p \<in> set (List.map_filter f xs) \<longleftrightarrow> (\<exists>x \<in> set xs. f x = Some p)"
  by (induction xs) (auto simp: map_filter_simps split: option.splits)

lemma enabled_loop_providers:
  "fst (enabled_loop names g) = List.map_filter (map_of (reg_providers g)) names"
proof (induction names arbitrary: g)
  case (Cons n ns)
  then show ?case by (auto simp: map_filter_simps split_beta Let_def split: option.splits)
qed (simp add: map_filter_simps)

definition warned_once :: "('rq, 's, 'u, 'a) auth_registry \<Rightarrow> bool" where
  "warned_once g \<longleftrightarrow> reg_log g = reg_warned g \<and> distinct (reg_log g)"

lemma enabled_loop_warned: "warned_once g \<Longrightarrow> warned_once (snd (enabled_loop names g))"
proof (induction names arbitrary: g)
  case (Cons n ns)
  let ?g = "if n \<in> set (reg_warned g) then g
    else g\<lparr>reg_warned := reg_warned g @ [n], reg_log := reg_log g @ [n]\<rparr>"
  have "warned_once ?g" using Cons.prems unfolding warned_once_def by auto
  from Cons.IH [OF this] show ?case
    using Cons.IH [OF Cons.prems] by (auto simp: split_beta Let_def split: option.splits)
qed simp

lemma enabled_calls_warned:
  "warned_once g \<Longrightarrow> warned_once (fold (\<lambda>ns h. snd (enabled_providers (Some ns) h)) calls g)"
  by (induction calls arbitrary: g) (simp_all add: enabled_providers_def enabled_loop_warned)

text \<open>
  A typo in the settings never disables the rest: the chain consulted is exactly the known providers
  of the configured names, in their order, and asking for it any number of times warns of each
  unknown name once.
\<close>

theorem enabled_providers_exact:
  "fst (enabled_providers (Some names) g) = List.map_filter (map_of (reg_providers g)) names \<and>
   distinct (reg_log (fold (\<lambda>ns h. snd (enabled_providers (Some ns) h)) calls
      (register p (register q (register r empty_auth_registry)))))"
proof -
  have "warned_once (register p (register q (register r empty_auth_registry)))"
    by (simp add: warned_once_def register_def empty_auth_registry_def)
  from enabled_calls_warned [OF this] have "distinct (reg_log (fold (\<lambda>ns h. snd (enabled_providers (Some ns) h)) calls
      (register p (register q (register r empty_auth_registry)))))"
    unfolding warned_once_def by (rule conjunct2)
  then show ?thesis by (simp add: enabled_providers_def enabled_loop_providers)
qed

section \<open>What the chain accepts\<close>

lemma chain_sound:
  assumes "\<And>p. p \<in> set ps \<Longrightarrow> auth_provider (valid p) (prov_authenticate p)"
    and "chain ps rq s = (Inr (Some r), s')"
  shows "\<exists>p qs rs. ps = qs @ p # rs \<and> (\<forall>q \<in> set qs. prov_authenticate q rq s = (Inr None, s)) \<and>
     prov_authenticate p rq s = (Inr (Some r), s') \<and> valid p rq s r"
  using assms
proof (induction ps)
  case (Cons p ps)
  have p: "auth_provider (valid p) (prov_authenticate p)" using Cons.prems(1) by simp
  obtain o1 s1 where out: "prov_authenticate p rq s = (o1, s1)" by force
  show ?case
  proof (cases "o1 = Inr None")
    case True
    then have "s1 = s" using auth_provider.skip_pure [OF p] out by blast
    then obtain p' qs rs where "ps = qs @ p' # rs" "\<forall>q \<in> set qs. prov_authenticate q rq s = (Inr None, s)"
        "prov_authenticate p' rq s = (Inr (Some r), s')" "valid p' rq s r"
      using Cons True out by auto
    then show ?thesis using True out \<open>s1 = s\<close> by (intro exI [of _ p'] exI [of _ "p # qs"] exI [of _ rs]) simp
  next
    case False
    then have "o1 = Inr (Some r) \<and> s1 = s'"
      using Cons.prems(2) out by (auto split: sum.splits option.splits)
    then show ?thesis
      using out auth_provider.sound [OF p] by (intro exI [of _ p] exI [of _ "[]"] exI [of _ ps]) auto
  qed
qed simp

text \<open>An accepted API key answer.\<close>

definition valid_api_key :: "auth_request \<Rightarrow> key_store \<Rightarrow> int \<times> api_key option \<Rightarrow> bool" where
  "valid_api_key rq s r \<longleftrightarrow>
     (\<exists>k. snd r = Some k \<and> snd rq = Some (ak_secret k) \<and> k \<in> set (ks_keys s) \<and> usable k \<and> fst r = ak_user k \<and>
        map_of (ks_users s) (fst r) = Some True)"

interpretation api_key_provider: auth_provider valid_api_key "prov_authenticate APIKeyProvider"
proof
  fix rq :: auth_request and s s' :: key_store and r :: "int \<times> api_key option"
  obtain now header where rq: "rq = (now, header)" by force
  obtain o1 s1 where out: "authenticate now header s = (o1, s1)" by force
  {
    assume "prov_authenticate APIKeyProvider rq s = (Inr (Some r), s')"
    then obtain u k where "o1 = Inr (Some (u, k))" "r = (u, Some k)"
      using out by (auto simp: APIKeyProvider_def rq split: sum.splits option.splits)
    then show "valid_api_key rq s r"
      using authenticate_sound [of now header s u k] out by (auto simp: valid_api_key_def rq)
  next
    assume "prov_authenticate APIKeyProvider rq s = (Inr None, s')"
    then have "o1 = Inr None" "s' = s1"
      using out by (auto simp: APIKeyProvider_def rq split: sum.splits option.splits)
    then show "s' = s"
      using out by (auto simp: authenticate_def split: option.splits sum.splits bool.splits if_splits)
  }
qed

interpretation google_provider: auth_provider "\<lambda>rq s r. False" "prov_authenticate GoogleOAuthProvider"
  by unfold_locales (simp_all add: GoogleOAuthProvider_def)

text \<open>Whatever names the settings enable, the composite asks only the three registered providers.\<close>

lemma composite_known:
  assumes "p \<in> set (fst (enabled_providers setting (boot_providers jwt hdr)))"
  shows "p \<in> {JWTProvider jwt hdr, APIKeyProvider, GoogleOAuthProvider}"
  using assms
  by (auto simp: enabled_providers_def enabled_loop_providers boot_providers_def register_def
      empty_auth_registry_def in_set_map_filter JWTProvider_def APIKeyProvider_def GoogleOAuthProvider_def
      split: if_splits option.splits)

lemma composite_split:
  assumes "auth_provider valid_jwt jwt"
    and "chain (fst (enabled_providers setting (boot_providers jwt hdr))) rq s = (Inr (Some r), s')"
  shows "(valid_jwt rq s r \<or> valid_api_key rq s r) \<and>
    (\<exists>qs p rs. fst (enabled_providers setting (boot_providers jwt hdr)) = qs @ p # rs \<and>
       (\<forall>q \<in> set qs. prov_authenticate q rq s = (Inr None, s)) \<and>
       prov_authenticate p rq s = (Inr (Some r), s'))"
proof -
  define valid where "valid p = (if prov_name p = ''jwt'' then valid_jwt
      else if prov_name p = ''api_key'' then valid_api_key else (\<lambda>rq s r. False))"
    for p :: "(auth_request, key_store, int, api_key option) provider"
  let ?ps = "fst (enabled_providers setting (boot_providers jwt hdr))"
  have "auth_provider (valid p) (prov_authenticate p)" if "p \<in> set ?ps" for p
    using composite_known [OF that] assms(1) api_key_provider.auth_provider_axioms google_provider.auth_provider_axioms
    by (auto simp: valid_def JWTProvider_def APIKeyProvider_def GoogleOAuthProvider_def)
  from chain_sound [OF this assms(2)] obtain p qs rs where
    split: "?ps = qs @ p # rs" "\<forall>q \<in> set qs. prov_authenticate q rq s = (Inr None, s)"
      "prov_authenticate p rq s = (Inr (Some r), s')" and ok: "valid p rq s r" by blast
  from ok have "valid_jwt rq s r \<or> valid_api_key rq s r" by (auto simp: valid_def split: if_splits)
  with split show ?thesis by blast
qed

text \<open>
  C9: nobody gets in without credentials. Given that simple-jwt honours the contract with its own notion
  of a valid token, whatever names the settings enable, a request the composite accepts carries a
  valid token, or is the full secret of an active, unrevoked key of an active user; and every provider
  asked before the one that accepted saw no credentials.
\<close>

theorem composite_accepts_only_valid:
  assumes "auth_provider valid_jwt jwt"
    and "chain (fst (enabled_providers setting (boot_providers jwt hdr))) rq s = (Inr (Some r), s')"
  shows "(valid_jwt rq s r \<or> valid_api_key rq s r) \<and>
    (\<exists>qs p rs. fst (enabled_providers setting (boot_providers jwt hdr)) = qs @ p # rs \<and>
       (\<forall>q \<in> set qs. prov_authenticate q rq s = (Inr None, s)) \<and>
       prov_authenticate p rq s = (Inr (Some r), s'))"
  by (rule composite_split [OF assms])

text \<open>The composite keeps whatever every provider it asks keeps.\<close>

lemma chain_keeps:
  assumes "\<And>p s. p \<in> set ps \<Longrightarrow> Q s \<Longrightarrow> Q (snd (prov_authenticate p rq s))" and "Q s"
  shows "Q (snd (chain ps rq s))"
  using assms
proof (induction ps arbitrary: s)
  case (Cons p ps)
  obtain o1 s1 where out: "prov_authenticate p rq s = (o1, s1)" by force
  then have "Q s1" using Cons.prems(1) [of p s] Cons.prems(2) by simp
  then have "Q (snd (chain ps rq s1))" using Cons.prems(1) by (intro Cons.IH) auto
  with \<open>Q s1\<close> out show ?case by (auto split: sum.splits option.splits)
qed simp

definition no_jwt :: "auth_request \<Rightarrow> key_store \<Rightarrow> (exn + (int \<times> api_key option) option) \<times> key_store" where
  "no_jwt rq s = (Inr None, s)"

interpretation no_jwt: auth_provider "\<lambda>rq s r. False" no_jwt
  by unfold_locales (simp_all add: no_jwt_def)

theorem composite_accepts_only_valid_witness:
  "\<exists>r s'. chain (fst (enabled_providers (Some [''jwt'', ''typo'', ''api_key'']) (boot_providers no_jwt (\<lambda>rq. None))))
      (9, Some ''abcdefgh-secret'') demo_store = (Inr (Some r), s') \<and>
      valid_api_key (9, Some ''abcdefgh-secret'') demo_store r"
proof -
  let ?out = "chain (fst (enabled_providers (Some [''jwt'', ''typo'', ''api_key'']) (boot_providers no_jwt (\<lambda>rq. None))))
      (9, Some ''abcdefgh-secret'') demo_store"
  have "fst ?out = Inr (Some (7, Some demo_key))" by code_simp
  then have out: "?out = (Inr (Some (7, Some demo_key)), snd ?out)" by (metis prod.collapse)
  from composite_accepts_only_valid [OF no_jwt.auth_provider_axioms out] out show ?thesis by blast
qed

end
