(* ===== verification/Accounts.thy ===== *)
theory Accounts
  imports Service ApiKeys RequestContext
begin

text \<open>
  Sessions, profiles and sign-up: \<open>token_refresh\<close>, \<open>logout\<close> and \<open>me\<close> of \<open>apps/accounts/views.py\<close>,
  \<open>UserService\<close>, the repositories, \<open>UserManager\<close>, the allauth adapters and the redirect check of the
  serializers. simple-jwt, with its blacklist tables, is a record of functions whose documented
  behaviour is the locale \<open>jwt_store\<close>; the user table is the ORM of \<open>Service\<close>.
\<close>

section \<open>simple-jwt\<close>

record token =
  tok_jti :: string
  tok_claims :: "(string \<times> pyval) list"

text \<open>
  \<open>RefreshToken(raw)\<close>, \<open>token.blacklist()\<close>, \<open>RefreshToken.for_user(user)\<close> and the two encodings. The
  state is whatever the library keeps.
\<close>

record 'j jwt_lib =
  RefreshToken :: "pyval \<Rightarrow> 'j \<Rightarrow> exn + token"
  blacklist :: "token \<Rightarrow> 'j \<Rightarrow> (exn + unit) \<times> 'j"
  for_user :: "int \<Rightarrow> 'j \<Rightarrow> (exn + token) \<times> 'j"
  token_str :: "token \<Rightarrow> string"
  access_token :: "token \<Rightarrow> string"

text \<open>\<open>live\<close> is the set of refresh tokens the library would still accept.\<close>

locale jwt_store =
  fixes lib :: "'j jwt_lib"
    and live :: "'j \<Rightarrow> string set"
  assumes accepted_live: "RefreshToken lib v s = Inr t \<Longrightarrow> tok_jti t \<in> live s"
    and blacklist_ok: "blacklist lib t s = (Inr (), s') \<Longrightarrow> live s' = live s - {tok_jti t}"
    and blacklist_fail: "blacklist lib t s = (Inl e, s') \<Longrightarrow> live s' \<subseteq> live s \<and> live s - {tok_jti t} \<subseteq> live s'"
    and mint_ok: "for_user lib pk s = (Inr t, s') \<Longrightarrow> live s' = insert (tok_jti t) (live s) \<and> tok_jti t \<notin> live s"
    and mint_fail: "for_user lib pk s = (Inl e, s') \<Longrightarrow> live s' = live s"
    and finite_live: "finite (live s)"

definition TokenError :: exc_class where
  "TokenError = OtherException ''TokenError''"

text \<open>\<open>token["user_id"]\<close> and \<open>int(...)\<close>; the truncation of a float is an argument.\<close>

definition claim :: "token \<Rightarrow> string \<Rightarrow> (exn, pyval) result" where
  "claim t k = (case map_of (tok_claims t) k of Some v \<Rightarrow> Inr v | None \<Rightarrow> Inl (raw_exn PyKeyError k))"

fun int_of :: "(string \<Rightarrow> (exn, int) result) \<Rightarrow> pyval \<Rightarrow> (exn, int) result" where
  "int_of trunc (VInt i) = Inr i"
| "int_of trunc (VBool b) = Inr (if b then 1 else 0)"
| "int_of trunc (VFloat f) = trunc f"
| "int_of trunc (VStr s) =
     (case py_int s of
        Some i \<Rightarrow> Inr i
      | None \<Rightarrow> Inl (raw_exn PyValueError (''invalid literal for int() with base 10: '' @ repr_str s)))"
| "int_of trunc (VBytes s) =
     (case py_int s of
        Some i \<Rightarrow> Inr i
      | None \<Rightarrow> Inl (raw_exn PyValueError (''invalid literal for int() with base 10: b'' @ repr_str s)))"
| "int_of trunc v = Inl (raw_exn PyTypeError ''int() argument must be a string, a bytes-like object or a real number'')"

definition token_user :: "(string \<Rightarrow> (exn, int) result) \<Rightarrow> token \<Rightarrow> (exn, int) result" where
  "token_user trunc t = rbind (claim t ''user_id'') (int_of trunc)"

text \<open>\<open>request.data.get("refresh")\<close>: a body that is not a mapping has no \<open>get\<close>.\<close>

definition refresh_of :: "pyval \<Rightarrow> (exn, pyval) result" where
  "refresh_of data =
     (case data of
        VDict d \<Rightarrow> Inr (case dget d ''refresh'' of Some v \<Rightarrow> v | None \<Rightarrow> VNone)
      | _ \<Rightarrow> Inl (raw_exn PyAttributeError ''get''))"

section \<open>Users\<close>

definition USER :: string where "USER = ''accounts.User''"

definition user_get_by_id :: "'db orm \<Rightarrow> int \<Rightarrow> 'db \<Rightarrow> row option" where
  "user_get_by_id orm pk db = find_row orm db (USER, pk)"

definition has_attr :: "'db orm \<Rightarrow> 'db \<Rightarrow> string \<Rightarrow> pyval \<Rightarrow> obj \<Rightarrow> bool" where
  "has_attr orm db f v x = (case find_row orm db x of Some r \<Rightarrow> map_of r f = Some v | None \<Rightarrow> False)"

definition get_by_email :: "'db orm \<Rightarrow> string \<Rightarrow> 'db \<Rightarrow> (exn, obj option) result" where
  "get_by_email orm email db =
     (case filter (\<lambda>x. fst x = USER \<and> has_attr orm db ''email'' (VStr email) x) (all_objs orm db) of
        [] \<Rightarrow> Inr None
      | [x] \<Rightarrow> Inr (Some x)
      | _ \<Rightarrow> Inl (raw_exn (OtherException ''MultipleObjectsReturned'') ''''))"

text \<open>
  \<open>UserRepository.update\<close> under its transaction. \<open>refuse\<close> is what the database answers to the write
  (a value too long, a constraint), \<open>None\<close> when it accepts.
\<close>

definition setattrs :: "(string \<times> pyval) list \<Rightarrow> row \<Rightarrow> row" where
  "setattrs data r = fold (\<lambda>(f, v). setattr f v) data r"

definition user_update ::
  "'db orm \<Rightarrow> ('db \<Rightarrow> obj \<Rightarrow> row \<Rightarrow> exn option) \<Rightarrow> int \<Rightarrow> (string \<times> pyval) list \<Rightarrow> 'db \<Rightarrow> (exn + row) \<times> 'db" where
  "user_update orm refuse pk data =
     atomic (\<lambda>db.
       case find_row orm db (USER, pk) of
         None \<Rightarrow> (Inl (raw_exn (OtherException ''DoesNotExist'') ''User matching query does not exist.''), db)
       | Some r \<Rightarrow>
           (let r' = setattrs data r in
            case refuse db (USER, pk) r' of
              Some e \<Rightarrow> (Inl e, db)
            | None \<Rightarrow> (Inr r', write_row orm (USER, pk) r' db)))"

definition UPDATABLE_PROFILE_FIELDS :: "string list" where
  "UPDATABLE_PROFILE_FIELDS = [''timezone'', ''first_name'', ''last_name'']"

fun updatable :: "pydict \<Rightarrow> (string \<times> pyval) list" where
  "updatable [] = []"
| "updatable ((KStr f, v) # d) =
     (if f \<in> set UPDATABLE_PROFILE_FIELDS then (f, v) # updatable d else updatable d)"
| "updatable (_ # d) = updatable d"

text \<open>\<open>value in available_timezones()\<close>: a set lookup, which raises for an unhashable value.\<close>

fun hashable :: "pyval \<Rightarrow> bool" where
  "hashable (VSeq SList xs) = False"
| "hashable (VSeq SSet xs) = False"
| "hashable (VSeq k xs) = (\<forall>x \<in> set xs. hashable x)"
| "hashable (VDict d) = False"
| "hashable _ = True"

definition timezone_error :: "string option \<Rightarrow> string list \<Rightarrow> pyval option \<Rightarrow> exn option" where
  "timezone_error rid tzs tz =
     (case tz of
        None \<Rightarrow> None
      | Some v \<Rightarrow>
          if \<not> hashable v then Some (raw_exn PyTypeError ''unhashable type'')
          else if v \<in> VStr ` set tzs then None
          else Some (new_custom rid InvalidTimezoneError None None NoFields))"

definition update_profile ::
  "string option \<Rightarrow> 'db orm \<Rightarrow> ('db \<Rightarrow> obj \<Rightarrow> row \<Rightarrow> exn option) \<Rightarrow> string list \<Rightarrow> int \<Rightarrow> pyval \<Rightarrow> 'db
     \<Rightarrow> (exn + row) \<times> 'db" where
  "update_profile rid orm refuse tzs pk data db =
     (case data of
        VDict d \<Rightarrow>
          (let update_data = updatable d in
           if update_data = [] then (Inl (new_custom rid NoFieldsToUpdateError None None NoFields), db)
           else case timezone_error rid tzs (map_of update_data ''timezone'') of
             Some e \<Rightarrow> (Inl e, db)
           | None \<Rightarrow> user_update orm refuse pk update_data db)
      | _ \<Rightarrow> (Inl (raw_exn PyAttributeError ''items''), db))"

section \<open>The session views\<close>

definition invalid_token :: "string option \<Rightarrow> http_response" where
  "invalid_token ctx = ErrorResponse ctx ''Invalid or expired refresh token'' None 401"

definition missing_token :: "string option \<Rightarrow> http_response" where
  "missing_token ctx = ErrorResponse ctx ''Refresh token is required'' None 400"

text \<open>The \<open>try\<close> block of \<open>token_refresh\<close>, without its outer handler.\<close>

definition rotate_token ::
  "string option \<Rightarrow> 'j jwt_lib \<Rightarrow> (string \<Rightarrow> (exn, int) result) \<Rightarrow> 'db orm \<Rightarrow> 'db \<Rightarrow> pyval \<Rightarrow> 'j
     \<Rightarrow> (exn + http_response) \<times> 'j" where
  "rotate_token ctx lib trunc orm db refresh s =
     (case RefreshToken lib refresh s of
        Inl e \<Rightarrow> (Inl e, s)
      | Inr t \<Rightarrow>
          (case token_user trunc t of
             Inl e \<Rightarrow> (Inl e, s)
           | Inr pk \<Rightarrow>
               (case user_get_by_id orm pk db of
                  None \<Rightarrow> (Inr (invalid_token ctx), s)
                | Some u \<Rightarrow>
                    if \<not> is_active u then (Inr (invalid_token ctx), s)
                    else
                      (case blacklist lib t s of
                         (Inl e, s1) \<Rightarrow>
                           if isinstance e TokenError
                           then (Inr (ErrorResponse ctx ''Token rotation temporarily unavailable. Please retry.'' None 503), s1)
                           else (Inl e, s1)
                       | (Inr _, s1) \<Rightarrow>
                           (case for_user lib pk s1 of
                              (Inl e, s2) \<Rightarrow> (Inl e, s2)
                            | (Inr new_token, s2) \<Rightarrow>
                                (Inr (SuccessResponse ctx
                                   (str_dict [(''access'', VStr (access_token lib new_token)),
                                              (''refresh'', VStr (token_str lib new_token))]) ''Success'' 200), s2))))))"

text \<open>\<open>except\<close> with the exception classes and the answer.\<close>

definition catching ::
  "exc_class list \<Rightarrow> http_response \<Rightarrow> (exn + http_response) \<times> 's \<Rightarrow> (exn + http_response) \<times> 's" where
  "catching cs answer out =
     (case out of
        (Inl e, s) \<Rightarrow> if list_ex (isinstance e) cs then (Inr answer, s) else (Inl e, s)
      | (Inr r, s) \<Rightarrow> (Inr r, s))"

definition token_refresh ::
  "string option \<Rightarrow> 'j jwt_lib \<Rightarrow> (string \<Rightarrow> (exn, int) result) \<Rightarrow> 'db orm \<Rightarrow> 'db \<Rightarrow> pyval \<Rightarrow> 'j
     \<Rightarrow> (exn + http_response) \<times> 'j" where
  "token_refresh ctx lib trunc orm db data s =
     (case refresh_of data of
        Inl e \<Rightarrow> (Inl e, s)
      | Inr refresh \<Rightarrow>
          if \<not> truthy refresh then (Inr (missing_token ctx), s)
          else catching [TokenError] (invalid_token ctx) (rotate_token ctx lib trunc orm db refresh s))"

definition logout_block ::
  "string option \<Rightarrow> 'j jwt_lib \<Rightarrow> (string \<Rightarrow> (exn, int) result) \<Rightarrow> int \<Rightarrow> pyval \<Rightarrow> 'j \<Rightarrow> (exn + http_response) \<times> 'j" where
  "logout_block ctx lib trunc uid refresh s =
     (case RefreshToken lib refresh s of
        Inl e \<Rightarrow> (Inl e, s)
      | Inr t \<Rightarrow>
          (case token_user trunc t of
             Inl e \<Rightarrow> (Inl e, s)
           | Inr pk \<Rightarrow>
               if pk \<noteq> uid then (Inr (invalid_token ctx), s)
               else
                 (case blacklist lib t s of
                    (Inl e, s1) \<Rightarrow> (Inl e, s1)
                  | (Inr _, s1) \<Rightarrow> (Inr (SuccessResponse ctx VNone ''Successfully logged out.'' 200), s1))))"

definition logout ::
  "string option \<Rightarrow> 'j jwt_lib \<Rightarrow> (string \<Rightarrow> (exn, int) result) \<Rightarrow> int \<Rightarrow> pyval \<Rightarrow> 'j \<Rightarrow> (exn + http_response) \<times> 'j" where
  "logout ctx lib trunc uid data s =
     (case refresh_of data of
        Inl e \<Rightarrow> (Inl e, s)
      | Inr refresh \<Rightarrow>
          if \<not> truthy refresh then (Inr (missing_token ctx), s)
          else catching [TokenError, PyValueError] (invalid_token ctx) (logout_block ctx lib trunc uid refresh s))"


section \<open>Sessions\<close>

context jwt_store
begin

lemma mint_fail_live:
  "blacklist lib t s = (Inr (), s1) \<Longrightarrow> for_user lib pk s1 = (Inl e, s2) \<Longrightarrow> live s2 \<subseteq> live s"
  by (auto dest!: blacklist_ok mint_fail)

lemma rotate_live:
  "live (snd (rotate_token ctx lib trunc orm db v s)) \<subseteq> live s \<or>
     (\<exists>t (new :: token). RefreshToken lib v s = Inr t \<and>
        live (snd (rotate_token ctx lib trunc orm db v s)) = insert (tok_jti new) (live s - {tok_jti t}))"
proof (cases "\<exists>t pk u s1 new s2. RefreshToken lib v s = Inr t \<and> token_user trunc t = Inr pk \<and>
    user_get_by_id orm pk db = Some u \<and> is_active u \<and> blacklist lib t s = (Inr (), s1) \<and>
    for_user lib pk s1 = (Inr new, s2)")
  case True
  then obtain t pk u s1 new s2 where h: "RefreshToken lib v s = Inr t" "token_user trunc t = Inr pk"
    "user_get_by_id orm pk db = Some u" "is_active u" "blacklist lib t s = (Inr (), s1)"
    "for_user lib pk s1 = (Inr new, s2)" by blast
  have "live (snd (rotate_token ctx lib trunc orm db v s)) = insert (tok_jti new) (live s - {tok_jti t})"
    using h blacklist_ok [OF h(5)] mint_ok [OF h(6)] by (simp add: rotate_token_def)
  with h(1) have "\<exists>t (new :: token). RefreshToken lib v s = Inr t \<and>
        live (snd (rotate_token ctx lib trunc orm db v s)) = insert (tok_jti new) (live s - {tok_jti t})"
    by (intro exI [of _ t] exI [of _ new]) simp
  then show ?thesis by (rule disjI2)
next
  case False
  then have "live (snd (rotate_token ctx lib trunc orm db v s)) \<subseteq> live s"
    by (auto simp: rotate_token_def split: sum.splits option.splits prod.splits
        dest: blacklist_ok blacklist_fail mint_fail_live)
  then show ?thesis by (rule disjI1)
qed

lemma snd_catching [simp]: "snd (catching cs a out) = snd out"
  by (auto simp: catching_def split: prod.splits sum.splits)

lemma card_swap:
  assumes "tok_jti t \<in> live s"
  shows "card (insert x (live s - {tok_jti t})) \<le> card (live s)"
  using card.remove [OF finite_live assms] finite_live [of s] by (simp add: card_insert_if)

lemma rotate_sessions: "card (live (snd (rotate_token ctx lib trunc orm db v s))) \<le> card (live s)"
  using rotate_live [of ctx trunc orm db v s]
proof
  assume "live (snd (rotate_token ctx lib trunc orm db v s)) \<subseteq> live s"
  then show ?thesis by (rule card_mono [OF finite_live])
next
  assume "\<exists>t (new :: token). RefreshToken lib v s = Inr t \<and>
      live (snd (rotate_token ctx lib trunc orm db v s)) = insert (tok_jti new) (live s - {tok_jti t})"
  then show ?thesis by (metis accepted_live card_swap)
qed

lemma refresh_sessions: "card (live (snd (token_refresh ctx lib trunc orm db data s))) \<le> card (live s)"
  using rotate_sessions by (auto simp: token_refresh_def split: sum.splits)

lemma refresh_ok:
  assumes "token_refresh ctx lib trunc orm db data s = (Inr resp, s')" "rs_status resp = 200"
  shows "\<exists>v t pk u new. refresh_of data = Inr v \<and> RefreshToken lib v s = Inr t \<and> token_user trunc t = Inr pk \<and>
     user_get_by_id orm pk db = Some u \<and> is_active u \<and>
     live s' = insert (tok_jti new) (live s - {tok_jti t}) \<and> tok_jti new \<notin> live s - {tok_jti t} \<and>
     (\<exists>s1. for_user lib pk s1 = (Inr new, s')) \<and>
     env_data (rs_body resp) = str_dict [(''access'', VStr (access_token lib new)),
       (''refresh'', VStr (token_str lib new))]"
proof -
  obtain v where v: "refresh_of data = Inr v" and r: "rotate_token ctx lib trunc orm db v s = (Inr resp, s')"
    using assms by (auto simp: token_refresh_def catching_def missing_token_def invalid_token_def
        split: sum.splits if_splits prod.splits)
  then obtain t pk u s1 new where h: "RefreshToken lib v s = Inr t" "token_user trunc t = Inr pk"
    "user_get_by_id orm pk db = Some u" "is_active u" "blacklist lib t s = (Inr (), s1)"
    "for_user lib pk s1 = (Inr new, s')"
    and resp: "env_data (rs_body resp) = str_dict [(''access'', VStr (access_token lib new)),
       (''refresh'', VStr (token_str lib new))]"
    using assms(2) by (auto simp: rotate_token_def invalid_token_def split: sum.splits option.splits prod.splits if_splits)
  show ?thesis
    using v h resp blacklist_ok [OF h(5)] mint_ok [OF h(6)] by blast
qed

lemma logout_revokes_only:
  assumes "jti \<in> live s" "jti \<notin> live (snd (logout ctx lib trunc uid data s))"
  shows "\<exists>v t. refresh_of data = Inr v \<and> RefreshToken lib v s = Inr t \<and> token_user trunc t = Inr uid \<and> jti = tok_jti t"
  using assms
  by (auto simp: logout_def logout_block_def split: sum.splits prod.splits if_splits
      dest!: blacklist_ok blacklist_fail)

end


text \<open>An instance: the state lists the accepted tokens by their encoding, which is their id.\<close>

definition fresh_jti :: "token list \<Rightarrow> string" where
  "fresh_jti ts = replicate (Suc (sum_list (map (length \<circ> tok_jti) ts))) CHR ''j''"

definition list_jwt :: "token list jwt_lib" where
  "list_jwt =
     \<lparr>RefreshToken = (\<lambda>v ts. case find (\<lambda>t. v = VStr (tok_jti t)) ts of
        Some t \<Rightarrow> Inr t | None \<Rightarrow> Inl (raw_exn TokenError ''Token is invalid'')),
      blacklist = (\<lambda>t ts. (Inr (), filter (\<lambda>x. tok_jti x \<noteq> tok_jti t) ts)),
      for_user = (\<lambda>pk ts. let t = \<lparr>tok_jti = fresh_jti ts, tok_claims = [(''user_id'', VStr (int_str pk))]\<rparr>
        in (Inr t, t # ts)),
      token_str = tok_jti, access_token = (\<lambda>t. ''access-'' @ tok_jti t)\<rparr>"

definition list_live :: "token list \<Rightarrow> string set" where
  "list_live ts = tok_jti ` set ts"

lemma fresh_jti_new: "fresh_jti ts \<notin> list_live ts"
proof
  assume "fresh_jti ts \<in> list_live ts"
  then obtain t where t: "t \<in> set ts" "tok_jti t = fresh_jti ts" by (auto simp: list_live_def)
  have "length (tok_jti t) \<in> set (map (length \<circ> tok_jti) ts)" using t(1) by (simp add: comp_def)
  then have "length (tok_jti t) \<le> sum_list (map (length \<circ> tok_jti) ts)" by (simp add: member_le_sum_list)
  with t(2) show False by (simp add: fresh_jti_def)
qed

interpretation ljwt: jwt_store list_jwt list_live
  by unfold_locales
    (use fresh_jti_new in \<open>auto simp: list_jwt_def list_live_def Let_def find_Some_iff image_iff split: option.splits\<close>)

text \<open>
  C10: refreshing never multiplies sessions. Whatever the body and whatever fails on the way (the
  decoding, the user lookup, the blacklist write, the minting), the number of refresh tokens the
  library accepts is never larger after the call than before: the old token is retired before the
  new pair exists. The hypothesis is simple-jwt's documented behaviour.
\<close>

theorem refresh_never_adds_sessions:
  assumes "jwt_store lib live"
  shows "card (live (snd (token_refresh ctx lib trunc orm db data s))) \<le> card (live s)"
  using assms by (rule jwt_store.refresh_sessions)

definition demo_token :: token where
  "demo_token = \<lparr>tok_jti = ''abc'', tok_claims = [(''user_id'', VStr ''7'')]\<rparr>"

definition demo_users :: "(obj \<times> row) list" where
  "demo_users = [((USER, 7), [(''is_active'', VBool True), (''timezone'', VStr ''UTC''), (''email'', VStr ''a@b.c'')])]"

definition no_floats :: "string \<Rightarrow> (exn, int) result" where
  "no_floats f = Inl (raw_exn PyValueError ''float'')"

definition refresh_body :: "string \<Rightarrow> pyval" where
  "refresh_body raw = VDict [(KStr ''refresh'', VStr raw)]"

theorem refresh_never_adds_sessions_witness:
  "card (list_live (snd (token_refresh None list_jwt no_floats list_orm demo_users (refresh_body ''abc'') [demo_token])))
     \<le> card (list_live [demo_token])"
  using refresh_never_adds_sessions [OF ljwt.jwt_store_axioms] .

text \<open>
  A 200 from the refresh endpoint is a rotation. The presented token was accepted and belongs to an
  active user; it is no longer accepted afterwards; exactly one new token is, minted for that same user,
  and the body carries that token and its access token.
\<close>

theorem refresh_success_rotates:
  assumes "jwt_store lib live"
    and "token_refresh ctx lib trunc orm db data s = (Inr resp, s')" and "rs_status resp = 200"
  shows "\<exists>v t pk u new. refresh_of data = Inr v \<and> RefreshToken lib v s = Inr t \<and> token_user trunc t = Inr pk \<and>
     user_get_by_id orm pk db = Some u \<and> is_active u \<and>
     live s' = insert (tok_jti new) (live s - {tok_jti t}) \<and> tok_jti new \<notin> live s - {tok_jti t} \<and>
     (\<exists>s1. for_user lib pk s1 = (Inr new, s')) \<and>
     env_data (rs_body resp) = str_dict [(''access'', VStr (access_token lib new)),
       (''refresh'', VStr (token_str lib new))]"
  using jwt_store.refresh_ok [OF assms] .

theorem refresh_success_rotates_witness:
  "\<exists>resp s' (new :: token). token_refresh None list_jwt no_floats list_orm demo_users (refresh_body ''abc'') [demo_token]
      = (Inr resp, s') \<and> list_live s' = {tok_jti new} \<and> tok_jti new \<noteq> ''abc''"
proof -
  define out where
    "out = token_refresh None list_jwt no_floats list_orm demo_users (refresh_body ''abc'') [demo_token]"
  have st: "(case fst out of Inr resp \<Rightarrow> rs_status resp = 200 | Inl e \<Rightarrow> False)"
    and new: "map tok_jti (snd out) = [''j'']"
    unfolding out_def by code_simp+
  then obtain resp where resp: "out = (Inr resp, snd out)" "rs_status resp = 200"
    by (cases out) (auto split: sum.splits)
  from refresh_success_rotates [OF ljwt.jwt_store_axioms resp(1) [unfolded out_def] resp(2)]
  have "list_live (snd out) \<noteq> {}" by (auto simp: out_def)
  moreover have "list_live (snd out) = {''j''}"
    using arg_cong [OF new, of set] by (simp add: list_live_def)
  ultimately have "list_live (snd out) = {tok_jti \<lparr>tok_jti = ''j'', tok_claims = []\<rparr>}" by simp
  with resp(1) show ?thesis unfolding out_def [symmetric]
    by (intro exI [of _ resp] exI [of _ "snd out"] exI [of _ "\<lparr>tok_jti = ''j'', tok_claims = []\<rparr>"]) auto
qed

text \<open>
  C24: nobody can end another user's session: a refresh token that a logout takes out of service is the
  one posted and names the caller; and a posted token of somebody else is answered exactly like one
  that does not decode, so the answer does not tell whether it was valid.
\<close>

theorem logout_only_own_session:
  assumes "jwt_store lib live"
  shows "(jti \<in> live s \<and> jti \<notin> live (snd (logout ctx lib trunc uid data s)) \<longrightarrow>
      (\<exists>v t. refresh_of data = Inr v \<and> RefreshToken lib v s = Inr t \<and> token_user trunc t = Inr uid \<and> jti = tok_jti t)) \<and>
    (\<forall>v. refresh_of data = Inr v \<and> truthy v \<and>
      (case RefreshToken lib v s of
         Inl e \<Rightarrow> isinstance e TokenError
       | Inr t \<Rightarrow> \<exists>pk. token_user trunc t = Inr pk \<and> pk \<noteq> uid) \<longrightarrow>
      logout ctx lib trunc uid data s = (Inr (invalid_token ctx), s))"
  using jwt_store.logout_revokes_only [OF assms]
  by (intro conjI impI) (blast, auto simp: logout_def logout_block_def catching_def split: sum.splits)

theorem logout_only_own_session_witness:
  "\<exists>t. RefreshToken list_jwt (VStr ''abc'') [demo_token] = Inr t \<and> token_user no_floats t = Inr 7 \<and> ''abc'' = tok_jti t"
proof -
  have "''abc'' \<in> list_live [demo_token]" by (simp add: list_live_def demo_token_def)
  moreover have "snd (logout None list_jwt no_floats 7 (refresh_body ''abc'') [demo_token]) = []" by code_simp
  ultimately obtain v t where "refresh_of (refresh_body ''abc'') = Inr v" "RefreshToken list_jwt v [demo_token] = Inr t"
      "token_user no_floats t = Inr 7" "''abc'' = tok_jti t"
    using logout_only_own_session [OF ljwt.jwt_store_axioms, of "''abc''" "[demo_token]" None no_floats 7 "refresh_body ''abc''"]
    by (auto simp: list_live_def)
  then show ?thesis by (auto simp: refresh_of_def refresh_body_def dget_def)
qed


text \<open>
  A refresh token whose \<open>user_id\<close> claim is not a number is answered with 401 by \<open>logout\<close>, but raises
  out of \<open>token_refresh\<close>, whose \<open>except\<close> names \<open>TokenError\<close> only.
\<close>

theorem refresh_raises_on_bad_user_id:
  assumes "refresh_of data = Inr v" and "truthy v" and "RefreshToken lib v s = Inr t"
    and "token_user trunc t = Inl e" and "exc_cls e = PyValueError"
  shows "token_refresh ctx lib trunc orm db data s = (Inl e, s) \<and>
    logout ctx lib trunc uid data s = (Inr (invalid_token ctx), s)"
  using assms
  by (simp add: token_refresh_def logout_def rotate_token_def logout_block_def catching_def isinstance_def
      issubclass_def TokenError_def)

theorem refresh_raises_on_bad_user_id_witness:
  "\<exists>e. token_refresh None list_jwt no_floats list_orm demo_users (refresh_body ''abc'')
      [\<lparr>tok_jti = ''abc'', tok_claims = [(''user_id'', VStr ''x'')]\<rparr>]
    = (Inl e, [\<lparr>tok_jti = ''abc'', tok_claims = [(''user_id'', VStr ''x'')]\<rparr>]) \<and> exc_cls e = PyValueError"
proof -
  let ?t = "\<lparr>tok_jti = ''abc'', tok_claims = [(''user_id'', VStr ''x'')]\<rparr> :: token"
  have u: "(case token_user no_floats ?t of Inl e \<Rightarrow> exc_cls e = PyValueError | Inr i \<Rightarrow> False)" by code_simp
  then obtain e where e: "token_user no_floats ?t = Inl e" "exc_cls e = PyValueError" by (auto split: sum.splits)
  have "refresh_of (refresh_body ''abc'') = Inr (VStr ''abc'')" by code_simp
  moreover have "RefreshToken list_jwt (VStr ''abc'') [?t] = Inr ?t" by code_simp
  ultimately show ?thesis
    using refresh_raises_on_bad_user_id [of "refresh_body ''abc''" "VStr ''abc''" list_jwt "[?t]" ?t no_floats e
        None list_orm demo_users 7] e
    by (intro exI [of _ e]) simp
qed

section \<open>Profiles\<close>

lemma map_of_setattrs:
  "map_of (setattrs data r) f = (case map_of (rev data) f of Some v \<Rightarrow> Some v | None \<Rightarrow> map_of r f)"
  using alist.get_fold_put [of data r f] by (simp add: setattrs_def setattr_def [abs_def])

lemma option_eqI: "(\<And>v. x = Some v \<longleftrightarrow> y = Some v) \<Longrightarrow> x = y"
  by (metis option.exhaust)

lemma set_updatable: "set (updatable d) = {(f, v). (KStr f, v) \<in> set d \<and> f \<in> set UPDATABLE_PROFILE_FIELDS}"
  by (induction d rule: updatable.induct) auto

lemma updatable_keys: "distinct (map fst d) \<Longrightarrow> distinct (map fst (updatable d))"
proof (induction d rule: updatable.induct)
  case (2 f v d)
  then show ?case by (force simp: set_updatable image_iff)
qed auto

lemma map_of_updatable:
  assumes "distinct (map fst d)"
  shows "map_of (updatable d) f = (if f \<in> set UPDATABLE_PROFILE_FIELDS then dget d f else None)"
    and "map_of (rev (updatable d)) f = map_of (updatable d) f"
proof -
  have u: "distinct (map fst (updatable d))" using updatable_keys [OF assms] .
  then have r: "distinct (map fst (rev (updatable d)))" by (simp flip: rev_map)
  show "map_of (updatable d) f = (if f \<in> set UPDATABLE_PROFILE_FIELDS then dget d f else None)"
    by (rule option_eqI) (use assms u in \<open>auto simp: map_of_eq_Some_iff set_updatable dget_def\<close>)
  show "map_of (rev (updatable d)) f = map_of (updatable d) f"
    by (rule option_eqI) (simp add: map_of_eq_Some_iff [OF r] map_of_eq_Some_iff [OF u])
qed

lemma user_update_failed: "user_update orm refuse pk data db = (Inl e, db') \<Longrightarrow> db' = db"
  by (auto simp: user_update_def atomic_def Let_def split: option.splits sum.splits)

lemma update_profile_failed: "update_profile rid orm refuse tzs pk data db = (Inl e, db') \<Longrightarrow> db' = db"
  by (cases data) (auto simp: update_profile_def Let_def split: if_splits option.splits dest: user_update_failed)

text \<open>
  C37: a profile update touches the caller's three profile fields and nothing else, however the body is
  made up (\<open>is_active\<close>, \<open>is_superuser\<close>, \<open>email\<close>, \<open>password\<close> and the like are ignored). When it succeeds the
  stored row is the returned one: a profile field of the body has the body's value, a stored time zone
  is a known one if it was posted, every other attribute is what it was, and no other row changes; when
  it raises, nothing changes at all.
\<close>

theorem update_profile_exact:
  assumes "orm_store orm" and "distinct (map fst d)"
    and "update_profile rid orm refuse tzs pk (VDict d) db = (out, db')"
  shows "case out of
     Inl e \<Rightarrow> db' = db
   | Inr r' \<Rightarrow>
       (\<exists>r. find_row orm db (USER, pk) = Some r \<and>
         (\<forall>f. map_of r' f =
            (if f \<in> set UPDATABLE_PROFILE_FIELDS \<and> dget d f \<noteq> None then dget d f else map_of r f))) \<and>
       (\<forall>v. dget d ''timezone'' = Some v \<longrightarrow> v \<in> VStr ` set tzs) \<and>
       (\<forall>x. find_row orm db' x = (if x = (USER, pk) then Some r' else find_row orm db x))"
proof (cases out)
  case (Inl e)
  then show ?thesis using assms(3) update_profile_failed by auto
next
  case (Inr r')
  let ?u = "updatable d"
  have look: "map_of ?u f = (if f \<in> set UPDATABLE_PROFILE_FIELDS then dget d f else None)"
      "map_of (rev ?u) f = map_of ?u f" for f
    using map_of_updatable [OF assms(2)] by simp_all
  have tz_front: "map_of ?u ''timezone'' = dget d ''timezone''"
    by (simp add: look UPDATABLE_PROFILE_FIELDS_def)
  have tz: "timezone_error rid tzs (map_of ?u ''timezone'') = None"
    and upd: "user_update orm refuse pk ?u db = (Inr r', db')"
    using assms(3) Inr by (auto simp: update_profile_def Let_def split: if_splits option.splits)
  obtain r where r: "find_row orm db (USER, pk) = Some r" "r' = setattrs ?u r" "db' = write_row orm (USER, pk) r' db"
    using upd by (auto simp: user_update_def atomic_def Let_def split: option.splits sum.splits)
  have "map_of r' f =
      (if f \<in> set UPDATABLE_PROFILE_FIELDS \<and> dget d f \<noteq> None then dget d f else map_of r f)" for f
    by (auto simp: r(2) map_of_setattrs look(2) look(1) split: option.splits)
  moreover have "\<forall>v. dget d ''timezone'' = Some v \<longrightarrow> v \<in> VStr ` set tzs"
    using tz by (auto simp: timezone_error_def tz_front split: if_splits)
  ultimately show ?thesis
    using Inr r orm_store.find_write [OF assms(1)] by simp
qed


definition demo_patch :: pydict where
  "demo_patch = [(KStr ''is_active'', VBool False), (KStr ''timezone'', VStr ''Asia/Kolkata'')]"

theorem update_profile_exact_witness:
  "map_of (case fst (update_profile None list_orm (\<lambda>db x r. None) [''UTC'', ''Asia/Kolkata''] 7 (VDict demo_patch) demo_users) of
      Inr r \<Rightarrow> r | Inl e \<Rightarrow> []) ''is_active'' = Some (VBool True)"
proof -
  define out where "out = update_profile None list_orm (\<lambda>db x r. None) [''UTC'', ''Asia/Kolkata''] 7 (VDict demo_patch) demo_users"
  have "(case fst out of Inr r \<Rightarrow> True | Inl e \<Rightarrow> False)" unfolding out_def by code_simp
  then obtain r' where r': "out = (Inr r', snd out)" by (cases out) (auto split: sum.splits)
  have "distinct (map fst demo_patch)" by code_simp
  from update_profile_exact [OF lorm.orm_store_axioms this r' [unfolded out_def]]
  obtain r where r: "find_row list_orm demo_users (USER, 7) = Some r"
      "map_of r' ''is_active'' = map_of r ''is_active''"
    by (auto simp: UPDATABLE_PROFILE_FIELDS_def)
  have "map_of (the (find_row list_orm demo_users (USER, 7))) ''is_active'' = Some (VBool True)" by code_simp
  with r r' show ?thesis unfolding out_def [symmetric] by (metis fst_conv option.sel sum.case(2))
qed

text \<open>
  A time zone posted as a list or an object is not answered with \<open>InvalidTimezoneError\<close>: the membership
  test raises \<open>TypeError\<close> for an unhashable value.
\<close>

lemma unhashable_timezone_raises:
  assumes "distinct (map fst d)" "dget d ''timezone'' = Some v" "\<not> hashable v"
  shows "update_profile rid orm refuse tzs pk (VDict d) db = (Inl (raw_exn PyTypeError ''unhashable type''), db)"
proof -
  have "map_of (updatable d) ''timezone'' = Some v"
    using map_of_updatable(1) [OF assms(1)] assms(2) by (simp add: UPDATABLE_PROFILE_FIELDS_def)
  moreover from this have "updatable d \<noteq> []" by auto
  ultimately show ?thesis using assms(3) by (simp add: update_profile_def timezone_error_def)
qed

section \<open>The profile view\<close>

definition UserSerializer_fields :: "string list" where
  "UserSerializer_fields = [''id'', ''email'', ''first_name'', ''last_name'', ''full_name'', ''avatar_url'', ''roles'',
     ''timezone'', ''email_verified'', ''date_joined'', ''last_login'']"

text \<open>\<open>repr_field\<close> is the serializer field's \<open>to_representation\<close>, \<open>google\<close> the social-account query.\<close>

definition UserProfileSerializer :: "(row \<Rightarrow> string \<Rightarrow> pyval) \<Rightarrow> (row \<Rightarrow> bool) \<Rightarrow> row \<Rightarrow> pyval" where
  "UserProfileSerializer repr_field google u =
     str_dict (map (\<lambda>f. (f, repr_field u f)) UserSerializer_fields @ [(''google_connected'', VBool (google u))])"

definition me ::
  "string option \<Rightarrow> 'db orm \<Rightarrow> ('db \<Rightarrow> obj \<Rightarrow> row \<Rightarrow> exn option) \<Rightarrow> string list \<Rightarrow> (row \<Rightarrow> string \<Rightarrow> pyval) \<Rightarrow> (row \<Rightarrow> bool)
     \<Rightarrow> string \<Rightarrow> int \<Rightarrow> row \<Rightarrow> pyval \<Rightarrow> 'db \<Rightarrow> (exn + http_response) \<times> 'db" where
  "me ctx orm refuse tzs repr_field google req_method pk u data db =
     (if req_method = ''GET''
      then (Inr (SuccessResponse ctx (UserProfileSerializer repr_field google u) ''Success'' 200), db)
      else
        (case update_profile ctx orm refuse tzs pk data db of
           (Inl e, db') \<Rightarrow> (Inl e, db')
         | (Inr u', db') \<Rightarrow> (Inr (SuccessResponse ctx (UserProfileSerializer repr_field google u') ''Success'' 200), db')))"

definition validate_redirect_uri :: "string list option \<Rightarrow> string \<Rightarrow> (exn, string) result" where
  "validate_redirect_uri allowed v =
     (case allowed of
        None \<Rightarrow> Inl (raw_exn (DRFException ''ValidationError'') ''OAuth redirect URI allowlist is not configured. Set GOOGLE_OAUTH_ALLOWED_REDIRECT_URIS in your environment.'')
      | Some us \<Rightarrow>
          if us = [] then Inl (raw_exn (DRFException ''ValidationError'') ''OAuth redirect URI allowlist is not configured. Set GOOGLE_OAUTH_ALLOWED_REDIRECT_URIS in your environment.'')
          else if v \<notin> set us then Inl (raw_exn (DRFException ''ValidationError'') ''Redirect URI is not permitted.'')
          else Inr v)"

section \<open>Creating users\<close>

definition setdefault :: "string \<Rightarrow> pyval \<Rightarrow> (string \<times> pyval) list \<Rightarrow> (string \<times> pyval) list" where
  "setdefault f v d = (if map_of d f = None then AList.update f v d else d)"

text \<open>Django's \<open>normalize_email\<close> and password hasher are arguments.\<close>

definition create_user ::
  "'db orm \<Rightarrow> ('db \<Rightarrow> obj \<Rightarrow> row \<Rightarrow> exn option) \<Rightarrow> (string \<Rightarrow> string) \<Rightarrow> (string option \<Rightarrow> string) \<Rightarrow> string option
     \<Rightarrow> string option \<Rightarrow> string option \<Rightarrow> (string \<times> pyval) list \<Rightarrow> 'db \<Rightarrow> (exn + obj \<times> row) \<times> 'db" where
  "create_user orm refuse normalize_email make_password email username password extra_fields db =
     (case or_str email None of
        None \<Rightarrow> (Inl (raw_exn PyValueError ''Email is required''), db)
      | Some e \<Rightarrow>
          (let addr = normalize_email e;
               name = (case or_str username None of Some n \<Rightarrow> n | None \<Rightarrow> addr);
               extra = setdefault ''is_active'' (VBool True) extra_fields
           in case orm.construct orm USER ([(''email'', VStr addr), (''username'', VStr name)] @ extra) of
                Inl ex \<Rightarrow> (Inl ex, db)
              | Inr r \<Rightarrow>
                  (let x = (USER, fresh_pk orm db USER);
                       r' = setattr ''password'' (VStr (make_password password)) r
                   in case refuse db x r' of
                        Some ex \<Rightarrow> (Inl ex, db)
                      | None \<Rightarrow> (Inr (x, r'), write_row orm x r' db))))"

definition create_superuser ::
  "'db orm \<Rightarrow> ('db \<Rightarrow> obj \<Rightarrow> row \<Rightarrow> exn option) \<Rightarrow> (string \<Rightarrow> string) \<Rightarrow> (string option \<Rightarrow> string) \<Rightarrow> string option
     \<Rightarrow> string option \<Rightarrow> string option \<Rightarrow> (string \<times> pyval) list \<Rightarrow> 'db \<Rightarrow> (exn + obj \<times> row) \<times> 'db" where
  "create_superuser orm refuse normalize_email make_password email username password extra_fields db =
     (let extra = setdefault ''is_superuser'' (VBool True) (setdefault ''is_staff'' (VBool True) extra_fields) in
      if map_of extra ''is_staff'' \<noteq> Some (VBool True)
      then (Inl (raw_exn PyValueError ''Superuser must have is_staff=True.''), db)
      else if map_of extra ''is_superuser'' \<noteq> Some (VBool True)
      then (Inl (raw_exn PyValueError ''Superuser must have is_superuser=True.''), db)
      else create_user orm refuse normalize_email make_password email username password extra db)"

section \<open>Sign-up\<close>

definition ROLE_MODEL :: string where "ROLE_MODEL = ''accounts.Role''"

definition get_default_roles :: "'db orm \<Rightarrow> 'db \<Rightarrow> int list" where
  "get_default_roles orm db =
     map snd (filter (\<lambda>x. fst x = ROLE_MODEL \<and> has_attr orm db ''is_default'' (VBool True) x) (all_objs orm db))"

text \<open>The database is the rows and the user-role links; \<open>link_error\<close> is what the database answers to the
  link insert.\<close>

type_synonym links = "(int \<times> int) list"

definition roles_add :: "int \<Rightarrow> int list \<Rightarrow> links \<Rightarrow> links" where
  "roles_add uid rids ls = ls @ map (Pair uid) (filter (\<lambda>rid. (uid, rid) \<notin> set ls) rids)"

definition assign_default_roles ::
  "'db orm \<Rightarrow> (int \<Rightarrow> exn option) \<Rightarrow> int \<Rightarrow> (unit, 'db \<times> links) act" where
  "assign_default_roles orm link_error uid st =
     (case st of (db, ls) \<Rightarrow>
        let rids = get_default_roles orm db in
        if rids \<noteq> []
        then (case link_error uid of Some e \<Rightarrow> (Inl e, st) | None \<Rightarrow> (Inr (), (db, roles_add uid rids ls)))
        else (Inr (), st))"

text \<open>A step on the rows alone, with the links beside them.\<close>

definition on_rows :: "('a, 'db) act \<Rightarrow> ('a, 'db \<times> links) act" where
  "on_rows a st = (case st of (db, ls) \<Rightarrow> case a db of (out, db') \<Rightarrow> (out, (db', ls)))"

text \<open>allauth's own \<open>save_user\<close> is \<open>base_save\<close>: the new user's key, or an exception, and the rows it leaves.\<close>

definition account_save_user ::
  "'db orm \<Rightarrow> (int \<Rightarrow> exn option) \<Rightarrow> (int, 'db) act \<Rightarrow> bool \<Rightarrow> (int, 'db \<times> links) act" where
  "account_save_user orm link_error base_save commit =
     atomic (\<lambda>st.
       andthen (on_rows base_save st) (\<lambda>uid st.
       if commit then andthen (assign_default_roles orm link_error uid st) (\<lambda>_ st. (Inr uid, st))
       else (Inr uid, st)))"

definition save_login_ip ::
  "'db orm \<Rightarrow> ('db \<Rightarrow> obj \<Rightarrow> row \<Rightarrow> exn option) \<Rightarrow> string \<Rightarrow> int \<Rightarrow> (unit, 'db) act" where
  "save_login_ip orm refuse ip uid db =
     (if ip \<noteq> [] \<and> ip \<noteq> ''unknown'' then
        (case find_row orm db (USER, uid) of
           None \<Rightarrow> (Inl (raw_exn (OtherException ''DatabaseError'') ''Save with update_fields did not affect any rows.''), db)
         | Some r \<Rightarrow>
             (let r' = setattr ''last_login_ip'' (VStr ip) r in
              case refuse db (USER, uid) r' of
                Some e \<Rightarrow> (Inl e, db)
              | None \<Rightarrow> (Inr (), write_row orm (USER, uid) r' db)))
      else (Inr (), db))"

definition social_save_user ::
  "'db orm \<Rightarrow> ('db \<Rightarrow> obj \<Rightarrow> row \<Rightarrow> exn option) \<Rightarrow> (int \<Rightarrow> exn option) \<Rightarrow> (int, 'db) act \<Rightarrow> bool \<Rightarrow> http_request
     \<Rightarrow> (int, 'db \<times> links) act" where
  "social_save_user orm refuse link_error base_save use_xff rq =
     atomic (\<lambda>st.
       andthen (on_rows base_save st) (\<lambda>uid st.
       andthen (on_rows (save_login_ip orm refuse (client_ip use_xff rq) uid) st) (\<lambda>_ st.
       andthen (assign_default_roles orm link_error uid st) (\<lambda>_ st. (Inr uid, st)))))"

text \<open>\<open>pre_social_login\<close>: the user the social account is connected to, if any.\<close>

definition pre_social_login :: "'db orm \<Rightarrow> bool \<Rightarrow> string option \<Rightarrow> 'db \<Rightarrow> (exn, obj option) result" where
  "pre_social_login orm is_existing email db =
     (if is_existing then Inr None
      else case or_str email None of
        None \<Rightarrow> Inr None
      | Some e \<Rightarrow>
          rbind (get_by_email orm e db) (\<lambda>found.
            case found of
              None \<Rightarrow> Inr None
            | Some x \<Rightarrow> Inr (if active_row orm db x then Some x else None)))"

definition populate_user :: "(string \<times> pyval) list \<Rightarrow> row \<Rightarrow> row" where
  "populate_user extra_data u =
     setattr ''email_verified'' (case map_of extra_data ''email_verified'' of Some v \<Rightarrow> v | None \<Rightarrow> VBool False)
       (setattr ''avatar_url'' (case map_of extra_data ''picture'' of Some v \<Rightarrow> v | None \<Rightarrow> VStr '''') u)"


section \<open>What sign-up guarantees\<close>

lemma set_roles_add: "set (roles_add uid rids ls) = set ls \<union> Pair uid ` set rids"
  by (auto simp: roles_add_def)

text \<open>
  What the default roles are meant to be: the rows of the role table whose \<open>is_default\<close> flag is set.
\<close>

definition default_role :: "'db orm \<Rightarrow> 'db \<Rightarrow> int \<Rightarrow> bool" where
  "default_role orm db rid \<longleftrightarrow>
     (\<exists>r. find_row orm db (ROLE_MODEL, rid) = Some r \<and> map_of r ''is_default'' = Some (VBool True))"

definition signed_up :: "'db orm \<Rightarrow> (exn + int) \<times> 'db \<times> links \<Rightarrow> 'db \<times> links \<Rightarrow> bool" where
  "signed_up orm out st \<longleftrightarrow>
     (case out of
        (Inl e, st') \<Rightarrow> st' = st
      | (Inr uid, (db', ls')) \<Rightarrow>
          \<forall>p. p \<in> set ls' \<longleftrightarrow> p \<in> set (snd st) \<or> (fst p = uid \<and> default_role orm db' (snd p)))"

context orm_store
begin

lemma set_get_default_roles: "set (get_default_roles orm db) = Collect (default_role orm db)"
proof -
  have "rid \<in> set (get_default_roles orm db) \<longleftrightarrow>
      (ROLE_MODEL, rid) \<in> set (all_objs orm db) \<and> has_attr orm db ''is_default'' (VBool True) (ROLE_MODEL, rid)" for rid
    by (force simp: get_default_roles_def)
  then show ?thesis
    by (auto simp: objs_find has_attr_def default_role_def split: option.splits)
qed

lemma assign_default_roles_ok:
  "assign_default_roles orm link_error uid (db, ls) = (Inr a, (db', ls')) \<Longrightarrow>
     db' = db \<and> (\<forall>p. p \<in> set ls' \<longleftrightarrow> p \<in> set ls \<or> (fst p = uid \<and> default_role orm db (snd p)))"
  using set_get_default_roles [of db]
  by (fastforce simp: assign_default_roles_def Let_def set_roles_add split: if_splits option.splits)

lemma signed_up_atomic:
  assumes "\<And>uid db' ls'. block st = (Inr uid, (db', ls')) \<Longrightarrow>
      \<exists>a. assign_default_roles orm link_error uid (db', snd st) = (Inr a, (db', ls'))"
  shows "signed_up orm (atomic block st) st"
  using assms assign_default_roles_ok [of link_error]
  by (fastforce simp: signed_up_def atomic_def split: prod.splits sum.splits)

end

lemma on_rows_links: "on_rows a (db, ls) = (out, (db', ls')) \<Longrightarrow> ls' = ls"
  by (auto simp: on_rows_def split: prod.splits)

text \<open>
  C28: no user exists without the default roles. Over a database in which reading the rows of a table
  finds exactly the stored ones, both sign-up paths are all or nothing: if saving the user (even after
  it has written), recording the address or linking a role raises, rows and links are as before; if
  they succeed, the links are the old ones plus one link of the new user to each role whose stored
  \<open>is_default\<close> flag is true, and no others. With \<open>commit=False\<close> the account adapter adds no links.
\<close>

theorem signup_grants_default_roles:
  assumes "orm_store orm"
  shows "signed_up orm (account_save_user orm link_error base_save True st) st \<and>
   signed_up orm (social_save_user orm refuse link_error base_save use_xff rq st) st \<and>
   snd (snd (account_save_user orm link_error base_save False st)) = snd st"
proof (intro conjI)
  obtain db ls where st: "st = (db, ls)" by (rule prod.exhaust)
  have same: "assign_default_roles orm link_error uid (db1, ls) = (Inr a, (db', ls')) \<Longrightarrow> db' = db1" for uid db1 a db' ls'
    using orm_store.assign_default_roles_ok [OF assms] by blast
  show "signed_up orm (account_save_user orm link_error base_save True st) st"
    unfolding account_save_user_def
    by (rule orm_store.signed_up_atomic [OF assms, where link_error = link_error])
       (auto simp: st andthen_Inr_iff dest!: on_rows_links dest: same)
  show "signed_up orm (social_save_user orm refuse link_error base_save use_xff rq st) st"
    unfolding social_save_user_def
    by (rule orm_store.signed_up_atomic [OF assms, where link_error = link_error])
       (auto simp: st andthen_Inr_iff dest!: on_rows_links dest: same)
  show "snd (snd (account_save_user orm link_error base_save False st)) = snd st"
    by (auto simp: account_save_user_def atomic_def andthen_def on_rows_def st split: sum.splits prod.splits)
qed

text \<open>A role table with one default role and one superuser role, and a sign-up over it.\<close>

definition role_rows :: "(obj \<times> row) list" where
  "role_rows = [((ROLE_MODEL, 1), [(''is_default'', VBool True)]),
     ((ROLE_MODEL, 2), [(''is_default'', VBool False), (''is_superuser_role'', VBool True)])]"

theorem signup_grants_default_roles_witness:
  "let out = account_save_user list_orm (\<lambda>uid. None) (\<lambda>db. (Inr 7, ((USER, 7), []) # db)) True (role_rows, [(3, 2)])
   in out = (Inr 7, (((USER, 7), []) # role_rows, [(3, 2), (7, 1)])) \<and> signed_up list_orm out (role_rows, [(3, 2)])"
proof -
  have "account_save_user list_orm (\<lambda>uid. None) (\<lambda>db. (Inr 7, ((USER, 7), []) # db)) True (role_rows, [(3, 2)]) =
      (Inr 7, (((USER, 7), []) # role_rows, [(3, 2), (7, 1)]))"
    by code_simp
  then show ?thesis
    using signup_grants_default_roles [OF lorm.orm_store_axioms, THEN conjunct1,
        of "\<lambda>uid. None" "\<lambda>db. (Inr 7, ((USER, 7), []) # db)" "(role_rows, [(3, 2)])"]
    by (simp add: Let_def)
qed

text \<open>A social account is only ever connected to an active user with exactly the address it reports.\<close>

lemma pre_social_login_sound:
  assumes "pre_social_login orm is_existing email db = Inr (Some x)"
  shows "\<not> is_existing \<and> fst x = USER \<and> active_row orm db x \<and>
     (\<exists>e. email = Some e \<and> e \<noteq> [] \<and> has_attr orm db ''email'' (VStr e) x)"
proof -
  obtain e where e: "\<not> is_existing" "or_str email None = Some e" "get_by_email orm e db = Inr (Some x)"
      "active_row orm db x"
    using assms by (auto simp: pre_social_login_def rbind_Inr_iff split: if_splits option.splits)
  then have "filter (\<lambda>x. fst x = USER \<and> has_attr orm db ''email'' (VStr e) x) (all_objs orm db) = [x]"
    by (auto simp: get_by_email_def split: list.splits)
  then have "x \<in> set (filter (\<lambda>x. fst x = USER \<and> has_attr orm db ''email'' (VStr e) x) (all_objs orm db))" by simp
  then show ?thesis using e by (auto simp: or_str_def split: option.splits if_splits)
qed

lemma map_of_setdefault: "map_of (setdefault f v d) g = (if g = f \<and> map_of d f = None then Some v else map_of d g)"
  by (simp add: setdefault_def AList.update_conv')

text \<open>
  A superuser that gets created is one: for a constructor that keeps the attributes it is given, the
  stored row has both flags set and a non-empty address, is active unless the caller said otherwise, and
  its password is the hash and nothing else; a caller who asks for a superuser without a flag is
  refused and nothing is written.
\<close>

theorem create_superuser_sound:
  assumes "orm_store orm"
    and "\<And>data r f. orm.construct orm USER data = Inr r \<Longrightarrow> map_of data f \<noteq> None \<Longrightarrow> map_of r f = map_of data f"
    and "create_superuser orm refuse normalize_email make_password email username password extra db = (out, db')"
  shows "case out of
      Inl e \<Rightarrow> db' = db
    | Inr (x, r) \<Rightarrow>
        find_row orm db x = None \<and> find_row orm db' x = Some r \<and>
        map_of extra ''is_staff'' \<in> {None, Some (VBool True)} \<and> map_of extra ''is_superuser'' \<in> {None, Some (VBool True)} \<and>
        map_of r ''is_staff'' = Some (VBool True) \<and> map_of r ''is_superuser'' = Some (VBool True) \<and>
        map_of r ''is_active'' = (case map_of extra ''is_active'' of None \<Rightarrow> Some (VBool True) | v \<Rightarrow> v) \<and>
        map_of r ''password'' = Some (VStr (make_password password)) \<and>
        (\<exists>e. email = Some e \<and> e \<noteq> [] \<and> map_of r ''email'' = Some (VStr (normalize_email e)))"
proof (cases out)
  case (Inl e)
  then show ?thesis
    using assms(3) by (auto simp: create_superuser_def create_user_def Let_def split: if_splits option.splits sum.splits)
next
  case (Inr xr)
  obtain x r where xr: "xr = (x, r)" by (cases xr)
  define ex where "ex = setdefault ''is_superuser'' (VBool True) (setdefault ''is_staff'' (VBool True) extra)"
  have flags: "map_of ex ''is_staff'' = Some (VBool True)" "map_of ex ''is_superuser'' = Some (VBool True)"
    and made: "create_user orm refuse normalize_email make_password email username password ex db = (Inr (x, r), db')"
    using assms(3) by (auto simp: create_superuser_def ex_def Let_def Inr xr split: if_splits)
  define data where "data e = [(''email'', VStr (normalize_email e)),
    (''username'', VStr (case or_str username None of Some n \<Rightarrow> n | None \<Rightarrow> normalize_email e))] @
    setdefault ''is_active'' (VBool True) ex" for e
  obtain e r0 where e: "or_str email None = Some e" "orm.construct orm USER (data e) = Inr r0"
      "r = setattr ''password'' (VStr (make_password password)) r0"
      "x = (USER, fresh_pk orm db USER)" "db' = write_row orm x r db"
    using made by (auto simp: create_user_def data_def Let_def split: option.splits sum.splits)
  have kept: "map_of r0 f = map_of (data e) f" if "map_of (data e) f \<noteq> None" for f
    using assms(2) [OF e(2) that] .
  have "email = Some e \<and> e \<noteq> []" using e(1) by (auto simp: or_str_def split: option.splits if_splits)
  then show ?thesis
    using flags kept [of "''email''"] kept [of "''is_staff''"] kept [of "''is_superuser''"] kept [of "''is_active''"]
      orm_store.find_write [OF assms(1)] orm_store.fresh_unused [OF assms(1)]
    by (auto simp: Inr xr e(3-5) data_def map_of_setdefault ex_def split: if_splits option.splits)
qed

definition kwargs_orm :: "(obj \<times> row) list orm" where
  "kwargs_orm = orm.construct_update (\<lambda>c m data. Inr data) list_orm"

interpretation kworm: orm_store kwargs_orm
  using lorm.orm_store_axioms by (simp add: orm_store_def kwargs_orm_def)

theorem create_superuser_sound_witness:
  "case create_superuser kwargs_orm (\<lambda>db x r. None) py_lower (\<lambda>p. ''hash'') (Some ''Root@x.y'') None (Some ''pw'') [] [] of
     (Inr (x, r), db') \<Rightarrow> map_of r ''is_superuser'' = Some (VBool True) | _ \<Rightarrow> False"
proof -
  define out where "out = create_superuser kwargs_orm (\<lambda>db x r. None) py_lower (\<lambda>p. ''hash'') (Some ''Root@x.y'') None (Some ''pw'') [] []"
  have "(case fst out of Inr r \<Rightarrow> True | Inl e \<Rightarrow> False)" unfolding out_def by code_simp
  then obtain x r where r: "out = (Inr (x, r), snd out)" by (cases out) (auto split: sum.splits)
  have keeps: "map_of r f = map_of data f" if "orm.construct kwargs_orm USER data = Inr r" for data r f
    using that by (simp add: kwargs_orm_def)
  show ?thesis
    using create_superuser_sound [OF kworm.orm_store_axioms keeps r [unfolded out_def]] r
    unfolding out_def [symmetric] by auto
qed

end
