(* ===== verification/IpAddress.thy ===== *)
theory IpAddress
  imports Rbac "HOL-Library.Word"
begin

unbundle bit_operations_syntax

text \<open>
  Python's \<open>ipaddress\<close> as far as the metrics allow-list of \<open>apps/core/views.py\<close> uses it: parsing of
  addresses and of networks with \<open>strict=False\<close>, equality and membership, at their machine widths.
  \<open>None\<close> is the \<open>ValueError\<close>.
\<close>

section \<open>Addresses\<close>

datatype ip_addr = V4 "32 word" | V6 "128 word" "string option"

definition ascii_digits :: "string \<Rightarrow> bool" where
  "ascii_digits s \<longleftrightarrow> s \<noteq> [] \<and> list_all is_digit s"

fun dec_digits :: "int \<Rightarrow> string \<Rightarrow> int" where
  "dec_digits n [] = n"
| "dec_digits n (c # cs) = dec_digits (10 * n + digit_val c) cs"

definition parse_octet :: "string \<Rightarrow> int option" where
  "parse_octet s =
     (if \<not> ascii_digits s then None
      else if length s > 3 then None
      else if s \<noteq> ''0'' \<and> hd s = CHR ''0'' then None
      else let n = dec_digits 0 s in if n > 255 then None else Some n)"

definition octets_word :: "int \<Rightarrow> int \<Rightarrow> int \<Rightarrow> int \<Rightarrow> 32 word" where
  "octets_word a b c d = word_of_int (((a * 256 + b) * 256 + c) * 256 + d)"

definition ipv4_of_string :: "string \<Rightarrow> 32 word option" where
  "ipv4_of_string s =
     (case map parse_octet (py_split ''.'' s) of
        [Some a, Some b, Some c, Some d] \<Rightarrow> Some (octets_word a b c d)
      | _ \<Rightarrow> None)"

definition hex_value :: "char \<Rightarrow> int option" where
  "hex_value c =
     (let n = int (char_code c) in
      if 48 \<le> n \<and> n \<le> 57 then Some (n - 48)
      else if 65 \<le> n \<and> n \<le> 70 then Some (n - 55)
      else if 97 \<le> n \<and> n \<le> 102 then Some (n - 87)
      else None)"

fun hex_digits :: "int \<Rightarrow> string \<Rightarrow> int option" where
  "hex_digits n [] = Some n"
| "hex_digits n (c # cs) = (case hex_value c of Some d \<Rightarrow> hex_digits (16 * n + d) cs | None \<Rightarrow> None)"

definition parse_hextet :: "string \<Rightarrow> int option" where
  "parse_hextet s = (if s = [] \<or> length s > 4 then None else hex_digits 0 s)"

text \<open>The shifts of the parsing loop, one hextet at a time.\<close>

fun push_hextets :: "128 word \<Rightarrow> string list \<Rightarrow> 128 word option" where
  "push_hextets w [] = Some w"
| "push_hextets w (h # hs) =
     (case parse_hextet h of Some n \<Rightarrow> push_hextets (push_bit 16 w OR word_of_int n) hs | None \<Rightarrow> None)"

definition hex4 :: "int \<Rightarrow> string" where
  "hex4 n = hex2 (nat (n div 256)) @ hex2 (nat (n mod 256))"

text \<open>A dotted-quad last part is rewritten as two hextets.\<close>

definition expand_v4_suffix :: "string list \<Rightarrow> string list option" where
  "expand_v4_suffix parts =
     (if CHR ''.'' \<in> set (last parts) then
        (case ipv4_of_string (last parts) of
           Some w \<Rightarrow> Some (butlast parts @ [hex4 (uint w div 65536), hex4 (uint w mod 65536)])
         | None \<Rightarrow> None)
      else Some parts)"

definition ipv6_of_parts :: "string list \<Rightarrow> 128 word option" where
  "ipv6_of_parts parts =
     (let n = length parts;
          empties = filter (\<lambda>i. parts ! i = []) [1..<n - 1]
      in if n > 9 then None
         else case empties of
           [] \<Rightarrow> if n \<noteq> 8 \<or> hd parts = [] \<or> last parts = [] then None else push_hextets 0 parts
         | [k] \<Rightarrow>
             (let hi = (if hd parts = [] then k - 1 else k);
                  lo = (if last parts = [] then n - k - 2 else n - k - 1)
              in if (hd parts = [] \<and> hi \<noteq> 0) \<or> (last parts = [] \<and> lo \<noteq> 0) then None
                 else if hi + lo > 7 then None
                 else case push_hextets 0 (take hi parts) of
                   None \<Rightarrow> None
                 | Some w \<Rightarrow> push_hextets (push_bit (16 * (8 - (hi + lo))) w) (drop (n - lo) parts))
         | _ \<Rightarrow> None)"

definition ipv6_of_string :: "string \<Rightarrow> 128 word option" where
  "ipv6_of_string s =
     (if s = [] then None
      else let parts = py_split '':'' s in
        if length parts < 3 then None else Option.bind (expand_v4_suffix parts) ipv6_of_parts)"

text \<open>\<open>_split_scope_id\<close>: the part after a percent sign.\<close>

definition split_scope :: "string \<Rightarrow> (string \<times> string option) option" where
  "split_scope s =
     (case split_once CHR ''%'' s of
        None \<Rightarrow> Some (s, None)
      | Some (a, scope) \<Rightarrow> if scope = [] \<or> CHR ''%'' \<in> set scope then None else Some (a, Some scope))"

definition IPv6Address :: "string \<Rightarrow> (128 word \<times> string option) option" where
  "IPv6Address s =
     (if CHR ''/'' \<in> set s then None
      else case split_scope s of
        None \<Rightarrow> None
      | Some (a, scope) \<Rightarrow> map_option (\<lambda>w. (w, scope)) (ipv6_of_string a))"

definition ip_address :: "string \<Rightarrow> ip_addr option" where
  "ip_address s =
     (case ipv4_of_string s of
        Some w \<Rightarrow> Some (V4 w)
      | None \<Rightarrow> map_option (\<lambda>(w, scope). V6 w scope) (IPv6Address s))"

section \<open>Networks\<close>

datatype ip_net = Net4 "32 word" "32 word" | Net6 "128 word" "128 word"

definition ip_int_from_prefix :: "nat \<Rightarrow> 'a :: len word" where
  "ip_int_from_prefix n = (- 1) XOR drop_bit n (- 1)"

definition prefix_from_prefix_string :: "nat \<Rightarrow> string \<Rightarrow> nat option" where
  "prefix_from_prefix_string max_prefixlen s =
     (if ascii_digits s \<and> dec_digits 0 s \<le> int max_prefixlen then Some (nat (dec_digits 0 s)) else None)"

definition trailing_zeroes :: "32 word \<Rightarrow> nat" where
  "trailing_zeroes w = length (takeWhile (\<lambda>i. \<not> bit w i) [0..<32])"

definition prefix_from_ip_int :: "32 word \<Rightarrow> nat option" where
  "prefix_from_ip_int w =
     (let n = 32 - trailing_zeroes w in
      if drop_bit (trailing_zeroes w) w = mask n then Some n else None)"

definition prefix_from_ip_string :: "string \<Rightarrow> nat option" where
  "prefix_from_ip_string s =
     (case ipv4_of_string s of
        None \<Rightarrow> None
      | Some w \<Rightarrow>
          (case prefix_from_ip_int w of
             Some n \<Rightarrow> Some n
           | None \<Rightarrow> prefix_from_ip_int (w XOR - 1)))"

definition make_netmask4 :: "string \<Rightarrow> 32 word option" where
  "make_netmask4 s =
     map_option ip_int_from_prefix
       (case prefix_from_prefix_string 32 s of Some n \<Rightarrow> Some n | None \<Rightarrow> prefix_from_ip_string s)"

definition make_netmask6 :: "string \<Rightarrow> 128 word option" where
  "make_netmask6 s = map_option ip_int_from_prefix (prefix_from_prefix_string 128 s)"

text \<open>\<open>ip_network(entry, strict=False)\<close> for an entry with a slash: host bits are cleared.\<close>

definition ip_network :: "string \<Rightarrow> ip_net option" where
  "ip_network entry =
     (case py_split ''/'' entry of
        [a, m] \<Rightarrow>
          (case (ipv4_of_string a, make_netmask4 m) of
             (Some w, Some nm) \<Rightarrow> Some (Net4 (w AND nm) nm)
           | _ \<Rightarrow>
               (case (IPv6Address a, make_netmask6 m) of
                  (Some (w, scope), Some nm) \<Rightarrow> Some (Net6 (w AND nm) nm)
                | _ \<Rightarrow> None))
      | _ \<Rightarrow> None)"

fun in_network :: "ip_addr \<Rightarrow> ip_net \<Rightarrow> bool" where
  "in_network (V4 w) (Net4 net nm) = (w AND nm = net)"
| "in_network (V6 w scope) (Net6 net nm) = (w AND nm = net)"
| "in_network _ _ = False"

section \<open>The mask is the prefix\<close>

lemma bit_prefix_mask:
  "n \<le> LENGTH('a) \<Longrightarrow> bit (ip_int_from_prefix n :: 'a :: len word) i \<longleftrightarrow> i < LENGTH('a) \<and> LENGTH('a) - n \<le> i"
  by (auto simp: ip_int_from_prefix_def bit_simps)

lemma and_prefix_mask_iff:
  fixes v w :: "'a :: len word"
  assumes "n \<le> LENGTH('a)"
  shows "v AND ip_int_from_prefix n = w AND ip_int_from_prefix n \<longleftrightarrow>
     unat v div 2 ^ (LENGTH('a) - n) = unat w div 2 ^ (LENGTH('a) - n)"
proof -
  have "v AND ip_int_from_prefix n = w AND ip_int_from_prefix n \<longleftrightarrow>
      drop_bit (LENGTH('a) - n) v = drop_bit (LENGTH('a) - n) w"
  proof
    assume eq: "v AND ip_int_from_prefix n = w AND ip_int_from_prefix n"
    show "drop_bit (LENGTH('a) - n) v = drop_bit (LENGTH('a) - n) w"
    proof (rule bit_word_eqI)
      fix i
      have "bit (v AND ip_int_from_prefix n) (LENGTH('a) - n + i) =
          bit (w AND ip_int_from_prefix n) (LENGTH('a) - n + i)" by (simp add: eq)
      then show "bit (drop_bit (LENGTH('a) - n) v) i = bit (drop_bit (LENGTH('a) - n) w) i"
        using bit_imp_le_length [of v "LENGTH('a) - n + i"] bit_imp_le_length [of w "LENGTH('a) - n + i"]
        by (auto simp: bit_and_iff bit_drop_bit_eq bit_prefix_mask [OF assms])
    qed
  next
    assume eq: "drop_bit (LENGTH('a) - n) v = drop_bit (LENGTH('a) - n) w"
    show "v AND ip_int_from_prefix n = w AND ip_int_from_prefix n"
    proof (rule bit_word_eqI)
      fix i
      have "bit (drop_bit (LENGTH('a) - n) v) (i - (LENGTH('a) - n)) =
          bit (drop_bit (LENGTH('a) - n) w) (i - (LENGTH('a) - n))" by (simp add: eq)
      then show "bit (v AND ip_int_from_prefix n) i = bit (w AND ip_int_from_prefix n) i"
        by (auto simp: bit_and_iff bit_drop_bit_eq bit_prefix_mask [OF assms])
    qed
  qed
  also have "\<dots> \<longleftrightarrow> unat (drop_bit (LENGTH('a) - n) v) = unat (drop_bit (LENGTH('a) - n) w)"
    by (rule word_unat_eq_iff)
  finally show ?thesis unfolding unat_drop_bit_eq by (simp only: drop_bit_eq_div)
qed

section \<open>Printing and parsing\<close>

definition ipv4_str :: "32 word \<Rightarrow> string" where
  "ipv4_str w =
     (let n = uint w in
      py_join ''.'' (map int_str [n div 16777216, n div 65536 mod 256, n div 256 mod 256, n mod 256]))"

lemma dec_digits_snoc: "dec_digits n (s @ [c]) = 10 * dec_digits n s + digit_val c"
  by (induction s arbitrary: n) auto

lemma dec_digits_nat_str: "dec_digits 0 (nat_str n) = int n"
proof (induction n rule: nat_str.induct)
  case (1 n)
  have digit: "d < 10 \<Longrightarrow> digit_val (digit_char d) = int d" for d
    by (simp add: digit_val_def digit_char_def char_code_char_of)
  show ?case
  proof (cases "n < 10")
    case True
    then show ?thesis by (subst nat_str.simps) (simp add: digit)
  next
    case False
    then show ?thesis
      using 1 digit [of "n mod 10"] by (subst nat_str.simps) (simp add: dec_digits_snoc zdiv_int zmod_int)
  qed
qed

lemma hd_nat_str: "0 < n \<Longrightarrow> hd (nat_str n) \<noteq> CHR ''0''"
proof (induction n rule: nat_str.induct)
  case (1 n)
  have "digit_char n \<noteq> CHR ''0''" if "n < 10"
  proof
    assume "digit_char n = CHR ''0''"
    then have "char_code (digit_char n) = 48" by (simp add: char_code_def)
    with that 1 show False by (simp add: digit_char_def char_code_char_of)
  qed
  then show ?case using 1 by (subst nat_str.simps) auto
qed

lemma nat_str_0: "nat_str 0 = ''0''"
  by code_simp

lemma ascii_digits_nat_str: "ascii_digits (nat_str n)"
  using nat_str_digits by (auto simp: ascii_digits_def list_all_iff)

lemma parse_octet_nat_str:
  assumes "n < 256"
  shows "parse_octet (nat_str n) = Some (int n)"
proof -
  have "length (nat_str n) \<le> 3" using nat_str_length_le [of n 2] assms by simp
  moreover have "nat_str n = ''0'' \<or> hd (nat_str n) \<noteq> CHR ''0''"
    using hd_nat_str [of n] nat_str_0 by (cases "n = 0") auto
  ultimately show ?thesis
    using assms by (auto simp: parse_octet_def ascii_digits_nat_str dec_digits_nat_str Let_def)
qed

lemma parse_octet_int_str: "0 \<le> i \<Longrightarrow> i < 256 \<Longrightarrow> parse_octet (int_str i) = Some i"
  using parse_octet_nat_str [of "nat i"] by (simp add: int_str_def nat_less_iff)

lemma nat_str_no_char: "\<not> is_digit c \<Longrightarrow> c \<notin> set (nat_str n)"
  using nat_str_digits by blast

lemma int_str_no_char: "\<not> is_digit c \<Longrightarrow> 0 \<le> i \<Longrightarrow> c \<notin> set (int_str i)"
  by (simp add: int_str_def nat_str_no_char)

lemma py_split_append: "c \<notin> set a \<Longrightarrow> py_split [c] (a @ c # b) = a # py_split [c] b"
  by (simp add: py_split_def split_acc_no_sep split_acc_char)

lemma py_split_single: "c \<notin> set a \<Longrightarrow> py_split [c] a = [a]"
  using split_acc_no_sep [of c a "[]" "[]"] by (simp add: py_split_def split_acc_char)

lemma separators: "\<not> is_digit CHR ''.''" "\<not> is_digit CHR ''/''" "\<not> is_digit CHR '':''"
  by code_simp+

lemma octets_word_uint:
  "octets_word (uint w div 16777216) (uint w div 65536 mod 256) (uint w div 256 mod 256) (uint w mod 256) = w"
proof -
  have split: "m div 256 * 256 + m mod 256 = m" for m :: int by (rule div_mult_mod_eq)
  have "n div 16777216 = n div 256 div 256 div 256" "n div 65536 = n div 256 div 256" for n :: int
    by (simp_all add: zdiv_zmult2_eq [symmetric])
  then have "((n div 16777216 * 256 + n div 65536 mod 256) * 256 + n div 256 mod 256) * 256 + n mod 256 = n" for n :: int
    by (simp only: split)
  then show ?thesis by (simp only: octets_word_def) simp
qed

lemma ipv4_roundtrip: "ipv4_of_string (ipv4_str w) = Some w"
proof -
  let ?n = "uint w"
  have n: "0 \<le> ?n" "?n < 2 ^ 32" using uint_bounded [of w] by simp_all
  then have "?n div 16777216 < 256" by simp
  moreover have "0 \<le> ?n div 16777216" using n by (simp add: div_int_pos_iff)
  ultimately have "?n div 16777216 < 256" "0 \<le> ?n div 16777216" by simp_all
  with n have "map parse_octet (py_split ''.'' (ipv4_str w)) =
      [Some (?n div 16777216), Some (?n div 65536 mod 256), Some (?n div 256 mod 256), Some (?n mod 256)]"
    by (simp add: ipv4_str_def Let_def py_split_append py_split_single int_str_no_char separators parse_octet_int_str)
  then show ?thesis by (simp add: ipv4_of_string_def octets_word_uint)
qed

end
