(* ===== verification/SystemViews.thy ===== *)
theory SystemViews
  imports IpAddress Responses Effects
begin

text \<open>
  The system endpoints: \<open>apps/core/lifecycle/healthcheck.py\<close> and \<open>apps/core/views.py\<close>. What the probes
  talk to (database cursor, cache, recovery hook, Celery connection) is a record of functions on an
  abstract world, each of which may raise.
\<close>

section \<open>Probes\<close>

record health_result =
  hr_name :: string
  hr_healthy :: bool
  hr_detail :: string

text \<open>A check has the \<open>__name__\<close> of its function.\<close>

type_synonym 's check = "string \<times> (health_result, 's) act"

definition exc_detail :: "exn \<Rightarrow> string" where
  "exc_detail e = class_name (exc_cls e) @ '': '' @ exc_message e"

definition unhealthy :: "string \<Rightarrow> string \<Rightarrow> health_result" where
  "unhealthy name detail = \<lparr>hr_name = name, hr_healthy = False, hr_detail = detail\<rparr>"

definition healthy_as :: "string \<Rightarrow> string \<Rightarrow> health_result" where
  "healthy_as name detail = \<lparr>hr_name = name, hr_healthy = True, hr_detail = detail\<rparr>"

fun run_each :: "'s check list \<Rightarrow> (health_result list, 's) act" where
  "run_each [] s = (Inr [], s)"
| "run_each ((name, check) # checks) s =
     andthen (rescue (\<lambda>e. unhealthy name (exc_detail e)) (check s)) (\<lambda>r s1.
       andthen (run_each checks s1) (\<lambda>rs s2. (Inr (r # rs), s2)))"

definition run_checks :: "'s check list \<Rightarrow> (health_result list \<times> bool, 's) act" where
  "run_checks checks s = andthen (run_each checks s) (\<lambda>results s'. (Inr (results, list_all hr_healthy results), s'))"

record 's probes =
  select_1 :: "(unit, 's) act"
  cache_set :: "string \<Rightarrow> (unit, 's) act"
  cache_get :: "string \<Rightarrow> (pyval, 's) act"
  attempt_recover_all :: "(pyval, 's) act"
  open_broker :: "(unit, 's) act"
  ensure_connection :: "(unit, 's) act"
  close_broker :: "(unit, 's) act"

definition db_check :: "'s probes \<Rightarrow> (health_result, 's) act" where
  "db_check p s =
     rescue (\<lambda>e. unhealthy ''database'' (exc_detail e))
       (andthen (select_1 p s) (\<lambda>_ s1. (Inr (healthy_as ''database'' ''connected''), s1)))"

definition cache_check :: "'s probes \<Rightarrow> string \<Rightarrow> (health_result, 's) act" where
  "cache_check p alias s =
     (let name = ''cache['' @ alias @ '']'' in
      rescue (\<lambda>e. unhealthy name (exc_detail e))
        (andthen (cache_set p alias s) (\<lambda>_ s1.
           andthen (cache_get p alias s1) (\<lambda>v s2.
             if v \<noteq> VStr ''ok'' then (Inr (unhealthy name ''round-trip failed''), s2)
             else
               andthen
                 (rescue (\<lambda>e. ''connected'')
                    (andthen (attempt_recover_all p s2) (\<lambda>recovered s3.
                       (Inr (if truthy recovered then ''connected (recovered='' @ text_of recovered @ '')''
                             else ''connected''), s3))))
                 (\<lambda>detail s4. (Inr (healthy_as name detail), s4))))))"

definition celery_broker_check :: "'s probes \<Rightarrow> (health_result, 's) act" where
  "celery_broker_check p s =
     rescue (\<lambda>e. unhealthy ''celery_broker'' (exc_detail e))
       (andthen (open_broker p s) (\<lambda>_ s1.
          andthen (finally_do (ensure_connection p s1) (close_broker p)) (\<lambda>_ s2.
            (Inr (healthy_as ''celery_broker'' ''connected''), s2))))"

section \<open>Health and readiness\<close>

definition is_privileged :: "account option \<Rightarrow> bool" where
  "is_privileged user = (case user of Some u \<Rightarrow> has_superuser_role u | None \<Rightarrow> False)"

definition short_status :: "health_result \<Rightarrow> string" where
  "short_status r =
     (if hr_healthy r then ''connected''
      else if sublist ''database'' (hr_name r) then ''disconnected'' else ''unreachable'')"

definition attach_checks :: "pydict \<Rightarrow> health_result list \<Rightarrow> bool \<Rightarrow> pydict" where
  "attach_checks payload results privileged =
     (if privileged then
        dset ''checks''
          (VDict (fold (\<lambda>r. dset (hr_name r) (VStr (if hr_detail r \<noteq> [] then hr_detail r else short_status r))) results []))
          payload
      else payload)"

text \<open>A plain DRF response: status and body.\<close>

definition verdict_view ::
  "string \<Rightarrow> string \<Rightarrow> 's check list \<Rightarrow> account option \<Rightarrow> (int \<times> pyval, 's) act" where
  "verdict_view good bad checks user s =
     andthen (run_checks checks s) (\<lambda>(results, healthy) s'.
       (Inr (if healthy then 200 else 503,
             VDict (attach_checks [(KStr ''status'', VStr (if healthy then good else bad))] results
               (is_privileged user))), s'))"

definition health_check :: "'s probes \<Rightarrow> account option \<Rightarrow> (int \<times> pyval, 's) act" where
  "health_check p = verdict_view ''healthy'' ''unhealthy'' [(''db_check'', db_check p)]"

definition readiness_check :: "'s probes \<Rightarrow> account option \<Rightarrow> (int \<times> pyval, 's) act" where
  "readiness_check p =
     verdict_view ''ready'' ''not_ready''
       [(''db_check'', db_check p), (''cache_check'', cache_check p ''default''),
        (''celery_broker_check'', celery_broker_check p)]"

section \<open>CSP reports\<close>

text \<open>The \<open>extra\<close> of the log record; the answer is always 204.\<close>

definition csp_report :: "pyval \<Rightarrow> pydict \<times> int" where
  "csp_report data =
     (let body = (case data of VDict d \<Rightarrow> d | _ \<Rightarrow> []);
          report = (case dget body ''csp-report'' of Some (VDict r) \<Rightarrow> r | _ \<Rightarrow> body);
          field = (\<lambda>f. case dget report f of Some v \<Rightarrow> text_of v | None \<Rightarrow> [])
      in ([(KStr ''event'', VStr ''csp_violation''),
           (KStr ''violated_directive'', VStr (take 200 (field ''violated-directive''))),
           (KStr ''effective_directive'', VStr (take 200 (field ''effective-directive''))),
           (KStr ''disposition'', VStr (take 50 (field ''disposition''))),
           (KStr ''status_code'', case dget report ''status-code'' of Some v \<Rightarrow> v | None \<Rightarrow> VNone)], 204))"

section \<open>Metrics\<close>

definition metrics_client_ip :: "(string \<times> string) list \<Rightarrow> string" where
  "metrics_client_ip meta = (case map_of meta ''REMOTE_ADDR'' of Some a \<Rightarrow> a | None \<Rightarrow> [])"

definition entry_matches :: "ip_addr \<Rightarrow> string \<Rightarrow> bool" where
  "entry_matches ip entry =
     (if CHR ''/'' \<in> set entry
      then (case ip_network entry of Some net \<Rightarrow> in_network ip net | None \<Rightarrow> False)
      else (case ip_address entry of Some a \<Rightarrow> ip = a | None \<Rightarrow> False))"

fun any_entry :: "ip_addr \<Rightarrow> string list \<Rightarrow> bool" where
  "any_entry ip [] = False"
| "any_entry ip (entry # rest) = (if entry_matches ip entry then True else any_entry ip rest)"

definition ip_allowed :: "string \<Rightarrow> string list \<Rightarrow> bool" where
  "ip_allowed client_ip allow_list =
     (if client_ip = [] then False
      else case ip_address client_ip of None \<Rightarrow> False | Some ip \<Rightarrow> any_entry ip allow_list)"

text \<open>\<open>exporter\<close> is \<open>generate_latest()\<close> when \<open>prometheus_client\<close> is installed.\<close>

definition metrics_endpoint ::
  "string list option \<Rightarrow> bool \<Rightarrow> string option \<Rightarrow> (string \<times> string) list \<Rightarrow> int \<times> string" where
  "metrics_endpoint allowed metrics_enabled exporter meta =
     (if \<not> ip_allowed (metrics_client_ip meta) (case allowed of Some xs \<Rightarrow> xs | None \<Rightarrow> [''127.0.0.1''])
      then (403, ''forbidden: metrics endpoint is IP-restricted'')
      else if \<not> metrics_enabled then (503, ''metrics exporter not configured'')
      else case exporter of
        None \<Rightarrow> (503, ''metrics enabled but prometheus_client is not installed'')
      | Some body \<Rightarrow> (200, body))"


section \<open>What an outsider learns\<close>

definition tame_probes :: "'s probes \<Rightarrow> bool" where
  "tame_probes p \<longleftrightarrow> tame (select_1 p) \<and> (\<forall>a. tame (cache_set p a)) \<and> (\<forall>a. tame (cache_get p a)) \<and>
     tame (attempt_recover_all p) \<and> tame (open_broker p) \<and> tame (ensure_connection p) \<and> tame (close_broker p)"

lemma run_each_returns:
  assumes "\<And>name check. (name, check) \<in> set checks \<Longrightarrow> tame check"
  shows "\<exists>rs. fst (run_each checks s) = Inr rs"
  using assms
proof (induction checks arbitrary: s)
  case (Cons nc checks)
  obtain name check where nc: "nc = (name, check)" by (cases nc)
  have "tame check" using Cons.prems nc by auto
  then have "\<exists>r. fst (rescue (\<lambda>e. unhealthy name (exc_detail e)) (check s)) = Inr r"
    by (intro rescue_returns) (metis prod.collapse tame_def)
  then obtain r s1 where r: "rescue (\<lambda>e. unhealthy name (exc_detail e)) (check s) = (Inr r, s1)"
    by (metis prod.collapse)
  obtain rs s2 where "run_each checks s1 = (Inr rs, s2)"
    using Cons.IH [of s1] Cons.prems by (metis list.set_intros(2) prod.collapse)
  with r show ?case by (simp add: nc andthen_def)
qed simp

lemma tame_checks:
  assumes "tame_probes p"
  shows "tame (db_check p)" "tame (cache_check p alias)" "tame (celery_broker_check p)"
  using assms
  by (auto simp: tame_probes_def db_check_def [abs_def] cache_check_def [abs_def] celery_broker_check_def [abs_def] Let_def
      intro!: tame_intros)

lemma verdict_view_unprivileged:
  assumes "\<And>name check. (name, check) \<in> set checks \<Longrightarrow> tame check" and "\<not> is_privileged user"
  shows "fst (verdict_view good bad checks user s) \<in>
     {Inr (200, VDict [(KStr ''status'', VStr good)]), Inr (503, VDict [(KStr ''status'', VStr bad)])}"
proof -
  obtain rs s' where "run_each checks s = (Inr rs, s')"
    using run_each_returns [of checks s] assms(1) by (metis prod.collapse)
  then show ?thesis
    using assms(2) by (simp add: verdict_view_def run_checks_def andthen_def attach_checks_def)
qed

lemma verdict_view_exact:
  assumes "run_each checks s = (Inr rs, s')"
  shows "verdict_view good bad checks user s =
     (Inr (if list_all hr_healthy rs then 200 else 503,
       VDict (attach_checks [(KStr ''status'', VStr (if list_all hr_healthy rs then good else bad))] rs
         (is_privileged user))), s')"
  using assms by (simp add: verdict_view_def run_checks_def andthen_def)

text \<open>
  C32: the probe endpoints always answer and tell an outsider one bit. Whatever the database, the cache
  and the broker do (short of an exception that is not an \<open>Exception\<close>), both views return; to a caller
  without a superuser role the whole body is the verdict, with no message, host name or exception text
  of any probe.
\<close>

theorem probes_tell_outsiders_one_bit:
  assumes "tame_probes p" and "\<not> is_privileged user"
  shows "fst (health_check p user s) \<in>
      {Inr (200, VDict [(KStr ''status'', VStr ''healthy'')]), Inr (503, VDict [(KStr ''status'', VStr ''unhealthy'')])} \<and>
    fst (readiness_check p user s) \<in>
      {Inr (200, VDict [(KStr ''status'', VStr ''ready'')]), Inr (503, VDict [(KStr ''status'', VStr ''not_ready'')])}"
proof
  show "fst (health_check p user s) \<in>
      {Inr (200, VDict [(KStr ''status'', VStr ''healthy'')]), Inr (503, VDict [(KStr ''status'', VStr ''unhealthy'')])}"
    unfolding health_check_def
    by (rule verdict_view_unprivileged) (use tame_checks [OF assms(1)] assms(2) in auto)
  show "fst (readiness_check p user s) \<in>
      {Inr (200, VDict [(KStr ''status'', VStr ''ready'')]), Inr (503, VDict [(KStr ''status'', VStr ''not_ready'')])}"
    unfolding readiness_check_def
    by (rule verdict_view_unprivileged) (use tame_checks [OF assms(1)] assms(2) in auto)
qed

text \<open>A world in which only the broker is down.\<close>

definition broker_down :: "unit probes" where
  "broker_down =
     \<lparr>select_1 = (\<lambda>s. (Inr (), s)), cache_set = (\<lambda>a s. (Inr (), s)), cache_get = (\<lambda>a s. (Inr (VStr ''ok''), s)),
      attempt_recover_all = (\<lambda>s. (Inr (VInt 0), s)), open_broker = (\<lambda>s. (Inr (), s)),
      ensure_connection = (\<lambda>s. (Inl (raw_exn (OtherException ''OperationalError'') ''refused''), s)),
      close_broker = (\<lambda>s. (Inr (), s))\<rparr>"

lemma broker_down_tame: "tame_probes broker_down"
  by (simp add: tame_probes_def tame_def broker_down_def isinstance_def issubclass_def raw_exn_def)

theorem probes_tell_outsiders_one_bit_witness:
  "fst (readiness_check broker_down None ()) = Inr (503, VDict [(KStr ''status'', VStr ''not_ready'')])"
proof -
  have "\<not> is_privileged None" by (simp add: is_privileged_def)
  from probes_tell_outsiders_one_bit [OF broker_down_tame this, of "()"]
  have "fst (readiness_check broker_down None ()) \<in>
      {Inr (200, VDict [(KStr ''status'', VStr ''ready'')]), Inr (503, VDict [(KStr ''status'', VStr ''not_ready'')])}" ..
  moreover have "(case fst (readiness_check broker_down None ()) of Inr (st, b) \<Rightarrow> st | Inl e \<Rightarrow> 0) = 503" by code_simp
  ultimately show ?thesis by auto
qed


section \<open>The metrics allow-list\<close>

lemma any_entry_iff: "any_entry ip xs \<longleftrightarrow> (\<exists>entry \<in> set xs. entry_matches ip entry)"
  by (induction xs) auto

lemma ipv4_str_no_slash: "CHR ''/'' \<notin> set (ipv4_str w)"
proof -
  have "0 \<le> uint w div 16777216" by (simp add: div_int_pos_iff)
  then show ?thesis by (simp add: ipv4_str_def Let_def int_str_no_char separators)
qed

lemma ipv4_str_nonempty: "ipv4_str w \<noteq> []"
  by (simp add: ipv4_str_def Let_def)

lemma ip_address_ipv4_str: "ip_address (ipv4_str w) = Some (V4 w)"
  by (simp add: ip_address_def ipv4_roundtrip)

lemma make_netmask4_nat_str: "n \<le> 32 \<Longrightarrow> make_netmask4 (nat_str n) = Some (ip_int_from_prefix n)"
  by (simp add: make_netmask4_def prefix_from_prefix_string_def ascii_digits_nat_str dec_digits_nat_str)

lemma ip_network_cidr:
  assumes "n \<le> 32"
  shows "ip_network (ipv4_str a @ ''/'' @ nat_str n) = Some (Net4 (a AND ip_int_from_prefix n) (ip_int_from_prefix n))"
proof -
  have "py_split ''/'' (ipv4_str a @ ''/'' @ nat_str n) = [ipv4_str a, nat_str n]"
    using py_split_append [OF ipv4_str_no_slash, of a "nat_str n"]
    by (simp add: py_split_single nat_str_no_char separators)
  then show ?thesis by (simp add: ip_network_def ipv4_roundtrip make_netmask4_nat_str [OF assms])
qed

definition well_formed_entry :: "string \<Rightarrow> bool" where
  "well_formed_entry entry =
     (if CHR ''/'' \<in> set entry then ip_network entry \<noteq> None else ip_address entry \<noteq> None)"

lemma malformed_never_matches: "\<not> well_formed_entry entry \<Longrightarrow> \<not> entry_matches ip entry"
  by (auto simp: well_formed_entry_def entry_matches_def split: if_splits)

lemma entry_matches_v4:
  "entry_matches (V4 ip) (ipv4_str a) \<longleftrightarrow> ip = a"
  "n \<le> 32 \<Longrightarrow> entry_matches (V4 ip) (ipv4_str a @ ''/'' @ nat_str n) \<longleftrightarrow>
     unat ip div 2 ^ (32 - n) = unat a div 2 ^ (32 - n)"
  using and_prefix_mask_iff [of n ip a]
  by (simp_all add: entry_matches_def ipv4_str_no_slash ip_address_ipv4_str ip_network_cidr del: append.simps)

text \<open>
  C19: the metrics endpoint is open to exactly the configured addresses. For an allow-list of IPv4
  networks and single addresses in their usual notation, with any malformed entries anywhere in
  between, a scraper at a given socket address gets past the 403 precisely when it is one of the
  addresses or shares the first \<open>n\<close> bits with a network of prefix length \<open>n\<close>; a typo neither opens the
  endpoint nor hides the entries after it, and no header of the request matters.
\<close>

theorem metrics_acl_exact:
  assumes "map_of meta ''REMOTE_ADDR'' = Some (ipv4_str ip)"
    and "set entries = ipv4_str ` set hosts \<union> (\<lambda>(a, n). ipv4_str a @ ''/'' @ nat_str n) ` set nets \<union> set junk"
    and "\<forall>(a, n) \<in> set nets. n \<le> 32" and "\<forall>e \<in> set junk. \<not> well_formed_entry e"
  shows "fst (metrics_endpoint (Some entries) metrics_enabled exporter meta) \<noteq> 403 \<longleftrightarrow>
     ip \<in> set hosts \<or> (\<exists>(a, n) \<in> set nets. unat ip div 2 ^ (32 - n) = unat a div 2 ^ (32 - n))"
proof -
  have "fst (metrics_endpoint (Some entries) metrics_enabled exporter meta) \<noteq> 403 \<longleftrightarrow>
      ip_allowed (ipv4_str ip) entries"
    using assms(1) by (auto simp: metrics_endpoint_def metrics_client_ip_def split: option.splits)
  also have "\<dots> \<longleftrightarrow> (\<exists>entry \<in> set entries. entry_matches (V4 ip) entry)"
    by (simp add: ip_allowed_def ipv4_str_nonempty ip_address_ipv4_str any_entry_iff)
  also have "\<dots> \<longleftrightarrow> (\<exists>a \<in> set hosts. entry_matches (V4 ip) (ipv4_str a)) \<or>
      (\<exists>(a, n) \<in> set nets. entry_matches (V4 ip) (ipv4_str a @ ''/'' @ nat_str n))"
    using assms(4) malformed_never_matches by (auto simp: assms(2) simp del: append.simps)
  also have "\<dots> \<longleftrightarrow> ip \<in> set hosts \<or> (\<exists>(a, n) \<in> set nets. unat ip div 2 ^ (32 - n) = unat a div 2 ^ (32 - n))"
    using assms(3) entry_matches_v4 by (fastforce simp del: append.simps)
  finally show ?thesis .
qed

theorem metrics_acl_exact_witness:
  "fst (metrics_endpoint (Some [''typo'', ipv4_str 0x0A000000 @ ''/'' @ nat_str 8]) False None
      [(''REMOTE_ADDR'', ipv4_str 0x0A010203)]) \<noteq> 403"
proof -
  have junk: "\<forall>e \<in> set [''typo'']. \<not> well_formed_entry e" by code_simp
  show ?thesis
    using metrics_acl_exact [of "[(''REMOTE_ADDR'', ipv4_str 0x0A010203)]" "0x0A010203"
        "[''typo'', ipv4_str 0x0A000000 @ ''/'' @ nat_str 8]" "[]" "[(0x0A000000, 8)]" "[''typo'']" False None] junk
    by auto
qed

section \<open>CSP reports in the log\<close>

text \<open>
  Of the three directive fields at most 200, 200 and 50 characters reach the log whatever a browser
  posts, but the fourth is copied as it came: any posted \<open>status-code\<close>, of whatever type and size, is
  in the record.
\<close>

lemma csp_status_code_unbounded:
  "dget (fst (csp_report (VDict [(KStr ''csp-report'', VDict [(KStr ''status-code'', v)])]))) ''status_code'' = Some v \<and>
   (\<forall>f \<in> {''violated_directive'', ''effective_directive'', ''disposition''}.
      \<exists>t. dget (fst (csp_report data)) f = Some (VStr t) \<and> length t \<le> 200)"
  by (simp add: csp_report_def Let_def dget_def)

end
