(* ===== verification/Storage.thy ===== *)
theory Storage
  imports Effects
begin

text \<open>
  \<open>apps/core/utils/s3.py\<close> and \<open>aws.py\<close>: S3 URIs, object keys, the error translation around the client
  and the operations built on it; and the per-thread client cache. The boto3 client is a record of
  functions on an abstract world. The functions are modelled under their \<open>@resilient\<close> decorator, whose
  retries are the kit's; the log lines are left out.
\<close>

section \<open>URIs\<close>

text \<open>
  \<open>urllib.parse.urlparse\<close> as far as it is used: scheme, network location and path. Leading blanks and
  control characters and all tabs and line ends are dropped, a scheme is letters, digits, plus, minus
  and dot after a letter, and the query and the fragment are cut off. \<open>netloc_check\<close> is urllib's check of
  the location (brackets, normalisation), \<open>Some e\<close> when it raises.
\<close>

record split_url =
  su_scheme :: string
  su_netloc :: string
  su_path :: string

definition is_alpha :: "char \<Rightarrow> bool" where
  "is_alpha c \<longleftrightarrow> is_lower c \<or> is_upper c"

definition scheme_char :: "char \<Rightarrow> bool" where
  "scheme_char c \<longleftrightarrow> is_alpha c \<or> is_digit c \<or> c \<in> {CHR ''+'', CHR ''-'', CHR ''.''}"

definition clean_url :: "string \<Rightarrow> string" where
  "clean_url u = filter (\<lambda>c. c \<notin> {tab, lf, cr}) (dropWhile (\<lambda>c. char_code c \<le> 32) u)"

definition split_scheme :: "string \<Rightarrow> string \<times> string" where
  "split_scheme u =
     (let pre = takeWhile (\<lambda>c. c \<noteq> CHR '':'') u; rest = dropWhile (\<lambda>c. c \<noteq> CHR '':'') u in
      if rest \<noteq> [] \<and> pre \<noteq> [] \<and> is_alpha (hd pre) \<and> list_all scheme_char pre
      then (py_lower pre, tl rest) else ([], u))"

definition netloc_char :: "char \<Rightarrow> bool" where
  "netloc_char c \<longleftrightarrow> c \<notin> {CHR ''/'', CHR ''?'', CHR ''#''}"

definition path_char :: "char \<Rightarrow> bool" where
  "path_char c \<longleftrightarrow> c \<notin> {CHR ''?'', CHR ''#''}"

definition split_netloc :: "string \<Rightarrow> string \<times> string" where
  "split_netloc u =
     (if take 2 u = ''//'' then (takeWhile netloc_char (drop 2 u), dropWhile netloc_char (drop 2 u)) else ([], u))"

definition urlparse :: "(string \<Rightarrow> exn option) \<Rightarrow> string \<Rightarrow> (exn, split_url) result" where
  "urlparse netloc_check url =
     (let (scheme, rest) = split_scheme (clean_url url);
          (netloc, tail) = split_netloc rest
      in case netloc_check netloc of
           Some e \<Rightarrow> Inl e
         | None \<Rightarrow> Inr \<lparr>su_scheme = scheme, su_netloc = netloc, su_path = takeWhile path_char tail\<rparr>)"

definition lstrip_slash :: "string \<Rightarrow> string" where
  "lstrip_slash s = dropWhile (\<lambda>c. c = CHR ''/'') s"

definition invalid_input :: "string option \<Rightarrow> string \<Rightarrow> exn" where
  "invalid_input rid msg = new_custom rid InvalidInputError (Some msg) None NoFields"

definition parse_s3_uri ::
  "(string \<Rightarrow> exn option) \<Rightarrow> string option \<Rightarrow> string \<Rightarrow> (exn, string \<times> string) result" where
  "parse_s3_uri netloc_check rid s3_uri =
     rbind (urlparse netloc_check s3_uri) (\<lambda>parsed.
       if su_scheme parsed \<noteq> ''s3'' \<or> su_netloc parsed = []
       then Inl (invalid_input rid (''Invalid S3 URI format: '' @ s3_uri))
       else
         let key = lstrip_slash (su_path parsed) in
         if key = [] then Inl (invalid_input rid (''S3 URI is missing object key: '' @ s3_uri))
         else Inr (su_netloc parsed, key))"

definition build_s3_uri :: "string option \<Rightarrow> string \<Rightarrow> string \<Rightarrow> (exn, string) result" where
  "build_s3_uri rid bucket key =
     (if bucket = [] \<or> key = []
      then Inl (invalid_input rid (''Both bucket and key required (got bucket='' @ repr_str bucket @
             '', key='' @ repr_str key @ '').''))
      else Inr (''s3://'' @ bucket @ ''/'' @ lstrip_slash key))"

section \<open>Object keys\<close>

definition safe_name_char :: "char \<Rightarrow> bool" where
  "safe_name_char c \<longleftrightarrow> is_alpha c \<or> is_digit c \<or> c \<in> {CHR ''.'', CHR ''_'', CHR ''-''}"

text \<open>\<open>re.sub("[^A-Za-z0-9._-]+", "-", s)\<close>: each run of unsafe characters becomes one hyphen.\<close>

fun sub_unsafe :: "bool \<Rightarrow> string \<Rightarrow> string" where
  "sub_unsafe in_run [] = []"
| "sub_unsafe in_run (c # cs) =
     (if safe_name_char c then c # sub_unsafe False cs
      else if in_run then sub_unsafe True cs else CHR ''-'' # sub_unsafe True cs)"

definition last_part :: "char \<Rightarrow> string \<Rightarrow> string" where
  "last_part c s = rev (takeWhile (\<lambda>x. x \<noteq> c) (rev s))"

definition or_default :: "string \<Rightarrow> string \<Rightarrow> string" where
  "or_default s d = (if s \<noteq> [] then s else d)"

definition clean_filename :: "string \<Rightarrow> string" where
  "clean_filename filename =
     (let base = or_default (py_strip (last_part backslash (last_part CHR ''/'' filename))) ''file'' in
      or_default (strip_chars (\<lambda>c. c \<in> {CHR ''-'', CHR ''.'', CHR ''_''}) (sub_unsafe False base)) ''file'')"

definition add_ext :: "string option \<Rightarrow> string \<Rightarrow> string" where
  "add_ext ext cleaned =
     (case or_str ext None of
        Some x \<Rightarrow>
          if suffix (CHR ''.'' # lstrip_chars (\<lambda>c. c = CHR ''.'') (py_lower x)) (py_lower cleaned) then cleaned
          else cleaned @ ''.'' @ lstrip_chars (\<lambda>c. c = CHR ''.'') x
      | None \<Rightarrow> cleaned)"

text \<open>\<open>ym\<close> is the date partition \<open>%Y/%m\<close> of the clock, \<open>uuid\<close> the fresh identifier.\<close>

definition generate_object_key :: "string \<Rightarrow> string \<Rightarrow> string \<Rightarrow> string \<Rightarrow> string option \<Rightarrow> string" where
  "generate_object_key ym uuid pre filename ext =
     or_default (strip_chars (\<lambda>c. c = CHR ''/'') pre) ''assets'' @ ''/'' @ ym @ ''/'' @ uuid @ ''__'' @
       add_ext ext (clean_filename filename)"


section \<open>The client\<close>

definition ClientError :: exc_class where "ClientError = OtherException ''ClientError''"
definition BotoCoreError :: exc_class where "BotoCoreError = OtherException ''BotoCoreError''"
definition JSONDecodeError :: exc_class where "JSONDecodeError = Subclass ''JSONDecodeError'' None None PyValueError"

text \<open>A \<open>GetObject\<close> or \<open>HeadObject\<close> response: the entries the code reads.\<close>

record s3_response =
  sr_length :: "int option"
  sr_type :: "string option"
  sr_etag :: "string option"
  sr_modified :: "pyval option"

record 's s3_client =
  acquire :: "(unit, 's) act"
  presign :: "string \<Rightarrow> string \<Rightarrow> int \<Rightarrow> (string, 's) act"
  get_object :: "string \<Rightarrow> string \<Rightarrow> (s3_response, 's) act"
  read_body :: "string \<Rightarrow> string \<Rightarrow> (string, 's) act"
  put_object :: "string \<Rightarrow> string \<Rightarrow> string \<Rightarrow> string \<Rightarrow> (unit, 's) act"
  upload_fileobj :: "string \<Rightarrow> string \<Rightarrow> string \<Rightarrow> string \<Rightarrow> (string \<times> string) list option \<Rightarrow> (unit, 's) act"
  delete_object :: "string \<Rightarrow> string \<Rightarrow> (unit, 's) act"
  head_object :: "string \<Rightarrow> string \<Rightarrow> (s3_response, 's) act"
  error_code :: "exn \<Rightarrow> string"

text \<open>The codecs: \<open>json.dumps\<close>, \<open>json.loads\<close>, and UTF-8 both ways.\<close>

record codecs =
  dumps :: "pyval \<Rightarrow> (exn, string) result"
  loads :: "string \<Rightarrow> (exn, pyval) result"
  utf8 :: "string \<Rightarrow> string"
  un_utf8 :: "string \<Rightarrow> (exn, string) result"

definition s3_error :: "string option \<Rightarrow> exc_class \<Rightarrow> string \<Rightarrow> exn" where
  "s3_error rid c msg = new_custom rid c (Some msg) None NoFields"

definition s3_call ::
  "'s s3_client \<Rightarrow> string option \<Rightarrow> string \<Rightarrow> string \<Rightarrow> string \<Rightarrow> (exn + 'a) \<times> 's \<Rightarrow> (exn + 'a) \<times> 's" where
  "s3_call cl rid operation bucket key out =
     (case out of
        (Inl e, s) \<Rightarrow>
          if isinstance e ClientError then
            (if error_code cl e \<in> {''404'', ''NoSuchKey'', ''NotFound''}
             then (Inl (s3_error rid S3NotFoundError (''S3 object not found: '' @ bucket @ ''/'' @ key)), s)
             else (Inl (s3_error rid S3Exception (''S3 '' @ operation @ '' failed for '' @ bucket @ ''/'' @ key)), s))
          else if isinstance e BotoCoreError
          then (Inl (s3_error rid S3Exception (''S3 '' @ operation @ '' failed for '' @ bucket @ ''/'' @ key)), s)
          else (Inl e, s)
      | (Inr a, s) \<Rightarrow> (Inr a, s))"

text \<open>\<open>expiry or getattr(settings, "S3_PRESIGNED_URL_EXPIRY", 3600)\<close>.\<close>

definition generate_presigned_url ::
  "'s s3_client \<Rightarrow> (string \<Rightarrow> exn option) \<Rightarrow> string option \<Rightarrow> int option \<Rightarrow> string \<Rightarrow> int option \<Rightarrow> (string, 's) act" where
  "generate_presigned_url cl nc rid setting s3_uri expiry s =
     andthen (parse_s3_uri nc rid s3_uri, s) (\<lambda>(bucket, key) s0.
       s3_call cl rid ''generate_presigned_url'' bucket key
         (andthen (acquire cl s0) (\<lambda>_ s1.
            presign cl bucket key
              (case expiry of
                 Some n \<Rightarrow> if n \<noteq> 0 then n else (case setting of Some m \<Rightarrow> m | None \<Rightarrow> 3600)
               | None \<Rightarrow> (case setting of Some m \<Rightarrow> m | None \<Rightarrow> 3600)) s1)))"

definition too_large :: "string option \<Rightarrow> int \<Rightarrow> int \<Rightarrow> string \<Rightarrow> string \<Rightarrow> exn" where
  "too_large rid n max_size bucket key =
     s3_error rid S3Exception (''S3 object too large ('' @ int_str n @ '' bytes, max '' @ int_str max_size @ ''): '' @
       bucket @ ''/'' @ key)"

text \<open>The guarded read the two fetches share.\<close>

definition guarded_get ::
  "'s s3_client \<Rightarrow> string option \<Rightarrow> int \<Rightarrow> string \<Rightarrow> string \<Rightarrow> (string \<times> s3_response, 's) act" where
  "guarded_get cl rid max_size bucket key s0 =
     andthen (acquire cl s0) (\<lambda>_ s1.
       andthen (get_object cl bucket key s1) (\<lambda>response s2.
         let content_length = (case sr_length response of Some n \<Rightarrow> n | None \<Rightarrow> 0) in
         if content_length > max_size then (Inl (too_large rid content_length max_size bucket key), s2)
         else andthen (read_body cl bucket key s2) (\<lambda>body s3. (Inr (body, response), s3))))"

definition fetch_json_from_s3 ::
  "'s s3_client \<Rightarrow> codecs \<Rightarrow> (string \<Rightarrow> exn option) \<Rightarrow> string option \<Rightarrow> string \<Rightarrow> int \<Rightarrow> (pyval, 's) act" where
  "fetch_json_from_s3 cl cd nc rid s3_uri max_size s =
     andthen (parse_s3_uri nc rid s3_uri, s) (\<lambda>(bucket, key) s0.
       andthen
         (s3_call cl rid ''fetch_json'' bucket key
            (andthen (guarded_get cl rid max_size bucket key s0) (\<lambda>(raw, response) s1. (un_utf8 cd raw, s1))))
         (\<lambda>body s2.
            translate [JSONDecodeError]
              (\<lambda>e. s3_error rid S3Exception (''S3 object is not valid JSON: '' @ bucket @ ''/'' @ key))
              (loads cd body, s2)))"

definition fetch_bytes_from_s3 ::
  "'s s3_client \<Rightarrow> (string \<Rightarrow> exn option) \<Rightarrow> string option \<Rightarrow> string \<Rightarrow> int \<Rightarrow> (string \<times> string, 's) act" where
  "fetch_bytes_from_s3 cl nc rid s3_uri max_size s =
     andthen (parse_s3_uri nc rid s3_uri, s) (\<lambda>(bucket, key) s0.
       s3_call cl rid ''fetch_bytes'' bucket key
         (andthen (guarded_get cl rid max_size bucket key s0) (\<lambda>(raw, response) s1.
            (Inr (raw, case sr_type response of Some t \<Rightarrow> t | None \<Rightarrow> ''application/octet-stream''), s1))))"

definition upload_json_to_s3 ::
  "'s s3_client \<Rightarrow> codecs \<Rightarrow> string option \<Rightarrow> pyval \<Rightarrow> string \<Rightarrow> string \<Rightarrow> (string, 's) act" where
  "upload_json_to_s3 cl cd rid data bucket key s =
     andthen (dumps cd data, s) (\<lambda>body s0.
       andthen
         (s3_call cl rid ''upload_json'' bucket key
            (andthen (acquire cl s0) (\<lambda>_. put_object cl bucket key (utf8 cd body) ''application/json'')))
         (\<lambda>_ s1. (build_s3_uri rid bucket key, s1)))"

text \<open>\<open>file\<close> stands for the bytes of the file object; the metadata values go through \<open>str\<close>.\<close>

definition upload_file_to_s3 ::
  "'s s3_client \<Rightarrow> string option \<Rightarrow> string \<Rightarrow> string \<Rightarrow> string \<Rightarrow> string \<Rightarrow> (pykey \<times> pyval) list option \<Rightarrow> (string, 's) act" where
  "upload_file_to_s3 cl rid file bucket key content_type metadata s =
     (let meta = (case metadata of
          Some m \<Rightarrow> if m \<noteq> [] then Some (map (\<lambda>(k, v). (key_str k, text_of v)) m) else None
        | None \<Rightarrow> None)
      in andthen
           (s3_call cl rid ''upload_file'' bucket key
              (andthen (acquire cl s) (\<lambda>_. upload_fileobj cl file bucket key content_type meta)))
           (\<lambda>_ s1. (build_s3_uri rid bucket key, s1)))"

definition delete_s3_object ::
  "'s s3_client \<Rightarrow> (string \<Rightarrow> exn option) \<Rightarrow> string option \<Rightarrow> string \<Rightarrow> (unit, 's) act" where
  "delete_s3_object cl nc rid s3_uri s =
     andthen (parse_s3_uri nc rid s3_uri, s) (\<lambda>(bucket, key) s0.
       case s3_call cl rid ''delete'' bucket key (andthen (acquire cl s0) (\<lambda>_. delete_object cl bucket key)) of
         (Inl e, s1) \<Rightarrow> if isinstance e S3NotFoundError then (Inr (), s1) else (Inl e, s1)
       | (Inr u, s1) \<Rightarrow> (Inr u, s1))"

definition head_s3_object ::
  "'s s3_client \<Rightarrow> (string \<Rightarrow> exn option) \<Rightarrow> string option \<Rightarrow> string \<Rightarrow> (pyval, 's) act" where
  "head_s3_object cl nc rid s3_uri s =
     andthen (parse_s3_uri nc rid s3_uri, s) (\<lambda>(bucket, key) s0.
       s3_call cl rid ''head'' bucket key
         (andthen (acquire cl s0) (\<lambda>_ s1.
            andthen (head_object cl bucket key s1) (\<lambda>r s2.
              (Inr (str_dict
                 [(''size'', case sr_length r of Some n \<Rightarrow> VInt n | None \<Rightarrow> VNone),
                  (''content_type'', case sr_type r of Some t \<Rightarrow> VStr t | None \<Rightarrow> VNone),
                  (''etag'', VStr (strip_chars (\<lambda>c. c = dquote) (case sr_etag r of Some t \<Rightarrow> t | None \<Rightarrow> []))),
                  (''last_modified'', case sr_modified r of Some v \<Rightarrow> v | None \<Rightarrow> VNone)]), s2)))))"

text \<open>
  The functions above are the bodies that \<open>@resilient("s3")\<close> wraps; the decorator itself, which may retry
  a body or refuse to run it, is the parameter \<open>resilient\<close> of their one caller in the module.
\<close>

definition object_exists ::
  "((pyval, 's) act \<Rightarrow> (pyval, 's) act) \<Rightarrow> 's s3_client \<Rightarrow> (string \<Rightarrow> exn option) \<Rightarrow> string option \<Rightarrow> string \<Rightarrow>
     (bool, 's) act" where
  "object_exists resilient cl nc rid s3_uri s =
     (case resilient (head_s3_object cl nc rid s3_uri) s of
        (Inr _, s1) \<Rightarrow> (Inr True, s1)
      | (Inl e, s1) \<Rightarrow> if isinstance e S3NotFoundError then (Inr False, s1) else (Inl e, s1))"

section \<open>The client cache\<close>

text \<open>\<open>boto3_client\<close> makes a client for a service and a region; the cache is the calling thread's.\<close>

type_synonym 'c client_cache = "(string \<times> 'c) list"

definition aws_cache_key :: "string \<Rightarrow> string \<Rightarrow> string" where
  "aws_cache_key service region =
     map (\<lambda>c. if c = CHR ''-'' then CHR ''_'' else c) (''_aws_'' @ service @ ''_'' @ region)"

definition get_aws_client ::
  "(string \<Rightarrow> string \<Rightarrow> exn + 'c) \<Rightarrow> string option \<Rightarrow> string \<Rightarrow> string option \<Rightarrow> 'c client_cache
     \<Rightarrow> (exn + 'c) \<times> 'c client_cache" where
  "get_aws_client boto3_client aws_region service region cache =
     (let resolved = (case or_str region None of
            Some r \<Rightarrow> r
          | None \<Rightarrow> (case aws_region of Some r \<Rightarrow> r | None \<Rightarrow> ''ap-south-1''));
          k = aws_cache_key service resolved
      in case map_of cache k of
           Some c \<Rightarrow> (Inr c, cache)
         | None \<Rightarrow>
             (case boto3_client service resolved of
                Inl e \<Rightarrow> (Inl e, cache)
              | Inr c \<Rightarrow> (Inr c, AList.update k c cache)))"


section \<open>URIs there and back\<close>

definition url_plain :: "char \<Rightarrow> bool" where
  "url_plain c \<longleftrightarrow> c \<notin> {CHR ''?'', CHR ''#'', tab, lf, cr}"

definition bucket_ok :: "(string \<Rightarrow> exn option) \<Rightarrow> string \<Rightarrow> bool" where
  "bucket_ok nc b \<longleftrightarrow> b \<noteq> [] \<and> list_all (\<lambda>c. url_plain c \<and> c \<noteq> CHR ''/'') b \<and> nc b = None"

lemma takeWhile_all: "list_all P xs \<Longrightarrow> takeWhile P (xs @ y # ys) = xs @ takeWhile P (y # ys)"
  "list_all P xs \<Longrightarrow> dropWhile P (xs @ y # ys) = dropWhile P (y # ys)"
  by (induction xs) auto

lemma takeWhile_every: "list_all P xs \<Longrightarrow> takeWhile P xs = xs"
  by (induction xs) auto

lemma clean_url_plain:
  assumes "list_all url_plain s"
  shows "clean_url (CHR ''s'' # s) = CHR ''s'' # s"
proof -
  have "char_code CHR ''s'' = 115" by (simp add: char_code_def)
  moreover have "filter (\<lambda>c. c \<notin> {tab, lf, cr}) s = s"
    using assms by (intro filter_True) (auto simp: list_all_iff url_plain_def)
  moreover have "CHR ''s'' \<notin> {tab, lf, cr}" by (simp add: tab_def lf_def cr_def)
  ultimately show ?thesis by (simp add: clean_url_def)
qed

lemma split_scheme_s3: "split_scheme (''s3:'' @ rest) = (''s3'', rest)"
proof -
  have "is_alpha CHR ''s''" "list_all scheme_char ''s3''" "py_lower ''s3'' = ''s3''" by code_simp+
  then show ?thesis by (simp add: split_scheme_def)
qed

lemma parse_composed:
  assumes "bucket_ok nc b" and "list_all url_plain k" and "lstrip_slash k \<noteq> []"
  shows "parse_s3_uri nc rid (''s3://'' @ b @ ''/'' @ k) = Inr (b, lstrip_slash k)"
proof -
  have plain: "list_all url_plain (''3://'' @ b @ ''/'' @ k)"
    using assms by (auto simp: bucket_ok_def list_all_iff url_plain_def tab_def lf_def cr_def)
  have clean: "clean_url (''s3://'' @ b @ ''/'' @ k) = ''s3:'' @ (''//'' @ b @ ''/'' @ k)"
    using clean_url_plain [OF plain] by simp
  have "list_all netloc_char b" using assms(1) by (auto simp: bucket_ok_def list_all_iff url_plain_def netloc_char_def)
  moreover have "\<not> netloc_char CHR ''/''" by (simp add: netloc_char_def)
  ultimately have loc: "split_netloc (''//'' @ b @ ''/'' @ k) = (b, CHR ''/'' # k)"
    by (simp add: split_netloc_def takeWhile_all)
  have "takeWhile path_char (CHR ''/'' # k) = CHR ''/'' # k"
    using assms(2) by (intro takeWhile_every) (auto simp: list_all_iff url_plain_def path_char_def)
  then have "urlparse nc (''s3://'' @ b @ ''/'' @ k) =
      Inr \<lparr>su_scheme = ''s3'', su_netloc = b, su_path = CHR ''/'' # k\<rparr>"
    unfolding urlparse_def clean split_scheme_s3 using assms(1) loc by (simp add: bucket_ok_def)
  then show ?thesis
    using assms(1,3) by (simp add: parse_s3_uri_def Let_def lstrip_slash_def bucket_ok_def del: append.simps)
qed

lemma lstrip_slash_idem [simp]: "lstrip_slash (lstrip_slash k) = lstrip_slash k"
  by (induction k) (auto simp: lstrip_slash_def)

lemma set_lstrip_slash: "set (lstrip_slash k) \<subseteq> set k"
  by (simp add: lstrip_slash_def set_dropWhileD subsetI)

lemma set_clean_url: "c \<in> set (clean_url u) \<Longrightarrow> c \<notin> {tab, lf, cr}"
  by (auto simp: clean_url_def)

lemma set_split_scheme: "set (snd (split_scheme u)) \<subseteq> set u"
  by (auto simp: split_scheme_def Let_def dest!: list.set_sel(2) [rotated] dest: set_dropWhileD split: if_splits)

lemma split_netloc_parts:
  "split_netloc u = (n, t) \<Longrightarrow> set n \<subseteq> set u \<and> list_all netloc_char n \<and> set t \<subseteq> set u"
  by (auto simp: split_netloc_def list_all_iff split: if_splits dest: set_takeWhileD set_dropWhileD in_set_dropD)

lemma parsed_parts:
  assumes "parse_s3_uri nc rid u = Inr (b, k)"
  shows "bucket_ok nc b \<and> list_all url_plain k \<and> lstrip_slash k = k \<and> k \<noteq> []"
proof -
  obtain scheme rest where sc: "split_scheme (clean_url u) = (scheme, rest)" by force
  obtain n t where loc: "split_netloc rest = (n, t)" by force
  define path where "path = takeWhile path_char t"
  have k: "b = n" "k = lstrip_slash path" "k \<noteq> []" "b \<noteq> []" "nc b = None"
    using assms by (auto simp: parse_s3_uri_def urlparse_def sc loc path_def rbind_Inr_iff Let_def
        split: if_splits option.splits)
  note nt = split_netloc_parts [OF loc]
  have p: "set path \<subseteq> set rest" "list_all path_char path"
    using nt by (auto simp: path_def list_all_iff dest: set_takeWhileD)
  have "set rest \<subseteq> set (clean_url u)" using set_split_scheme [of "clean_url u"] sc by simp
  then have plain: "c \<in> set rest \<Longrightarrow> c \<notin> {tab, lf, cr}" for c using set_clean_url by blast
  have "bucket_ok nc b" using k nt plain by (auto simp: bucket_ok_def list_all_iff url_plain_def netloc_char_def)
  moreover have "list_all url_plain k"
    unfolding list_all_iff
  proof
    fix c assume "c \<in> set k"
    then have "c \<in> set path" using k(2) set_lstrip_slash by blast
    then have "path_char c" "c \<notin> {tab, lf, cr}" using p plain by (auto simp: list_all_iff)
    then show "url_plain c" by (simp add: url_plain_def path_char_def)
  qed
  ultimately show ?thesis using k by simp
qed

text \<open>
  An S3 URI and its parts name the same object. What parses into a bucket and a key is rebuilt into a
  URI that parses to the same parts again, whatever was in the original (blanks, a query, doubled
  slashes); and a URI built from a bucket and a key parses back to them when the key has no query or
  fragment character, no tab or line end, and no leading slash.
\<close>

theorem s3_uri_roundtrip:
  "(\<forall>u b k. parse_s3_uri nc rid u = Inr (b, k) \<longrightarrow>
      (\<exists>u'. build_s3_uri rid b k = Inr u' \<and> parse_s3_uri nc rid u' = Inr (b, k))) \<and>
   (\<forall>b k. bucket_ok nc b \<and> list_all url_plain k \<and> k \<noteq> [] \<and> hd k \<noteq> CHR ''/'' \<longrightarrow>
      rbind (build_s3_uri rid b k) (parse_s3_uri nc rid) = Inr (b, k))"
proof (intro conjI allI impI)
  fix u b k assume "parse_s3_uri nc rid u = Inr (b, k)"
  note parts = parsed_parts [OF this]
  then have "build_s3_uri rid b k = Inr (''s3://'' @ b @ ''/'' @ k)"
    by (simp add: build_s3_uri_def bucket_ok_def)
  then show "\<exists>u'. build_s3_uri rid b k = Inr u' \<and> parse_s3_uri nc rid u' = Inr (b, k)"
    using parse_composed [of nc b k rid] parts by auto
next
  fix b k assume h: "bucket_ok nc b \<and> list_all url_plain k \<and> k \<noteq> [] \<and> hd k \<noteq> CHR ''/''"
  then have "lstrip_slash k = k" by (cases k) (auto simp: lstrip_slash_def)
  then show "rbind (build_s3_uri rid b k) (parse_s3_uri nc rid) = Inr (b, k)"
    using h parse_composed [of nc b k rid] by (simp add: build_s3_uri_def bucket_ok_def del: append.simps)
qed

theorem s3_uri_roundtrip_witness:
  "rbind (build_s3_uri None ''media'' ''a/b.json'') (parse_s3_uri (\<lambda>n. None) None) = Inr (''media'', ''a/b.json'')"
proof -
  have "bucket_ok (\<lambda>n. None) ''media''" "list_all url_plain ''a/b.json''" "hd ''a/b.json'' \<noteq> CHR ''/''" by code_simp+
  then show ?thesis using s3_uri_roundtrip [of "\<lambda>n. None" None] by blast
qed


section \<open>Object keys stay in their folder\<close>

lemma sub_unsafe_safe: "c \<in> set (sub_unsafe r s) \<Longrightarrow> safe_name_char c"
  by (induction r s rule: sub_unsafe.induct) (auto simp: safe_name_char_def split: if_splits)

lemma set_strip_chars: "set (strip_chars P s) \<subseteq> set s"
  by (auto simp: strip_chars_def dest!: set_dropWhileD)

lemma hd_strip_chars: "strip_chars P s \<noteq> [] \<Longrightarrow> \<not> P (hd (strip_chars P s)) \<and> \<not> P (last (strip_chars P s))"
proof -
  assume ne: "strip_chars P s \<noteq> []"
  let ?d = "dropWhile P s" and ?r = "dropWhile P (rev (dropWhile P s))"
  have r: "?r \<noteq> []" using ne by (simp add: strip_chars_def)
  then have last: "\<not> P (last (strip_chars P s))"
    using hd_dropWhile [of P "rev ?d"] by (simp add: strip_chars_def last_rev)
  obtain pre where "rev ?d = pre @ ?r" by (metis takeWhile_dropWhile_id)
  then have "?d = rev ?r @ rev pre" by (metis rev_append rev_rev_ident)
  then have "hd ?d = hd (rev ?r)" "?d \<noteq> []" using r by (metis hd_append2 rev_is_Nil_conv, metis append_is_Nil_conv rev_is_Nil_conv)
  then have "\<not> P (hd (rev ?r))" using hd_dropWhile [of P s] by metis
  with last show ?thesis by (simp add: strip_chars_def)
qed

lemma clean_filename_safe:
  "clean_filename f \<noteq> [] \<and> list_all safe_name_char (clean_filename f) \<and>
   hd (clean_filename f) \<notin> {CHR ''-'', CHR ''.'', CHR ''_''} \<and> last (clean_filename f) \<notin> {CHR ''-'', CHR ''.'', CHR ''_''}"
proof -
  define t where "t = sub_unsafe False (or_default (py_strip (last_part backslash (last_part CHR ''/'' f))) ''file'')"
  define u where "u = strip_chars (\<lambda>c. c \<in> {CHR ''-'', CHR ''.'', CHR ''_''}) t"
  have cf: "clean_filename f = or_default u ''file''" by (simp add: clean_filename_def t_def u_def Let_def)
  have "safe_name_char c" if "c \<in> set u" for c
    using subsetD [OF set_strip_chars that [unfolded u_def]] unfolding t_def by (rule sub_unsafe_safe)
  then have "list_all safe_name_char u" by (simp add: list_all_iff)
  moreover have "list_all safe_name_char ''file''" by code_simp
  ultimately show ?thesis
    using hd_strip_chars [of "\<lambda>c. c \<in> {CHR ''-'', CHR ''.'', CHR ''_''}" t]
    by (auto simp: cf or_default_def u_def)
qed

lemma last_part_after: "c \<notin> set ys \<Longrightarrow> last_part c (xs @ c # ys) = ys"
proof -
  assume "c \<notin> set ys"
  then have "takeWhile (\<lambda>d. d \<noteq> c) (rev ys @ c # rev xs) = rev ys"
    by (subst takeWhile_append2) auto
  then show ?thesis by (simp add: last_part_def)
qed

text \<open>
  An uploaded file's name cannot choose where the object lands. Without an explicit extension the key
  is the stripped folder, the date, and one last segment: the identifier, two underscores and a
  non-empty name of letters, digits, dots, hyphens and underscores that neither begins nor ends with
  punctuation, whatever slashes, backslashes, dots or control characters the file name had.
\<close>

theorem object_key_confined:
  assumes "CHR ''/'' \<notin> set uuid"
  shows "\<exists>name. generate_object_key ym uuid pre filename None =
      or_default (strip_chars (\<lambda>c. c = CHR ''/'') pre) ''assets'' @ ''/'' @ ym @ ''/'' @ uuid @ ''__'' @ name \<and>
    last_part CHR ''/'' (generate_object_key ym uuid pre filename None) = uuid @ ''__'' @ name \<and>
    name \<noteq> [] \<and> list_all safe_name_char name \<and> hd name \<notin> {CHR ''-'', CHR ''.'', CHR ''_''} \<and>
    last name \<notin> {CHR ''-'', CHR ''.'', CHR ''_''}"
proof -
  let ?name = "clean_filename filename"
  note safe = clean_filename_safe [of filename]
  have "\<not> safe_name_char CHR ''/''" by code_simp
  with safe assms have "CHR ''/'' \<notin> set (uuid @ ''__'' @ ?name)" by (auto simp: list_all_iff)
  then have "last_part CHR ''/'' ((or_default (strip_chars (\<lambda>c. c = CHR ''/'') pre) ''assets'' @ ''/'' @ ym) @
      CHR ''/'' # uuid @ ''__'' @ ?name) = uuid @ ''__'' @ ?name"
    by (rule last_part_after)
  then show ?thesis
    using safe by (intro exI [of _ ?name]) (simp add: generate_object_key_def add_ext_def or_str_def)
qed


section \<open>What the boundary lets through\<close>


definition says_missing :: "'s s3_client \<Rightarrow> exn \<Rightarrow> bool" where
  "says_missing cl e \<longleftrightarrow> isinstance e ClientError \<and> error_code cl e \<in> {''404'', ''NoSuchKey'', ''NotFound''}"


lemma s3_error_class: "isinstance (s3_error rid c msg) d = issubclass c d"
  by (simp add: s3_error_def isinstance_def new_custom_def)


lemma s3_classes:
  "issubclass S3NotFoundError S3NotFoundError" "\<not> issubclass S3Exception S3NotFoundError"
  "\<not> issubclass InvalidInputError S3NotFoundError"
  by code_simp+







text \<open>An in-memory store: every call succeeds on what is there, and a missing object is \<open>NoSuchKey\<close>.\<close>

type_synonym object_map = "((string \<times> string) \<times> (string \<times> string)) list"

definition no_such_key :: exn where
  "no_such_key = raw_exn ClientError ''NoSuchKey''"

lemma no_such_key_classes: "\<not> isinstance no_such_key S3NotFoundError" "says_missing cl no_such_key \<longleftrightarrow>
    error_code cl no_such_key \<in> {''404'', ''NoSuchKey'', ''NotFound''}" "exc_message no_such_key = ''NoSuchKey''"
proof -
  show "\<not> isinstance no_such_key S3NotFoundError" "exc_message no_such_key = ''NoSuchKey''" by code_simp+
  have "isinstance no_such_key ClientError" by code_simp
  then show "says_missing cl no_such_key \<longleftrightarrow> error_code cl no_such_key \<in> {''404'', ''NoSuchKey'', ''NotFound''}"
    by (simp add: says_missing_def)
qed

definition response_of :: "string \<times> string \<Rightarrow> s3_response" where
  "response_of v = \<lparr>sr_length = Some (int (length (fst v))), sr_type = Some (snd v), sr_etag = None, sr_modified = None\<rparr>"

definition on_object :: "(string \<times> string \<Rightarrow> 'a) \<Rightarrow> string \<Rightarrow> string \<Rightarrow> ('a, object_map) act" where
  "on_object f b k m = (case map_of m (b, k) of Some v \<Rightarrow> (Inr (f v), m) | None \<Rightarrow> (Inl no_such_key, m))"

definition memory_store :: "object_map s3_client" where
  "memory_store = \<lparr>
     acquire = (\<lambda>m. (Inr (), m)),
     presign = (\<lambda>b k n m. (Inr (b @ ''/'' @ k), m)),
     get_object = on_object response_of,
     read_body = on_object fst,
     put_object = (\<lambda>b k body t m. (Inr (), AList.update (b, k) (body, t) m)),
     upload_fileobj = (\<lambda>body b k t meta m. (Inr (), AList.update (b, k) (body, t) m)),
     delete_object = (\<lambda>b k m. (Inr (), AList.delete (b, k) m)),
     head_object = on_object response_of,
     error_code = exc_message\<rparr>"


section \<open>The life of an object\<close>

text \<open>What the service documents of its store: \<open>contents\<close> is the body and type of each object.\<close>

definition store_serves :: "'s s3_client \<Rightarrow> ('s \<Rightarrow> string \<times> string \<Rightarrow> (string \<times> string) option) \<Rightarrow> bool" where
  "store_serves cl contents \<longleftrightarrow>
     (\<forall>s. acquire cl s = (Inr (), s)) \<and>
     (\<forall>b k body t s. \<exists>s'. put_object cl b k body t s = (Inr (), s') \<and> contents s' = (contents s)((b, k) \<mapsto> (body, t))) \<and>
     (\<forall>b k s. \<exists>s'. delete_object cl b k s = (Inr (), s') \<and> contents s' = (contents s)((b, k) := None)) \<and>
     (\<forall>b k s body t. contents s (b, k) = Some (body, t) \<longrightarrow>
        (\<exists>r. get_object cl b k s = (Inr r, s) \<and> sr_length r = Some (int (length body))) \<and>
        read_body cl b k s = (Inr body, s) \<and> (\<exists>r. head_object cl b k s = (Inr r, s))) \<and>
     (\<forall>b k s. contents s (b, k) = None \<longrightarrow>
        (\<exists>e. get_object cl b k s = (Inl e, s) \<and> says_missing cl e) \<and>
        (\<exists>e. head_object cl b k s = (Inl e, s) \<and> says_missing cl e))"

lemma store_puts:
  assumes "store_serves cl contents"
  obtains s' where "put_object cl b k body t s = (Inr (), s')" "contents s' = (contents s)((b, k) \<mapsto> (body, t))"
proof -
  from assms have "\<exists>s'. put_object cl b k body t s = (Inr (), s') \<and> contents s' = (contents s)((b, k) \<mapsto> (body, t))"
    by (simp add: store_serves_def)
  then show thesis using that by fastforce
qed

lemma store_deletes:
  assumes "store_serves cl contents"
  obtains s' where "delete_object cl b k s = (Inr (), s')" "contents s' = (contents s)((b, k) := None)"
proof -
  from assms have "\<exists>s'. delete_object cl b k s = (Inr (), s') \<and> contents s' = (contents s)((b, k) := None)"
    by (simp add: store_serves_def)
  then show thesis using that by fastforce
qed

lemma s3_call_simps [simp]:
  "s3_call cl rid op b k (Inr a, s) = (Inr a, s)"
  "says_missing cl e \<Longrightarrow> s3_call cl rid op b k (Inl e, s) =
     (Inl (s3_error rid S3NotFoundError (''S3 object not found: '' @ b @ ''/'' @ k)), s)"
  by (simp_all add: s3_call_def says_missing_def)

lemma s3_call_too_large [simp]:
  "s3_call cl rid op b k (Inl (too_large rid' n m b' k'), s) = (Inl (too_large rid' n m b' k'), s)"
proof -
  have "\<not> issubclass S3Exception ClientError" "\<not> issubclass S3Exception BotoCoreError" by code_simp+
  then show ?thesis by (simp add: s3_call_def too_large_def s3_error_class)
qed

lemma fetch_present:
  assumes "store_serves cl contents" "contents s (b, k) = Some (raw, t)" "parse_s3_uri nc rid u = Inr (b, k)"
    and "un_utf8 cd raw = Inr body" "loads cd body = Inr data"
  shows "int (length raw) \<le> max_size \<Longrightarrow> fetch_json_from_s3 cl cd nc rid u max_size s = (Inr data, s)"
    and "max_size < int (length raw) \<Longrightarrow>
      fetch_json_from_s3 cl cd nc rid u max_size s = (Inl (too_large rid (int (length raw)) max_size b k), s)"
    and "object_exists (\<lambda>a. a) cl nc rid u s = (Inr True, s)"
proof -
  from assms(1,2) obtain r r' where r: "get_object cl b k s = (Inr r, s)" "sr_length r = Some (int (length raw))"
    "read_body cl b k s = (Inr raw, s)" "acquire cl s = (Inr (), s)" "head_object cl b k s = (Inr r', s)"
    unfolding store_serves_def by blast
  with r assms(3-)
  show "int (length raw) \<le> max_size \<Longrightarrow> fetch_json_from_s3 cl cd nc rid u max_size s = (Inr data, s)"
    and "max_size < int (length raw) \<Longrightarrow>
      fetch_json_from_s3 cl cd nc rid u max_size s = (Inl (too_large rid (int (length raw)) max_size b k), s)"
    and "object_exists (\<lambda>a. a) cl nc rid u s = (Inr True, s)"
    by (simp_all add: fetch_json_from_s3_def guarded_get_def translate_def object_exists_def head_s3_object_def)
qed

lemma fetch_absent:
  assumes "store_serves cl contents" "contents s (b, k) = None" "parse_s3_uri nc rid u = Inr (b, k)"
  shows "\<exists>e. fetch_json_from_s3 cl cd nc rid u max_size s = (Inl e, s) \<and> isinstance e S3NotFoundError"
    and "object_exists (\<lambda>a. a) cl nc rid u s = (Inr False, s)"
proof -
  from assms(1,2) obtain e e' where "get_object cl b k s = (Inl e, s)" "says_missing cl e"
    "head_object cl b k s = (Inl e', s)" "says_missing cl e'" "acquire cl s = (Inr (), s)"
    unfolding store_serves_def by blast
  with assms(3) show "\<exists>e. fetch_json_from_s3 cl cd nc rid u max_size s = (Inl e, s) \<and> isinstance e S3NotFoundError"
    and "object_exists (\<lambda>a. a) cl nc rid u s = (Inr False, s)"
    by (simp_all add: fetch_json_from_s3_def guarded_get_def object_exists_def head_s3_object_def s3_error_class s3_classes)
qed

text \<open>
  C20: what is uploaded is what is fetched, until it is deleted. On a store that answers as S3 documents,
  take a value that the JSON and UTF-8 codecs read back as they wrote it, a bucket name that fits a URI,
  and a key that is not empty, does not begin with a slash and has no query, fragment, tab or line-end
  character (outside these conditions the round trip fails: \<open>upload_leading_slash_lost\<close>,
  \<open>query_truncates_key\<close>). Uploading the value returns a URI and changes that one object. From then on, in
  every state of the store that still has the object, the existence check on the URI says \<open>True\<close>, a fetch
  whose size cap the object meets gives the value back, and one whose cap it exceeds is refused. Deleting
  the URI succeeds and removes that one object, after which a fetch raises the not-found error and the
  existence check says \<open>False\<close>.
\<close>

theorem object_lifecycle:
  assumes "store_serves cl contents" "bucket_ok nc b" "list_all url_plain k" "k \<noteq> []" "hd k \<noteq> CHR ''/''"
    and "dumps cd data = Inr body" "un_utf8 cd (utf8 cd body) = Inr body" "loads cd body = Inr data"
  shows "\<exists>u s1. upload_json_to_s3 cl cd rid data b k s = (Inr u, s1) \<and>
     contents s1 = (contents s)((b, k) \<mapsto> (utf8 cd body, ''application/json'')) \<and>
     (\<forall>t. contents t (b, k) = contents s1 (b, k) \<longrightarrow>
        object_exists (\<lambda>a. a) cl nc rid u t = (Inr True, t) \<and>
        (\<forall>cap. fetch_json_from_s3 cl cd nc rid u cap t =
           (if int (length (utf8 cd body)) \<le> cap then Inr data
            else Inl (too_large rid (int (length (utf8 cd body))) cap b k), t)) \<and>
        (\<exists>t'. delete_s3_object cl nc rid u t = (Inr (), t') \<and> contents t' = (contents t)((b, k) := None) \<and>
           (\<forall>cap. \<exists>e. fetch_json_from_s3 cl cd nc rid u cap t' = (Inl e, t') \<and> isinstance e S3NotFoundError) \<and>
           object_exists (\<lambda>a. a) cl nc rid u t' = (Inr False, t')))"
proof -
  have "lstrip_slash k = k" using assms(4,5) by (cases k) (auto simp: lstrip_slash_def)
  then obtain u where u: "build_s3_uri rid b k = Inr u" "parse_s3_uri nc rid u = Inr (b, k)"
    using assms parse_composed [of nc b k rid] by (simp add: build_s3_uri_def bucket_ok_def del: append.simps)
  obtain s1 where s1: "put_object cl b k (utf8 cd body) ''application/json'' s = (Inr (), s1)"
    "contents s1 = (contents s)((b, k) \<mapsto> (utf8 cd body, ''application/json''))"
    using store_puts [OF assms(1)] .
  have acq: "acquire cl t = (Inr (), t)" for t using assms(1) by (simp add: store_serves_def)
  have "upload_json_to_s3 cl cd rid data b k s = (Inr u, s1)"
    using assms(6) s1(1) u(1) acq by (simp add: upload_json_to_s3_def)
  moreover have "object_exists (\<lambda>a. a) cl nc rid u t = (Inr True, t)"
      "fetch_json_from_s3 cl cd nc rid u cap t =
         (if int (length (utf8 cd body)) \<le> cap then Inr data
          else Inl (too_large rid (int (length (utf8 cd body))) cap b k), t)"
    if "contents t (b, k) = contents s1 (b, k)" for t cap
    using fetch_present [OF assms(1) _ u(2) assms(7,8), of t "''application/json''"] that s1(2) by auto
  moreover have "\<exists>t'. delete_s3_object cl nc rid u t = (Inr (), t') \<and> contents t' = (contents t)((b, k) := None) \<and>
      (\<forall>cap. \<exists>e. fetch_json_from_s3 cl cd nc rid u cap t' = (Inl e, t') \<and> isinstance e S3NotFoundError) \<and>
      object_exists (\<lambda>a. a) cl nc rid u t' = (Inr False, t')" for t
  proof -
    obtain t' where t': "delete_object cl b k t = (Inr (), t')" "contents t' = (contents t)((b, k) := None)"
      using store_deletes [OF assms(1)] .
    moreover have "delete_s3_object cl nc rid u t = (Inr (), t')"
      using t'(1) u(2) acq by (simp add: delete_s3_object_def)
    moreover have "contents t' (b, k) = None" using t'(2) by simp
    ultimately show ?thesis using fetch_absent [OF assms(1) _ u(2)] by blast
  qed
  ultimately show ?thesis using s1(2) by blast
qed

lemma memory_store_serves: "store_serves memory_store map_of"
  unfolding store_serves_def
proof (intro conjI allI impI)
  fix b k body t s and d :: string and e :: string
  show "\<exists>s'. put_object memory_store b k d e s = (Inr (), s') \<and> map_of s' = (map_of s)((b, k) \<mapsto> (d, e))"
    by (simp add: memory_store_def update_conv')
  show "\<exists>s'. delete_object memory_store b k s = (Inr (), s') \<and> map_of s' = (map_of s)((b, k) := None)"
    by (simp add: memory_store_def delete_conv')
qed (simp_all add: memory_store_def on_object_def response_of_def no_such_key_classes)

definition string_codecs :: codecs where
  "string_codecs = \<lparr>dumps = (\<lambda>v. case v of VStr s \<Rightarrow> Inr s | _ \<Rightarrow> Inl (raw_exn PyTypeError [])),
     loads = (\<lambda>s. Inr (VStr s)), utf8 = (\<lambda>s. s), un_utf8 = Inr\<rparr>"

theorem object_lifecycle_witness:
  "\<exists>u s1. upload_json_to_s3 memory_store string_codecs None (VStr ''x'') ''media'' ''a/b'' [] = (Inr u, s1) \<and>
     object_exists (\<lambda>a. a) memory_store (\<lambda>n. None) None u s1 = (Inr True, s1) \<and>
     fetch_json_from_s3 memory_store string_codecs (\<lambda>n. None) None u 10 s1 = (Inr (VStr ''x''), s1)"
proof -
  have 1: "bucket_ok (\<lambda>n. None) ''media''" "list_all url_plain ''a/b''" "''a/b'' \<noteq> []" "hd ''a/b'' \<noteq> CHR ''/''"
    by code_simp+
  have 2: "dumps string_codecs (VStr ''x'') = Inr ''x''" "un_utf8 string_codecs (utf8 string_codecs ''x'') = Inr ''x''"
    "loads string_codecs ''x'' = Inr (VStr ''x'')" "int (length (utf8 string_codecs ''x'')) \<le> 10"
    by (simp_all add: string_codecs_def)
  show ?thesis
    using object_lifecycle [OF memory_store_serves 1 2(1-3), of None "[]"] 2(4) by auto
qed

text \<open>
  Findings at the edges of the round trip: a key with a leading slash is stored as it is, but the URI that
  is returned names the key without it; a query or fragment character cuts the key off; and an object
  whose response has no length is read whatever its size.
\<close>

lemma upload_leading_slash_lost:
  "(let (r, s1) = upload_json_to_s3 memory_store string_codecs None (VStr ''x'') ''media'' ''/a'' [] in
     r = Inr ''s3://media/a'' \<and> (case r of Inr u \<Rightarrow> fst (object_exists (\<lambda>a. a) memory_store (\<lambda>n. None) None u s1) | Inl e \<Rightarrow> Inl e)
       = Inr False)"
  by code_simp

lemma query_truncates_key:
  "rbind (build_s3_uri None ''media'' ''what?.json'') (parse_s3_uri (\<lambda>n. None) None) = Inr (''media'', ''what'')"
  by code_simp

lemma missing_length_skips_cap:
  assumes "acquire cl s = (Inr (), s)" "get_object cl b k s = (Inr r, s)" "sr_length r = None"
    "read_body cl b k s = (Inr raw, s)" "0 \<le> max_size"
  shows "guarded_get cl rid max_size b k s = (Inr (raw, r), s)"
  using assms by (simp add: guarded_get_def)


lemma explicit_extension_escapes:
  "generate_object_key ''2026/04'' ''u'' ''docs'' ''a'' (Some ''/../../x'') = ''docs/2026/04/u__a./../../x''"
  by code_simp

theorem object_key_confined_witness:
  "\<exists>name. generate_object_key ''2026/04'' ''u'' ''/docs/'' ''../../etc/pass wd'' None = ''docs/2026/04/u__'' @ name \<and>
     name \<noteq> [] \<and> list_all safe_name_char name"
proof -
  have "or_default (strip_chars (\<lambda>c. c = CHR ''/'') ''/docs/'') ''assets'' = ''docs''" by code_simp
  moreover have "CHR ''/'' \<notin> set ''u''" by simp
  ultimately show ?thesis
    using object_key_confined [of "''u''" "''2026/04''" "''/docs/''" "''../../etc/pass wd''"] by fastforce
qed

text \<open>A client is made once per service and region: the second request returns it without a constructor call.\<close>

lemma aws_client_cached:
  assumes "get_aws_client mk aws_region service region cache = (Inr c, cache')"
  shows "get_aws_client mk' aws_region service region cache' = (Inr c, cache')"
  using assms by (auto simp: get_aws_client_def Let_def update_Some_unfold update_conv split: option.splits sum.splits)

lemma aws_client_failure_not_cached:
  "get_aws_client mk aws_region service region cache = (Inl e, cache') \<Longrightarrow> cache' = cache"
  by (auto simp: get_aws_client_def Let_def split: option.splits sum.splits)

end
