(* ===== verification/Mail.thy ===== *)
theory Mail
  imports Storage
begin

text \<open>
  \<open>apps/core/utils/ses.py\<close>: building a raw message and sending it. The MIME classes are a datatype of
  parts and an ordered list of headers; \<open>as_string\<close>, the clock, the fresh identifier, the guess of a file
  extension and the SES client are parameters. The log lines and the duration metric are left out.
\<close>

section \<open>Messages\<close>

record EmailAttachment =
  att_filename :: string
  att_content_type :: string
  att_data :: string

text \<open>\<open>MIMEImage\<close>, \<open>MIMEText\<close> and \<open>MIMEApplication\<close> with subtype and payload; \<open>TextPart\<close> holds undecoded bytes.\<close>

datatype mime_body =
    ImagePart string string
  | TextPart string string
  | ApplicationPart string string

record attachment_part =
  ap_body :: mime_body
  ap_disposition :: "string \<times> string"

datatype mime_message =
    HtmlOnly string
  | Mixed string "attachment_part list"

record email_message =
  em_content :: mime_message
  em_headers :: "(string \<times> string) list"

record mail_settings =
  SES_REGION :: "string option"
  SES_SENDER_EMAIL :: "string option"

record mail_request =
  recipient_emails :: "string list"
  subject :: string
  body_html :: string
  sender_email :: "string option"
  cc_emails :: "string list option"
  bcc_emails :: "string list option"
  in_reply_to :: "string option"
  references :: "string list option"
  attachments :: "EmailAttachment list option"

record 's ses_client =
  ses_acquire :: "string option \<Rightarrow> (unit, 's) act"
  send_raw_email :: "string \<Rightarrow> string list \<Rightarrow> string \<Rightarrow> ((string \<times> pyval) list, 's) act"
  ses_error_code :: "exn \<Rightarrow> string option"

record send_result =
  message_id :: pyval
  message_id_header :: string
  response :: "(string \<times> pyval) list"

definition SES_TRANSIENT_ERROR_CODES :: "string list" where
  "SES_TRANSIENT_ERROR_CODES =
     [''Throttling'', ''ThrottlingException'', ''RequestLimitExceeded'', ''TooManyRequestsException'',
      ''ServiceUnavailable'', ''ServiceUnavailableException'', ''InternalFailure'', ''InternalServerError'',
      ''RequestExpired'', ''RequestTimeout'', ''RequestTimeoutException'']"

definition ses_region :: "mail_settings \<Rightarrow> string option" where
  "ses_region st = or_str (SES_REGION st) None"

definition sender_domain :: "string \<Rightarrow> string" where
  "sender_domain sender =
     (if CHR ''@'' \<in> set sender then or_default (py_strip (last_part CHR ''@'' sender)) ''localhost''
      else ''localhost'')"

definition generate_message_id :: "string \<Rightarrow> string \<Rightarrow> string" where
  "generate_message_id hex sender = ''<'' @ hex @ ''@'' @ sender_domain sender @ ''>''"

definition build_attachment_part :: "(string \<Rightarrow> string option) \<Rightarrow> EmailAttachment \<Rightarrow> attachment_part" where
  "build_attachment_part guess_extension att =
     (let main = takeWhile (\<lambda>c. c \<noteq> CHR ''/'') (att_content_type att);
          sub = drop 1 (dropWhile (\<lambda>c. c \<noteq> CHR ''/'') (att_content_type att));
          body = (if main = ''image'' \<and> sub \<noteq> [] then ImagePart sub (att_data att)
                  else if main = ''text'' then TextPart (or_default sub ''plain'') (att_data att)
                  else let sub' = or_default sub (case or_str (guess_extension (att_content_type att)) None of
                                                    Some x \<Rightarrow> x | None \<Rightarrow> ''octet-stream'')
                       in ApplicationPart (lstrip_chars (\<lambda>c. c = CHR ''.'') sub') (att_data att))
      in \<lparr>ap_body = body, ap_disposition = (''attachment'', att_filename att)\<rparr>)"

definition or_list :: "'a list option \<Rightarrow> 'a list" where
  "or_list xs = (case xs of Some ys \<Rightarrow> ys | None \<Rightarrow> [])"

definition reference_chain :: "string \<Rightarrow> string list option \<Rightarrow> string list" where
  "reference_chain reply refs =
     (if reply \<in> set (or_list refs) then or_list refs else or_list refs @ [reply])"

definition build_message :: "(string \<Rightarrow> string option) \<Rightarrow> string \<Rightarrow> string \<Rightarrow> string \<Rightarrow> mail_request \<Rightarrow> email_message" where
  "build_message guess_extension date mid sender req =
     (let atts = or_list (attachments req);
          content = (if atts \<noteq> [] then Mixed (body_html req) (map (build_attachment_part guess_extension) atts)
                     else HtmlOnly (body_html req))
      in \<lparr>em_content = content,
          em_headers =
            [(''Subject'', subject req), (''From'', sender), (''To'', py_join '', '' (recipient_emails req))] @
            (if or_list (cc_emails req) \<noteq> [] then [(''Cc'', py_join '', '' (or_list (cc_emails req)))] else []) @
            [(''Date'', date), (''Message-ID'', mid)] @
            (case or_str (in_reply_to req) None of
               Some r \<Rightarrow> [(''In-Reply-To'', r), (''References'', py_join '' '' (reference_chain r (references req)))]
             | None \<Rightarrow> [])\<rparr>)"

section \<open>Sending\<close>

definition classify_client_error :: "'s ses_client \<Rightarrow> string option \<Rightarrow> exn \<Rightarrow> exn" where
  "classify_client_error cl rid e =
     (let code = (case ses_error_code cl e of Some c \<Rightarrow> c | None \<Rightarrow> []) in
      if code \<in> set SES_TRANSIENT_ERROR_CODES
      then s3_error rid TransientError (''SES transient failure ('' @ code @ ''): '' @ exc_message e)
      else s3_error rid SESException (''SES request failed ('' @ or_default code ''Unknown'' @ ''): '' @ exc_message e))"

definition sender_of :: "mail_settings \<Rightarrow> mail_request \<Rightarrow> string" where
  "sender_of st req = (case or_str (sender_email req) None of
      Some x \<Rightarrow> x | None \<Rightarrow> (case SES_SENDER_EMAIL st of Some x \<Rightarrow> x | None \<Rightarrow> []))"

definition envelope_recipients :: "mail_request \<Rightarrow> string list" where
  "envelope_recipients req = recipient_emails req @ or_list (cc_emails req) @ or_list (bcc_emails req)"

text \<open>The body of the \<open>try\<close>: get a client, render, send.\<close>

definition attempt_send ::
  "'s ses_client \<Rightarrow> (email_message \<Rightarrow> (exn, string) result) \<Rightarrow> mail_settings \<Rightarrow> string \<Rightarrow> string list \<Rightarrow> email_message \<Rightarrow>
     ((string \<times> pyval) list, 's) act" where
  "attempt_send cl as_string st sender envelope msg s =
     andthen (ses_acquire cl (ses_region st) s) (\<lambda>_ s1.
       andthen (as_string msg, s1) (\<lambda>raw. send_raw_email cl sender envelope raw))"

definition send_email ::
  "'s ses_client \<Rightarrow> (email_message \<Rightarrow> (exn, string) result) \<Rightarrow> (string \<Rightarrow> string option) \<Rightarrow> string option \<Rightarrow> mail_settings \<Rightarrow>
     string \<Rightarrow> string \<Rightarrow> mail_request \<Rightarrow> (send_result, 's) act" where
  "send_email cl as_string guess_extension rid st date hex req s =
     (let sender = sender_of st req;
          mid = generate_message_id hex sender
      in if sender = []
         then (Inl (s3_error rid SESException
                 ''No sender email configured. Set SES_SENDER_EMAIL or pass sender_email.''), s)
         else
           andthen
             (case attempt_send cl as_string st sender (envelope_recipients req)
                     (build_message guess_extension date mid sender req) s of
                (Inl e, s2) \<Rightarrow>
                  if isinstance e ClientError then (Inl (classify_client_error cl rid e), s2)
                  else if isinstance e BotoCoreError
                  then (Inl (s3_error rid TransientError (''SES transport failure: '' @ exc_message e)), s2)
                  else (Inl e, s2)
              | (Inr r, s2) \<Rightarrow> (Inr r, s2))
             (\<lambda>r s3. (Inr \<lparr>message_id = (case map_of r ''MessageId'' of Some v \<Rightarrow> v | None \<Rightarrow> VStr []),
                             message_id_header = mid, response = r\<rparr>, s3)))"

section \<open>Blind copies\<close>

lemma build_message_no_bcc:
  "build_message g d m f (req\<lparr>bcc_emails := x\<rparr>) = build_message g d m f req"
  by (simp add: build_message_def Let_def split: option.split)

text \<open>A client that records its calls and succeeds.\<close>

definition recorder :: "(string \<times> string list \<times> string) list ses_client" where
  "recorder = \<lparr>ses_acquire = (\<lambda>r s. (Inr (), s)),
     send_raw_email = (\<lambda>f tos raw s. (Inr [(''MessageId'', VStr ''1'')], s @ [(f, tos, raw)])),
     ses_error_code = (\<lambda>e. None)\<rparr>"

text \<open>
  C21: blind copies stay blind. Whatever the renderer does, sending makes exactly one call; its
  destinations are the recipients, the copies and the blind copies in that order, and the bytes
  it sends are the same ones that would be sent with any other blind-copy list, so no header, part or
  identifier of the message depends on it.
\<close>

theorem bcc_stays_in_envelope:
  assumes "sender_of st req \<noteq> []" "\<And>m. \<exists>raw. as_string m = Inr raw"
  shows "\<exists>raw. \<forall>bcc. snd (send_email recorder as_string g rid st date hex (req\<lparr>bcc_emails := bcc\<rparr>) calls) =
    calls @ [(sender_of st req, recipient_emails req @ or_list (cc_emails req) @ or_list bcc, raw)]"
proof -
  obtain raw where raw:
    "as_string (build_message g date (generate_message_id hex (sender_of st req)) (sender_of st req) req) = Inr raw"
    using assms(2) by blast
  have "sender_of st (req\<lparr>bcc_emails := b\<rparr>) = sender_of st req" for b by (simp add: sender_of_def)
  with assms(1) raw show ?thesis
    by (intro exI [of _ raw] allI)
      (simp add: send_email_def attempt_send_def envelope_recipients_def build_message_no_bcc recorder_def Let_def)
qed

definition sample_request :: mail_request where
  "sample_request = \<lparr>recipient_emails = [''a@x''], subject = ''Hi'', body_html = ''<p>'', sender_email = Some ''me@y'',
     cc_emails = None, bcc_emails = Some [''b@z''], in_reply_to = Some ''<1@x>'', references = Some [''<0@x>''],
     attachments = None\<rparr>"

definition no_settings :: mail_settings where
  "no_settings = \<lparr>SES_REGION = None, SES_SENDER_EMAIL = None\<rparr>"

theorem bcc_stays_in_envelope_witness:
  "\<exists>raw. \<forall>bcc. snd (send_email recorder (\<lambda>m. Inr (subject sample_request)) (\<lambda>t. None) None no_settings ''d'' ''h''
      (sample_request\<lparr>bcc_emails := bcc\<rparr>) []) =
    [] @ [(sender_of no_settings sample_request, recipient_emails sample_request @ or_list (cc_emails sample_request) @
       or_list bcc, raw)]"
proof (rule bcc_stays_in_envelope)
  show "sender_of no_settings sample_request \<noteq> []" by code_simp
qed simp

section \<open>Which failures are retried\<close>

text \<open>
  A failed send is retried exactly when the failure is temporary. When the client fails with a
  \<open>ClientError\<close>, the caller sees a \<open>TransientError\<close> if its code is one of the eleven throttling, availability
  and expiry codes, and a \<open>SESException\<close>, which is not a \<open>TransientError\<close>, for every other code or none;
  a transport failure is always transient; and with no sender configured nothing is sent at all.
\<close>

theorem send_failure_classified:
  "(sender_of st req = [] \<longrightarrow>
      (\<exists>e. send_email cl as_string g rid st date hex req s = (Inl e, s) \<and> exc_cls e = SESException)) \<and>
   (sender_of st req \<noteq> [] \<and> attempt_send cl as_string st (sender_of st req) (envelope_recipients req)
        (build_message g date (generate_message_id hex (sender_of st req)) (sender_of st req) req) s = (Inl e, s') \<and>
      (isinstance e ClientError \<or> isinstance e BotoCoreError) \<longrightarrow>
      (\<exists>e'. send_email cl as_string g rid st date hex req s = (Inl e', s') \<and>
         exc_cls e' = (if isinstance e ClientError \<and> ses_error_code cl e \<notin> Some ` set SES_TRANSIENT_ERROR_CODES
                       then SESException else TransientError)))"
proof -
  have "[] \<notin> set SES_TRANSIENT_ERROR_CODES" by code_simp
  then show ?thesis
    by (auto simp: send_email_def classify_client_error_def s3_error_def new_custom_def Let_def split: option.splits)
qed


definition failing_client :: "string \<Rightarrow> unit ses_client" where
  "failing_client code = \<lparr>ses_acquire = (\<lambda>r s. (Inl (raw_exn ClientError ''x''), s)),
     send_raw_email = (\<lambda>f tos raw s. (Inr [], s)), ses_error_code = (\<lambda>e. Some code)\<rparr>"

theorem send_failure_classified_witness:
  "\<exists>e'. send_email (failing_client ''Throttling'') (\<lambda>m. Inr []) (\<lambda>t. None) None no_settings ''d'' ''h'' sample_request () =
      (Inl e', ()) \<and> exc_cls e' = TransientError"
proof -
  let ?e = "raw_exn ClientError ''x''"
  have "sender_of no_settings sample_request \<noteq> []" "isinstance ?e ClientError"
    "''Throttling'' \<in> set SES_TRANSIENT_ERROR_CODES" by code_simp+
  moreover have "attempt_send (failing_client ''Throttling'') (\<lambda>m. Inr []) no_settings f env msg () = (Inl ?e, ())" for f env msg
    by (simp add: attempt_send_def failing_client_def)
  moreover have "ses_error_code (failing_client ''Throttling'') ?e = Some ''Throttling''" by (simp add: failing_client_def)
  ultimately show ?thesis
    using send_failure_classified [of no_settings sample_request "failing_client ''Throttling''" "\<lambda>m. Inr []" "\<lambda>t. None" None
        "''d''" "''h''" "()" ?e "()"] by auto
qed

section \<open>Threads and headers\<close>

text \<open>
  A reply names its parent, keeps the earlier chain in order and adds the parent at most once; each header
  occurs once, and the identifier handed back to the caller is the one on the wire.
\<close>

lemma reference_chain_extends:
  "\<exists>ys. reference_chain r refs = or_list refs @ ys" "r \<in> set (reference_chain r refs)"
  "distinct (or_list refs) \<Longrightarrow> distinct (reference_chain r refs)"
  "reference_chain r (Some (reference_chain r refs)) = reference_chain r refs"
  by (auto simp: reference_chain_def or_list_def)

lemma headers_distinct: "distinct (map fst (em_headers (build_message g d m f req)))"
  by (auto simp: build_message_def Let_def split: option.split)

lemma returned_id_on_wire:
  assumes "send_email cl as_string g rid st date hex req s = (Inr res, s')"
  shows "map_of (em_headers (build_message g date (message_id_header res) (sender_of st req) req)) ''Message-ID'' =
    Some (generate_message_id hex (sender_of st req))"
    and "message_id_header res = generate_message_id hex (sender_of st req)"
proof -
  show id: "message_id_header res = generate_message_id hex (sender_of st req)"
    using assms by (auto simp: send_email_def Let_def andthen_Inr_iff split: if_splits)
  show "map_of (em_headers (build_message g date (message_id_header res) (sender_of st req) req)) ''Message-ID'' =
    Some (generate_message_id hex (sender_of st req))"
    by (simp add: id build_message_def Let_def)
qed

text \<open>Without a parent the chain the caller passed is dropped: the message carries no thread header.\<close>

lemma references_need_parent:
  "or_str (in_reply_to req) None = None \<Longrightarrow>
     map_of (em_headers (build_message g d m f req)) ''References'' = None"
  by (simp add: build_message_def Let_def)

end
