(* ===== verification/DbEngines.thy ===== *)
theory DbEngines
  imports Effects
begin

text \<open>
  \<open>apps/core/utils/db.py\<close>: row sets, connection URLs, the engine cache with its double-checked lock, and
  statement execution. SQLAlchemy and the hash are parameters; an engine is its position in the list of
  engines created, so that the model can say which engines exist. The log lines are left out.
\<close>

section \<open>Row sets\<close>

record SqlRowSet =
  rows :: "pyval list list"
  columns :: "string list"
  rowcount :: int

text \<open>A namespace is its attributes; a repeated column keeps the last value, as the dictionary does.\<close>

definition row_object :: "string list \<Rightarrow> pyval list \<Rightarrow> (string \<times> pyval) list" where
  "row_object cols row = foldl (\<lambda>d (c, v). AList.update c v d) [] (zip cols row)"

definition row_objects :: "SqlRowSet \<Rightarrow> (string \<times> pyval) list list" where
  "row_objects rs = map (row_object (columns rs)) (rows rs)"

definition row_first :: "SqlRowSet \<Rightarrow> (string \<times> pyval) list option" where
  "row_first rs = (case rows rs of [] \<Rightarrow> None | r # _ \<Rightarrow> Some (row_object (columns rs) r))"

definition row_scalar :: "SqlRowSet \<Rightarrow> (exn, pyval) result" where
  "row_scalar rs = (case rows rs of
      [] \<Rightarrow> Inr VNone
    | r # _ \<Rightarrow> (case r of [] \<Rightarrow> Inl (raw_exn (OtherException ''IndexError'') ''tuple index out of range'') | v # _ \<Rightarrow> Inr v))"

definition row_len :: "SqlRowSet \<Rightarrow> nat" where
  "row_len rs = length (rows rs)"

definition row_bool :: "SqlRowSet \<Rightarrow> bool" where
  "row_bool rs \<longleftrightarrow> length (rows rs) > 0"

section \<open>Connection URLs\<close>

datatype port_value = PortInt int | PortStr string

record db_settings =
  HOST :: "string option"
  PORT :: "port_value option"
  NAME :: "string option"
  USER :: "string option"
  PASSWORD :: "string option"

definition or_setting :: "string option \<Rightarrow> string option \<Rightarrow> string \<Rightarrow> string" where
  "or_setting given setting dflt =
     (case or_str given None of Some x \<Rightarrow> x | None \<Rightarrow> (case setting of Some x \<Rightarrow> x | None \<Rightarrow> dflt))"

definition port_truthy :: "port_value \<Rightarrow> bool" where
  "port_truthy p = (case p of PortInt n \<Rightarrow> n \<noteq> 0 | PortStr s \<Rightarrow> s \<noteq> [])"

definition port_number :: "port_value \<Rightarrow> (exn, int) result" where
  "port_number p = (case p of
      PortInt n \<Rightarrow> Inr n
    | PortStr s \<Rightarrow> (case py_int s of
        Some n \<Rightarrow> Inr n
      | None \<Rightarrow> Inl (raw_exn PyValueError (''invalid literal for int() with base 10: '' @ repr_str s))))"

definition url_text :: "string \<Rightarrow> string \<Rightarrow> string \<Rightarrow> string \<Rightarrow> int \<Rightarrow> string \<Rightarrow> string" where
  "url_text driver user password host port name =
     driver @ ''://'' @ user @ '':'' @ password @ ''@'' @ host @ '':'' @ int_str port @ ''/'' @ name"

definition build_url ::
  "(string \<Rightarrow> (exn, string) result) \<Rightarrow> db_settings \<Rightarrow> string option \<Rightarrow> port_value \<Rightarrow> string option \<Rightarrow> string option \<Rightarrow>
     string option \<Rightarrow> string \<Rightarrow> (exn, string) result" where
  "build_url render st host port name user password driver =
     rbind (port_number (if port_truthy port then port else (case PORT st of Some p \<Rightarrow> p | None \<Rightarrow> PortInt 5432))) (\<lambda>n.
       render (url_text driver (or_setting user (USER st) []) (or_setting password (PASSWORD st) [])
         (or_setting host (HOST st) ''localhost'') n (or_setting name (NAME st) [])))"

section \<open>The engine cache\<close>

type_synonym kwargs = "(string \<times> pyval) list"

record engine_sys =
  engine_cache :: "(string \<times> nat) list"
  url_for_log :: "(string \<times> string) list"
  created :: "(string \<times> kwargs) list"
  disposed :: "nat list"

record sqlalchemy =
  sha256 :: "string \<Rightarrow> string"
  mask_url :: "string \<Rightarrow> (exn, string) result"
  create_engine :: "string \<Rightarrow> kwargs \<Rightarrow> exn option"
  engine_dispose :: "nat \<Rightarrow> exn option"

definition cache_key :: "sqlalchemy \<Rightarrow> string \<Rightarrow> string" where
  "cache_key sa url = sha256 sa url"

definition engine_defaults :: kwargs where
  "engine_defaults =
     [(''pool_pre_ping'', VBool True), (''pool_size'', VInt 5), (''max_overflow'', VInt 10),
      (''connect_args'', str_dict [(''connect_timeout'', VInt 5), (''options'', VStr ''-c statement_timeout=30000'')])]"

text \<open>The part of \<open>get_engine\<close> under the lock.\<close>

definition locked_get :: "sqlalchemy \<Rightarrow> string \<Rightarrow> kwargs \<Rightarrow> engine_sys \<Rightarrow> (exn + nat) \<times> engine_sys" where
  "locked_get sa url kwargs st =
     (let key = cache_key sa url in
      case map_of (engine_cache st) key of
        Some e \<Rightarrow> (Inr e, st)
      | None \<Rightarrow>
          (let opts = foldl (\<lambda>d (k, v). AList.update k v d) engine_defaults kwargs in
           case mask_url sa url of
             Inl x \<Rightarrow> (Inl x, st)
           | Inr masked \<Rightarrow>
               (case create_engine sa url opts of
                  Some x \<Rightarrow> (Inl x, st)
                | None \<Rightarrow> (Inr (length (created st)),
                    st\<lparr>engine_cache := AList.update key (length (created st)) (engine_cache st),
                       url_for_log := AList.update key masked (url_for_log st),
                       created := created st @ [(url, opts)]\<rparr>))))"

definition get_engine :: "sqlalchemy \<Rightarrow> string \<Rightarrow> kwargs \<Rightarrow> engine_sys \<Rightarrow> (exn + nat) \<times> engine_sys" where
  "get_engine sa url kwargs st =
     (case map_of (engine_cache st) (cache_key sa url) of
        Some e \<Rightarrow> (Inr e, st)
      | None \<Rightarrow> locked_get sa url kwargs st)"

text \<open>The locked part of \<open>dispose_engine\<close>; the default of the second \<open>pop\<close> is computed either way.\<close>

definition pop_engine :: "sqlalchemy \<Rightarrow> string \<Rightarrow> engine_sys \<Rightarrow> (exn + nat list) \<times> engine_sys" where
  "pop_engine sa url st =
     (let key = cache_key sa url;
          engine = (case map_of (engine_cache st) key of Some e \<Rightarrow> [e] | None \<Rightarrow> []);
          st1 = st\<lparr>engine_cache := AList.delete key (engine_cache st)\<rparr>
      in case mask_url sa url of
           Inl x \<Rightarrow> (Inl x, st1)
         | Inr masked \<Rightarrow> (Inr engine, st1\<lparr>url_for_log := AList.delete key (url_for_log st)\<rparr>))"

fun dispose_each :: "sqlalchemy \<Rightarrow> nat list \<Rightarrow> engine_sys \<Rightarrow> (exn + unit) \<times> engine_sys" where
  "dispose_each sa [] st = (Inr (), st)"
| "dispose_each sa (e # es) st =
     (case engine_dispose sa e of
        Some x \<Rightarrow> (Inl x, st)
      | None \<Rightarrow> dispose_each sa es (st\<lparr>disposed := disposed st @ [e]\<rparr>))"

definition dispose_engine :: "sqlalchemy \<Rightarrow> string \<Rightarrow> engine_sys \<Rightarrow> (exn + unit) \<times> engine_sys" where
  "dispose_engine sa url st = andthen (pop_engine sa url st) (dispose_each sa)"

definition clear_engines :: "engine_sys \<Rightarrow> nat list \<times> engine_sys" where
  "clear_engines st = (map snd (engine_cache st), st\<lparr>engine_cache := [], url_for_log := []\<rparr>)"

definition dispose_all_engines :: "sqlalchemy \<Rightarrow> engine_sys \<Rightarrow> (exn + unit) \<times> engine_sys" where
  "dispose_all_engines sa st = (let (engines, st1) = clear_engines st in dispose_each sa engines st1)"


section \<open>Threads around the lock\<close>

text \<open>
  The cache is read once without the lock; everything that changes it happens in a critical section, which
  is one step here. \<open>Popped\<close> holds the engines a thread has taken out and not yet disposed, \<open>Aborted\<close> those
  it leaves behind when a disposal raises.
\<close>

datatype eng_pc =
    Idle
  | Calling string kwargs
  | Missed string kwargs
  | Got string nat
  | GetFailed exn
  | Disposing string
  | DisposingAll
  | Popped "nat list"
  | Aborted "nat list"

record eng_conf =
  ec_sys :: engine_sys
  ec_pc :: "nat \<Rightarrow> eng_pc"

definition goto :: "nat \<Rightarrow> eng_pc \<Rightarrow> engine_sys \<Rightarrow> eng_conf \<Rightarrow> eng_conf" where
  "goto t p st c = c\<lparr>ec_sys := st, ec_pc := (ec_pc c)(t := p)\<rparr>"

inductive eng_step :: "sqlalchemy \<Rightarrow> eng_conf \<Rightarrow> eng_conf \<Rightarrow> bool" for sa where
  fast_hit: "ec_pc c t = Calling u kw \<Longrightarrow> map_of (engine_cache (ec_sys c)) (cache_key sa u) = Some e \<Longrightarrow>
     eng_step sa c (goto t (Got u e) (ec_sys c) c)"
| fast_miss: "ec_pc c t = Calling u kw \<Longrightarrow> map_of (engine_cache (ec_sys c)) (cache_key sa u) = None \<Longrightarrow>
     eng_step sa c (goto t (Missed u kw) (ec_sys c) c)"
| locked_ok: "ec_pc c t = Missed u kw \<Longrightarrow> locked_get sa u kw (ec_sys c) = (Inr e, st) \<Longrightarrow>
     eng_step sa c (goto t (Got u e) st c)"
| locked_raises: "ec_pc c t = Missed u kw \<Longrightarrow> locked_get sa u kw (ec_sys c) = (Inl x, st) \<Longrightarrow>
     eng_step sa c (goto t (GetFailed x) st c)"
| pop_ok: "ec_pc c t = Disposing u \<Longrightarrow> pop_engine sa u (ec_sys c) = (Inr es, st) \<Longrightarrow>
     eng_step sa c (goto t (Popped es) st c)"
| pop_raises: "ec_pc c t = Disposing u \<Longrightarrow> pop_engine sa u (ec_sys c) = (Inl x, st) \<Longrightarrow>
     eng_step sa c (goto t Idle st c)"
| clear: "ec_pc c t = DisposingAll \<Longrightarrow> clear_engines (ec_sys c) = (es, st) \<Longrightarrow>
     eng_step sa c (goto t (Popped es) st c)"
| dispose_ok: "ec_pc c t = Popped (e # es) \<Longrightarrow> engine_dispose sa e = None \<Longrightarrow>
     eng_step sa c (goto t (Popped es) ((ec_sys c)\<lparr>disposed := disposed (ec_sys c) @ [e]\<rparr>) c)"
| dispose_raises: "ec_pc c t = Popped (e # es) \<Longrightarrow> engine_dispose sa e = Some x \<Longrightarrow>
     eng_step sa c (goto t (Aborted (e # es)) (ec_sys c) c)"
| next_call: "ec_pc c t \<in> {Idle, Got u' e', GetFailed x, Popped []} \<Longrightarrow>
     p \<in> {Calling u kw, Disposing u, DisposingAll} \<Longrightarrow>
     eng_step sa c (goto t p (ec_sys c) c)"

definition no_engines :: engine_sys where
  "no_engines = \<lparr>engine_cache = [], url_for_log = [], created = [], disposed = []\<rparr>"

definition eng_start :: eng_conf where
  "eng_start = \<lparr>ec_sys = no_engines, ec_pc = (\<lambda>t. Idle)\<rparr>"

inductive eng_reachable :: "sqlalchemy \<Rightarrow> eng_conf \<Rightarrow> bool" for sa where
  start: "eng_reachable sa eng_start"
| more: "eng_reachable sa c \<Longrightarrow> eng_step sa c c' \<Longrightarrow> eng_reachable sa c'"

fun taken :: "eng_pc \<Rightarrow> nat list" where
  "taken (Popped es) = es"
| "taken (Aborted es) = es"
| "taken _ = []"

definition live :: "eng_conf \<Rightarrow> nat \<Rightarrow> bool" where
  "live c e \<longleftrightarrow> e \<in> snd ` set (engine_cache (ec_sys c))"

definition released :: "eng_conf \<Rightarrow> nat \<Rightarrow> bool" where
  "released c e \<longleftrightarrow> (\<exists>t. e \<in> set (taken (ec_pc c t))) \<or> e \<in> set (disposed (ec_sys c))"

text \<open>Cached engines were created for the URL whose key they sit under, and no engine is lost.\<close>

definition cache_sound :: "sqlalchemy \<Rightarrow> engine_sys \<Rightarrow> bool" where
  "cache_sound sa st \<longleftrightarrow>
     distinct (map fst (engine_cache st)) \<and>
     (\<forall>(k, e) \<in> set (engine_cache st). e < length (created st) \<and> k = cache_key sa (fst (created st ! e))) \<and>
     (\<forall>(u, kw) \<in> set (created st). \<exists>m. mask_url sa u = Inr m)"

definition eng_inv :: "sqlalchemy \<Rightarrow> eng_conf \<Rightarrow> bool" where
  "eng_inv sa c \<longleftrightarrow>
     cache_sound sa (ec_sys c) \<and>
     (\<forall>t u e. ec_pc c t = Got u e \<longrightarrow> e < length (created (ec_sys c)) \<and>
        cache_key sa (fst (created (ec_sys c) ! e)) = cache_key sa u) \<and>
     (\<forall>e < length (created (ec_sys c)). live c e \<or> released c e)"

lemma cached_entry:
  "cache_sound sa st \<Longrightarrow> map_of (engine_cache st) k = Some e \<Longrightarrow>
     e < length (created st) \<and> k = cache_key sa (fst (created st ! e))"
  unfolding cache_sound_def by (drule map_of_SomeD) blast

lemma locked_get_cases:
  assumes "locked_get sa u kw st = (r, st')"
  obtains (same) "st' = st" "\<And>e. r = Inr e \<Longrightarrow> map_of (engine_cache st) (cache_key sa u) = Some e"
    | (new) m kw' where "map_of (engine_cache st) (cache_key sa u) = None" "mask_url sa u = Inr m" "r = Inr (length (created st))"
      "engine_cache st' = AList.update (cache_key sa u) (length (created st)) (engine_cache st)"
      "created st' = created st @ [(u, kw')]" "disposed st' = disposed st"
proof (cases "map_of (engine_cache st) (cache_key sa u)")
  case None
  show thesis
  proof (cases "mask_url sa u")
    case (Inr m)
    with None assms show thesis
      by (cases "create_engine sa u (foldl (\<lambda>d (k, v). AList.update k v d) engine_defaults kw)")
        (auto simp: locked_get_def Let_def intro: same new)
  qed (use None assms in \<open>auto simp: locked_get_def Let_def intro: same\<close>)
qed (use assms in \<open>auto simp: locked_get_def Let_def intro: same\<close>)

lemma set_update_fresh:
  "k \<notin> fst ` set al \<Longrightarrow> set (AList.update k v al) = insert (k, v) (set al)"
  by (induction al) auto

lemma locked_get_sound:
  assumes "cache_sound sa st" "locked_get sa u kw st = (r, st')"
  shows "cache_sound sa st'"
    and "\<exists>xs. created st' = created st @ xs"
    and "disposed st' = disposed st"
    and "r = Inr e \<Longrightarrow> e < length (created st') \<and> cache_key sa (fst (created st' ! e)) = cache_key sa u"
    and "snd ` set (engine_cache st') = snd ` set (engine_cache st) \<union> {length (created st)..<length (created st')}"
proof -
  have "cache_sound sa st' \<and> (\<exists>xs. created st' = created st @ xs) \<and> disposed st' = disposed st \<and>
    (\<forall>e. r = Inr e \<longrightarrow> e < length (created st') \<and> cache_key sa (fst (created st' ! e)) = cache_key sa u) \<and>
    snd ` set (engine_cache st') = snd ` set (engine_cache st) \<union> {length (created st)..<length (created st')}"
    using assms(2)
  proof (cases rule: locked_get_cases)
    case same
    then show ?thesis using assms(1) cached_entry [OF assms(1), of "cache_key sa u"] by auto
  next
    case new
    then have "cache_key sa u \<notin> fst ` set (engine_cache st)" by (simp add: map_of_eq_None_iff)
    with new assms(1) show ?thesis
      by (auto simp: cache_sound_def nth_append distinct_update set_update_fresh)
  qed
  then show "cache_sound sa st'" "\<exists>xs. created st' = created st @ xs" "disposed st' = disposed st"
    "r = Inr e \<Longrightarrow> e < length (created st') \<and> cache_key sa (fst (created st' ! e)) = cache_key sa u"
    "snd ` set (engine_cache st') = snd ` set (engine_cache st) \<union> {length (created st)..<length (created st')}"
    by blast+
qed


lemma pop_engine_sound:
  assumes "inj (sha256 sa)" "cache_sound sa st" "pop_engine sa u st = (r, st')"
  shows "cache_sound sa st'" "created st' = created st" "disposed st' = disposed st"
    and "snd ` set (engine_cache st) \<subseteq> snd ` set (engine_cache st') \<union> (case r of Inr es \<Rightarrow> set es | Inl x \<Rightarrow> {})"
proof -
  let ?k = "cache_key sa u"
  have cache': "engine_cache st' = AList.delete ?k (engine_cache st)" "created st' = created st" "disposed st' = disposed st"
    and r: "r = (case mask_url sa u of Inl x \<Rightarrow> Inl x
      | Inr m \<Rightarrow> Inr (case map_of (engine_cache st) ?k of Some e \<Rightarrow> [e] | None \<Rightarrow> []))"
    using assms(3) by (auto simp: pop_engine_def Let_def split: sum.splits)
  then show "created st' = created st" "disposed st' = disposed st" by simp_all
  show "cache_sound sa st'"
    using assms(2) cache' by (auto simp: cache_sound_def AList.delete_eq distinct_map_filter)
  show "snd ` set (engine_cache st) \<subseteq> snd ` set (engine_cache st') \<union> (case r of Inr es \<Rightarrow> set es | Inl x \<Rightarrow> {})"
  proof clarsimp
    fix k e assume entry: "(k, e) \<in> set (engine_cache st)"
      and out: "e \<notin> (case r of Inl x \<Rightarrow> {} | Inr es \<Rightarrow> set es)"
    have "k \<noteq> ?k"
    proof
      assume k: "k = ?k"
      with entry assms(2) have e: "map_of (engine_cache st) ?k = Some e" by (simp add: cache_sound_def)
      note cached = cached_entry [OF assms(2) e]
      then have "fst (created st ! e) = u" using assms(1) by (simp add: cache_key_def inj_eq)
      moreover have "\<exists>m. mask_url sa (fst (created st ! e)) = Inr m"
        using cached assms(2) nth_mem [of e "created st"] by (auto simp: cache_sound_def case_prod_beta)
      ultimately have "\<exists>m. mask_url sa u = Inr m" by simp
      then show False using out e r by auto
    qed
    with entry cache' have "(k, e) \<in> set (engine_cache st')" by (simp add: AList.delete_eq)
    then show "e \<in> snd ` set (engine_cache st')" by (rule rev_image_eqI) simp
  qed
qed

lemma eng_inv_goto:
  assumes inv: "eng_inv sa c" and sound: "cache_sound sa st" and grows: "created st = created (ec_sys c) @ xs"
    and got: "\<And>u e. p = Got u e \<Longrightarrow> e < length (created st) \<and> cache_key sa (fst (created st ! e)) = cache_key sa u"
    and kept: "set (disposed (ec_sys c)) \<subseteq> set (disposed st)"
    and account: "snd ` set (engine_cache (ec_sys c)) \<union> set (taken (ec_pc c t)) \<union>
        {length (created (ec_sys c))..<length (created st)} \<subseteq>
      snd ` set (engine_cache st) \<union> set (taken p) \<union> set (disposed st)"
  shows "eng_inv sa (goto t p st c)"
proof -
  let ?c = "goto t p st c"
  have "live ?c e \<or> released ?c e" if e: "e < length (created st)" for e
  proof (cases "e < length (created (ec_sys c))")
    case True
    then have "e \<in> snd ` set (engine_cache (ec_sys c)) \<or> (\<exists>t'. e \<in> set (taken (ec_pc c t'))) \<or> e \<in> set (disposed (ec_sys c))"
      using inv by (simp add: eng_inv_def live_def released_def)
    then consider "e \<in> snd ` set (engine_cache (ec_sys c)) \<union> set (taken (ec_pc c t))"
      | t' where "t' \<noteq> t" "e \<in> set (taken (ec_pc c t'))" | "e \<in> set (disposed (ec_sys c))"
      by (metis UnCI)
    then show ?thesis
    proof cases
      case 1
      then have "e \<in> snd ` set (engine_cache st) \<union> set (taken p) \<union> set (disposed st)" using account by blast
      then show ?thesis by (auto simp: goto_def live_def released_def)
    qed (use kept in \<open>auto simp: goto_def live_def released_def\<close>)
  next
    case False
    with e have "e \<in> {length (created (ec_sys c))..<length (created st)}" by simp
    then have "e \<in> snd ` set (engine_cache st) \<union> set (taken p) \<union> set (disposed st)" using account by blast
    then show ?thesis by (auto simp: goto_def live_def released_def)
  qed
  moreover have "\<forall>t' u e. ec_pc ?c t' = Got u e \<longrightarrow> e < length (created st) \<and>
      cache_key sa (fst (created st ! e)) = cache_key sa u"
  proof (intro allI impI)
    fix t' u e assume pc: "ec_pc ?c t' = Got u e"
    show "e < length (created st) \<and> cache_key sa (fst (created st ! e)) = cache_key sa u"
    proof (cases "t' = t")
      case True
      with pc got show ?thesis by (simp add: goto_def)
    next
      case False
      with pc have "ec_pc c t' = Got u e" by (simp add: goto_def)
      with inv have "e < length (created (ec_sys c)) \<and> cache_key sa (fst (created (ec_sys c) ! e)) = cache_key sa u"
        unfolding eng_inv_def by blast
      then show ?thesis by (auto simp: grows nth_append)
    qed
  qed
  ultimately show ?thesis using sound by (simp add: eng_inv_def goto_def)
qed

lemma eng_inv_same_sys:
  assumes "eng_inv sa c" "taken (ec_pc c t) = taken p"
    and "\<And>u e. p = Got u e \<Longrightarrow> map_of (engine_cache (ec_sys c)) (cache_key sa u) = Some e"
  shows "eng_inv sa (goto t p (ec_sys c) c)"
proof -
  have "cache_sound sa (ec_sys c)" using assms(1) by (simp add: eng_inv_def)
  with assms cached_entry [OF this] show ?thesis
    by (intro eng_inv_goto [where xs = "[]"]) (auto dest: sym)
qed

lemma eng_step_inv:
  assumes "inj (sha256 sa)" "eng_step sa c c'" "eng_inv sa c"
  shows "eng_inv sa c'"
proof -
  have sound: "cache_sound sa (ec_sys c)" using assms(3) by (simp add: eng_inv_def)
  from assms(2) show ?thesis
  proof cases
    case (locked_ok t u kw e st)
    note s = locked_get_sound [OF sound locked_ok(3)]
    from s(2) obtain xs where "created st = created (ec_sys c) @ xs" by blast
    with s locked_ok assms(3) show ?thesis by (simp add: locked_ok(1)) (rule eng_inv_goto; auto)
  next
    case (locked_raises t u kw x st)
    note s = locked_get_sound [OF sound locked_raises(3)]
    from s(2) obtain xs where "created st = created (ec_sys c) @ xs" by blast
    with s locked_raises assms(3) show ?thesis by (simp add: locked_raises(1)) (rule eng_inv_goto; auto)
  next
    case (pop_ok t u es st)
    note s = pop_engine_sound [OF assms(1) sound pop_ok(3)]
    with pop_ok assms(3) show ?thesis by (simp add: pop_ok(1)) (rule eng_inv_goto [where xs = "[]"]; auto)
  next
    case (pop_raises t u x st)
    note s = pop_engine_sound [OF assms(1) sound pop_raises(3)]
    with pop_raises assms(3) show ?thesis by (simp add: pop_raises(1)) (rule eng_inv_goto [where xs = "[]"]; auto)
  next
    case (clear t es st)
    then have st: "es = map snd (engine_cache (ec_sys c))" "st = (ec_sys c)\<lparr>engine_cache := [], url_for_log := []\<rparr>"
      by (simp_all add: clear_engines_def)
    show ?thesis unfolding clear(1)
      by (rule eng_inv_goto [OF assms(3), where xs = "[]"]) (use st sound clear(2) in \<open>simp_all add: cache_sound_def\<close>)
  next
    case (dispose_ok t e es)
    then show ?thesis using assms(3) sound
      by (auto simp: cache_sound_def intro!: eng_inv_goto [where xs = "[]"])
  qed (auto intro!: eng_inv_same_sys assms(3))
qed


lemma eng_reachable_inv:
  assumes "inj (sha256 sa)" "eng_reachable sa c"
  shows "eng_inv sa c"
  using assms(2)
proof (induction rule: eng_reachable.induct)
  case start
  show ?case by (simp add: eng_start_def eng_inv_def no_engines_def cache_sound_def)
qed (blast intro: eng_step_inv assms(1))

text \<open>
  C15: threads share engines safely. In every interleaving of lookups and disposals by any number of
  threads, a lookup that returns gives an engine that was created for exactly the URL asked for; at
  most one engine per URL is in use at a time, so two engines for the same URL mean that one of them was taken
  out by a disposal; and no engine is lost: each one created is still cached, was disposed, or is held by
  the disposing thread.
\<close>

theorem engines_shared_safely:
  assumes "inj (sha256 sa)" "eng_reachable sa c"
  shows "(\<forall>t u e. ec_pc c t = Got u e \<longrightarrow> e < length (created (ec_sys c)) \<and> fst (created (ec_sys c) ! e) = u) \<and>
    (\<forall>e1 e2. e1 < length (created (ec_sys c)) \<and> e2 < length (created (ec_sys c)) \<and>
       fst (created (ec_sys c) ! e1) = fst (created (ec_sys c) ! e2) \<and> \<not> released c e1 \<and> \<not> released c e2 \<longrightarrow> e1 = e2) \<and>
    (\<forall>e < length (created (ec_sys c)). live c e \<or> released c e)"
proof -
  let ?st = "ec_sys c"
  have inv: "eng_inv sa c" by (rule eng_reachable_inv [OF assms])
  then have sound: "cache_sound sa ?st" by (simp add: eng_inv_def)
  have entry: "map_of (engine_cache ?st) (cache_key sa (fst (created ?st ! e))) = Some e" if "live c e" for e
  proof -
    from that obtain k where k: "(k, e) \<in> set (engine_cache ?st)" by (auto simp: live_def)
    with sound have "k = cache_key sa (fst (created ?st ! e))" unfolding cache_sound_def by blast
    with k sound show ?thesis by (simp add: cache_sound_def)
  qed
  have "e1 = e2" if "e1 < length (created ?st)" "e2 < length (created ?st)" "\<not> released c e1" "\<not> released c e2"
    "fst (created ?st ! e1) = fst (created ?st ! e2)" for e1 e2
  proof -
    have "live c e1" "live c e2" using that inv unfolding eng_inv_def by blast+
    then show ?thesis using entry that(5) by (metis option.inject)
  qed
  moreover have "e < length (created ?st) \<and> fst (created ?st ! e) = u" if "ec_pc c t = Got u e" for t u e
  proof -
    have "e < length (created ?st) \<and> cache_key sa (fst (created ?st ! e)) = cache_key sa u"
      using that inv unfolding eng_inv_def by blast
    then show ?thesis using assms(1) by (simp add: cache_key_def inj_eq)
  qed
  ultimately show ?thesis using inv unfolding eng_inv_def by blast
qed

definition plain_sa :: sqlalchemy where
  "plain_sa = \<lparr>sha256 = (\<lambda>u. u), mask_url = Inr, create_engine = (\<lambda>u k. None), engine_dispose = (\<lambda>e. None)\<rparr>"

text \<open>Two threads miss at the same moment; the second finds the first one's engine under the lock.\<close>

definition race_misses :: eng_conf where
  "race_misses = goto 1 (Missed ''u'' []) no_engines (goto 0 (Missed ''u'' []) no_engines
     (goto 1 (Calling ''u'' []) no_engines (goto 0 (Calling ''u'' []) no_engines eng_start)))"

definition race_end :: eng_conf where
  "race_end = (let st = snd (locked_get plain_sa ''u'' [] no_engines) in
     goto 1 (Got ''u'' 0) st (goto 0 (Got ''u'' 0) st race_misses))"

lemma goto_simps [simp]:
  "ec_sys (goto t p st c) = st" "ec_pc (goto t p st c) t = p" "t \<noteq> t' \<Longrightarrow> ec_pc (goto t p st c) t' = ec_pc c t'"
  by (simp_all add: goto_def)

lemma eng_start_simps [simp]: "ec_sys eng_start = no_engines" "ec_pc eng_start t = Idle" "engine_cache no_engines = []"
  by (simp_all add: eng_start_def no_engines_def)

lemma race_misses_reachable: "eng_reachable plain_sa race_misses"
proof -
  let ?c1 = "goto 0 (Calling ''u'' []) no_engines eng_start"
  let ?c2 = "goto 1 (Calling ''u'' []) no_engines ?c1"
  let ?c3 = "goto 0 (Missed ''u'' []) no_engines ?c2"
  have s: "eng_step plain_sa eng_start ?c1" "eng_step plain_sa ?c1 ?c2"
    using next_call [of eng_start 0 _ _ _ "Calling ''u'' []" "''u''" "[]" plain_sa]
      next_call [of ?c1 1 _ _ _ "Calling ''u'' []" "''u''" "[]" plain_sa] by simp_all
  have s3: "eng_step plain_sa ?c2 ?c3" using fast_miss [of ?c2 0 "''u''" "[]" plain_sa] by simp
  have s4: "eng_step plain_sa ?c3 race_misses"
    using fast_miss [of ?c3 1 "''u''" "[]" plain_sa] by (simp add: race_misses_def)
  show ?thesis by (rule more [OF more [OF more [OF more [OF start s(1)] s(2)] s3] s4])
qed

lemma race_reachable: "eng_reachable plain_sa race_end"
proof -
  obtain st where st: "locked_get plain_sa ''u'' [] no_engines = (Inr 0, st)" "locked_get plain_sa ''u'' [] st = (Inr 0, st)"
    by (simp add: locked_get_def plain_sa_def no_engines_def cache_key_def Let_def)
  let ?c = "goto 0 (Got ''u'' 0) st race_misses"
  have "eng_step plain_sa race_misses ?c"
    using locked_ok [of race_misses 0 "''u''" "[]" plain_sa 0 st] st(1) by (simp add: race_misses_def)
  moreover have "eng_step plain_sa ?c race_end"
    using locked_ok [of ?c 1 "''u''" "[]" plain_sa 0 st] st by (simp add: race_misses_def race_end_def)
  ultimately show ?thesis using race_misses_reachable by (blast intro: eng_reachable.intros)
qed

theorem engines_shared_safely_witness:
  "ec_pc race_end 0 = Got ''u'' 0 \<and> ec_pc race_end 1 = Got ''u'' 0 \<and> fst (created (ec_sys race_end) ! 0) = ''u''"
proof -
  have "inj (sha256 plain_sa)" by (simp add: plain_sa_def inj_def)
  moreover have "ec_pc race_end 0 = Got ''u'' 0" "ec_pc race_end 1 = Got ''u'' 0" by (simp_all add: race_end_def Let_def)
  ultimately show ?thesis using engines_shared_safely [OF _ race_reachable] by blast
qed


section \<open>Statements\<close>

record cursor =
  cur_rowcount :: int
  cur_keys :: "string list"

record 's sql_engine =
  connect :: "(unit, 's) act"
  execute :: "string \<Rightarrow> pyval option \<Rightarrow> (cursor, 's) act"
  commit :: "(unit, 's) act"
  fetchall :: "cursor \<Rightarrow> (pyval list list, 's) act"
  close_conn :: "(unit, 's) act"

definition WRITE_PREFIXES :: "string list" where
  "WRITE_PREFIXES = [''INSERT'', ''UPDATE'', ''DELETE'', ''CREATE'', ''DROP'', ''ALTER'', ''TRUNCATE'']"

definition is_write :: "string \<Rightarrow> bool" where
  "is_write sql \<longleftrightarrow> list_ex (\<lambda>p. prefix p (py_upper (py_strip sql))) WRITE_PREFIXES"

text \<open>\<open>params or {}\<close>; leaving the \<open>with\<close> block closes the connection.\<close>

definition execute_query :: "'s sql_engine \<Rightarrow> string \<Rightarrow> pyval option \<Rightarrow> (SqlRowSet, 's) act" where
  "execute_query engine sql params s =
     andthen (connect engine s) (\<lambda>_ s1.
       finally_do
         (andthen (execute engine sql params s1) (\<lambda>cur s2.
            if is_write sql
            then andthen (commit engine s2) (\<lambda>_ s3. (Inr \<lparr>rows = [], columns = [], rowcount = cur_rowcount cur\<rparr>, s3))
            else andthen (fetchall engine cur s2) (\<lambda>rs s3.
                   (Inr \<lparr>rows = rs, columns = cur_keys cur, rowcount = cur_rowcount cur\<rparr>, s3))))
         (close_conn engine))"

definition ping_engine :: "'s sql_engine \<Rightarrow> (bool, 's) act" where
  "ping_engine engine s =
     rescue (\<lambda>e. False)
       (andthen
         (andthen (connect engine s) (\<lambda>_ s1.
            finally_do (andthen (execute engine ''SELECT 1'' None s1) (\<lambda>_ s2. (Inr (), s2))) (close_conn engine)))
         (\<lambda>_ s3. (Inr True, s3)))"

text \<open>
  A transactional connection: \<open>committed\<close> is what other connections see, \<open>pending\<close> what this one would
  make of it. Only a commit changes the former, and closing discards the latter.
\<close>

definition transactional :: "'s sql_engine \<Rightarrow> ('s \<Rightarrow> 'd) \<Rightarrow> ('s \<Rightarrow> 'd) \<Rightarrow> bool" where
  "transactional en committed pending \<longleftrightarrow>
     (\<forall>s r s'. connect en s = (r, s') \<longrightarrow> committed s' = committed s) \<and>
     (\<forall>sql p s r s'. execute en sql p s = (r, s') \<longrightarrow> committed s' = committed s) \<and>
     (\<forall>s s'. commit en s = (Inr (), s') \<longrightarrow> committed s' = pending s) \<and>
     (\<forall>c s r s'. fetchall en c s = (r, s') \<longrightarrow> committed s' = committed s) \<and>
     (\<forall>s r s'. close_conn en s = (r, s') \<longrightarrow> committed s' = committed s)"

lemma finally_do_Inr_iff:
  "finally_do out b = (Inr a, s') \<longleftrightarrow> (\<exists>s u. out = (Inr a, s) \<and> b s = (Inr u, s'))"
  by (auto simp: finally_do_def split: prod.splits sum.splits)

text \<open>An action that leaves a view of the state alone, whatever its outcome.\<close>

definition keeps :: "('s \<Rightarrow> 'd) \<Rightarrow> ('a, 's) act \<Rightarrow> bool" where
  "keeps f a \<longleftrightarrow> (\<forall>s r s'. a s = (r, s') \<longrightarrow> f s' = f s)"

lemma keeps_return: "keeps f (\<lambda>s. (r, s))"
  by (simp add: keeps_def)

lemma keeps_andthen: "keeps f a \<Longrightarrow> (\<And>x. keeps f (g x)) \<Longrightarrow> keeps f (\<lambda>s. andthen (a s) g)"
  by (auto simp: keeps_def andthen_def split: prod.splits sum.splits)

lemma keeps_finally: "keeps f a \<Longrightarrow> keeps f b \<Longrightarrow> keeps f (\<lambda>s. finally_do (a s) b)"
  by (fastforce simp: keeps_def finally_do_def split: prod.splits sum.splits)

lemma read_keeps:
  assumes "transactional en committed pending" "\<not> is_write sql"
  shows "keeps committed (execute_query en sql params)"
proof -
  have k: "keeps committed (connect en)" "keeps committed (execute en sql params)" "keeps committed (fetchall en c)"
    "keeps committed (close_conn en)" for c
    using assms(1) unfolding transactional_def keeps_def by blast+
  have "execute_query en sql params = (\<lambda>s. andthen (connect en s) (\<lambda>_ s1. finally_do
      (andthen (execute en sql params s1) (\<lambda>cur s2. andthen (fetchall en cur s2) (\<lambda>rs s3.
         (Inr \<lparr>rows = rs, columns = cur_keys cur, rowcount = cur_rowcount cur\<rparr>, s3)))) (close_conn en)))"
    using assms(2) by (simp add: execute_query_def fun_eq_iff)
  then show ?thesis by (simp only:) (intro keeps_andthen keeps_finally keeps_return k)
qed

text \<open>
  Only statements that begin with a write keyword take effect. On a transactional connection a query
  whose text, trimmed and upper-cased, begins with none of the seven write keywords leaves the database as it was,
  whether it returns or raises; one that does begin with one and returns has made its whole effect durable, and
  reports the row count of that execution and no rows.
\<close>

theorem only_write_prefixes_commit:
  assumes "transactional en committed pending" "execute_query en sql params s = (r, s')"
  shows "(\<not> is_write sql \<longrightarrow> committed s' = committed s) \<and>
    (is_write sql \<and> r = Inr rs \<longrightarrow>
      (\<exists>s1 s2 cur. connect en s = (Inr (), s1) \<and> execute en sql params s1 = (Inr cur, s2) \<and>
         committed s' = pending s2 \<and> rs = \<lparr>rows = [], columns = [], rowcount = cur_rowcount cur\<rparr>))"
proof (intro conjI impI)
  assume "\<not> is_write sql"
  then show "committed s' = committed s" using read_keeps [OF assms(1)] assms(2) by (auto simp: keeps_def)
next
  assume w: "is_write sql \<and> r = Inr rs"
  then obtain s1 s2 s3 cur where run: "connect en s = (Inr (), s1)" "execute en sql params s1 = (Inr cur, s2)"
    "commit en s2 = (Inr (), s3)" "close_conn en s3 = (Inr (), s')"
    "rs = \<lparr>rows = [], columns = [], rowcount = cur_rowcount cur\<rparr>"
    using assms(2) by (auto simp: execute_query_def andthen_Inr_iff finally_do_Inr_iff)
  then have "committed s3 = pending s2" "committed s' = committed s3"
    using assms(1) unfolding transactional_def by blast+
  with run show "\<exists>s1 s2 cur. connect en s = (Inr (), s1) \<and> execute en sql params s1 = (Inr cur, s2) \<and>
      committed s' = pending s2 \<and> rs = \<lparr>rows = [], columns = [], rowcount = cur_rowcount cur\<rparr>" by auto
qed

text \<open>A database that logs statements: the committed ones and the open transaction.\<close>

definition log_engine :: "(string list \<times> string list) sql_engine" where
  "log_engine = \<lparr>connect = (\<lambda>(d, p). (Inr (), (d, d))),
     execute = (\<lambda>sql ps (d, p). (Inr \<lparr>cur_rowcount = 1, cur_keys = []\<rparr>, (d, p @ [sql]))),
     commit = (\<lambda>(d, p). (Inr (), (p, p))),
     fetchall = (\<lambda>c s. (Inr [], s)),
     close_conn = (\<lambda>(d, p). (Inr (), (d, d)))\<rparr>"

lemma log_engine_transactional: "transactional log_engine fst snd"
  by (auto simp: transactional_def log_engine_def)

theorem only_write_prefixes_commit_witness:
  "fst (snd (execute_query log_engine ''select 1'' None ([], []))) = [] \<and>
   snd (execute_query log_engine '' insert 1'' None ([], [])) = (['' insert 1''], ['' insert 1''])"
proof -
  have "\<not> is_write ''select 1''" by code_simp
  then have "fst (snd (execute_query log_engine ''select 1'' None ([], []))) = []"
    using only_write_prefixes_commit [OF log_engine_transactional, of "''select 1''" None "([], [])"]
    by (metis fst_conv surjective_pairing)
  moreover have "snd (execute_query log_engine '' insert 1'' None ([], [])) = (['' insert 1''], ['' insert 1''])" by code_simp
  ultimately show ?thesis ..
qed

text \<open>
  Writes the prefix test misses are rolled back without an error: a data-modifying common table
  expression, a merge, a statement after a comment.
\<close>

lemma unrecognised_writes:
  "\<not> is_write ''WITH t AS (SELECT 1) INSERT INTO a SELECT * FROM t''" "\<not> is_write ''MERGE INTO a''"
  "\<not> is_write ''/* audit */ DELETE FROM a''" "\<not> is_write ''GRANT SELECT ON a TO b''"
  by code_simp+

lemma cte_write_lost:
  "transactional en committed pending \<Longrightarrow>
     committed (snd (execute_query en ''WITH t AS (SELECT 1) INSERT INTO a SELECT * FROM t'' params s)) = committed s"
  using read_keeps [OF _ unrecognised_writes(1)] unfolding keeps_def by (metis surjective_pairing)

lemma ping_total:
  assumes "tame (connect en)" "\<And>sql p. tame (execute en sql p)" "tame (close_conn en)"
  shows "\<exists>b s'. ping_engine en s = (Inr b, s')"
proof -
  have "tame (\<lambda>s. andthen (andthen (connect en s) (\<lambda>_ s1. finally_do
      (andthen (execute en ''SELECT 1'' None s1) (\<lambda>_ s2. (Inr (), s2))) (close_conn en))) (\<lambda>_ s3. (Inr True, s3)))"
    by (intro tame_intros assms)
  then show ?thesis unfolding ping_engine_def tame_def rescue_def by (auto split: prod.splits sum.splits)
qed

text \<open>
  The pieces of a URL are joined without quoting, so different credentials can give the same URL: an at
  sign in the password moves the rest of it into the host.
\<close>

lemma url_text_ambiguous:
  "url_text d u ''p@q'' ''h'' n db = url_text d u ''p'' ''q@h'' n db"
  by (simp add: url_text_def)

text \<open>Shutdown empties the cache, and disposes of every cached engine when no disposal raises.\<close>

lemma dispose_each_all:
  "(\<And>e. engine_dispose sa e = None) \<Longrightarrow> dispose_each sa es st = (Inr (), st\<lparr>disposed := disposed st @ es\<rparr>)"
  by (induction es arbitrary: st) simp_all

lemma dispose_all_exact:
  assumes "\<And>e. engine_dispose sa e = None"
  shows "dispose_all_engines sa st = (Inr (), st\<lparr>engine_cache := [], url_for_log := [],
    disposed := disposed st @ map snd (engine_cache st)\<rparr>)"
  by (simp add: dispose_all_engines_def clear_engines_def dispose_each_all [OF assms])

lemma get_engine_cached:
  "get_engine sa u kw st = (Inr e, st') \<Longrightarrow> get_engine sa u kw' st' = (Inr e, st')"
  by (auto simp: get_engine_def locked_get_def Let_def update_Some_unfold update_conv split: option.splits sum.splits)

end
