(* ===== verification/SettingsBase.thy ===== *)
theory SettingsBase
  imports Effects
begin

text \<open>
  \<open>config/settings/base.py\<close>: the settings every environment shares, as one list of bindings per section of
  the file, in its order, computed from the process environment. The helpers that parse integers,
  booleans and comma-separated lists are defined first. A path, a time span, a queue and a compiled pattern are
  carried by their text. The functions of the settings that belong to other packages (the aliasing of legacy
  variables, the regular-expression compiler) and the two documentation values imported from
  \<open>core.openapi.metadata\<close> are parameters.
\<close>

section \<open>Reading the environment\<close>

type_synonym environ = "(string \<times> string) list"
type_synonym bindings = "(string \<times> pyval) list"

definition ImproperlyConfigured :: exc_class where
  "ImproperlyConfigured = OtherException ''ImproperlyConfigured''"

definition getenv :: "environ \<Rightarrow> string \<Rightarrow> string \<Rightarrow> string" where
  "getenv env name dflt = (case map_of env name of Some v \<Rightarrow> v | None \<Rightarrow> dflt)"

definition env_value :: "environ \<Rightarrow> string \<Rightarrow> pyval" where
  "env_value env name = (case map_of env name of Some v \<Rightarrow> VStr v | None \<Rightarrow> VNone)"

text \<open>\<open>bool(os.getenv(name))\<close>.\<close>

definition env_set :: "environ \<Rightarrow> string \<Rightarrow> bool" where
  "env_set env name \<longleftrightarrow> getenv env name [] \<noteq> []"

definition env_int :: "environ \<Rightarrow> string \<Rightarrow> string \<Rightarrow> (exn, int) result" where
  "env_int env name dflt =
     (case py_int (getenv env name dflt) of
        Some n \<Rightarrow> Inr n
      | None \<Rightarrow> Inl (raw_exn ImproperlyConfigured
          (name @ ''='' @ repr_str (getenv env name dflt) @ '' is not a valid integer'')))"

definition env_bool :: "environ \<Rightarrow> string \<Rightarrow> string \<Rightarrow> (exn, bool) result" where
  "env_bool env name dflt =
     (let v = py_lower (py_strip (getenv env name dflt)) in
      if v \<in> {''true'', ''1'', ''yes'', ''on''} then Inr True
      else if v \<in> {''false'', ''0'', ''no'', ''off'', []} then Inr False
      else Inl (raw_exn ImproperlyConfigured (name @ ''='' @ repr_str v @ '' is not a valid boolean'')))"

text \<open>\<open>[x.strip() for x in s.split(",") if x.strip()]\<close>.\<close>

definition csv :: "string \<Rightarrow> string list" where
  "csv s = filter (\<lambda>x. x \<noteq> []) (map py_strip (py_split '','' s))"

definition strs :: "string list \<Rightarrow> pyval" where
  "strs xs = VList (map VStr xs)"

definition or_secret :: "environ \<Rightarrow> string \<Rightarrow> string" where
  "or_secret env name = (if env_set env name then getenv env name [] else getenv env ''SECRET_KEY'' [])"

definition cors_origins :: "environ \<Rightarrow> string" where
  "cors_origins env = getenv env ''CORS_ALLOWED_ORIGINS'' ''http://localhost:3000,http://127.0.0.1:3000''"

definition cors_excluded :: "environ \<Rightarrow> string" where
  "cors_excluded env = py_strip (getenv env ''CORS_EXCLUDED_PREFIXES'' [])"

definition valkey_cache_url :: "environ \<Rightarrow> string" where
  "valkey_cache_url env = getenv env ''VALKEY_CACHE_URL'' ''valkey://localhost:6379/2''"

definition valkey_rate_limit_url :: "environ \<Rightarrow> string" where
  "valkey_rate_limit_url env = getenv env ''VALKEY_RATE_LIMIT_URL'' (valkey_cache_url env)"

definition redirect_uris :: "environ \<Rightarrow> string" where
  "redirect_uris env = getenv env ''GOOGLE_OAUTH_ALLOWED_REDIRECT_URIS'' []"

definition asset_mime_csv :: "environ \<Rightarrow> string" where
  "asset_mime_csv env = py_strip (getenv env ''ASSET_ALLOWED_MIME_TYPES'' [])"

definition metrics_ips :: "environ \<Rightarrow> string" where
  "metrics_ips env = py_strip (getenv env ''METRICS_ALLOWED_IPS'' ''127.0.0.1'')"

definition outbound_allow :: "environ \<Rightarrow> string" where
  "outbound_allow env = py_strip (getenv env ''OUTBOUND_URL_ALLOWLIST'' ''*'')"

definition sentinel_hosts :: "environ \<Rightarrow> string" where
  "sentinel_hosts env = py_strip (getenv env ''VALKEY_SENTINEL_HOSTS'' [])"

section \<open>The sections of the base module\<close>

text \<open>What the module imports and defines besides settings: star imports see these names too.\<close>

definition import_section :: bindings where
  "import_section =
     map (\<lambda>n. (n, VObj ''module'' (Some n))) [''os'', ''re''] @
     map (\<lambda>n. (n, VObj ''type'' (Some n))) [''timedelta'', ''Path'', ''ImproperlyConfigured'', ''Queue''] @
     map (\<lambda>n. (n, VObj ''function'' (Some n))) [''legacy_env_alias'', ''_env_int'', ''_env_bool'']"

definition core_section :: "string \<Rightarrow> environ \<Rightarrow> (exn, bindings) result" where
  "core_section base_dir env =
     (if \<not> env_set env ''SECRET_KEY''
      then Inl (raw_exn ImproperlyConfigured
        ''The SECRET_KEY environment variable is not set. Set it in your .env file or environment.'')
      else Inr [(''BASE_DIR'', VObj ''PosixPath'' (Some base_dir)), (''SECRET_KEY'', env_value env ''SECRET_KEY'')])"

definition host_section :: "environ \<Rightarrow> bindings" where
  "host_section env =
     [(''DEBUG'', VBool (getenv env ''DEBUG'' ''False'' = ''True'')),
      (''ALLOWED_HOSTS'', strs (csv (getenv env ''ALLOWED_HOSTS'' []))),
      (''CSRF_TRUSTED_ORIGINS'', strs (csv (getenv env ''CSRF_TRUSTED_ORIGINS'' [])))]"

definition apps_section :: "bindings" where
  "apps_section =
     [(''INSTALLED_APPS'',
       strs [''unfold'', ''unfold.contrib.filters'', ''unfold.contrib.forms'', ''django.contrib.admin'',
             ''django.contrib.auth'', ''django.contrib.contenttypes'', ''django.contrib.sessions'',
             ''django.contrib.messages'', ''django.contrib.staticfiles'', ''django.contrib.sites'',
             ''rest_framework'', ''rest_framework_simplejwt.token_blacklist'', ''drf_spectacular'',
             ''corsheaders'', ''django_celery_beat'', ''django_celery_results'', ''allauth'',
             ''allauth.account'', ''allauth.socialaccount'', ''allauth.socialaccount.providers.google'',
             ''dj_rest_auth'', ''dj_rest_auth.registration'', ''core'', ''core.api_log'',
             ''resilience_kit.adapters.django'', ''accounts'']),
      (''AUTH_USER_MODEL'', VStr ''accounts.User''),
      (''SITE_ID'', VInt 1),
      (''MIDDLEWARE'',
       strs [''django.middleware.security.SecurityMiddleware'', ''whitenoise.middleware.WhiteNoiseMiddleware'',
             ''resilience_kit.adapters.django.middleware.SelectiveCorsMiddleware'',
             ''resilience_kit.adapters.django.middleware.SecurityHeadersMiddleware'',
             ''resilience_kit.adapters.django.middleware.BodyLimitMiddleware'',
             ''resilience_kit.adapters.django.middleware.RequestIdMiddleware'',
             ''core.middleware.bind_request_id.BindRequestIdMiddleware'',
             ''resilience_kit.adapters.django.middleware.ExceptionLoggingMiddleware'',
             ''django.contrib.sessions.middleware.SessionMiddleware'',
             ''django.middleware.common.CommonMiddleware'', ''django.middleware.csrf.CsrfViewMiddleware'',
             ''django.contrib.auth.middleware.AuthenticationMiddleware'',
             ''allauth.account.middleware.AccountMiddleware'',
             ''django.contrib.messages.middleware.MessageMiddleware'',
             ''django.middleware.clickjacking.XFrameOptionsMiddleware'',
             ''core.middleware.request_logging.RequestLoggingMiddleware'',
             ''resilience_kit.adapters.django.middleware.RateLimitHeadersMiddleware'']),
      (''ROOT_URLCONF'', VStr ''config.urls''),
      (''TEMPLATES'',
       VList [str_dict [(''BACKEND'', VStr ''django.template.backends.django.DjangoTemplates''),
                        (''DIRS'', VList []),
                        (''APP_DIRS'', VBool True),
                        (''OPTIONS'',
                         str_dict [(''context_processors'',
                                    strs [''django.template.context_processors.debug'',
                                          ''django.template.context_processors.request'',
                                          ''django.contrib.auth.context_processors.auth'',
                                          ''django.contrib.messages.context_processors.messages''])])]]),
      (''WSGI_APPLICATION'', VStr ''config.wsgi.application'')]"

definition database_section :: "environ \<Rightarrow> (exn, bindings) result" where
  "database_section env =
     rbind (env_int env ''DB_CONN_MAX_AGE'' ''600'') (\<lambda>a.
     Inr
     [(''DATABASES'',
       str_dict [(''default'',
                  str_dict [(''ENGINE'', VStr ''django.db.backends.postgresql''),
                            (''NAME'', VStr (getenv env ''POSTGRES_DB'' ''app'')),
                            (''USER'', VStr (getenv env ''POSTGRES_USER'' ''postgres'')),
                            (''PASSWORD'', VStr (getenv env ''POSTGRES_PASSWORD'' ''postgres'')),
                            (''HOST'', VStr (getenv env ''POSTGRES_HOST'' ''localhost'')),
                            (''PORT'', VStr (getenv env ''POSTGRES_PORT'' ''5432'')),
                            (''CONN_MAX_AGE'', VInt a),
                            (''CONN_HEALTH_CHECKS'', VBool True)])])])"

definition locale_section :: "string \<Rightarrow> bindings" where
  "locale_section base_dir =
     [(''AUTH_PASSWORD_VALIDATORS'',
       VList [str_dict [(''NAME'',
                         VStr ''django.contrib.auth.password_validation.UserAttributeSimilarityValidator'')],
              str_dict [(''NAME'',
                         VStr ''django.contrib.auth.password_validation.MinimumLengthValidator'')],
              str_dict [(''NAME'',
                         VStr ''django.contrib.auth.password_validation.CommonPasswordValidator'')],
              str_dict [(''NAME'',
                         VStr ''django.contrib.auth.password_validation.NumericPasswordValidator'')]]),
      (''LANGUAGE_CODE'', VStr ''en-us''),
      (''TIME_ZONE'', VStr ''Asia/Kolkata''),
      (''USE_I18N'', VBool True),
      (''USE_TZ'', VBool True),
      (''STATIC_URL'', VStr ''static/''),
      (''STATIC_ROOT'', VObj ''PosixPath'' (Some (base_dir @ ''/staticfiles''))),
      (''STORAGES'',
       str_dict [(''staticfiles'',
                  str_dict [(''BACKEND'',
                             VStr ''whitenoise.storage.CompressedManifestStaticFilesStorage'')])]),
      (''DEFAULT_AUTO_FIELD'', VStr ''django.db.models.BigAutoField''),
      (''SESSION_ENGINE'', VStr ''django.contrib.sessions.backends.cache''),
      (''SESSION_CACHE_ALIAS'', VStr ''default'')]"

definition rest_section :: "environ \<Rightarrow> (exn, bindings) result" where
  "rest_section env =
     rbind (env_int env ''NUM_PROXIES'' ''0'') (\<lambda>a.
     Inr
     [(''AUTH_ENABLED_PROVIDERS'', strs [''jwt'', ''api_key'']),
      (''REST_FRAMEWORK'',
       str_dict [(''DEFAULT_SCHEMA_CLASS'', VStr ''drf_spectacular.openapi.AutoSchema''),
                 (''DEFAULT_PAGINATION_CLASS'',
                  VStr ''core.utils.pagination.StandardPageNumberPagination''),
                 (''PAGE_SIZE'', VInt 20),
                 (''DEFAULT_RENDERER_CLASSES'', strs [''rest_framework.renderers.JSONRenderer'']),
                 (''DEFAULT_PARSER_CLASSES'', strs [''rest_framework.parsers.JSONParser'']),
                 (''DEFAULT_AUTHENTICATION_CLASSES'',
                  strs [''core.auth.composite.CompositeAuthentication'']),
                 (''DEFAULT_PERMISSION_CLASSES'', strs [''rest_framework.permissions.IsAuthenticated'']),
                 (''EXCEPTION_HANDLER'', VStr ''core.exceptions.handler.api_exception_handler''),
                 (''DEFAULT_THROTTLE_CLASSES'',
                  strs [''resilience_kit.adapters.django.drf_throttles.UserTierThrottle'',
                        ''resilience_kit.adapters.django.drf_throttles.BurstThrottle'']),
                 (''DEFAULT_THROTTLE_RATES'',
                  str_dict [(''auth'', VStr (getenv env ''RATE_LIMIT_AUTH'' ''20/hour'')),
                            (''auth_burst'', VStr (getenv env ''RATE_LIMIT_AUTH_BURST'' ''5/min''))]),
                 (''NUM_PROXIES'', VInt a)])])"

text \<open>\<open>core.openapi.metadata\<close> gives the description text and the tags, each a name and a description.\<close>

definition tags_value :: "(string \<times> string) list \<Rightarrow> pyval" where
  "tags_value tags = VList (map (\<lambda>(n, d). str_dict [(''name'', VStr n), (''description'', VStr d)]) tags)"

definition spectacular_section :: "string \<Rightarrow> (string \<times> string) list \<Rightarrow> bindings" where
  "spectacular_section api_description tags_metadata =
     [(''API_DESCRIPTION'', VStr api_description), (''TAGS_METADATA'', tags_value tags_metadata),
      (''SPECTACULAR_SETTINGS'',
       str_dict [(''TITLE'', VStr ''Django Boilerplate API''),
                 (''DESCRIPTION'', VStr api_description),
                 (''VERSION'', VStr ''0.1.0''),
                 (''SERVE_INCLUDE_SCHEMA'', VBool False),
                 (''COMPONENT_SPLIT_REQUEST'', VBool True),
                 (''SCHEMA_PATH_PREFIX'', VStr ''/api/''),
                 (''SECURITY'',
                  VList [str_dict [(''jwtAuth'', VList [])], str_dict [(''apiKeyAuth'', VList [])]]),
                 (''TAGS'', tags_value tags_metadata)])]"

definition cors_section :: "environ \<Rightarrow> bindings" where
  "cors_section env =
     (''_cors_origins'', VStr (cors_origins env)) #
     (if py_strip (cors_origins env) = ''*''
      then [(''CORS_ALLOW_ALL_ORIGINS'', VBool True), (''CORS_ALLOW_CREDENTIALS'', VBool False)]
      else [(''CORS_ALLOWED_ORIGINS'', strs (csv (cors_origins env))), (''CORS_ALLOW_CREDENTIALS'', VBool True)])"

definition cache_section :: "environ \<Rightarrow> bindings" where
  "cache_section env =
     [(''_cors_excluded'', VStr (cors_excluded env)),
      (''CORS_EXCLUDED_PREFIXES'', VSeq STuple (map VStr (csv (cors_excluded env)))),
      (''_valkey_cache_url'', VStr (valkey_cache_url env)),
      (''_valkey_rate_limit_url'', VStr (valkey_rate_limit_url env)),
      (''CACHES'',
       str_dict [(''default'',
                  str_dict [(''BACKEND'', VStr ''django_valkey.cache.ValkeyCache''),
                            (''LOCATION'', VStr (valkey_cache_url env)),
                            (''OPTIONS'', VDict [])]),
                 (''rate_limit'',
                  str_dict [(''BACKEND'', VStr ''django_valkey.cache.ValkeyCache''),
                            (''LOCATION'', VStr (valkey_rate_limit_url env)),
                            (''OPTIONS'', VDict []),
                            (''KEY_PREFIX'', VStr ''ratelimit''),
                            (''TIMEOUT'', VInt 3600)])]),
      (''USE_X_FORWARDED_FOR'', VBool (getenv env ''USE_X_FORWARDED_FOR'' ''False'' = ''True'')),
      (''SSRF_BLOCK_PRIVATE_IPS'', VBool (getenv env ''SSRF_BLOCK_PRIVATE_IPS'' ''True'' = ''True''))]"

definition unfold_section :: "bindings" where
  "unfold_section =
     [(''UNFOLD'',
       str_dict [(''SITE_TITLE'', VStr ''Django Boilerplate''),
                 (''SITE_HEADER'', VStr ''Django Boilerplate''),
                 (''SHOW_HISTORY'', VBool True),
                 (''SHOW_VIEW_ON_SITE'', VBool True),
                 (''SIDEBAR'',
                  str_dict [(''show_search'', VBool True),
                            (''show_all_applications'', VBool False),
                            (''navigation'',
                             VList [str_dict [(''title'', VStr ''Accounts''),
                                              (''items'',
                                               VList [str_dict [(''title'', VStr ''Users''),
                                                                (''icon'', VStr ''people''),
                                                                (''link'',
                                                                 VStr ''/admin/accounts/user/'')],
                                                      str_dict [(''title'', VStr ''Roles''),
                                                                (''icon'',
                                                                 VStr ''shield_person''),
                                                                (''link'',
                                                                 VStr ''/admin/accounts/role/'')],
                                                      str_dict [(''title'',
                                                                 VStr ''Permissions''),
                                                                (''icon'', VStr ''lock''),
                                                                (''link'',
                                                                 VStr ''/admin/accounts/permission/'')],
                                                      str_dict [(''title'', VStr ''API Keys''),
                                                                (''icon'', VStr ''key''),
                                                                (''link'',
                                                                 VStr ''/admin/accounts/apikey/'')]])],
                                    str_dict [(''title'', VStr ''Celery''),
                                              (''items'',
                                               VList [str_dict [(''title'',
                                                                 VStr ''Task Results''),
                                                                (''icon'', VStr ''task_alt''),
                                                                (''link'',
                                                                 VStr ''/admin/django_celery_results/taskresult/'')],
                                                      str_dict [(''title'',
                                                                 VStr ''Periodic Tasks''),
                                                                (''icon'', VStr ''schedule''),
                                                                (''link'',
                                                                 VStr ''/admin/django_celery_beat/periodictask/'')]])]])])])]"

definition celery_section :: "environ \<Rightarrow> (exn, bindings) result" where
  "celery_section env =
     rbind (env_int env ''CELERY_TASK_TIME_LIMIT'' ''1800'') (\<lambda>a.
     rbind (env_int env ''CELERY_TASK_SOFT_TIME_LIMIT'' ''1500'') (\<lambda>b.
     rbind (env_int env ''CELERY_WORKER_PREFETCH_MULTIPLIER'' ''1'') (\<lambda>c.
     rbind (env_int env ''CELERY_WORKER_CONCURRENCY'' ''4'') (\<lambda>d.
     rbind (env_bool env ''CELERY_SEND_EVENTS'' ''true'') (\<lambda>e.
     rbind (env_bool env ''CELERY_SEND_EVENTS'' ''true'') (\<lambda>f.
     Inr
     [(''CELERY_BROKER_URL'', VStr (getenv env ''CELERY_BROKER_URL'' [])),
      (''CELERY_RESULT_BACKEND'', VStr (getenv env ''CELERY_RESULT_BACKEND'' ''django-db'')),
      (''CELERY_BROKER_CONNECTION_RETRY_ON_STARTUP'', VBool True),
      (''CELERY_ACCEPT_CONTENT'', strs [''json'']),
      (''CELERY_TASK_SERIALIZER'', VStr ''json''),
      (''CELERY_RESULT_SERIALIZER'', VStr ''json''),
      (''CELERY_RESULT_EXPIRES'', VInt 3600),
      (''CELERY_TIMEZONE'', VStr ''Asia/Kolkata''),
      (''CELERY_TASK_TRACK_STARTED'', VBool True),
      (''CELERY_TASK_TIME_LIMIT'', VInt a),
      (''CELERY_TASK_SOFT_TIME_LIMIT'', VInt b),
      (''CELERY_TASK_ACKS_LATE'', VBool True),
      (''CELERY_TASK_REJECT_ON_WORKER_LOST'', VBool True),
      (''CELERY_WORKER_PREFETCH_MULTIPLIER'', VInt c),
      (''CELERY_WORKER_POOL'', VStr ''threads''),
      (''CELERY_WORKER_CONCURRENCY'', VInt d),
      (''CELERY_WORKER_SEND_TASK_EVENTS'', VBool e),
      (''CELERY_TASK_SEND_SENT_EVENT'', VBool f),
      (''CELERY_BEAT_SCHEDULER'', VStr ''django_celery_beat.schedulers:DatabaseScheduler''),
      (''CELERY_TASK_QUEUES'',
       VSeq STuple [VObj ''Queue'' (Some ''high_priority''),
                    VObj ''Queue'' (Some ''default''),
                    VObj ''Queue'' (Some ''low_priority'')]),
      (''CELERY_TASK_DEFAULT_QUEUE'', VStr ''default''),
      (''CELERY_TASK_DEFAULT_ROUTING_KEY'', VStr ''default''),
      (''CELERY_TASK_ROUTES'', VDict [])]))))))"

definition BASE_MASK_PATTERN :: string where
  "BASE_MASK_PATTERN = ''password|passwd|secret|token|key|auth|credential|api_key|apikey|'' @
     ''private|session|cookie|bearer|jwt|access_token|refresh_token''"

definition combined_pattern :: "environ \<Rightarrow> string" where
  "combined_pattern env =
     (let user = getenv env ''LOG_MASK_PATTERN'' [] in
      if user \<noteq> [] then BASE_MASK_PATTERN @ ''|'' @ user else BASE_MASK_PATTERN)"

definition log_section :: "(string \<Rightarrow> exn option) \<Rightarrow> environ \<Rightarrow> (exn, bindings) result" where
  "log_section re_error env =
     (case re_error (combined_pattern env) of
        Some e \<Rightarrow> Inl e
      | None \<Rightarrow>
     rbind (env_int env ''LOG_MAX_STRING_LENGTH'' ''200'') (\<lambda>a.
     rbind (env_int env ''LOG_MAX_DICT_KEYS'' ''20'') (\<lambda>b.
     rbind (env_int env ''LOG_MAX_LIST_ITEMS'' ''10'') (\<lambda>c.
     Inr
     [(''_BASE_MASK_PATTERN'', VStr BASE_MASK_PATTERN),
      (''_user_mask_pattern'', VStr (getenv env ''LOG_MASK_PATTERN'' [])),
      (''_combined_pattern'', VStr (combined_pattern env)),
      (''_sensitive_pattern'', VObj ''Pattern'' (Some (combined_pattern env))),
      (''LOG_SANITIZATION'',
       str_dict [(''SANITIZE_ENABLED'', VBool (py_lower (getenv env ''LOG_SANITIZE_ENABLED'' ''true'') = ''true'')),
                 (''MAX_STRING_LENGTH'', VInt a),
                 (''MAX_DICT_KEYS'', VInt b),
                 (''MAX_LIST_ITEMS'', VInt c),
                 (''SENSITIVE_PATTERN'', VObj ''Pattern'' (Some (combined_pattern env))),
                 (''MASK_VALUE'', VStr ''***REDACTED***''),
                 (''EXCLUDED_FIELDS'',
                  VSeq SFrozenset (map VStr (remdups (py_split '','' (py_lower
                    (getenv env ''LOG_EXCLUDED_FIELDS'' ''password,secret_ref,api_key,private_key,access_token''))))))])]))))"

definition resilience_section :: "environ \<Rightarrow> (exn, bindings) result" where
  "resilience_section env =
     rbind (env_int env ''RESILIENCE_CB_FAIL_MAX'' ''5'') (\<lambda>a.
     rbind (env_int env ''RESILIENCE_CB_RESET_TIMEOUT'' ''30'') (\<lambda>b.
     rbind (env_int env ''RESILIENCE_RETRY_MAX_ATTEMPTS'' ''3'') (\<lambda>c.
     rbind (env_int env ''RESILIENCE_RETRY_WAIT_MIN'' ''1'') (\<lambda>d.
     rbind (env_int env ''RESILIENCE_RETRY_WAIT_MAX'' ''10'') (\<lambda>e.
     Inr
     [(''RESILIENCE'',
       str_dict [(''backend'', VStr (getenv env ''RESILIENCE_BACKEND'' ''redis'')),
                 (''redis_url'', VStr (valkey_rate_limit_url env)),
                 (''redis_key_prefix'', VStr (getenv env ''CIRCUIT_BREAKER_KEY_PREFIX'' ''cb'')),
                 (''fail_open'',
                  VBool (py_lower (getenv env ''RATE_LIMIT_FAIL_OPEN'' ''true'') = ''true'')),
                 (''defaults'',
                  str_dict [(''circuit_breaker'',
                             str_dict [(''fail_max'', VInt a), (''reset_timeout'', VInt b)]),
                            (''retry'',
                             str_dict [(''max_attempts'', VInt c),
                                       (''wait_min'', VInt d),
                                       (''wait_max'', VInt e),
                                       (''retry_on'',
                                        VSeq STuple [VStr ''resilience_kit.exceptions.TransientError'',
                                                     VStr ''resilience_kit.exceptions.ExternalTimeoutError''])]),
                            (''throttle'',
                             str_dict [(''anon_rate'',
                                        VStr (getenv env ''RATE_LIMIT_ANON'' ''100/hour'')),
                                       (''user_rate'',
                                        VStr (getenv env ''RATE_LIMIT_USER'' ''1000/hour'')),
                                       (''admin_rate'',
                                        VStr (getenv env ''RATE_LIMIT_ADMIN'' ''5000/hour'')),
                                       (''burst_rate'',
                                        VStr (getenv env ''RATE_LIMIT_BURST'' ''10/second'')),
                                       (''global_rate'',
                                        VStr (getenv env ''RATE_LIMIT_GLOBAL'' ''10000/minute'')),
                                       (''auth_rate'',
                                        VStr (getenv env ''RATE_LIMIT_AUTH'' ''5/min''))])]),
                 (''ssrf'',
                  str_dict [(''block_private_ips'',
                             VBool (getenv env ''SSRF_BLOCK_PRIVATE_IPS'' ''True'' = ''True'')),
                            (''outbound_allowlist'',
                             strs (csv (getenv env ''OUTBOUND_ALLOWLIST'' ''*'')))]),
                 (''crypto'',
                  str_dict [(''field_encryption_key'', VStr (or_secret env ''FIELD_ENCRYPTION_KEY''))]),
                 (''audit'',
                  str_dict [(''sink'', VStr (getenv env ''AUDIT_SINK'' ''stdlib_logging'')),
                            (''redact_fields'',
                             strs (csv (getenv env ''AUDIT_REDACT_FIELDS'' ''password,token,secret,authorization,api_key'')))]),
                 (''rate_limit_headers'',
                  str_dict [(''enabled'',
                             VBool (py_lower (getenv env ''RATE_LIMIT_ENABLE_HEADERS'' ''true'') = ''true''))])])])))))"

definition accounts_section :: "environ \<Rightarrow> bindings" where
  "accounts_section env =
     [(''AUTHENTICATION_BACKENDS'',
       strs [''accounts.backends.RBACBackend'', ''allauth.account.auth_backends.AuthenticationBackend'']),
      (''ACCOUNT_LOGIN_METHODS'', VSeq SSet [VStr ''username'', VStr ''email'']),
      (''ACCOUNT_SIGNUP_FIELDS'', strs [''email*'', ''password1*'', ''password2*'']),
      (''ACCOUNT_EMAIL_VERIFICATION'', VStr ''mandatory''),
      (''ACCOUNT_UNIQUE_EMAIL'', VBool True),
      (''SOCIALACCOUNT_AUTO_SIGNUP'', VBool True),
      (''SOCIALACCOUNT_EMAIL_VERIFICATION'', VStr ''none''),
      (''SOCIALACCOUNT_PROVIDERS'',
       str_dict [(''google'',
                  str_dict [(''SCOPE'', strs [''profile'', ''email'']),
                            (''AUTH_PARAMS'', str_dict [(''access_type'', VStr ''online'')]),
                            (''APP'',
                             str_dict [(''client_id'',
                                        VStr (getenv env ''GOOGLE_OAUTH2_CLIENT_ID'' [])),
                                       (''secret'',
                                        VStr (getenv env ''GOOGLE_OAUTH2_CLIENT_SECRET'' []))]),
                            (''VERIFIED_EMAIL'', VBool True)])]),
      (''ACCOUNT_ADAPTER'', VStr ''accounts.adapters.CustomAccountAdapter''),
      (''SOCIALACCOUNT_ADAPTER'', VStr ''accounts.adapters.CustomSocialAccountAdapter''),
      (''_redirect_uris'', VStr (redirect_uris env)),
      (''GOOGLE_OAUTH_ALLOWED_REDIRECT_URIS'', strs (csv (redirect_uris env))),
      (''REST_AUTH'',
       str_dict [(''USE_JWT'', VBool True),
                 (''TOKEN_MODEL'', VNone),
                 (''JWT_AUTH_COOKIE'', VStr ''app-auth''),
                 (''JWT_AUTH_REFRESH_COOKIE'', VStr ''app-refresh''),
                 (''JWT_AUTH_HTTPONLY'', VBool True),
                 (''JWT_AUTH_SAMESITE'', VStr ''Lax''),
                 (''JWT_AUTH_RETURN_EXPIRATION'', VBool True),
                 (''JWT_AUTH_SECURE'', VBool True),
                 (''USER_DETAILS_SERIALIZER'', VStr ''accounts.serializers.UserSerializer''),
                 (''JWT_SERIALIZER'', VStr ''accounts.serializers.CustomJWTSerializer'')])]"

definition jwt_section :: "environ \<Rightarrow> bindings" where
  "jwt_section env =
     [(''SIMPLE_JWT'',
       str_dict [(''ACCESS_TOKEN_LIFETIME'', VObj ''timedelta'' (Some ''1:00:00'')),
                 (''REFRESH_TOKEN_LIFETIME'', VObj ''timedelta'' (Some ''7 days, 0:00:00'')),
                 (''ROTATE_REFRESH_TOKENS'', VBool True),
                 (''BLACKLIST_AFTER_ROTATION'', VBool True),
                 (''UPDATE_LAST_LOGIN'', VBool True),
                 (''ALGORITHM'', VStr ''HS256''),
                 (''SIGNING_KEY'', VStr (or_secret env ''JWT_SIGNING_KEY'')),
                 (''AUTH_HEADER_TYPES'', VSeq STuple [VStr ''Bearer'']),
                 (''USER_ID_FIELD'', VStr ''id''),
                 (''USER_ID_CLAIM'', VStr ''user_id'')]),
      (''AWS_REGION'', VStr (getenv env ''AWS_REGION'' ''ap-south-1'')),
      (''SES_SENDER_EMAIL'', VStr (getenv env ''SES_SENDER_EMAIL'' [])),
      (''SES_REGION'', VStr (getenv env ''SES_REGION'' []))]"

definition limits_section :: "environ \<Rightarrow> (exn, bindings) result" where
  "limits_section env =
     rbind (env_int env ''ASSET_MAX_BYTES'' ''26214400'') (\<lambda>a.
     rbind (env_bool env ''SECURITY_HEADERS_ENABLED'' ''true'') (\<lambda>b.
     rbind (env_int env ''MAX_REQUEST_BODY_BYTES'' ''2097152'') (\<lambda>c.
     rbind (env_int env ''API_LOG_QUEUE_MAX_IN_FLIGHT'' ''1000'') (\<lambda>d.
     rbind (env_int env ''API_LOG_QUEUE_WORKERS'' ''4'') (\<lambda>e.
     rbind (env_int env ''API_LOG_MAX_BODY_LEN'' ''4096'') (\<lambda>f.
     rbind (env_int env ''API_LOG_TTL_DAYS'' ''0'') (\<lambda>g.
     Inr
     [(''ASSET_S3_BUCKET'', VStr (getenv env ''ASSET_S3_BUCKET'' [])),
      (''ASSET_S3_KEY_PREFIX'', VStr (getenv env ''ASSET_S3_KEY_PREFIX'' [])),
      (''ASSET_MAX_BYTES'', VInt a),
      (''_asset_mime_csv'', VStr (asset_mime_csv env)),
      (''ASSET_ALLOWED_MIME_TYPES'',
       if (asset_mime_csv env) \<noteq> [] then strs (csv (asset_mime_csv env)) else VNone),
      (''METRICS_ENABLED'',
       VBool (py_lower (getenv env ''METRICS_ENABLED'' ''false'') \<in> { ''1'', ''true'', ''yes'' })),
      (''SECURITY_HEADERS_ENABLED'', VBool b),
      (''MAX_REQUEST_BODY_BYTES'', VInt c),
      (''API_LOG_BACKEND'', VStr (py_lower (py_strip (getenv env ''API_LOG_BACKEND'' ''orm'')))),
      (''API_LOG_QUEUE_MAX_IN_FLIGHT'', VInt d),
      (''API_LOG_QUEUE_WORKERS'', VInt e),
      (''API_LOG_MAX_BODY_LEN'', VInt f),
      (''API_LOG_TTL_DAYS'', VInt g),
      (''API_LOG_SENSITIVE_HEADERS'',
       strs [''authorization'', ''cookie'', ''set-cookie'', ''x-api-key'', ''x-auth-token'',
             ''proxy-authorization'']),
      (''_metrics_ips'', VStr (metrics_ips env)),
      (''METRICS_ALLOWED_IPS'', strs (csv (metrics_ips env)))])))))))"

definition headers_section :: "environ \<Rightarrow> bindings" where
  "headers_section env =
     [(''SECURE_REFERRER_POLICY'', VStr ''same-origin''),
      (''X_FRAME_OPTIONS'', VStr ''DENY''),
      (''SECURE_CONTENT_TYPE_NOSNIFF'', VBool True),
      (''SECURE_BROWSER_XSS_FILTER'', VBool True),
      (''_outbound_allow'', VStr (outbound_allow env)),
      (''OUTBOUND_URL_ALLOWLIST'',
       if (outbound_allow env) \<noteq> [] then strs (csv (outbound_allow env)) else VList []),
      (''_sentinel_hosts'', VStr (sentinel_hosts env)),
      (''VALKEY_SENTINEL_HOSTS'',
       if (sentinel_hosts env) \<noteq> [] then strs (csv (sentinel_hosts env)) else VList []),
      (''VALKEY_SENTINEL_MASTER_NAME'', VStr (getenv env ''VALKEY_SENTINEL_MASTER_NAME'' []))]"

section \<open>The module\<close>

record settings_kit =
  legacy_env_alias :: "environ \<Rightarrow> environ"
  re_error :: "string \<Rightarrow> exn option"
  base_dir :: string
  api_description :: string
  tags_metadata :: "(string \<times> string) list"

text \<open>The module runs from top to bottom: the first section that raises ends it.\<close>

fun all_bindings :: "(exn, bindings) result list \<Rightarrow> (exn, bindings) result" where
  "all_bindings [] = Inr []"
| "all_bindings (r # rs) = rbind r (\<lambda>bs. rbind (all_bindings rs) (\<lambda>more. Inr (bs @ more)))"

definition base_sections :: "settings_kit \<Rightarrow> environ \<Rightarrow> (exn, bindings) result list" where
  "base_sections k env =
     [Inr import_section, core_section (base_dir k) env, Inr (host_section env), Inr apps_section,
      database_section env, Inr (locale_section (base_dir k)), rest_section env,
      Inr (spectacular_section (api_description k) (tags_metadata k)), Inr (cors_section env),
      Inr (cache_section env), Inr unfold_section, celery_section env, log_section (re_error k) env,
      resilience_section env, Inr (accounts_section env), Inr (jwt_section env), limits_section env,
      Inr (headers_section env)]"

text \<open>The aliasing of legacy variables changes the process environment, so the module returns it too.\<close>

definition base_settings :: "settings_kit \<Rightarrow> environ \<Rightarrow> (exn, environ \<times> bindings) result" where
  "base_settings k env0 =
     (let env = legacy_env_alias k env0 in
      rbind (all_bindings (base_sections k env)) (\<lambda>bs. Inr (env, bs)))"

end
