(* ===== verification/Settings.thy ===== *)
theory Settings
  imports SettingsBase SystemViews Storage
begin

text \<open>
  \<open>config/settings/__init__.py\<close> and the five environment modules. A module's globals are a list of
  bindings, its own before those it imports, so that the first binding of a name is the one in force; a star
  import leaves out the names with a leading underscore. Starting the application selects the environment,
  completes the process environment from the \<open>.env\<close> file and the secret store, runs the
  environment's module and merges its public names.
\<close>

section \<open>Modules\<close>

definition NameError :: exc_class where "NameError = OtherException ''NameError''"

definition star_import :: "bindings \<Rightarrow> bindings" where
  "star_import bs = filter (\<lambda>(n, v). \<not> prefix ''_'' n) bs"

text \<open>\<open>if not ok: raise ValueError(msg)\<close>, one after the other.\<close>

fun require_all :: "(bool \<times> string) list \<Rightarrow> (exn, unit) result" where
  "require_all [] = Inr ()"
| "require_all ((ok, msg) # rest) = (if ok then require_all rest else Inl (raw_exn PyValueError msg))"

text \<open>A call of \<open>_env_int\<close> looks the name up in the module's globals first.\<close>

definition call_env_int :: "bindings \<Rightarrow> environ \<Rightarrow> string \<Rightarrow> string \<Rightarrow> (exn, int) result" where
  "call_env_int ns env name dflt =
     (case map_of ns ''_env_int'' of
        None \<Rightarrow> Inl (raw_exn NameError (''name '' @ repr_str ''_env_int'' @ '' is not defined''))
      | Some f \<Rightarrow> env_int env name dflt)"

definition global_or :: "bindings \<Rightarrow> string \<Rightarrow> pyval \<Rightarrow> pyval" where
  "global_or ns n dflt = (case map_of ns n of Some v \<Rightarrow> v | None \<Rightarrow> dflt)"

text \<open>\<open>{**d, **changes}\<close>.\<close>

definition dict_with :: "pyval \<Rightarrow> (string \<times> pyval) list \<Rightarrow> pyval" where
  "dict_with d changes =
     (case d of VDict kvs \<Rightarrow> VDict (foldl (\<lambda>m (k, v). AList.update (KStr k) v m) kvs changes) | _ \<Rightarrow> d)"

definition env_setdefault :: "string \<Rightarrow> string \<Rightarrow> environ \<Rightarrow> environ" where
  "env_setdefault n v env = (case map_of env n of Some _ \<Rightarrow> env | None \<Rightarrow> (n, v) # env)"

text \<open>The dash in one of the messages, in one byte as everywhere in the model.\<close>

definition em_dash :: string where
  "em_dash = [CHR 0x97]"

section \<open>The environments\<close>

definition local_flags :: "environ \<Rightarrow> bindings" where
  "local_flags env =
     [(''DEBUG'', VBool True),
      (''ALLOWED_HOSTS'', strs [''localhost'', ''127.0.0.1'', ''0.0.0.0'']),
      (''CSRF_TRUSTED_ORIGINS'', strs [''http://localhost:8000'', ''http://127.0.0.1:8000'']),
      (''EMAIL_BACKEND'', VStr ''django.core.mail.backends.console.EmailBackend''),
      (''CELERY_BROKER_URL'', VStr (getenv env ''CELERY_BROKER_URL'' [])),
      (''CELERY_RESULT_BACKEND'', VStr (getenv env ''CELERY_RESULT_BACKEND'' ''django-db''))]"

definition local_caches :: "environ \<Rightarrow> bindings" where
  "local_caches env =
     [(''CACHES'',
       str_dict [(''default'',
                  str_dict [(''BACKEND'', VStr ''django_valkey.cache.ValkeyCache''),
                            (''LOCATION'',
                             VStr (getenv env ''VALKEY_CACHE_URL'' ''valkey://valkey:6379/2'')),
                            (''OPTIONS'', VDict [])]),
                 (''rate_limit'',
                  str_dict [(''BACKEND'', VStr ''django_valkey.cache.ValkeyCache''),
                            (''LOCATION'',
                             VStr (getenv env ''VALKEY_RATE_LIMIT_URL'' ''valkey://valkey:6379/3'')),
                            (''OPTIONS'', VDict []),
                            (''KEY_PREFIX'', VStr ''ratelimit''),
                            (''TIMEOUT'', VInt 3600)])])]"

definition local_settings :: "settings_kit \<Rightarrow> environ \<Rightarrow> (exn, environ \<times> bindings) result" where
  "local_settings k env0 =
     rbind (base_settings k env0) (\<lambda>(env, base).
       let ns = star_import base in
       Inr (env, local_flags env @
         [(''REST_FRAMEWORK'',
           dict_with (global_or ns ''REST_FRAMEWORK'' VNone) [(''DEFAULT_THROTTLE_CLASSES'', VList [])])] @
         local_caches env @ ns))"

definition dev_flags :: "environ \<Rightarrow> bindings" where
  "dev_flags env =
     [(''DEBUG'', VBool (getenv env ''DEBUG'' ''False'' = ''True'')),
      (''ALLOWED_HOSTS'', strs (csv (getenv env ''ALLOWED_HOSTS'' []))),
      (''EMAIL_BACKEND'', VStr ''django.core.mail.backends.console.EmailBackend''),
      (''SECURE_PROXY_SSL_HEADER'', VSeq STuple [VStr ''HTTP_X_FORWARDED_PROTO'', VStr ''https''])]"

definition dev_settings :: "settings_kit \<Rightarrow> environ \<Rightarrow> (exn, environ \<times> bindings) result" where
  "dev_settings k env0 =
     rbind (base_settings k env0) (\<lambda>(env, base).
       rbind (require_all
         [(env_set env ''POSTGRES_DB'' \<and> env_set env ''POSTGRES_HOST'',
           ''Database configuration (POSTGRES_DB, POSTGRES_HOST) must be set in dev environment''),
          (csv (getenv env ''ALLOWED_HOSTS'' []) \<noteq> [], ''ALLOWED_HOSTS must be set in dev environment''),
          (env_set env ''JWT_SIGNING_KEY'',
           ''JWT_SIGNING_KEY must be explicitly set in dev environment. '' @
           ''Falling back to SECRET_KEY risks JWT forgery on key rotation.''),
          (env_set env ''FIELD_ENCRYPTION_KEY'',
           ''FIELD_ENCRYPTION_KEY must be explicitly set in dev environment. '' @
           ''Falling back to SECRET_KEY risks data corruption on key rotation.'')]) (\<lambda>_.
       Inr (env, dev_flags env @ star_import base)))"

definition uat_flags :: "environ \<Rightarrow> bindings" where
  "uat_flags env =
     [(''DEBUG'', VBool False),
      (''ALLOWED_HOSTS'', strs (csv (getenv env ''ALLOWED_HOSTS'' []))),
      (''SECURE_SSL_REDIRECT'', VBool True),
      (''SESSION_COOKIE_SECURE'', VBool True),
      (''CSRF_COOKIE_SECURE'', VBool True),
      (''SECURE_HSTS_SECONDS'', VInt 3600),
      (''SECURE_HSTS_INCLUDE_SUBDOMAINS'', VBool True),
      (''SECURE_HSTS_PRELOAD'', VBool True),
      (''SECURE_PROXY_SSL_HEADER'', VSeq STuple [VStr ''HTTP_X_FORWARDED_PROTO'', VStr ''https''])]"

definition uat_caches :: "string \<Rightarrow> environ \<Rightarrow> bindings" where
  "uat_caches valkey_url env =
     [(''CACHES'',
       str_dict [(''default'',
                  str_dict [(''BACKEND'', VStr ''django_valkey.cache.ValkeyCache''),
                            (''LOCATION'', VStr valkey_url),
                            (''OPTIONS'',
                             str_dict [(''max_connections'', VInt 25),
                                       (''retry_on_timeout'', VBool True)]),
                            (''KEY_PREFIX'', VStr ''app''),
                            (''TIMEOUT'', VInt 300)]),
                 (''rate_limit'',
                  str_dict [(''BACKEND'', VStr ''django_valkey.cache.ValkeyCache''),
                            (''LOCATION'', VStr (getenv env ''VALKEY_RATE_LIMIT_URL'' valkey_url)),
                            (''OPTIONS'', str_dict [(''max_connections'', VInt 20)]),
                            (''KEY_PREFIX'', VStr ''ratelimit''),
                            (''TIMEOUT'', VInt 3600)])])]"

definition celery_urls :: "environ \<Rightarrow> int \<Rightarrow> bindings" where
  "celery_urls env n =
     [(''CELERY_BROKER_URL'', env_value env ''CELERY_BROKER_URL''),
      (''CELERY_RESULT_BACKEND'', env_value env ''CELERY_RESULT_BACKEND''),
      (''CELERY_WORKER_CONCURRENCY'', VInt n)]"

definition uat_settings :: "settings_kit \<Rightarrow> environ \<Rightarrow> (exn, environ \<times> bindings) result" where
  "uat_settings k env0 =
     rbind (base_settings k env0) (\<lambda>(env, base).
       let ns = (''_env_int'', VObj ''function'' (Some ''_env_int'')) # star_import base;
           valkey_url = getenv env ''VALKEY_CACHE_URL'' []
       in rbind (require_all
         [(valkey_url \<noteq> [],
           ''VALKEY_CACHE_URL must be set in UAT environment. '' @
           ''Valkey is required for cache, rate limiting, circuit breaker, and Celery broker.'')]) (\<lambda>_.
       rbind (call_env_int ns env ''CELERY_WORKER_CONCURRENCY'' ''2'') (\<lambda>n.
       rbind (require_all
         [(env_set env ''CELERY_BROKER_URL'', ''CELERY_BROKER_URL must be set in UAT environment''),
          (env_set env ''CELERY_RESULT_BACKEND'', ''CELERY_RESULT_BACKEND must be set in UAT environment''),
          (csv (getenv env ''ALLOWED_HOSTS'' []) \<noteq> [], ''ALLOWED_HOSTS must be set in UAT environment''),
          (env_set env ''POSTGRES_DB'' \<and> env_set env ''POSTGRES_HOST'',
           ''Database configuration (POSTGRES_DB, POSTGRES_HOST) must be set in UAT '' @ em_dash @
           '' POSTGRES_HOST should point at the RDS endpoint.''),
          (env_set env ''JWT_SIGNING_KEY'',
           ''JWT_SIGNING_KEY must be explicitly set in UAT. '' @
           ''Falling back to SECRET_KEY risks JWT forgery on key rotation.''),
          (env_set env ''FIELD_ENCRYPTION_KEY'',
           ''FIELD_ENCRYPTION_KEY must be explicitly set in UAT. '' @
           ''Falling back to SECRET_KEY risks data corruption on key rotation.''),
          (\<not> truthy (global_or ns ''CORS_ALLOW_ALL_ORIGINS'' (VBool False)),
           ''CORS_ALLOW_ALL_ORIGINS must not be True in UAT. '' @
           ''Set CORS_ALLOWED_ORIGINS to specific origins (comma-separated).'')]) (\<lambda>_.
       Inr (env, uat_flags env @ (''_valkey_url'', VStr valkey_url) # uat_caches valkey_url env @
         celery_urls env n @ ns)))))"

definition prod_flags :: "environ \<Rightarrow> bindings" where
  "prod_flags env =
     [(''DEBUG'', VBool False),
      (''ALLOWED_HOSTS'', strs (csv (getenv env ''ALLOWED_HOSTS'' []))),
      (''SECURE_SSL_REDIRECT'', VBool True),
      (''SESSION_COOKIE_SECURE'', VBool True),
      (''CSRF_COOKIE_SECURE'', VBool True),
      (''SECURE_HSTS_SECONDS'', VInt 31536000),
      (''SECURE_HSTS_INCLUDE_SUBDOMAINS'', VBool True),
      (''SECURE_HSTS_PRELOAD'', VBool True),
      (''SECURE_PROXY_SSL_HEADER'', VSeq STuple [VStr ''HTTP_X_FORWARDED_PROTO'', VStr ''https''])]"

definition prod_caches :: "string \<Rightarrow> environ \<Rightarrow> bindings" where
  "prod_caches valkey_url env =
     [(''CACHES'',
       str_dict [(''default'',
                  str_dict [(''BACKEND'', VStr ''django_valkey.cache.ValkeyCache''),
                            (''LOCATION'', VStr valkey_url),
                            (''OPTIONS'',
                             str_dict [(''max_connections'', VInt 25),
                                       (''retry_on_timeout'', VBool True)]),
                            (''KEY_PREFIX'', VStr (getenv env ''CACHE_KEY_PREFIX'' ''app'')),
                            (''TIMEOUT'', VInt 300)]),
                 (''rate_limit'',
                  str_dict [(''BACKEND'', VStr ''django_valkey.cache.ValkeyCache''),
                            (''LOCATION'', VStr (getenv env ''VALKEY_RATE_LIMIT_URL'' valkey_url)),
                            (''OPTIONS'', str_dict [(''max_connections'', VInt 20)]),
                            (''KEY_PREFIX'', VStr ''ratelimit''),
                            (''TIMEOUT'', VInt 3600)])])]"

definition prod_settings :: "settings_kit \<Rightarrow> environ \<Rightarrow> (exn, environ \<times> bindings) result" where
  "prod_settings k env0 =
     rbind (base_settings k env0) (\<lambda>(env, base).
       let ns = star_import base;
           valkey_url = getenv env ''VALKEY_CACHE_URL'' []
       in rbind (require_all
         [(valkey_url \<noteq> [],
           ''VALKEY_CACHE_URL must be set in production environment. '' @
           ''Valkey is required for caching, rate limiting, and task management.'')]) (\<lambda>_.
       rbind (call_env_int ns env ''CELERY_WORKER_CONCURRENCY'' ''4'') (\<lambda>n.
       rbind (require_all
         [(env_set env ''CELERY_BROKER_URL'', ''CELERY_BROKER_URL must be set in production environment''),
          (env_set env ''CELERY_RESULT_BACKEND'', ''CELERY_RESULT_BACKEND must be set in production environment''),
          (csv (getenv env ''ALLOWED_HOSTS'' []) \<noteq> [], ''ALLOWED_HOSTS must be set in production environment''),
          (env_set env ''POSTGRES_DB'' \<and> env_set env ''POSTGRES_HOST'',
           ''Database configuration (POSTGRES_DB, POSTGRES_HOST) must be set in production''),
          (env_set env ''POSTGRES_PASSWORD'' \<and> getenv env ''POSTGRES_PASSWORD'' [] \<noteq> ''postgres'',
           ''POSTGRES_PASSWORD must be set to a non-default value in production''),
          (\<not> truthy (global_or ns ''CORS_ALLOW_ALL_ORIGINS'' (VBool False)),
           ''CORS_ALLOW_ALL_ORIGINS must not be True in production. '' @
           ''Set CORS_ALLOWED_ORIGINS to specific origins (comma-separated).''),
          (env_set env ''JWT_SIGNING_KEY'',
           ''JWT_SIGNING_KEY must be explicitly set in production. '' @
           ''Falling back to SECRET_KEY risks JWT forgery on key rotation.''),
          (env_set env ''FIELD_ENCRYPTION_KEY'',
           ''FIELD_ENCRYPTION_KEY must be explicitly set in production. '' @
           ''Falling back to SECRET_KEY risks data corruption on key rotation.'')]) (\<lambda>_.
       Inr (env, prod_flags env @ (''_valkey_url'', VStr valkey_url) # prod_caches valkey_url env @
         celery_urls env n @ (''_db_password'', VStr (getenv env ''POSTGRES_PASSWORD'' [])) # ns)))))"

definition test_flags :: "environ \<Rightarrow> bindings" where
  "test_flags env =
     [(''DEBUG'', VBool False),
      (''ALLOWED_HOSTS'', strs [''testserver'', ''localhost'', ''127.0.0.1'']),
      (''PASSWORD_HASHERS'', strs [''django.contrib.auth.hashers.MD5PasswordHasher'']),
      (''DATABASES'',
       str_dict [(''default'',
                  str_dict [(''ENGINE'', VStr ''django.db.backends.postgresql''),
                            (''NAME'', VStr (getenv env ''POSTGRES_DB'' ''test_app'')),
                            (''USER'', VStr (getenv env ''POSTGRES_USER'' ''postgres'')),
                            (''PASSWORD'', VStr (getenv env ''POSTGRES_PASSWORD'' ''postgres'')),
                            (''HOST'', VStr (getenv env ''POSTGRES_HOST'' ''localhost'')),
                            (''PORT'', VStr (getenv env ''POSTGRES_PORT'' ''5432''))])]),
      (''CACHES'',
       str_dict [(''default'',
                  str_dict [(''BACKEND'', VStr ''django.core.cache.backends.locmem.LocMemCache'')]),
                 (''rate_limit'',
                  str_dict [(''BACKEND'', VStr ''django.core.cache.backends.locmem.LocMemCache'')])]),
      (''CELERY_TASK_ALWAYS_EAGER'', VBool True),
      (''CELERY_TASK_EAGER_PROPAGATES'', VBool True),
      (''CELERY_BROKER_URL'', VStr ''memory://''),
      (''CELERY_RESULT_BACKEND'', VStr ''cache+memory://'')]"

definition test_logging :: "bindings" where
  "test_logging =
     [(''LOGGING'',
       str_dict [(''version'', VInt 1),
                 (''disable_existing_loggers'', VBool True),
                 (''handlers'',
                  str_dict [(''null'', str_dict [(''class'', VStr ''logging.NullHandler'')])]),
                 (''root'', str_dict [(''handlers'', strs [''null'']), (''level'', VStr ''DEBUG'')])]),
      (''CORS_ALLOW_ALL_ORIGINS'', VBool True),
      (''CSRF_TRUSTED_ORIGINS'', strs [''http://testserver'']),
      (''SSRF_BLOCK_PRIVATE_IPS'', VBool False)]"

definition test_environ :: "environ \<Rightarrow> environ" where
  "test_environ env =
     env_setdefault ''RESILIENCE_CRYPTO__FIELD_ENCRYPTION_KEY'' ''MV5jaCu1Qx7tHzr6IkbAaWBNGoRxqQ0F2pmYpPzfvSE=''
       (env_setdefault ''RESILIENCE_CRYPTO__ENVIRONMENT'' ''dev''
         (env_setdefault ''SECRET_KEY'' ''test-secret-key-for-testing-only-not-for-production'' env))"

definition test_settings :: "settings_kit \<Rightarrow> environ \<Rightarrow> (exn, environ \<times> bindings) result" where
  "test_settings k env0 =
     rbind (base_settings k (test_environ env0)) (\<lambda>(env, base).
       let ns = star_import base in
       Inr (env_setdefault ''RESILIENCE_SSRF__BLOCK_PRIVATE_IPS'' ''false'' env,
         test_flags env @
         [(''REST_FRAMEWORK'',
           dict_with (global_or ns ''REST_FRAMEWORK'' VNone)
             [(''DEFAULT_THROTTLE_CLASSES'', VList []),
              (''DEFAULT_PERMISSION_CLASSES'', strs [''rest_framework.permissions.AllowAny''])])] @
         test_logging @ ns))"

section \<open>Starting the application\<close>

text \<open>
  The world at start: the parsed \<open>.env\<close> file of an environment, the session and client constructor, the secret
  store, the JSON parser and \<open>float\<close>.
\<close>

record boot_world =
  dotenv :: "string \<Rightarrow> (string \<times> string) list option"
  secrets_client :: "string \<Rightarrow> exn option"
  get_secret_value :: "string \<Rightarrow> string \<Rightarrow> (exn, string option) result"
  json_loads :: "string \<Rightarrow> (exn, pyval) result"
  py_float :: "string \<Rightarrow> string option"

definition VALID_ENVS :: "string list" where
  "VALID_ENVS = [''local'', ''dev'', ''uat'', ''prod'', ''test'']"

definition select_env :: "environ \<Rightarrow> (exn, string) result" where
  "select_env env =
     (let e = getenv env ''DJANGO_ENV'' [] in
      if e = []
      then Inl (raw_exn PyValueError (''DJANGO_ENV environment variable is not set. '' @
             ''Set it to one of: local, dev, prod, test (e.g. DJANGO_ENV=local).''))
      else if e \<notin> set VALID_ENVS
      then Inl (raw_exn PyValueError (''Invalid DJANGO_ENV='' @ [CHR 0x27] @ e @ [CHR 0x27] @ ''. Expected one of: '' @ py_join '', '' VALID_ENVS))
      else Inr e)"

definition load_secrets_from_aws :: "boot_world \<Rightarrow> string \<Rightarrow> string \<Rightarrow> (exn, pyval) result" where
  "load_secrets_from_aws w secret_name region_name =
     (case secrets_client w region_name of
        Some e \<Rightarrow> Inl e
      | None \<Rightarrow>
          (case get_secret_value w secret_name region_name of
             Inl e \<Rightarrow>
               if isinstance e ClientError
               then Inl (raw_exn PyRuntimeError
                 (''Cannot start application: AWS Secrets Manager is unreachable or secret '' @ [CHR 0x27] @ secret_name @ [CHR 0x27] @
                  '' does not exist. Error: '' @ exc_message e))
               else Inl e
           | Inr (Some s) \<Rightarrow> json_loads w s
           | Inr None \<Rightarrow> Inr (VDict [])))"

text \<open>\<open>if key not in os.environ: os.environ[key] = str(value)\<close> for each entry.\<close>

definition add_secrets :: "pydict \<Rightarrow> environ \<Rightarrow> environ" where
  "add_secrets d env = foldl (\<lambda>e (k, v). env_setdefault (key_str k) (text_of v) e) env d"

definition load_secrets :: "boot_world \<Rightarrow> string \<Rightarrow> environ \<Rightarrow> (exn, environ) result" where
  "load_secrets w e env =
     (let secret_name = getenv env ''AWS_SECRET_NAME'' [] in
      if secret_name = [] then Inr env
      else
        case load_secrets_from_aws w secret_name (getenv env ''AWS_REGION'' ''ap-south-1'') of
          Inr (VDict d) \<Rightarrow> Inr (add_secrets d env)
        | Inr v \<Rightarrow> Inl (raw_exn (OtherException ''AttributeError'') ''no attribute items'')
        | Inl x \<Rightarrow>
            if isinstance x PyRuntimeError then
              (if e = ''prod''
               then Inl (raw_exn PyRuntimeError (''AWS Secrets Manager unavailable in prod (secret='' @
                      repr_str secret_name @ ''): refusing to boot on .env fallback''))
               else Inr env)
            else Inl x)"

definition load_environ :: "boot_world \<Rightarrow> string \<Rightarrow> environ \<Rightarrow> (exn, environ) result" where
  "load_environ w e env =
     (if e = ''test'' then Inr env
      else
        let env1 = (case dotenv w e of
              Some pairs \<Rightarrow> foldl (\<lambda>m (n, v). env_setdefault n v m) env pairs
            | None \<Rightarrow> env)
        in if e = ''dev'' \<or> e = ''prod'' then load_secrets w e env1 else Inr env1)"

definition run_env_module :: "settings_kit \<Rightarrow> string \<Rightarrow> environ \<Rightarrow> (exn, environ \<times> bindings) result" where
  "run_env_module k e env =
     (if e = ''local'' then local_settings k env
      else if e = ''dev'' then dev_settings k env
      else if e = ''uat'' then uat_settings k env
      else if e = ''prod'' then prod_settings k env
      else test_settings k env)"

definition logging_settings :: "environ \<Rightarrow> bindings" where
  "logging_settings env =
     (let cloudwatch = (map_of env ''CLOUDWATCH_ENABLED'' = Some ''TRUE'');
          extra = (if cloudwatch then [''cloudwatch''] else []);
          more = (if cloudwatch
                  then [(''cloudwatch'',
                         str_dict [(''level'', VStr ''INFO''),
                                   (''class'', VStr ''cloudwatch.cloudwatch.CloudwatchHandler''),
                                   (''formatter'', VStr ''json''),
                                   (''log_group'', env_value env ''CLOUDWATCH_LOG_GROUP''),
                                   (''region'', env_value env ''AWS_REGION'')])]
                  else []) in
     [(''LOGGING'',
       str_dict [(''version'', VInt 1),
                 (''disable_existing_loggers'', VBool False),
                 (''filters'',
                  str_dict [(''request_context'',
                             str_dict [(''()'', VStr ''core.utils.logging.RequestContextFilter'')])]),
                 (''formatters'',
                  str_dict [(''json'',
                             str_dict [(''()'', VStr ''pythonjsonlogger.jsonlogger.JsonFormatter''),
                                       (''format'',
                                        VStr ''%(asctime)s %(name)s %(levelname)s %(request_id)s %(message)s'')])]),
                 (''handlers'',
                  str_dict ([(''console'',
                             str_dict [(''level'', VStr ''INFO''),
                                       (''class'', VStr ''logging.StreamHandler''),
                                       (''formatter'', VStr ''json''),
                                       (''filters'', strs [''request_context''])])] @ more)),
                 (''loggers'',
                  str_dict [(''django'',
                             str_dict [(''handlers'', strs (''console'' # extra)),
                                       (''level'', VStr (getenv env ''LOG_LEVEL'' ''INFO'')),
                                       (''propagate'', VBool False)]),
                            (''django.server'',
                             str_dict [(''handlers'', strs [''console'']),
                                       (''level'', VStr ''WARNING''),
                                       (''propagate'', VBool False)]),
                            (''django.request'',
                             str_dict [(''handlers'', strs [''console'']),
                                       (''level'', VStr ''ERROR''),
                                       (''propagate'', VBool False)]),
                            ([],
                             str_dict [(''handlers'', strs (''console'' # extra)),
                                       (''level'', VStr (getenv env ''LOG_LEVEL'' ''INFO''))])])])])"

record sentry_options =
  dsn :: string
  sentry_environment :: string
  sentry_release :: string
  traces_sample_rate :: string

definition sentry_init :: "boot_world \<Rightarrow> string \<Rightarrow> environ \<Rightarrow> sentry_options option" where
  "sentry_init w e env =
     (let d = py_strip (getenv env ''SENTRY_DSN'' []) in
      if prefix ''https://'' d \<or> prefix ''http://'' d
      then Some \<lparr>dsn = d, sentry_environment = e, sentry_release = getenv env ''APP_VERSION'' ''unknown'',
             traces_sample_rate = (case py_float w (getenv env ''SENTRY_TRACES_SAMPLE_RATE'' ''0.1'') of
               Some f \<Rightarrow> f | None \<Rightarrow> ''0.1'')\<rparr>
      else None)"

record booted =
  bt_environ :: environ
  bt_settings :: bindings
  bt_sentry :: "sentry_options option"

text \<open>The logging configuration is assigned after the merge, so it wins over the module's.\<close>

definition boot :: "settings_kit \<Rightarrow> boot_world \<Rightarrow> environ \<Rightarrow> (exn, booted) result" where
  "boot k w env0 =
     rbind (select_env env0) (\<lambda>e.
     rbind (load_environ w e env0) (\<lambda>env1.
     rbind (run_env_module k e env1) (\<lambda>(env, ns).
       Inr \<lparr>bt_environ = env,
            bt_settings = logging_settings env @ (''SETTINGS_MODULE'', VStr (''config.settings.'' @ e)) # star_import ns,
            bt_sentry = sentry_init w e env\<rparr>)))"


section \<open>Names across modules\<close>

lemma star_import_map_of:
  "map_of (star_import bs) n = (if prefix ''_'' n then None else map_of bs n)"
  by (induction bs) (auto simp: star_import_def)

lemma all_bindings_Inr:
  "all_bindings rs = Inr bs \<Longrightarrow> \<exists>bss. rs = map Inr bss \<and> bs = concat bss"
proof (induction rs arbitrary: bs)
  case (Cons r rs)
  then obtain a b where "r = Inr a" "all_bindings rs = Inr b" "bs = a @ b"
    by (auto simp: rbind_def split: sum.splits)
  with Cons.IH [of b] show ?case by (metis concat.simps(2) list.simps(9))
qed simp

text \<open>The binding of a name in the result of a section.\<close>

definition bound :: "(exn, bindings) result \<Rightarrow> string \<Rightarrow> pyval option" where
  "bound r n = (case r of Inr bs \<Rightarrow> map_of bs n | Inl e \<Rightarrow> None)"

fun first_bound :: "(exn, bindings) result list \<Rightarrow> string \<Rightarrow> pyval option" where
  "first_bound [] n = None"
| "first_bound (r # rs) n = (case bound r n of Some v \<Rightarrow> Some v | None \<Rightarrow> first_bound rs n)"

lemma all_bindings_lookup: "all_bindings rs = Inr bs \<Longrightarrow> map_of bs n = first_bound rs n"
proof (induction rs arbitrary: bs)
  case (Cons r rs)
  then obtain a b where "r = Inr a" "all_bindings rs = Inr b" "bs = a @ b"
    by (auto simp: rbind_def split: sum.splits)
  with Cons.IH [of b] show ?case by (simp add: bound_def map_add_def split: option.split)
qed simp

lemma bound_rbind: "bound (rbind r f) n = (case r of Inr x \<Rightarrow> bound (f x) n | Inl e \<Rightarrow> None)"
  by (cases r) (simp_all add: rbind_def bound_def)

lemma bound_Inr: "bound (Inr bs) n = map_of bs n"
  by (simp add: bound_def)


text \<open>The names the results below look up, each bound by one section only.\<close>

definition watched :: "string list" where
  "watched = [''SECRET_KEY'', ''REST_FRAMEWORK'', ''CORS_ALLOW_ALL_ORIGINS'', ''RESILIENCE'', ''SIMPLE_JWT'', ''METRICS_ALLOWED_IPS'']"

text \<open>
  The type of a setting: \<open>TStrs\<close> is a sequence of strings, \<open>TOptStrs\<close> one or \<open>None\<close>, \<open>TSeqOf\<close> a sequence of
  values of one type, \<open>TRec\<close> a dictionary with exactly the given keys, in order, each with its type.
\<close>

datatype setting_type = TBool | TInt | TStr | TStrs | TOptStrs | TDict | TObj | TNone
  | TSeqOf setting_type | TRec "(string \<times> setting_type) list"

type_synonym schema_types = "(string \<times> setting_type) list"

fun has_type :: "pyval \<Rightarrow> setting_type \<Rightarrow> bool"
  and has_fields :: "pydict \<Rightarrow> schema_types \<Rightarrow> bool"
  and has_items :: "pyval list \<Rightarrow> setting_type \<Rightarrow> bool" where
  "has_type (VBool b) t = (t = TBool)"
| "has_type (VInt i) t = (t = TInt)"
| "has_type (VStr s) t = (t = TStr)"
| "has_type VNone t = (t = TNone \<or> t = TOptStrs)"
| "has_type (VObj c x) t = (t = TObj)"
| "has_type (VSeq k xs) t =
     (case t of
        TStrs \<Rightarrow> list_all is_str xs
      | TOptStrs \<Rightarrow> list_all is_str xs
      | TSeqOf t' \<Rightarrow> has_items xs t'
      | _ \<Rightarrow> False)"
| "has_type (VDict d) t = (case t of TDict \<Rightarrow> True | TRec ts \<Rightarrow> has_fields d ts | _ \<Rightarrow> False)"
| "has_type v t = False"
| "has_fields [] ts = (ts = [])"
| "has_fields ((k, v) # d) ts =
     (case ts of [] \<Rightarrow> False | (n, t) # ts' \<Rightarrow> k = KStr n \<and> has_type v t \<and> has_fields d ts')"
| "has_items [] t = True"
| "has_items (x # xs) t = (has_type x t \<and> has_items xs t)"

definition typed :: "bindings \<Rightarrow> schema_types \<Rightarrow> bool" where
  "typed bs sch = list_all2 (\<lambda>(n, v) (m, t). n = m \<and> has_type v t) bs sch"

definition typed_result :: "(exn, bindings) result \<Rightarrow> schema_types \<Rightarrow> bool" where
  "typed_result r sch = (case r of Inr bs \<Rightarrow> typed bs sch | Inl e \<Rightarrow> True)"

lemma strs_typed: "has_type (strs xs) TStrs" "has_type (strs xs) TOptStrs"
  by (simp_all add: strs_def list_all_iff)

lemma str_dict_typed:
  "has_type (str_dict kvs) TDict"
  "has_type (str_dict []) (TRec [])"
  "has_type (str_dict ((k, v) # kvs)) (TRec ((n, t) # ts)) \<longleftrightarrow>
     k = n \<and> has_type v t \<and> has_type (str_dict kvs) (TRec ts)"
  by (auto simp: str_dict_def)

lemma tags_typed: "has_type (tags_value tags) (TSeqOf (TRec [(''name'', TStr), (''description'', TStr)]))"
proof -
  have "has_items (map (\<lambda>(n, d). str_dict [(''name'', VStr n), (''description'', VStr d)]) tags)
      (TRec [(''name'', TStr), (''description'', TStr)])"
    by (induction tags) (auto simp: str_dict_typed)
  then show ?thesis by (simp add: tags_value_def)
qed

lemma typed_Cons: "typed ((n, v) # bs) ((m, t) # sch) \<longleftrightarrow> n = m \<and> has_type v t \<and> typed bs sch"
  and typed_Nil: "typed [] []"
  by (simp_all add: typed_def)

lemma typed_result_Inr: "typed_result (Inr bs) sch = typed bs sch"
  and typed_result_Inl: "typed_result (Inl e) sch"
  by (simp_all add: typed_result_def)

lemma is_str_map: "list_all is_str (map VStr xs)"
  by (simp add: list_all_iff)

lemmas typed_simps = typed_Cons typed_Nil typed_result_Inr typed_result_Inl strs_typed str_dict_typed tags_typed is_str_map

lemma typed_rbind: "(\<And>x. typed_result (f x) sch) \<Longrightarrow> typed_result (rbind r f) sch"
  by (cases r) (simp_all add: typed_simps)

lemma typed_append: "typed bs sch \<Longrightarrow> typed bs' sch' \<Longrightarrow> typed (bs @ bs') (sch @ sch')"
  by (simp add: typed_def list_all2_appendI)

lemma typed_fst: "typed bs sch \<Longrightarrow> map fst bs = map fst sch"
  unfolding typed_def by (induction rule: list_all2_induct) auto

lemma bound_None:
  assumes "typed_result r sch" "n \<notin> set (map fst sch)"
  shows "bound r n = None"
proof (cases r)
  case (Inr bs)
  with assms have "n \<notin> set (map fst bs)" using typed_fst [of bs sch] by (simp add: typed_result_Inr del: set_map)
  with Inr show ?thesis by (simp add: bound_def map_of_eq_None_iff)
qed (simp add: bound_def)

definition import_schema :: schema_types where
  "import_schema =
     [(''os'', TObj), (''re'', TObj), (''timedelta'', TObj), (''Path'', TObj),
      (''ImproperlyConfigured'', TObj), (''Queue'', TObj), (''legacy_env_alias'', TObj), (''_env_int'', TObj),
      (''_env_bool'', TObj)]"

definition core_schema :: schema_types where
  "core_schema =
     [(''BASE_DIR'', TObj), (''SECRET_KEY'', TStr)]"

definition host_schema :: schema_types where
  "host_schema =
     [(''DEBUG'', TBool), (''ALLOWED_HOSTS'', TStrs), (''CSRF_TRUSTED_ORIGINS'', TStrs)]"

definition apps_schema :: schema_types where
  "apps_schema =
     [(''INSTALLED_APPS'', TStrs), (''AUTH_USER_MODEL'', TStr), (''SITE_ID'', TInt), (''MIDDLEWARE'', TStrs),
      (''ROOT_URLCONF'', TStr), (''TEMPLATES'', TSeqOf (TRec [(''BACKEND'', TStr), (''DIRS'', TStrs), (''APP_DIRS'', TBool),
        (''OPTIONS'', TRec [(''context_processors'', TStrs)])])), (''WSGI_APPLICATION'', TStr)]"

definition database_schema :: schema_types where
  "database_schema =
     [(''DATABASES'', TRec [(''default'', TRec [(''ENGINE'', TStr), (''NAME'', TStr), (''USER'', TStr),
        (''PASSWORD'', TStr), (''HOST'', TStr), (''PORT'', TStr), (''CONN_MAX_AGE'', TInt),
        (''CONN_HEALTH_CHECKS'', TBool)])])]"

definition locale_schema :: schema_types where
  "locale_schema =
     [(''AUTH_PASSWORD_VALIDATORS'', TSeqOf (TRec [(''NAME'', TStr)])), (''LANGUAGE_CODE'', TStr), (''TIME_ZONE'', TStr),
      (''USE_I18N'', TBool), (''USE_TZ'', TBool), (''STATIC_URL'', TStr), (''STATIC_ROOT'', TObj),
      (''STORAGES'', TRec [(''staticfiles'', TRec [(''BACKEND'', TStr)])]), (''DEFAULT_AUTO_FIELD'', TStr), (''SESSION_ENGINE'', TStr),
      (''SESSION_CACHE_ALIAS'', TStr)]"

definition rest_schema :: schema_types where
  "rest_schema =
     [(''AUTH_ENABLED_PROVIDERS'', TStrs), (''REST_FRAMEWORK'', TRec [(''DEFAULT_SCHEMA_CLASS'', TStr), (''DEFAULT_PAGINATION_CLASS'', TStr),
        (''PAGE_SIZE'', TInt), (''DEFAULT_RENDERER_CLASSES'', TStrs), (''DEFAULT_PARSER_CLASSES'', TStrs),
        (''DEFAULT_AUTHENTICATION_CLASSES'', TStrs), (''DEFAULT_PERMISSION_CLASSES'', TStrs),
        (''EXCEPTION_HANDLER'', TStr), (''DEFAULT_THROTTLE_CLASSES'', TStrs),
        (''DEFAULT_THROTTLE_RATES'', TRec [(''auth'', TStr), (''auth_burst'', TStr)]), (''NUM_PROXIES'', TInt)])]"

definition spectacular_schema :: schema_types where
  "spectacular_schema =
     [(''API_DESCRIPTION'', TStr), (''TAGS_METADATA'', TSeqOf (TRec [(''name'', TStr), (''description'', TStr)])),
      (''SPECTACULAR_SETTINGS'', TRec [(''TITLE'', TStr), (''DESCRIPTION'', TStr), (''VERSION'', TStr),
        (''SERVE_INCLUDE_SCHEMA'', TBool), (''COMPONENT_SPLIT_REQUEST'', TBool), (''SCHEMA_PATH_PREFIX'', TStr),
        (''SECURITY'', TSeqOf TDict), (''TAGS'', TSeqOf (TRec [(''name'', TStr), (''description'', TStr)]))])]"

definition cache_schema :: schema_types where
  "cache_schema =
     [(''_cors_excluded'', TStr), (''CORS_EXCLUDED_PREFIXES'', TStrs), (''_valkey_cache_url'', TStr),
      (''_valkey_rate_limit_url'', TStr), (''CACHES'', TRec
        [(''default'', TRec [(''BACKEND'', TStr), (''LOCATION'', TStr), (''OPTIONS'', TRec [])]),
         (''rate_limit'', TRec [(''BACKEND'', TStr), (''LOCATION'', TStr), (''OPTIONS'', TRec []),
            (''KEY_PREFIX'', TStr), (''TIMEOUT'', TInt)])]), (''USE_X_FORWARDED_FOR'', TBool),
      (''SSRF_BLOCK_PRIVATE_IPS'', TBool)]"

definition unfold_schema :: schema_types where
  "unfold_schema =
     [(''UNFOLD'', TRec [(''SITE_TITLE'', TStr), (''SITE_HEADER'', TStr), (''SHOW_HISTORY'', TBool),
        (''SHOW_VIEW_ON_SITE'', TBool),
        (''SIDEBAR'', TRec [(''show_search'', TBool), (''show_all_applications'', TBool),
           (''navigation'', TSeqOf (TRec [(''title'', TStr),
              (''items'', TSeqOf (TRec [(''title'', TStr), (''icon'', TStr), (''link'', TStr)]))]))])])]"

definition celery_schema :: schema_types where
  "celery_schema =
     [(''CELERY_BROKER_URL'', TStr), (''CELERY_RESULT_BACKEND'', TStr),
      (''CELERY_BROKER_CONNECTION_RETRY_ON_STARTUP'', TBool), (''CELERY_ACCEPT_CONTENT'', TStrs),
      (''CELERY_TASK_SERIALIZER'', TStr), (''CELERY_RESULT_SERIALIZER'', TStr),
      (''CELERY_RESULT_EXPIRES'', TInt), (''CELERY_TIMEZONE'', TStr), (''CELERY_TASK_TRACK_STARTED'', TBool),
      (''CELERY_TASK_TIME_LIMIT'', TInt), (''CELERY_TASK_SOFT_TIME_LIMIT'', TInt),
      (''CELERY_TASK_ACKS_LATE'', TBool), (''CELERY_TASK_REJECT_ON_WORKER_LOST'', TBool),
      (''CELERY_WORKER_PREFETCH_MULTIPLIER'', TInt), (''CELERY_WORKER_POOL'', TStr),
      (''CELERY_WORKER_CONCURRENCY'', TInt), (''CELERY_WORKER_SEND_TASK_EVENTS'', TBool),
      (''CELERY_TASK_SEND_SENT_EVENT'', TBool), (''CELERY_BEAT_SCHEDULER'', TStr),
      (''CELERY_TASK_QUEUES'', TSeqOf TObj), (''CELERY_TASK_DEFAULT_QUEUE'', TStr),
      (''CELERY_TASK_DEFAULT_ROUTING_KEY'', TStr), (''CELERY_TASK_ROUTES'', TRec [])]"

definition log_schema :: schema_types where
  "log_schema =
     [(''_BASE_MASK_PATTERN'', TStr), (''_user_mask_pattern'', TStr), (''_combined_pattern'', TStr),
      (''_sensitive_pattern'', TObj), (''LOG_SANITIZATION'', TRec [(''SANITIZE_ENABLED'', TBool), (''MAX_STRING_LENGTH'', TInt),
        (''MAX_DICT_KEYS'', TInt), (''MAX_LIST_ITEMS'', TInt), (''SENSITIVE_PATTERN'', TObj), (''MASK_VALUE'', TStr),
        (''EXCLUDED_FIELDS'', TStrs)])]"

definition resilience_schema :: schema_types where
  "resilience_schema =
     [(''RESILIENCE'', TRec [(''backend'', TStr), (''redis_url'', TStr), (''redis_key_prefix'', TStr),
        (''fail_open'', TBool),
        (''defaults'', TRec
          [(''circuit_breaker'', TRec [(''fail_max'', TInt), (''reset_timeout'', TInt)]),
           (''retry'', TRec [(''max_attempts'', TInt), (''wait_min'', TInt), (''wait_max'', TInt), (''retry_on'', TStrs)]),
           (''throttle'', TRec [(''anon_rate'', TStr), (''user_rate'', TStr), (''admin_rate'', TStr),
              (''burst_rate'', TStr), (''global_rate'', TStr), (''auth_rate'', TStr)])]),
        (''ssrf'', TRec [(''block_private_ips'', TBool), (''outbound_allowlist'', TStrs)]),
        (''crypto'', TRec [(''field_encryption_key'', TStr)]),
        (''audit'', TRec [(''sink'', TStr), (''redact_fields'', TStrs)]),
        (''rate_limit_headers'', TRec [(''enabled'', TBool)])])]"

definition accounts_schema :: schema_types where
  "accounts_schema =
     [(''AUTHENTICATION_BACKENDS'', TStrs), (''ACCOUNT_LOGIN_METHODS'', TStrs),
      (''ACCOUNT_SIGNUP_FIELDS'', TStrs), (''ACCOUNT_EMAIL_VERIFICATION'', TStr),
      (''ACCOUNT_UNIQUE_EMAIL'', TBool), (''SOCIALACCOUNT_AUTO_SIGNUP'', TBool),
      (''SOCIALACCOUNT_EMAIL_VERIFICATION'', TStr), (''SOCIALACCOUNT_PROVIDERS'', TRec [(''google'', TRec
        [(''SCOPE'', TStrs), (''AUTH_PARAMS'', TRec [(''access_type'', TStr)]),
         (''APP'', TRec [(''client_id'', TStr), (''secret'', TStr)]), (''VERIFIED_EMAIL'', TBool)])]),
      (''ACCOUNT_ADAPTER'', TStr), (''SOCIALACCOUNT_ADAPTER'', TStr), (''_redirect_uris'', TStr),
      (''GOOGLE_OAUTH_ALLOWED_REDIRECT_URIS'', TStrs), (''REST_AUTH'', TRec [(''USE_JWT'', TBool), (''TOKEN_MODEL'', TNone), (''JWT_AUTH_COOKIE'', TStr),
        (''JWT_AUTH_REFRESH_COOKIE'', TStr), (''JWT_AUTH_HTTPONLY'', TBool), (''JWT_AUTH_SAMESITE'', TStr),
        (''JWT_AUTH_RETURN_EXPIRATION'', TBool), (''JWT_AUTH_SECURE'', TBool), (''USER_DETAILS_SERIALIZER'', TStr),
        (''JWT_SERIALIZER'', TStr)])]"

definition jwt_schema :: schema_types where
  "jwt_schema =
     [(''SIMPLE_JWT'', TRec [(''ACCESS_TOKEN_LIFETIME'', TObj), (''REFRESH_TOKEN_LIFETIME'', TObj),
        (''ROTATE_REFRESH_TOKENS'', TBool), (''BLACKLIST_AFTER_ROTATION'', TBool), (''UPDATE_LAST_LOGIN'', TBool),
        (''ALGORITHM'', TStr), (''SIGNING_KEY'', TStr), (''AUTH_HEADER_TYPES'', TStrs), (''USER_ID_FIELD'', TStr),
        (''USER_ID_CLAIM'', TStr)]), (''AWS_REGION'', TStr), (''SES_SENDER_EMAIL'', TStr), (''SES_REGION'', TStr)]"

definition limits_schema :: schema_types where
  "limits_schema =
     [(''ASSET_S3_BUCKET'', TStr), (''ASSET_S3_KEY_PREFIX'', TStr), (''ASSET_MAX_BYTES'', TInt),
      (''_asset_mime_csv'', TStr), (''ASSET_ALLOWED_MIME_TYPES'', TOptStrs), (''METRICS_ENABLED'', TBool),
      (''SECURITY_HEADERS_ENABLED'', TBool), (''MAX_REQUEST_BODY_BYTES'', TInt), (''API_LOG_BACKEND'', TStr),
      (''API_LOG_QUEUE_MAX_IN_FLIGHT'', TInt), (''API_LOG_QUEUE_WORKERS'', TInt),
      (''API_LOG_MAX_BODY_LEN'', TInt), (''API_LOG_TTL_DAYS'', TInt), (''API_LOG_SENSITIVE_HEADERS'', TStrs),
      (''_metrics_ips'', TStr), (''METRICS_ALLOWED_IPS'', TStrs)]"

definition headers_schema :: schema_types where
  "headers_schema =
     [(''SECURE_REFERRER_POLICY'', TStr), (''X_FRAME_OPTIONS'', TStr),
      (''SECURE_CONTENT_TYPE_NOSNIFF'', TBool), (''SECURE_BROWSER_XSS_FILTER'', TBool),
      (''_outbound_allow'', TStr), (''OUTBOUND_URL_ALLOWLIST'', TStrs), (''_sentinel_hosts'', TStr),
      (''VALKEY_SENTINEL_HOSTS'', TStrs), (''VALKEY_SENTINEL_MASTER_NAME'', TStr)]"

lemma import_typed: "typed_result (Inr import_section) import_schema"
  by (simp add: import_section_def import_schema_def typed_simps)

lemma core_typed: "typed_result (core_section bd env) core_schema"
  by (auto simp: core_section_def core_schema_def typed_simps env_set_def env_value_def getenv_def split: option.splits)

lemma host_typed: "typed_result (Inr (host_section env)) host_schema"
  by (simp add: host_section_def host_schema_def typed_simps)

lemma apps_typed: "typed_result (Inr apps_section) apps_schema"
  by (simp add: apps_section_def apps_schema_def typed_simps)

lemma database_typed: "typed_result (database_section env) database_schema"
  unfolding database_section_def database_schema_def by (intro typed_rbind) (simp add: typed_simps)

lemma locale_typed: "typed_result (Inr (locale_section bd)) locale_schema"
  by (simp add: locale_section_def locale_schema_def typed_simps)

lemma rest_typed: "typed_result (rest_section env) rest_schema"
  unfolding rest_section_def rest_schema_def by (intro typed_rbind) (simp add: typed_simps)

lemma spectacular_typed: "typed_result (Inr (spectacular_section a t)) spectacular_schema"
  by (simp add: spectacular_section_def spectacular_schema_def typed_simps)

lemma cache_typed: "typed_result (Inr (cache_section env)) cache_schema"
  by (simp add: cache_section_def cache_schema_def typed_simps)

lemma unfold_typed: "typed_result (Inr unfold_section) unfold_schema"
  by (simp add: unfold_section_def unfold_schema_def typed_simps)

lemma celery_typed: "typed_result (celery_section env) celery_schema"
  unfolding celery_section_def celery_schema_def by (intro typed_rbind) (simp add: typed_simps)

lemma log_typed: "typed_result (log_section re env) log_schema"
  unfolding log_section_def log_schema_def
  by (cases "re (combined_pattern env)") (auto intro!: typed_rbind simp: typed_simps)

lemma resilience_typed: "typed_result (resilience_section env) resilience_schema"
  unfolding resilience_section_def resilience_schema_def by (intro typed_rbind) (simp add: typed_simps)

lemma accounts_typed: "typed_result (Inr (accounts_section env)) accounts_schema"
  by (simp add: accounts_section_def accounts_schema_def typed_simps)

lemma jwt_typed: "typed_result (Inr (jwt_section env)) jwt_schema"
  by (simp add: jwt_section_def jwt_schema_def typed_simps)

lemma limits_typed: "typed_result (limits_section env) limits_schema"
  unfolding limits_section_def limits_schema_def by (intro typed_rbind) (simp add: typed_simps)

lemma headers_typed: "typed_result (Inr (headers_section env)) headers_schema"
  by (simp add: headers_section_def headers_schema_def typed_simps)

lemmas section_typed = import_typed core_typed host_typed apps_typed database_typed locale_typed rest_typed
  spectacular_typed cache_typed unfold_typed celery_typed log_typed resilience_typed accounts_typed jwt_typed
  limits_typed headers_typed

lemma unwatched_names:
  "list_all (\<lambda>n. list_all (\<lambda>sch. n \<notin> set (map fst sch))
     [import_schema, host_schema, apps_schema, database_schema, locale_schema, spectacular_schema,
      cache_schema, unfold_schema, celery_schema, log_schema, accounts_schema, headers_schema]) watched"
  by code_simp

lemma own_names:
  "list_all (\<lambda>n. n = ''SECRET_KEY'' \<or> n \<notin> set (map fst core_schema)) watched"
  "list_all (\<lambda>n. n = ''REST_FRAMEWORK'' \<or> n \<notin> set (map fst rest_schema)) watched"
  "list_all (\<lambda>n. n = ''RESILIENCE'' \<or> n \<notin> set (map fst resilience_schema)) watched"
  "list_all (\<lambda>n. n = ''SIMPLE_JWT'' \<or> n \<notin> set (map fst jwt_schema)) watched"
  "list_all (\<lambda>n. n = ''METRICS_ALLOWED_IPS'' \<or> n \<notin> set (map fst limits_schema)) watched"
  by code_simp+


lemmas section_unbound = section_typed [THEN bound_None]

lemma watched_unbound:
  assumes "n \<in> set watched"
  shows "bound (Inr import_section) n = None" "bound (Inr (host_section env)) n = None" "bound (Inr apps_section) n = None"
    "bound (database_section env) n = None" "bound (Inr (locale_section bd)) n = None"
    "bound (Inr (spectacular_section a t)) n = None" "bound (Inr (cache_section env)) n = None"
    "bound (Inr unfold_section) n = None" "bound (celery_section env) n = None" "bound (log_section re env) n = None"
    "bound (Inr (accounts_section env)) n = None" "bound (Inr (headers_section env)) n = None"
  using unwatched_names assms by (simp_all add: section_unbound list_all_iff)

text \<open>What is left of the lookup of a watched name.\<close>

lemma base_lookup:
  assumes "n \<in> set watched" "base_settings k env0 = Inr (env, bs)"
  shows "map_of bs n = first_bound [core_section (base_dir k) env, rest_section env, Inr (cors_section env),
      resilience_section env, Inr (jwt_section env), limits_section env] n"
proof -
  have "all_bindings (base_sections k env) = Inr bs"
    using assms(2) by (auto simp: base_settings_def Let_def rbind_def split: sum.splits)
  from all_bindings_lookup [OF this] show ?thesis by (simp add: base_sections_def watched_unbound [OF assms(1)] cong: option.case_cong)
qed

definition cors_schema :: "bool \<Rightarrow> schema_types" where
  "cors_schema wildcard = (''_cors_origins'', TStr) #
     (if wildcard then [(''CORS_ALLOW_ALL_ORIGINS'', TBool), (''CORS_ALLOW_CREDENTIALS'', TBool)]
      else [(''CORS_ALLOWED_ORIGINS'', TStrs), (''CORS_ALLOW_CREDENTIALS'', TBool)])"

lemma cors_typed: "typed_result (Inr (cors_section env)) (cors_schema (py_strip (cors_origins env) = ''*''))"
  by (simp add: cors_section_def cors_schema_def typed_simps)

lemma cors_names:
  "list_all (\<lambda>n. n = ''CORS_ALLOW_ALL_ORIGINS'' \<or> n \<notin> set (map fst (cors_schema True))) watched"
  "list_all (\<lambda>n. n = ''CORS_ALLOW_ALL_ORIGINS'' \<or> n \<notin> set (map fst (cors_schema False))) watched"
  by code_simp+

lemma own_unbound:
  assumes "n \<in> set watched"
  shows "n \<noteq> ''SECRET_KEY'' \<Longrightarrow> bound (core_section bd env) n = None"
    "n \<noteq> ''REST_FRAMEWORK'' \<Longrightarrow> bound (rest_section env) n = None"
    "n \<noteq> ''RESILIENCE'' \<Longrightarrow> bound (resilience_section env) n = None"
    "n \<noteq> ''SIMPLE_JWT'' \<Longrightarrow> bound (Inr (jwt_section env)) n = None"
    "n \<noteq> ''METRICS_ALLOWED_IPS'' \<Longrightarrow> bound (limits_section env) n = None"
    "n \<noteq> ''CORS_ALLOW_ALL_ORIGINS'' \<Longrightarrow> bound (Inr (cors_section env)) n = None"
proof -
  assume "n \<noteq> ''CORS_ALLOW_ALL_ORIGINS''"
  moreover have "list_all (\<lambda>n. n = ''CORS_ALLOW_ALL_ORIGINS'' \<or> n \<notin> set (map fst (cors_schema w))) watched" for w
    using cors_names by (cases w) (simp_all only:)
  ultimately show "bound (Inr (cors_section env)) n = None"
    using assms by (intro bound_None [OF cors_typed]) (auto simp: list_all_iff)
qed (use own_names assms in \<open>auto simp: list_all_iff section_unbound\<close>)

text \<open>A watched name has the binding of its own section.\<close>

lemma base_bindings:
  assumes "base_settings k env0 = Inr (env, bs)"
  shows "map_of bs ''CORS_ALLOW_ALL_ORIGINS'' = (if py_strip (cors_origins env) = ''*'' then Some (VBool True) else None)"
    "map_of bs ''SIMPLE_JWT'' = bound (Inr (jwt_section env)) ''SIMPLE_JWT''"
    "map_of bs ''RESILIENCE'' = bound (resilience_section env) ''RESILIENCE''"
    "map_of bs ''METRICS_ALLOWED_IPS'' = bound (limits_section env) ''METRICS_ALLOWED_IPS''"
    "map_of bs ''REST_FRAMEWORK'' = bound (rest_section env) ''REST_FRAMEWORK''"
    "map_of bs ''SECRET_KEY'' = bound (core_section (base_dir k) env) ''SECRET_KEY''"
proof -
  have w: "''CORS_ALLOW_ALL_ORIGINS'' \<in> set watched" "''SIMPLE_JWT'' \<in> set watched" "''RESILIENCE'' \<in> set watched"
    "''METRICS_ALLOWED_IPS'' \<in> set watched" "''REST_FRAMEWORK'' \<in> set watched" "''SECRET_KEY'' \<in> set watched"
    by code_simp+
  have "bound (Inr (cors_section env)) ''CORS_ALLOW_ALL_ORIGINS'' =
      (if py_strip (cors_origins env) = ''*'' then Some (VBool True) else None)" by (simp add: bound_Inr cors_section_def)
  then show "map_of bs ''CORS_ALLOW_ALL_ORIGINS'' = (if py_strip (cors_origins env) = ''*'' then Some (VBool True) else None)"
    using base_lookup [OF w(1) assms] by (simp add: own_unbound [OF w(1)])
  show "map_of bs ''SIMPLE_JWT'' = bound (Inr (jwt_section env)) ''SIMPLE_JWT''"
    using base_lookup [OF w(2) assms] by (simp add: own_unbound [OF w(2)] split: option.split)
  show "map_of bs ''RESILIENCE'' = bound (resilience_section env) ''RESILIENCE''"
    using base_lookup [OF w(3) assms] by (simp add: own_unbound [OF w(3)] split: option.split)
  show "map_of bs ''METRICS_ALLOWED_IPS'' = bound (limits_section env) ''METRICS_ALLOWED_IPS''"
    using base_lookup [OF w(4) assms] by (simp add: own_unbound [OF w(4)] split: option.split)
  show "map_of bs ''REST_FRAMEWORK'' = bound (rest_section env) ''REST_FRAMEWORK''"
    using base_lookup [OF w(5) assms] by (simp add: own_unbound [OF w(5)] split: option.split)
  show "map_of bs ''SECRET_KEY'' = bound (core_section (base_dir k) env) ''SECRET_KEY''"
    using base_lookup [OF w(6) assms] by (simp add: own_unbound [OF w(6)] split: option.split)
qed

section \<open>The type of every setting\<close>

definition base_schema :: "bool \<Rightarrow> schema_types" where
  "base_schema wildcard =
     import_schema @ core_schema @ host_schema @ apps_schema @ database_schema @ locale_schema @ rest_schema @
     spectacular_schema @ cors_schema wildcard @ cache_schema @ unfold_schema @ celery_schema @ log_schema @
     resilience_schema @ accounts_schema @ jwt_schema @ limits_schema @ headers_schema"

lemma all_bindings_typed:
  "list_all2 typed_result rs schs \<Longrightarrow> all_bindings rs = Inr bs \<Longrightarrow> typed bs (concat schs)"
proof (induction rs schs arbitrary: bs rule: list_all2_induct)
  case (Cons r rs sch schs)
  then obtain a b where "r = Inr a" "all_bindings rs = Inr b" "bs = a @ b" by (auto simp: rbind_Inr_iff)
  with Cons show ?case by (auto simp: typed_result_Inr intro: typed_append)
qed (simp add: typed_Nil)

lemma base_sections_typed:
  assumes "base_settings k env0 = Inr (env, bs)"
  shows "typed bs (base_schema (py_strip (cors_origins env) = ''*''))"
proof -
  from assms have bs: "all_bindings (base_sections k env) = Inr bs" by (auto simp: base_settings_def Let_def rbind_Inr_iff)
  have "list_all2 typed_result (base_sections k env)
      [import_schema, core_schema, host_schema, apps_schema, database_schema, locale_schema, rest_schema, spectacular_schema,
       cors_schema (py_strip (cors_origins env) = ''*''), cache_schema, unfold_schema, celery_schema, log_schema, resilience_schema,
       accounts_schema, jwt_schema, limits_schema, headers_schema]"
    unfolding base_sections_def by (simp only: list_all2_Cons list.rel_inject section_typed cors_typed simp_thms)
  from all_bindings_typed [OF this bs] show ?thesis by (simp add: base_schema_def)
qed

section \<open>When the base module loads\<close>

text \<open>The variables it parses, with their defaults.\<close>

definition int_variables :: "(string \<times> string) list" where
  "int_variables =
     [(''DB_CONN_MAX_AGE'', ''600''), (''NUM_PROXIES'', ''0''), (''CELERY_TASK_TIME_LIMIT'', ''1800''),
      (''CELERY_TASK_SOFT_TIME_LIMIT'', ''1500''), (''CELERY_WORKER_PREFETCH_MULTIPLIER'', ''1''),
      (''CELERY_WORKER_CONCURRENCY'', ''4''), (''LOG_MAX_STRING_LENGTH'', ''200''), (''LOG_MAX_DICT_KEYS'', ''20''),
      (''LOG_MAX_LIST_ITEMS'', ''10''), (''RESILIENCE_CB_FAIL_MAX'', ''5''), (''RESILIENCE_CB_RESET_TIMEOUT'', ''30''),
      (''RESILIENCE_RETRY_MAX_ATTEMPTS'', ''3''), (''RESILIENCE_RETRY_WAIT_MIN'', ''1''),
      (''RESILIENCE_RETRY_WAIT_MAX'', ''10''), (''ASSET_MAX_BYTES'', ''26214400''),
      (''MAX_REQUEST_BODY_BYTES'', ''2097152''), (''API_LOG_QUEUE_MAX_IN_FLIGHT'', ''1000''),
      (''API_LOG_QUEUE_WORKERS'', ''4''), (''API_LOG_MAX_BODY_LEN'', ''4096''), (''API_LOG_TTL_DAYS'', ''0'')]"

definition bool_variables :: "(string \<times> string) list" where
  "bool_variables = [(''CELERY_SEND_EVENTS'', ''true''), (''SECURITY_HEADERS_ENABLED'', ''true'')]"

definition bool_words :: "string list" where
  "bool_words = [''true'', ''1'', ''yes'', ''on'', ''false'', ''0'', ''no'', ''off'', []]"

definition int_ok :: "environ \<Rightarrow> string \<times> string \<Rightarrow> bool" where
  "int_ok env v \<longleftrightarrow> py_int (getenv env (fst v) (snd v)) \<noteq> None"

definition bool_ok :: "environ \<Rightarrow> string \<times> string \<Rightarrow> bool" where
  "bool_ok env v \<longleftrightarrow> py_lower (py_strip (getenv env (fst v) (snd v))) \<in> set bool_words"

definition base_ok :: "settings_kit \<Rightarrow> environ \<Rightarrow> bool" where
  "base_ok k env \<longleftrightarrow> env_set env ''SECRET_KEY'' \<and> re_error k (combined_pattern env) = None \<and>
     list_all (int_ok env) int_variables \<and> list_all (bool_ok env) bool_variables"

lemma rbind_isr: "\<not> isl (rbind r f) \<longleftrightarrow> (\<exists>x. r = Inr x \<and> \<not> isl (f x))"
  by (cases r) (simp_all add: rbind_def)

lemma all_bindings_isr: "\<not> isl (all_bindings rs) \<longleftrightarrow> list_all (\<lambda>r. \<not> isl r) rs"
  by (induction rs) (auto simp: rbind_def split: sum.splits)

lemma env_int_isr: "(\<exists>x. env_int env n d = Inr x) \<longleftrightarrow> int_ok env (n, d)"
  by (simp add: env_int_def int_ok_def split: option.split)

lemma env_bool_isr: "(\<exists>x. env_bool env n d = Inr x) \<longleftrightarrow> bool_ok env (n, d)"
  by (auto simp: env_bool_def Let_def bool_words_def bool_ok_def)

lemmas isr_simps = rbind_isr env_int_isr env_bool_isr ex_simps sum.disc not_False_eq_True simp_thms

lemma database_isr:
  "\<not> isl (database_section env) \<longleftrightarrow> int_ok env (''DB_CONN_MAX_AGE'', ''600'')"
  unfolding database_section_def by (auto simp only: isr_simps)

lemma rest_isr:
  "\<not> isl (rest_section env) \<longleftrightarrow> int_ok env (''NUM_PROXIES'', ''0'')"
  unfolding rest_section_def by (auto simp only: isr_simps)

lemma celery_isr:
  "\<not> isl (celery_section env) \<longleftrightarrow> int_ok env (''CELERY_TASK_TIME_LIMIT'', ''1800'') \<and>
     int_ok env (''CELERY_TASK_SOFT_TIME_LIMIT'', ''1500'') \<and>
     int_ok env (''CELERY_WORKER_PREFETCH_MULTIPLIER'', ''1'') \<and>
     int_ok env (''CELERY_WORKER_CONCURRENCY'', ''4'') \<and>
     bool_ok env (''CELERY_SEND_EVENTS'', ''true'')"
  unfolding celery_section_def by (auto simp only: isr_simps)

lemma log_isr:
  "\<not> isl (log_section re env) \<longleftrightarrow> re (combined_pattern env) = None \<and>
     int_ok env (''LOG_MAX_STRING_LENGTH'', ''200'') \<and>
     int_ok env (''LOG_MAX_DICT_KEYS'', ''20'') \<and>
     int_ok env (''LOG_MAX_LIST_ITEMS'', ''10'')"
  unfolding log_section_def by (cases "re (combined_pattern env)") (simp_all only: isr_simps option.case option.distinct)

lemma resilience_isr:
  "\<not> isl (resilience_section env) \<longleftrightarrow> int_ok env (''RESILIENCE_CB_FAIL_MAX'', ''5'') \<and>
     int_ok env (''RESILIENCE_CB_RESET_TIMEOUT'', ''30'') \<and>
     int_ok env (''RESILIENCE_RETRY_MAX_ATTEMPTS'', ''3'') \<and>
     int_ok env (''RESILIENCE_RETRY_WAIT_MIN'', ''1'') \<and>
     int_ok env (''RESILIENCE_RETRY_WAIT_MAX'', ''10'')"
  unfolding resilience_section_def by (auto simp only: isr_simps)

lemma limits_isr:
  "\<not> isl (limits_section env) \<longleftrightarrow> int_ok env (''ASSET_MAX_BYTES'', ''26214400'') \<and>
     int_ok env (''MAX_REQUEST_BODY_BYTES'', ''2097152'') \<and>
     int_ok env (''API_LOG_QUEUE_MAX_IN_FLIGHT'', ''1000'') \<and>
     int_ok env (''API_LOG_QUEUE_WORKERS'', ''4'') \<and>
     int_ok env (''API_LOG_MAX_BODY_LEN'', ''4096'') \<and>
     int_ok env (''API_LOG_TTL_DAYS'', ''0'') \<and>
     bool_ok env (''SECURITY_HEADERS_ENABLED'', ''true'')"
  unfolding limits_section_def by (auto simp only: isr_simps)

lemma core_isr: "\<not> isl (core_section bd env) \<longleftrightarrow> env_set env ''SECRET_KEY''"
  by (simp add: core_section_def)

lemma sections_isr: "\<not> isl (all_bindings (base_sections k env)) \<longleftrightarrow> base_ok k env"
  unfolding all_bindings_isr base_sections_def base_ok_def int_variables_def bool_variables_def list.pred_inject
  by (auto simp only: core_isr database_isr rest_isr celery_isr log_isr resilience_isr limits_isr sum.disc simp_thms list.pred_inject)

lemma base_loads_iff:
  "(\<exists>bs. base_settings k env0 = Inr (env, bs)) \<longleftrightarrow> env = legacy_env_alias k env0 \<and> base_ok k env"
  unfolding base_settings_def Let_def sections_isr [symmetric]
  by (cases "all_bindings (base_sections k (legacy_env_alias k env0))") (auto simp: rbind_def)

section \<open>Where the parsed variables go\<close>

fun value_at :: "pyval \<Rightarrow> string list \<Rightarrow> pyval option" where
  "value_at v [] = Some v"
| "value_at (VDict d) (key # path) = (case dget d key of Some v \<Rightarrow> value_at v path | None \<Rightarrow> None)"
| "value_at v (key # path) = None"

definition setting_at :: "bindings \<Rightarrow> string \<Rightarrow> string list \<Rightarrow> pyval option" where
  "setting_at bs name path = (case map_of bs name of Some v \<Rightarrow> value_at v path | None \<Rightarrow> None)"

text \<open>The environment variable, its default, and the setting (with the path inside it) that holds it.\<close>

type_synonym placement = "string \<times> string \<times> string \<times> string list"

definition database_ints :: "placement list" where
  "database_ints = [(''DB_CONN_MAX_AGE'', ''600'', ''DATABASES'', [''default'', ''CONN_MAX_AGE''])]"

definition rest_ints :: "placement list" where
  "rest_ints = [(''NUM_PROXIES'', ''0'', ''REST_FRAMEWORK'', [''NUM_PROXIES''])]"

definition celery_ints :: "placement list" where
  "celery_ints =
     [(''CELERY_TASK_TIME_LIMIT'', ''1800'', ''CELERY_TASK_TIME_LIMIT'', []),
      (''CELERY_TASK_SOFT_TIME_LIMIT'', ''1500'', ''CELERY_TASK_SOFT_TIME_LIMIT'', []),
      (''CELERY_WORKER_PREFETCH_MULTIPLIER'', ''1'', ''CELERY_WORKER_PREFETCH_MULTIPLIER'', []),
      (''CELERY_WORKER_CONCURRENCY'', ''4'', ''CELERY_WORKER_CONCURRENCY'', [])]"

definition celery_bools :: "placement list" where
  "celery_bools =
     [(''CELERY_SEND_EVENTS'', ''true'', ''CELERY_WORKER_SEND_TASK_EVENTS'', []),
      (''CELERY_SEND_EVENTS'', ''true'', ''CELERY_TASK_SEND_SENT_EVENT'', [])]"

definition log_ints :: "placement list" where
  "log_ints =
     [(''LOG_MAX_STRING_LENGTH'', ''200'', ''LOG_SANITIZATION'', [''MAX_STRING_LENGTH'']),
      (''LOG_MAX_DICT_KEYS'', ''20'', ''LOG_SANITIZATION'', [''MAX_DICT_KEYS'']),
      (''LOG_MAX_LIST_ITEMS'', ''10'', ''LOG_SANITIZATION'', [''MAX_LIST_ITEMS''])]"

definition resilience_ints :: "placement list" where
  "resilience_ints =
     [(''RESILIENCE_CB_FAIL_MAX'', ''5'', ''RESILIENCE'', [''defaults'', ''circuit_breaker'', ''fail_max'']),
      (''RESILIENCE_CB_RESET_TIMEOUT'', ''30'', ''RESILIENCE'', [''defaults'', ''circuit_breaker'', ''reset_timeout'']),
      (''RESILIENCE_RETRY_MAX_ATTEMPTS'', ''3'', ''RESILIENCE'', [''defaults'', ''retry'', ''max_attempts'']),
      (''RESILIENCE_RETRY_WAIT_MIN'', ''1'', ''RESILIENCE'', [''defaults'', ''retry'', ''wait_min'']),
      (''RESILIENCE_RETRY_WAIT_MAX'', ''10'', ''RESILIENCE'', [''defaults'', ''retry'', ''wait_max''])]"

definition limits_ints :: "placement list" where
  "limits_ints =
     [(''ASSET_MAX_BYTES'', ''26214400'', ''ASSET_MAX_BYTES'', []),
      (''MAX_REQUEST_BODY_BYTES'', ''2097152'', ''MAX_REQUEST_BODY_BYTES'', []),
      (''API_LOG_QUEUE_MAX_IN_FLIGHT'', ''1000'', ''API_LOG_QUEUE_MAX_IN_FLIGHT'', []),
      (''API_LOG_QUEUE_WORKERS'', ''4'', ''API_LOG_QUEUE_WORKERS'', []),
      (''API_LOG_MAX_BODY_LEN'', ''4096'', ''API_LOG_MAX_BODY_LEN'', []),
      (''API_LOG_TTL_DAYS'', ''0'', ''API_LOG_TTL_DAYS'', [])]"

definition limits_bools :: "placement list" where
  "limits_bools = [(''SECURITY_HEADERS_ENABLED'', ''true'', ''SECURITY_HEADERS_ENABLED'', [])]"

definition int_placements :: "placement list" where
  "int_placements = database_ints @ rest_ints @ celery_ints @ log_ints @ resilience_ints @ limits_ints"

definition bool_placements :: "placement list" where
  "bool_placements = celery_bools @ limits_bools"

definition int_placed :: "environ \<Rightarrow> bindings \<Rightarrow> placement \<Rightarrow> bool" where
  "int_placed env bs p =
     (case p of (var, dflt, name, path) \<Rightarrow>
        \<exists>n. py_int (getenv env var dflt) = Some n \<and> setting_at bs name path = Some (VInt n))"

definition bool_placed :: "environ \<Rightarrow> bindings \<Rightarrow> placement \<Rightarrow> bool" where
  "bool_placed env bs p =
     (case p of (var, dflt, name, path) \<Rightarrow>
        setting_at bs name path =
          Some (VBool (py_lower (py_strip (getenv env var dflt)) \<in> {''true'', ''1'', ''yes'', ''on''})))"

lemma env_int_Inr: "env_int env n d = Inr i \<longleftrightarrow> py_int (getenv env n d) = Some i"
  by (simp add: env_int_def split: option.split)

lemma env_bool_Inr:
  "env_bool env n d = Inr b \<Longrightarrow> b = (py_lower (py_strip (getenv env n d)) \<in> {''true'', ''1'', ''yes'', ''on''})"
  by (auto simp: env_bool_def Let_def split: if_splits)

lemmas placed_simps = int_placed_def bool_placed_def setting_at_def str_dict_def dget_def rbind_Inr_iff env_int_Inr

lemma database_placed: "database_section env = Inr bs \<Longrightarrow> list_all (int_placed env bs) database_ints"
  by (auto simp: database_section_def database_ints_def placed_simps)

lemma rest_placed: "rest_section env = Inr bs \<Longrightarrow> list_all (int_placed env bs) rest_ints"
  by (auto simp: rest_section_def rest_ints_def placed_simps)

lemma celery_placed:
  "celery_section env = Inr bs \<Longrightarrow> list_all (int_placed env bs) celery_ints \<and> list_all (bool_placed env bs) celery_bools"
  by (auto simp: celery_section_def celery_ints_def celery_bools_def placed_simps dest!: env_bool_Inr)

lemma log_placed: "log_section re env = Inr bs \<Longrightarrow> list_all (int_placed env bs) log_ints"
  by (auto simp: log_section_def log_ints_def placed_simps split: option.splits)

lemma resilience_placed: "resilience_section env = Inr bs \<Longrightarrow> list_all (int_placed env bs) resilience_ints"
  by (auto simp: resilience_section_def resilience_ints_def placed_simps)

lemma limits_placed:
  "limits_section env = Inr bs \<Longrightarrow> list_all (int_placed env bs) limits_ints \<and> list_all (bool_placed env bs) limits_bools"
  by (auto simp: limits_section_def limits_ints_def limits_bools_def placed_simps dest!: env_bool_Inr)

text \<open>Each of these settings is assigned once.\<close>

definition placed_names :: "string list" where
  "placed_names = remdups (map (\<lambda>(var, dflt, name, path). name) (int_placements @ bool_placements))"

definition once :: "string list \<Rightarrow> string \<Rightarrow> bool" where
  "once xs n \<longleftrightarrow> length (filter (\<lambda>x. x = n) xs) = 1"

lemma placed_once: "n \<in> set placed_names \<Longrightarrow> once (map fst (base_schema w)) n"
proof -
  have 1: "list_all (once (map fst (base_schema True))) placed_names"
      "list_all (once (map fst (base_schema False))) placed_names"
    by code_simp+
  then have "list_all (once (map fst (base_schema w))) placed_names" by (cases w) (simp_all only:)
  then show "n \<in> set placed_names \<Longrightarrow> once (map fst (base_schema w)) n" by (simp only: list_all_iff)
qed

lemma once_map_of: "once (map fst bs) n \<Longrightarrow> (n, v) \<in> set bs \<Longrightarrow> map_of bs n = Some v"
proof (induction bs)
  case (Cons b bs)
  then show ?case by (cases b) (force simp: once_def filter_empty_conv)
qed simp

lemma all_bindings_part:
  "all_bindings rs = Inr bs \<Longrightarrow> r \<in> set rs \<Longrightarrow> \<exists>part. r = Inr part \<and> set part \<subseteq> set bs"
  by (induction rs arbitrary: bs) (fastforce simp: rbind_Inr_iff)+

lemma base_part:
  assumes "base_settings k env0 = Inr (env, bs)" "r \<in> set (base_sections k env)"
  shows "\<exists>part. r = Inr part \<and> (\<forall>n v. n \<in> set placed_names \<and> map_of part n = Some v \<longrightarrow> map_of bs n = Some v)"
proof -
  have bs: "all_bindings (base_sections k env) = Inr bs"
    using assms(1) by (auto simp: base_settings_def Let_def rbind_Inr_iff)
  obtain part where part: "r = Inr part" "set part \<subseteq> set bs" using all_bindings_part [OF bs assms(2)] by blast
  have uniq: "once (map fst bs) n" if "n \<in> set placed_names" for n
    unfolding typed_fst [OF base_sections_typed [OF assms(1)]] by (rule placed_once [OF that])
  have "map_of bs n = Some v" if "n \<in> set placed_names" "map_of part n = Some v" for n v
    by (rule once_map_of [OF uniq [OF that(1)] subsetD [OF part(2) map_of_SomeD [OF that(2)]]])
  with part(1) show ?thesis by blast
qed

lemma placed_mono:
  assumes "\<And>v. map_of part name = Some v \<Longrightarrow> map_of bs name = Some v"
  shows "int_placed env part (var, dflt, name, path) \<Longrightarrow> int_placed env bs (var, dflt, name, path)"
    "bool_placed env part (var, dflt, name, path) \<Longrightarrow> bool_placed env bs (var, dflt, name, path)"
  using assms by (auto simp: int_placed_def bool_placed_def setting_at_def split: option.splits)

lemma base_placed:
  assumes "base_settings k env0 = Inr (env, bs)" "r \<in> set (base_sections k env)"
    "set is \<subseteq> set int_placements" "set xs \<subseteq> set bool_placements"
    "\<And>part. r = Inr part \<Longrightarrow> list_all (int_placed env part) is \<and> list_all (bool_placed env part) xs"
  shows "list_all (int_placed env bs) is \<and> list_all (bool_placed env bs) xs"
proof -
  obtain part where part: "r = Inr part"
      "\<And>n v. n \<in> set placed_names \<Longrightarrow> map_of part n = Some v \<Longrightarrow> map_of bs n = Some v"
    using base_part [OF assms(1,2)] by blast
  have "int_placed env bs p" if "p \<in> set is" for p
  proof (cases p)
    case (fields var dflt name path)
    have "name \<in> set placed_names" using that assms(3) fields by (force simp: placed_names_def)
    then show ?thesis using placed_mono(1) [of part name bs] part that assms(5) fields by (auto simp: list_all_iff)
  qed
  moreover have "bool_placed env bs p" if "p \<in> set xs" for p
  proof (cases p)
    case (fields var dflt name path)
    have "name \<in> set placed_names" using that assms(4) fields by (force simp: placed_names_def)
    then show ?thesis using placed_mono(2) [of part name bs] part that assms(5) fields by (auto simp: list_all_iff)
  qed
  ultimately show ?thesis by (simp add: list_all_iff)
qed

lemma base_ints_placed:
  assumes "base_settings k env0 = Inr (env, bs)"
  shows "list_all (int_placed env bs) int_placements \<and> list_all (bool_placed env bs) bool_placements"
proof -
  have sec: "database_section env \<in> set (base_sections k env)" "rest_section env \<in> set (base_sections k env)"
    "celery_section env \<in> set (base_sections k env)" "log_section (re_error k) env \<in> set (base_sections k env)"
    "resilience_section env \<in> set (base_sections k env)" "limits_section env \<in> set (base_sections k env)"
    by (simp_all add: base_sections_def)
  have sub: "set database_ints \<subseteq> set int_placements" "set rest_ints \<subseteq> set int_placements"
    "set celery_ints \<subseteq> set int_placements" "set log_ints \<subseteq> set int_placements"
    "set resilience_ints \<subseteq> set int_placements" "set limits_ints \<subseteq> set int_placements"
    "set celery_bools \<subseteq> set bool_placements" "set limits_bools \<subseteq> set bool_placements"
    "set [] \<subseteq> set bool_placements"
    by (auto simp: int_placements_def bool_placements_def)
  note go = base_placed [OF assms]
  have "list_all (int_placed env bs) database_ints" using go [OF sec(1) sub(1,9)] database_placed by simp
  moreover have "list_all (int_placed env bs) rest_ints" using go [OF sec(2) sub(2,9)] rest_placed by simp
  moreover have "list_all (int_placed env bs) celery_ints \<and> list_all (bool_placed env bs) celery_bools"
    using go [OF sec(3) sub(3,7)] celery_placed by blast
  moreover have "list_all (int_placed env bs) log_ints" using go [OF sec(4) sub(4,9)] log_placed by simp
  moreover have "list_all (int_placed env bs) resilience_ints" using go [OF sec(5) sub(5,9)] resilience_placed by simp
  moreover have "list_all (int_placed env bs) limits_ints \<and> list_all (bool_placed env bs) limits_bools"
    using go [OF sec(6) sub(6,8)] limits_placed by blast
  ultimately show ?thesis by (simp add: int_placements_def bool_placements_def)
qed

text \<open>
  C22: the base module either refuses to load or has every setting at its type. It loads exactly when the
  secret key is set, the log pattern compiles and each integer and boolean variable is written as one. When
  it does, its namespace is exactly the list of names of the schema, in order, with the one choice that
  depends on a wildcard origin, and every value has the type the schema gives it, down to the entries
  of the nested dictionaries, whatever strings the environment holds; and each of the twenty integer
  variables and of the boolean ones is found, parsed, in the setting it is meant for.
\<close>

theorem base_settings_typed:
  "((\<exists>bs. base_settings k env0 = Inr (env, bs)) \<longleftrightarrow> env = legacy_env_alias k env0 \<and> base_ok k env) \<and>
   (\<forall>bs. base_settings k env0 = Inr (env, bs) \<longrightarrow>
      typed bs (base_schema (py_strip (cors_origins env) = ''*'')) \<and>
      list_all (int_placed env bs) int_placements \<and> list_all (bool_placed env bs) bool_placements)"
  using base_loads_iff [of k env0 env] base_sections_typed [of k env0 env] base_ints_placed [of k env0 env] by blast

section \<open>Production\<close>

lemma private_not_imported: "map_of (star_import bs) (CHR ''_'' # n) = None"
  by (simp add: star_import_map_of)

lemma prod_settings_fails:
  "base_settings k env0 = Inr (env, base) \<Longrightarrow> env_set env ''VALKEY_CACHE_URL'' \<Longrightarrow>
     \<exists>e. prod_settings k env0 = Inl e \<and> exc_cls e = NameError"
  "\<exists>e. prod_settings k env0 = Inl e"
proof -
  have name_error: "call_env_int (star_import bs) env v d =
      Inl (raw_exn NameError (''name '' @ repr_str ''_env_int'' @ '' is not defined''))" for bs env v d
    by (simp add: call_env_int_def private_not_imported)
  show "base_settings k env0 = Inr (env, base) \<Longrightarrow> env_set env ''VALKEY_CACHE_URL'' \<Longrightarrow>
     \<exists>e. prod_settings k env0 = Inl e \<and> exc_cls e = NameError"
    by (simp add: prod_settings_def rbind_def env_set_def Let_def name_error raw_exn_def)
  show "\<exists>e. prod_settings k env0 = Inl e"
  proof (cases "base_settings k env0")
    case (Inr p)
    then obtain env base where "base_settings k env0 = Inr (env, base)" by (cases p) auto
    then show ?thesis
      by (simp add: prod_settings_def rbind_def Let_def name_error split: sum.split)
  qed (simp add: prod_settings_def rbind_def)
qed

lemma select_env_iff: "select_env env = Inr e \<longleftrightarrow> getenv env ''DJANGO_ENV'' [] = e \<and> e \<in> set VALID_ENVS"
  by (auto simp: select_env_def Let_def VALID_ENVS_def)

text \<open>
  C13: the production settings cannot be loaded. Whatever the process environment, the \<open>.env\<close> file and
  the secret store hold, starting with \<open>DJANGO_ENV=prod\<close> raises: the module calls \<open>_env_int\<close>, which a star
  import does not bring in, so that once the base module and the cache check pass the failure is a \<open>NameError\<close>.
\<close>

theorem prod_never_boots:
  "getenv env0 ''DJANGO_ENV'' [] = ''prod'' \<Longrightarrow>
     (\<exists>e. boot k w env0 = Inl e) \<and>
     (\<forall>env1 env base. load_environ w ''prod'' env0 = Inr env1 \<and> base_settings k env1 = Inr (env, base) \<and>
        env_set env ''VALKEY_CACHE_URL'' \<longrightarrow> (\<exists>e. boot k w env0 = Inl e \<and> exc_cls e = NameError))"
proof -
  assume "getenv env0 ''DJANGO_ENV'' [] = ''prod''"
  then have sel: "select_env env0 = Inr ''prod''" by (simp add: select_env_def VALID_ENVS_def)
  have "\<exists>e. boot k w env0 = Inl e"
  proof (cases "load_environ w ''prod'' env0")
    case (Inr env1)
    obtain e where "prod_settings k env1 = Inl e" using prod_settings_fails(2) by blast
    with Inr show ?thesis by (simp add: boot_def sel rbind_def run_env_module_def)
  qed (simp add: boot_def sel rbind_def)
  moreover have "\<exists>e. boot k w env0 = Inl e \<and> exc_cls e = NameError"
    if "load_environ w ''prod'' env0 = Inr env1" "base_settings k env1 = Inr (env, base)" "env_set env ''VALKEY_CACHE_URL''"
    for env1 env base
    using prod_settings_fails(1) [OF that(2,3)] that(1) by (auto simp: boot_def sel rbind_def run_env_module_def)
  ultimately show ?thesis by blast
qed

definition quiet_kit :: settings_kit where
  "quiet_kit = \<lparr>legacy_env_alias = (\<lambda>e. e), re_error = (\<lambda>p. None), base_dir = ''/app'', api_description = [],
     tags_metadata = []\<rparr>"

definition quiet_world :: boot_world where
  "quiet_world = \<lparr>dotenv = (\<lambda>e. None), secrets_client = (\<lambda>r. None), get_secret_value = (\<lambda>n r. Inr None),
     json_loads = (\<lambda>s. Inr (VDict [])), py_float = (\<lambda>s. None)\<rparr>"

definition full_environ :: "string \<Rightarrow> environ" where
  "full_environ e = [(''DJANGO_ENV'', e), (''SECRET_KEY'', ''s''), (''VALKEY_CACHE_URL'', ''valkey://v''),
     (''CELERY_BROKER_URL'', ''b''), (''CELERY_RESULT_BACKEND'', ''r''), (''ALLOWED_HOSTS'', ''api.example.org''),
     (''POSTGRES_DB'', ''d''), (''POSTGRES_HOST'', ''h''), (''POSTGRES_PASSWORD'', ''p''), (''JWT_SIGNING_KEY'', ''j''),
     (''FIELD_ENCRYPTION_KEY'', ''f'')]"

lemma full_environ_loads: "\<exists>bs. base_settings quiet_kit (full_environ ''uat'') = Inr (full_environ ''uat'', bs)"
proof -
  have "base_ok quiet_kit (full_environ ''uat'')" by code_simp
  moreover have "full_environ ''uat'' = legacy_env_alias quiet_kit (full_environ ''uat'')" by (simp add: quiet_kit_def)
  ultimately show ?thesis using base_loads_iff by metis
qed

theorem base_settings_typed_witness:
  "\<exists>bs. base_settings quiet_kit (full_environ ''uat'') = Inr (full_environ ''uat'', bs) \<and> typed bs (base_schema False)"
proof -
  obtain bs where bs: "base_settings quiet_kit (full_environ ''uat'') = Inr (full_environ ''uat'', bs)"
    using full_environ_loads by blast
  have "(py_strip (cors_origins (full_environ ''uat'')) = ''*'') = False" by code_simp
  with base_settings_typed [THEN conjunct2, THEN spec, THEN mp, OF bs] bs show ?thesis by simp
qed

theorem prod_never_boots_witness:
  "getenv (full_environ ''prod'') ''DJANGO_ENV'' [] = ''prod'' \<and> (\<exists>e. boot quiet_kit quiet_world (full_environ ''prod'') = Inl e)"
proof -
  have "getenv (full_environ ''prod'') ''DJANGO_ENV'' [] = ''prod''" by code_simp
  then show ?thesis using prod_never_boots by blast
qed

section \<open>The acceptance environment\<close>

lemma require_all_Inr: "require_all cs = Inr u \<longleftrightarrow> list_all fst cs"
  by (induction cs) (auto split: if_splits)

lemma boot_Inr:
  assumes "boot k w env0 = Inr b"
  obtains e env1 ns where "select_env env0 = Inr e" "load_environ w e env0 = Inr env1"
    "run_env_module k e env1 = Inr (bt_environ b, ns)"
    "bt_settings b = logging_settings (bt_environ b) @ (''SETTINGS_MODULE'', VStr (''config.settings.'' @ e)) # star_import ns"
  using assms by (fastforce simp: boot_def rbind_Inr_iff)

lemma logging_keys: "map fst (logging_settings env) = [''LOGGING'']"
  by (simp add: logging_settings_def Let_def)

lemma merged_lookup:
  assumes "n \<noteq> ''LOGGING''" "n \<noteq> ''SETTINGS_MODULE''" "\<not> prefix ''_'' n"
  shows "map_of (logging_settings env @ (''SETTINGS_MODULE'', v) # star_import ns) n = map_of ns n"
proof -
  have "map_of (logging_settings env) n = None"
    using assms(1) logging_keys [of env] by (auto simp: map_of_eq_None_iff simp flip: set_map)
  with assms show ?thesis by (simp add: map_add_def star_import_map_of)
qed

lemma uat_settings_Inr:
  assumes "uat_settings k env1 = Inr (env, ns)"
  obtains base n where "base_settings k env1 = Inr (env, base)"
    "ns = uat_flags env @ (''_valkey_url'', VStr (getenv env ''VALKEY_CACHE_URL'' [])) #
       uat_caches (getenv env ''VALKEY_CACHE_URL'' []) env @ celery_urls env n @
       (''_env_int'', VObj ''function'' (Some ''_env_int'')) # star_import base"
    "csv (getenv env ''ALLOWED_HOSTS'' []) \<noteq> []" "env_set env ''JWT_SIGNING_KEY''" "env_set env ''FIELD_ENCRYPTION_KEY''"
    "\<not> truthy (global_or (star_import base) ''CORS_ALLOW_ALL_ORIGINS'' (VBool False))"
  using assms unfolding uat_settings_def Let_def
  by (auto simp: rbind_Inr_iff require_all_Inr global_or_def simp del: require_all.simps)

definition uat_names :: "string list" where
  "uat_names = [''DEBUG'', ''ALLOWED_HOSTS'', ''SECURE_SSL_REDIRECT'', ''SESSION_COOKIE_SECURE'', ''CSRF_COOKIE_SECURE'',
     ''SECURE_HSTS_SECONDS'', ''SECURE_HSTS_INCLUDE_SUBDOMAINS'', ''SECURE_HSTS_PRELOAD'', ''SECURE_PROXY_SSL_HEADER'',
     ''_valkey_url'', ''CACHES'', ''CELERY_BROKER_URL'', ''CELERY_RESULT_BACKEND'', ''CELERY_WORKER_CONCURRENCY'', ''_env_int'']"

lemma uat_base_lookup:
  assumes "n \<in> set watched"
  shows "map_of (uat_flags env @ (''_valkey_url'', v) # uat_caches u env @ celery_urls env m @ (''_env_int'', f) # star_import base) n =
    map_of base n"
proof -
  let ?own = "uat_flags env @ (''_valkey_url'', v) # uat_caches u env @ celery_urls env m @ [(''_env_int'', f)]"
  have "map fst ?own = uat_names" by (simp add: uat_flags_def uat_caches_def celery_urls_def uat_names_def)
  moreover have "list_all (\<lambda>n. n \<notin> set uat_names \<and> \<not> prefix ''_'' n) watched" by code_simp
  ultimately have "n \<notin> set (map fst ?own)" "\<not> prefix ''_'' n" using assms by (simp_all only: list_all_iff not_False_eq_True)
  then have "map_of ?own n = None" by (simp only: set_map map_of_eq_None_iff not_False_eq_True)
  then have "map_of (?own @ star_import base) n = map_of base n" using \<open>\<not> prefix ''_'' n\<close> by (simp only: map_of_append map_add_def star_import_map_of) simp
  then show ?thesis by simp
qed

definition uat_ok :: "settings_kit \<Rightarrow> environ \<Rightarrow> bool" where
  "uat_ok k env \<longleftrightarrow> base_ok k env \<and>
     list_all (env_set env) [''VALKEY_CACHE_URL'', ''CELERY_BROKER_URL'', ''CELERY_RESULT_BACKEND'', ''POSTGRES_DB'',
       ''POSTGRES_HOST'', ''JWT_SIGNING_KEY'', ''FIELD_ENCRYPTION_KEY''] \<and>
     int_ok env (''CELERY_WORKER_CONCURRENCY'', ''2'') \<and>
     csv (getenv env ''ALLOWED_HOSTS'' []) \<noteq> [] \<and> py_strip (cors_origins env) \<noteq> ''*''"

lemma uat_loads:
  assumes "uat_ok k (legacy_env_alias k env1)"
  shows "\<exists>ns. uat_settings k env1 = Inr (legacy_env_alias k env1, ns)"
proof -
  let ?env = "legacy_env_alias k env1"
  obtain base where base: "base_settings k env1 = Inr (?env, base)"
    using assms base_loads_iff [of k env1 ?env] by (auto simp: uat_ok_def)
  have "\<not> truthy (global_or ((''_env_int'', f) # star_import base) ''CORS_ALLOW_ALL_ORIGINS'' (VBool False))" for f
    using assms base_bindings(1) [OF base] by (simp add: uat_ok_def global_or_def star_import_map_of)
  moreover obtain n where "env_int ?env ''CELERY_WORKER_CONCURRENCY'' ''2'' = Inr n"
    using assms env_int_isr [of ?env "''CELERY_WORKER_CONCURRENCY''" "''2''"] by (auto simp: uat_ok_def)
  then have "call_env_int ((''_env_int'', f) # ns) ?env ''CELERY_WORKER_CONCURRENCY'' ''2'' = Inr n" for f ns
    by (simp add: call_env_int_def)
  moreover have "getenv ?env ''VALKEY_CACHE_URL'' [] \<noteq> []" using assms by (simp add: uat_ok_def env_set_def)
  ultimately show ?thesis
    using assms by (simp add: uat_settings_def base rbind_def Let_def uat_ok_def)
qed

text \<open>The two keys a running deployment signs and encrypts with.\<close>

definition signing_key :: "bindings \<Rightarrow> pyval option" where
  "signing_key ns = (case map_of ns ''SIMPLE_JWT'' of Some (VDict d) \<Rightarrow> dget d ''SIGNING_KEY'' | _ \<Rightarrow> None)"

definition field_key :: "bindings \<Rightarrow> pyval option" where
  "field_key ns = (case map_of ns ''RESILIENCE'' of
      Some (VDict d) \<Rightarrow> (case dget d ''crypto'' of Some (VDict c) \<Rightarrow> dget c ''field_encryption_key'' | _ \<Rightarrow> None)
    | _ \<Rightarrow> None)"

lemma jwt_section_key:
  "\<exists>d. bound (Inr (jwt_section env)) ''SIMPLE_JWT'' = Some (VDict d) \<and>
     dget d ''SIGNING_KEY'' = Some (VStr (or_secret env ''JWT_SIGNING_KEY''))"
  by (simp add: bound_Inr jwt_section_def str_dict_def dget_def)

lemma resilience_section_key:
  "resilience_section env = Inr bs \<Longrightarrow>
   \<exists>d c. map_of bs ''RESILIENCE'' = Some (VDict d) \<and> dget d ''crypto'' = Some (VDict c) \<and>
     dget c ''field_encryption_key'' = Some (VStr (or_secret env ''FIELD_ENCRYPTION_KEY''))"
  by (auto simp: resilience_section_def rbind_Inr_iff str_dict_def dget_def)

lemma base_section_ok:
  "base_settings k env0 = Inr (env, bs) \<Longrightarrow> \<exists>r. resilience_section env = Inr r"
  by (auto simp: base_settings_def base_sections_def rbind_Inr_iff Let_def)

lemma base_keys:
  assumes "base_settings k env0 = Inr (env, bs)"
  shows "\<exists>d. map_of bs ''SIMPLE_JWT'' = Some (VDict d) \<and> dget d ''SIGNING_KEY'' = Some (VStr (or_secret env ''JWT_SIGNING_KEY''))"
    and "\<exists>d c. map_of bs ''RESILIENCE'' = Some (VDict d) \<and> dget d ''crypto'' = Some (VDict c) \<and>
      dget c ''field_encryption_key'' = Some (VStr (or_secret env ''FIELD_ENCRYPTION_KEY''))"
proof -
  show "\<exists>d. map_of bs ''SIMPLE_JWT'' = Some (VDict d) \<and> dget d ''SIGNING_KEY'' = Some (VStr (or_secret env ''JWT_SIGNING_KEY''))"
    using jwt_section_key base_bindings(2) [OF assms] by metis
  obtain r where "resilience_section env = Inr r" using base_section_ok [OF assms] by blast
  then show "\<exists>d c. map_of bs ''RESILIENCE'' = Some (VDict d) \<and> dget d ''crypto'' = Some (VDict c) \<and>
      dget c ''field_encryption_key'' = Some (VStr (or_secret env ''FIELD_ENCRYPTION_KEY''))"
    using resilience_section_key base_bindings(3) [OF assms] by (metis bound_Inr)
qed

lemma env_set_map_of: "env_set env n \<Longrightarrow> map_of env n = Some (getenv env n []) \<and> or_secret env n = getenv env n []"
  by (auto simp: env_set_def getenv_def or_secret_def split: option.splits)

lemma uat_flag_lookup:
  "map_of (uat_flags env @ ns) ''DEBUG'' = Some (VBool False)"
  "map_of (uat_flags env @ ns) ''SECURE_SSL_REDIRECT'' = Some (VBool True)"
  "map_of (uat_flags env @ ns) ''SESSION_COOKIE_SECURE'' = Some (VBool True)"
  "map_of (uat_flags env @ ns) ''CSRF_COOKIE_SECURE'' = Some (VBool True)"
  "map_of (uat_flags env @ ns) ''ALLOWED_HOSTS'' = Some (strs (csv (getenv env ''ALLOWED_HOSTS'' [])))"
  by (simp_all add: uat_flags_def)

text \<open>
  C14: a UAT deployment that starts is hardened. Whatever the environment, \<open>.env\<close> file and aliasing hold, if starting with
  \<open>DJANGO_ENV=uat\<close> succeeds then debugging is off, redirects to TLS and secure cookies are on, the
  trusted hosts are not empty, no wildcard origin is allowed, and the token-signing and field-encryption keys are the
  dedicated variables, set and not empty, never the fallback to the secret key.
\<close>

theorem uat_boot_hardened:
  assumes "getenv env0 ''DJANGO_ENV'' [] = ''uat''" "boot k w env0 = Inr b"
  shows "map_of (bt_settings b) ''DEBUG'' = Some (VBool False) \<and>
    (\<forall>n \<in> {''SECURE_SSL_REDIRECT'', ''SESSION_COOKIE_SECURE'', ''CSRF_COOKIE_SECURE''}.
       map_of (bt_settings b) n = Some (VBool True)) \<and>
    (\<exists>hs. map_of (bt_settings b) ''ALLOWED_HOSTS'' = Some (strs hs) \<and> hs \<noteq> []) \<and>
    map_of (bt_settings b) ''CORS_ALLOW_ALL_ORIGINS'' = None \<and>
    (\<exists>j f. map_of (bt_environ b) ''JWT_SIGNING_KEY'' = Some j \<and> j \<noteq> [] \<and> signing_key (bt_settings b) = Some (VStr j) \<and>
       map_of (bt_environ b) ''FIELD_ENCRYPTION_KEY'' = Some f \<and> f \<noteq> [] \<and> field_key (bt_settings b) = Some (VStr f))"
proof -
  let ?env = "bt_environ b"
  from assms(2) obtain e env1 ns where sel: "select_env env0 = Inr e" and run0: "run_env_module k e env1 = Inr (?env, ns)" and
    st: "bt_settings b = logging_settings ?env @ (''SETTINGS_MODULE'', VStr (''config.settings.'' @ e)) # star_import ns"
    by (rule boot_Inr)
  then have run: "run_env_module k ''uat'' env1 = Inr (?env, ns)" using assms(1) by (simp only: select_env_iff)
  from run have "uat_settings k env1 = Inr (?env, ns)" by (simp add: run_env_module_def)
  then obtain base m where u: "base_settings k env1 = Inr (?env, base)"
    "ns = uat_flags ?env @ (''_valkey_url'', VStr (getenv ?env ''VALKEY_CACHE_URL'' [])) #
       uat_caches (getenv ?env ''VALKEY_CACHE_URL'' []) ?env @ celery_urls ?env m @
       (''_env_int'', VObj ''function'' (Some ''_env_int'')) # star_import base"
    "csv (getenv ?env ''ALLOWED_HOSTS'' []) \<noteq> []" "env_set ?env ''JWT_SIGNING_KEY''" "env_set ?env ''FIELD_ENCRYPTION_KEY''"
    "\<not> truthy (global_or (star_import base) ''CORS_ALLOW_ALL_ORIGINS'' (VBool False))"
    by (rule uat_settings_Inr)
  have own: "map_of (bt_settings b) n = map_of ns n" if "n \<noteq> ''LOGGING''" "n \<noteq> ''SETTINGS_MODULE''" "\<not> prefix ''_'' n" for n
    unfolding st using that by (rule merged_lookup)
  have shared: "map_of ns n = map_of base n" if "n \<in> set watched" for n
    unfolding u(2) using that by (rule uat_base_lookup)
  have "''CORS_ALLOW_ALL_ORIGINS'' \<in> set watched" "''SIMPLE_JWT'' \<in> set watched" "''RESILIENCE'' \<in> set watched" by code_simp+
  then have base: "map_of (bt_settings b) n = map_of base n" if "n \<in> {''CORS_ALLOW_ALL_ORIGINS'', ''SIMPLE_JWT'', ''RESILIENCE''}" for n
    using that own [of n] shared [of n] by auto
  have cors: "map_of (bt_settings b) ''CORS_ALLOW_ALL_ORIGINS'' = None"
    using u(6) base_bindings(1) [OF u(1)] base [of "''CORS_ALLOW_ALL_ORIGINS''"]
    by (auto simp: global_or_def star_import_map_of split: if_splits)
  have "signing_key (bt_settings b) = Some (VStr (or_secret ?env ''JWT_SIGNING_KEY''))"
    "field_key (bt_settings b) = Some (VStr (or_secret ?env ''FIELD_ENCRYPTION_KEY''))"
    using base_keys [OF u(1)] base [of "''SIMPLE_JWT''"] base [of "''RESILIENCE''"]
    by (auto simp: signing_key_def field_key_def)
  moreover have "map_of ns ''DEBUG'' = Some (VBool False)"
    "\<forall>n \<in> {''SECURE_SSL_REDIRECT'', ''SESSION_COOKIE_SECURE'', ''CSRF_COOKIE_SECURE''}. map_of ns n = Some (VBool True)"
    "map_of ns ''ALLOWED_HOSTS'' = Some (strs (csv (getenv ?env ''ALLOWED_HOSTS'' [])))"
    unfolding u(2) by (auto simp only: uat_flag_lookup ball_simps)
  ultimately show ?thesis
    using own cors u(3) env_set_map_of [OF u(4)] env_set_map_of [OF u(5)] u(4,5) by (auto simp: env_set_def)
qed

theorem uat_boot_hardened_witness:
  "\<exists>b. boot quiet_kit quiet_world (full_environ ''uat'') = Inr b \<and> map_of (bt_settings b) ''DEBUG'' = Some (VBool False)"
proof -
  have "uat_ok quiet_kit (full_environ ''uat'')" "getenv (full_environ ''uat'') ''DJANGO_ENV'' [] = ''uat''" by code_simp+
  moreover have "legacy_env_alias quiet_kit env = env" "dotenv quiet_world e = None" for env e
    by (simp_all add: quiet_kit_def quiet_world_def)
  ultimately obtain b where b: "boot quiet_kit quiet_world (full_environ ''uat'') = Inr b"
    using uat_loads [of quiet_kit "full_environ ''uat''"]
    by (auto simp: boot_def rbind_def select_env_def VALID_ENVS_def load_environ_def run_env_module_def)
  from uat_boot_hardened [OF _ b] show ?thesis using b by (auto simp: full_environ_def getenv_def)
qed

section \<open>Where a variable comes from\<close>

lemma map_of_env_setdefault:
  "map_of (env_setdefault n v env) = (\<lambda>m. if m = n then Some v else None) ++ map_of env"
  by (auto simp: env_setdefault_def map_add_def fun_eq_iff split: option.split)

lemma map_of_setdefaults:
  "map_of (foldl (\<lambda>e (n, v). env_setdefault n v e) env ps) = map_of ps ++ map_of env"
proof (induction ps arbitrary: env)
  case (Cons p ps)
  then show ?case
    by (cases p) (auto simp: map_of_env_setdefault map_add_def fun_eq_iff split: option.split)
qed simp

lemma add_secrets_map_of:
  "map_of (add_secrets d env) = map_of (map (\<lambda>(k, v). (key_str k, text_of v)) d) ++ map_of env"
proof -
  have "add_secrets d env = foldl (\<lambda>e (n, v). env_setdefault n v e) env (map (\<lambda>(k, v). (key_str k, text_of v)) d)"
    unfolding add_secrets_def by (induction d arbitrary: env) (auto simp: case_prod_beta)
  then show ?thesis by (simp only: map_of_setdefaults)
qed

definition env_file :: "boot_world \<Rightarrow> string \<Rightarrow> environ" where
  "env_file w e = (case dotenv w e of Some ps \<Rightarrow> ps | None \<Rightarrow> [])"

definition with_file :: "boot_world \<Rightarrow> string \<Rightarrow> environ \<Rightarrow> environ" where
  "with_file w e env0 = foldl (\<lambda>m (n, v). env_setdefault n v m) env0 (env_file w e)"

definition secret_fails :: "boot_world \<Rightarrow> environ \<Rightarrow> bool" where
  "secret_fails w env \<longleftrightarrow> env_set env ''AWS_SECRET_NAME'' \<and>
     (\<exists>x. load_secrets_from_aws w (getenv env ''AWS_SECRET_NAME'' []) (getenv env ''AWS_REGION'' ''ap-south-1'') = Inl x \<and>
        isinstance x PyRuntimeError)"

lemma load_environ_unfold:
  "e \<noteq> ''test'' \<Longrightarrow> load_environ w e env0 =
     (if e = ''dev'' \<or> e = ''prod'' then load_secrets w e (with_file w e env0) else Inr (with_file w e env0))"
  by (simp add: load_environ_def with_file_def env_file_def split: option.split)

lemma load_secrets_Inr:
  "load_secrets w e env1 = Inr env \<Longrightarrow> \<exists>d. env = add_secrets d env1"
proof -
  assume h: "load_secrets w e env1 = Inr env"
  have "env1 = add_secrets [] env1" by (simp add: add_secrets_def)
  with h show ?thesis unfolding load_secrets_def Let_def by (auto split: if_splits sum.splits pyval.splits)
qed

text \<open>
  The process environment wins over the \<open>.env\<close> file, and both over the secret store. When the
  variables of an environment other than \<open>test\<close> load, each has its process value if it had one, else that of
  the file, else that of the secret, and the secret store is consulted for \<open>dev\<close> and \<open>prod\<close> only. If the secret
  cannot be read, \<open>prod\<close> refuses to start where \<open>dev\<close> goes on with what it has.
\<close>

theorem environment_precedence:
  assumes "e \<noteq> ''test''"
  shows "(\<forall>env. load_environ w e env0 = Inr env \<longrightarrow>
       (\<exists>secrets. map_of env = map_of secrets ++ map_of (env_file w e) ++ map_of env0 \<and>
          (e \<notin> {''dev'', ''prod''} \<longrightarrow> secrets = []))) \<and>
    (secret_fails w (with_file w e env0) \<longrightarrow>
       (e = ''prod'' \<longrightarrow> (\<exists>y. load_environ w e env0 = Inl y)) \<and>
       (e = ''dev'' \<longrightarrow> load_environ w e env0 = Inr (with_file w e env0)))"
proof (intro conjI allI impI)
  have ff: "map_of (with_file w e env0) = map_of (env_file w e) ++ map_of env0"
    by (simp add: with_file_def map_of_setdefaults)
  fix env assume "load_environ w e env0 = Inr env"
  then consider "e \<notin> {''dev'', ''prod''}" "env = with_file w e env0" | d where "e \<in> {''dev'', ''prod''}" "env = add_secrets d (with_file w e env0)"
    unfolding load_environ_unfold [OF assms] by (auto split: if_splits dest: load_secrets_Inr)
  then show "\<exists>secrets. map_of env = map_of secrets ++ map_of (env_file w e) ++ map_of env0 \<and> (e \<notin> {''dev'', ''prod''} \<longrightarrow> secrets = [])"
  proof cases
    case 1
    then show ?thesis by (intro exI [of _ "[]"]) (simp add: ff)
  next
    case (2 d)
    then show ?thesis
      by (intro exI [of _ "map (\<lambda>(k, v). (key_str k, text_of v)) d"]) (simp add: add_secrets_map_of ff)
  qed
qed (auto simp: load_environ_unfold load_secrets_def secret_fails_def env_set_def)

definition file_world :: boot_world where
  "file_world = quiet_world\<lparr>dotenv := (\<lambda>e. Some [(''A'', ''file''), (''B'', ''file'')])\<rparr>"

theorem environment_precedence_witness:
  "\<exists>env. load_environ file_world ''uat'' [(''A'', ''process'')] = Inr env \<and> map_of env ''A'' = Some ''process'' \<and>
     map_of env ''B'' = Some ''file''"
proof -
  obtain env where env: "load_environ file_world ''uat'' [(''A'', ''process'')] = Inr env"
    by (simp add: load_environ_def)
  obtain s where "map_of env = map_of s ++ map_of (env_file file_world ''uat'') ++ map_of [(''A'', ''process'')]"
    and "''uat'' \<notin> {''dev'', ''prod''} \<longrightarrow> s = []"
    using environment_precedence [of "''uat''" file_world "[(''A'', ''process'')]"] env by auto
  with env show ?thesis by (simp add: env_file_def file_world_def)
qed

section \<open>Findings about the merge\<close>

text \<open>
  Whatever the environment's module says about logging is overwritten by the assignment after the merge; in
  particular the null handler of the test module never takes effect.
\<close>

lemma logging_overwritten:
  assumes "boot k w env0 = Inr b"
  shows "map_of (bt_settings b) ''LOGGING'' = map_of (logging_settings (bt_environ b)) ''LOGGING''"
    and "map_of (bt_settings b) ''LOGGING'' \<noteq> map_of test_logging ''LOGGING''"
proof -
  from assms obtain e env1 ns where
    st: "bt_settings b = logging_settings (bt_environ b) @ (''SETTINGS_MODULE'', VStr (''config.settings.'' @ e)) # star_import ns"
    by (rule boot_Inr)
  have some: "map_of (logging_settings (bt_environ b)) ''LOGGING'' \<noteq> None"
    by (simp add: logging_settings_def Let_def)
  then show eq: "map_of (bt_settings b) ''LOGGING'' = map_of (logging_settings (bt_environ b)) ''LOGGING''"
    unfolding st by (auto simp: map_add_def)
  show "map_of (bt_settings b) ''LOGGING'' \<noteq> map_of test_logging ''LOGGING''"
    unfolding eq by (simp add: logging_settings_def Let_def test_logging_def str_dict_def)
qed

section \<open>Metrics by default\<close>

definition allowed_ips :: "bindings \<Rightarrow> string list option" where
  "allowed_ips ns = (case map_of ns ''METRICS_ALLOWED_IPS'' of
      Some (VSeq SList xs) \<Rightarrow> Some (map (\<lambda>v. case v of VStr s \<Rightarrow> s | _ \<Rightarrow> []) xs)
    | _ \<Rightarrow> None)"

lemma limits_metrics:
  "limits_section env = Inr bs \<Longrightarrow> map_of bs ''METRICS_ALLOWED_IPS'' = Some (strs (csv (metrics_ips env)))"
  by (auto simp: limits_section_def rbind_Inr_iff)

lemma base_metrics:
  assumes "base_settings k env0 = Inr (env, bs)"
  shows "allowed_ips bs = Some (csv (metrics_ips env))"
proof -
  obtain r where r: "limits_section env = Inr r"
    using assms by (auto simp: base_settings_def base_sections_def rbind_Inr_iff Let_def)
  then have "map_of bs ''METRICS_ALLOWED_IPS'' = Some (strs (csv (metrics_ips env)))"
    using base_bindings(4) [OF assms] limits_metrics [OF r] by (simp add: bound_Inr)
  then show ?thesis by (simp add: allowed_ips_def strs_def o_def)
qed

text \<open>
  Out of the box only the machine itself can scrape the metrics. When the allow-list variable is not set, the settings
  and the endpoint together answer anything but a 403 to an IPv4 client exactly when its socket address
  is 127.0.0.1.
\<close>

theorem default_metrics_loopback_only:
  assumes "base_settings k env0 = Inr (env, bs)" "map_of env ''METRICS_ALLOWED_IPS'' = None"
    and "map_of meta ''REMOTE_ADDR'' = Some (ipv4_str ip)"
  shows "fst (metrics_endpoint (allowed_ips bs) enabled exporter meta) \<noteq> 403 \<longleftrightarrow> ip = 0x7F000001"
proof -
  have "csv ''127.0.0.1'' = [''127.0.0.1'']" "py_strip ''127.0.0.1'' = ''127.0.0.1''" "ipv4_str 0x7F000001 = ''127.0.0.1''"
    by code_simp+
  then have "allowed_ips bs = Some [ipv4_str 0x7F000001]"
    using base_metrics [OF assms(1)] assms(2) by (simp add: metrics_ips_def getenv_def)
  then have "fst (metrics_endpoint (allowed_ips bs) enabled exporter meta) \<noteq> 403 \<longleftrightarrow> entry_matches (V4 ip) (ipv4_str 0x7F000001)"
    using assms(3) by (auto simp: metrics_endpoint_def metrics_client_ip_def ip_allowed_def ipv4_str_nonempty ip_address_ipv4_str
        split: option.splits)
  then show ?thesis by (simp add: entry_matches_v4)
qed

theorem default_metrics_loopback_only_witness:
  "\<exists>bs. base_settings quiet_kit (full_environ ''uat'') = Inr (full_environ ''uat'', bs) \<and>
     fst (metrics_endpoint (allowed_ips bs) True None [(''REMOTE_ADDR'', ipv4_str 0x0A000001)]) = 403"
proof -
  obtain bs where bs: "base_settings quiet_kit (full_environ ''uat'') = Inr (full_environ ''uat'', bs)"
    using full_environ_loads by blast
  have "map_of (full_environ ''uat'') ''METRICS_ALLOWED_IPS'' = None" by code_simp
  moreover have "(0x0A000001 :: 32 word) \<noteq> 0x7F000001" by simp
  ultimately show ?thesis
    using default_metrics_loopback_only [OF bs,
        of "[(''REMOTE_ADDR'', ipv4_str 0x0A000001)]" "0x0A000001" True None] bs by auto
qed

end
