(* ===== verification/Toolkit.thy ===== *)
theory Toolkit
  imports Service Effects
begin

text \<open>
  The smaller tools of \<open>apps/core\<close>: the rest of \<open>base/repository.py\<close>, the query-parameter filters of
  \<open>utils/filters.py\<close>, \<open>utils/data.py\<close>, the task registry and the enqueue helper of \<open>tasks/\<close>, the client lookup of
  \<open>utils/valkey.py\<close> and the output rule of \<open>base/schema.py\<close>. Celery and the cache framework are parameters.
\<close>

section \<open>Reads and hard deletes of the repository\<close>

definition repo_get_by_id :: "'db orm \<Rightarrow> string \<Rightarrow> 'db \<Rightarrow> int \<Rightarrow> row option" where
  "repo_get_by_id orm m db pk = find_row orm db (m, pk)"

definition repo_filter ::
  "'db orm \<Rightarrow> (row \<Rightarrow> string \<times> pyval \<Rightarrow> bool) \<Rightarrow> string \<Rightarrow> (string \<times> pyval) list \<Rightarrow> 'db \<Rightarrow> obj list" where
  "repo_filter orm matches m kwargs db = select_objs orm matches m kwargs db"

definition repo_exists ::
  "'db orm \<Rightarrow> (row \<Rightarrow> string \<times> pyval \<Rightarrow> bool) \<Rightarrow> string \<Rightarrow> (string \<times> pyval) list \<Rightarrow> 'db \<Rightarrow> bool" where
  "repo_exists orm matches m kwargs db \<longleftrightarrow> select_objs orm matches m kwargs db \<noteq> []"

definition repo_count ::
  "'db orm \<Rightarrow> (row \<Rightarrow> string \<times> pyval \<Rightarrow> bool) \<Rightarrow> string \<Rightarrow> (string \<times> pyval) list \<Rightarrow> 'db \<Rightarrow> nat" where
  "repo_count orm matches m kwargs db =
     length (if kwargs \<noteq> [] then select_objs orm matches m kwargs db
             else filter (\<lambda>x. fst x = m) (all_objs orm db))"

definition repo_delete_hard :: "'db orm \<Rightarrow> obj \<Rightarrow> 'db \<Rightarrow> (exn + unit) \<times> 'db" where
  "repo_delete_hard orm x = atomic (\<lambda>db. (Inr (), remove_obj orm x db))"

text \<open>The count Django returns is that of all rows removed, dependent ones included.\<close>

definition repo_delete_hard_by_id :: "'db orm \<Rightarrow> string \<Rightarrow> int \<Rightarrow> 'db \<Rightarrow> (exn + nat) \<times> 'db" where
  "repo_delete_hard_by_id orm m pk =
     atomic (\<lambda>db.
       case find_row orm db (m, pk) of
         None \<Rightarrow> (Inr 0, db)
       | Some r \<Rightarrow>
           (let db' = remove_obj orm (m, pk) db
            in (Inr (length (all_objs orm db) - length (all_objs orm db')), db')))"

section \<open>Query parameters as filters\<close>

datatype coerce_type = CInt | CBool | CStr

record FilterParam =
  query_param :: string
  orm_field :: string
  coerce :: coerce_type

definition new_FilterParam :: "string \<Rightarrow> string option \<Rightarrow> coerce_type \<Rightarrow> FilterParam" where
  "new_FilterParam q f c = \<lparr>query_param = q, orm_field = (case or_str f None of Some x \<Rightarrow> x | None \<Rightarrow> q), coerce = c\<rparr>"

definition BOOL_TRUE :: "string list" where "BOOL_TRUE = [''true'', ''1'', ''yes'']"
definition BOOL_FALSE :: "string list" where "BOOL_FALSE = [''false'', ''0'', ''no'']"

definition bad_parameter :: "string option \<Rightarrow> string \<Rightarrow> string \<Rightarrow> exn" where
  "bad_parameter rid name what =
     new_custom rid InvalidInputError (Some (''Parameter '' @ [squote] @ name @ [squote] @ what)) None NoFields"

definition coerce_value :: "string option \<Rightarrow> string \<Rightarrow> coerce_type \<Rightarrow> string \<Rightarrow> (exn, pyval) result" where
  "coerce_value rid raw target param_name =
     (case target of
        CInt \<Rightarrow> (case py_int raw of
            Some n \<Rightarrow> Inr (VInt n)
          | None \<Rightarrow> Inl (bad_parameter rid param_name '' must be an integer.''))
      | CBool \<Rightarrow>
          (let l = py_lower (py_strip raw) in
           if l \<in> set BOOL_TRUE then Inr (VBool True)
           else if l \<in> set BOOL_FALSE then Inr (VBool False)
           else Inl (bad_parameter rid param_name '' must be a boolean (true/false).''))
      | CStr \<Rightarrow> Inr (VStr raw))"

fun extract_loop ::
  "string option \<Rightarrow> (string \<times> string) list \<Rightarrow> FilterParam list \<Rightarrow> (string \<times> pyval) list \<Rightarrow> (exn, (string \<times> pyval) list) result" where
  "extract_loop rid query [] filters = Inr filters"
| "extract_loop rid query (fp # fps) filters =
     (case map_of query (query_param fp) of
        None \<Rightarrow> extract_loop rid query fps filters
      | Some raw \<Rightarrow>
          rbind (coerce_value rid raw (coerce fp) (query_param fp)) (\<lambda>v.
            extract_loop rid query fps (AList.update (orm_field fp) v filters)))"

definition extract_filters ::
  "string option \<Rightarrow> (string \<times> string) list \<Rightarrow> FilterParam list \<Rightarrow> (exn, (string \<times> pyval) list) result" where
  "extract_filters rid query fps = extract_loop rid query fps []"

section \<open>Data helpers\<close>

type_synonym str_row = "(string \<times> pyval) list"

fun pick_strict :: "string list \<Rightarrow> str_row \<Rightarrow> str_row \<Rightarrow> (exn, str_row) result" where
  "pick_strict [] row acc = Inr acc"
| "pick_strict (k # ks) row acc =
     (case map_of row k of
        None \<Rightarrow> Inl (raw_exn PyKeyError (repr_str k))
      | Some v \<Rightarrow> pick_strict ks row (AList.update k v acc))"

definition pick_present :: "string list \<Rightarrow> str_row \<Rightarrow> str_row" where
  "pick_present ks row =
     foldl (\<lambda>acc k. case map_of row k of Some v \<Rightarrow> AList.update k v acc | None \<Rightarrow> acc) [] ks"

fun all_rows :: "(str_row \<Rightarrow> (exn, str_row) result) \<Rightarrow> str_row list \<Rightarrow> (exn, str_row list) result" where
  "all_rows f [] = Inr []"
| "all_rows f (r # rs) = rbind (f r) (\<lambda>x. rbind (all_rows f rs) (\<lambda>xs. Inr (x # xs)))"

definition filter_dict_keys :: "str_row list \<Rightarrow> string list \<Rightarrow> bool \<Rightarrow> (exn, str_row list) result" where
  "filter_dict_keys data ks strict =
     (if ks = [] then Inr data
      else if strict then all_rows (\<lambda>row. pick_strict ks row []) data
      else Inr (map (pick_present ks) data))"

definition sanitize_string :: "string option \<Rightarrow> string \<Rightarrow> int \<Rightarrow> (exn, string) result" where
  "sanitize_string rid value max_length =
     (if int (length value) > max_length
      then Inl (new_custom rid InvalidInputError
        (Some (''String too long: '' @ nat_str (length value) @ '' chars (max: '' @ int_str max_length @ '')'')) None NoFields)
      else Inr value)"

definition parse_bool :: "pyval \<Rightarrow> bool" where
  "parse_bool value =
     (case value of
        VBool b \<Rightarrow> b
      | _ \<Rightarrow> py_lower (text_of value) \<in> {''true'', ''1'', ''yes'', ''on''})"

section \<open>Background tasks\<close>

text \<open>
  \<open>shared_task\<close> turns a named function into a task; the registry maps names to the tasks made. The
  function is given by its module and qualified name.
\<close>

record task_fn =
  fn_module :: string
  fn_qualname :: string

definition register_task ::
  "(string \<Rightarrow> task_fn \<Rightarrow> exn + 't) \<Rightarrow> string option \<Rightarrow> task_fn \<Rightarrow> (string \<times> 't) list \<Rightarrow> (exn + 't) \<times> (string \<times> 't) list" where
  "register_task shared_task name fn registry =
     (let task_name = (case or_str name None of Some n \<Rightarrow> n | None \<Rightarrow> fn_module fn @ ''.'' @ fn_qualname fn) in
      case shared_task task_name fn of
        Inl e \<Rightarrow> (Inl e, registry)
      | Inr task \<Rightarrow> (Inr task, AList.update task_name task registry))"

definition registered_tasks :: "(string \<times> 't) list \<Rightarrow> (string \<times> 't) list" where
  "registered_tasks registry = registry"

definition reset_task_registry :: "(string \<times> 't) list \<Rightarrow> (string \<times> 't) list" where
  "reset_task_registry registry = []"

text \<open>What reaches the broker.\<close>

record task_message =
  tm_name :: string
  tm_args :: "pyval list"
  tm_kwargs :: "(string \<times> pyval) list"
  tm_queue :: "string option"
  tm_countdown :: "pyval option"
  tm_eta :: "pyval option"

definition enqueue ::
  "(task_message \<Rightarrow> ('h, 's) act) \<Rightarrow> string option \<Rightarrow> string \<Rightarrow> pyval list \<Rightarrow> string option \<Rightarrow> pyval option \<Rightarrow> pyval option \<Rightarrow>
     (string \<times> pyval) list \<Rightarrow> ('h, 's) act" where
  "enqueue send_task default_queue task_name args queue countdown eta kwargs =
     send_task \<lparr>tm_name = task_name, tm_args = args, tm_kwargs = kwargs,
       tm_queue = (case or_str queue None of Some q \<Rightarrow> Some q | None \<Rightarrow> default_queue),
       tm_countdown = countdown, tm_eta = eta\<rparr>"

section \<open>The raw cache client\<close>

text \<open>The two attributes a backend may have, with what \<open>get_client()\<close> on them gives.\<close>

record 'c cache_backend =
  cb_client :: "(exn + 'c) option"
  cb_cache :: "(exn + 'c) option"
  cb_type :: string

definition no_client :: "string \<Rightarrow> string \<Rightarrow> exn" where
  "no_client alias_name t = raw_exn PyAttributeError
     (''Cannot get Valkey client from cache backend '' @ [squote] @ alias_name @ [squote] @ '' (type: '' @ t @
      ''). Expected django-valkey ValkeyCache.'')"

definition get_valkey_client :: "(string \<Rightarrow> exn + 'c cache_backend) \<Rightarrow> string \<Rightarrow> exn + 'c" where
  "get_valkey_client caches alias_name =
     rbind (caches alias_name) (\<lambda>cache.
       case cb_client cache of
         Some r \<Rightarrow> r
       | None \<Rightarrow>
           (case cb_cache cache of
              Some (Inr c) \<Rightarrow> Inr c
            | Some (Inl e) \<Rightarrow> if isinstance e PyAttributeError then Inl (no_client alias_name (cb_type cache)) else Inl e
            | None \<Rightarrow> Inl (no_client alias_name (cb_type cache))))"

section \<open>Tight payloads\<close>

text \<open>\<open>v not in (None, "")\<close>; \<open>data\<close> is what the serializer's own \<open>to_representation\<close> gives.\<close>

definition schema_to_representation :: "bool \<Rightarrow> pydict \<Rightarrow> pydict" where
  "schema_to_representation drop_empty_on_output data =
     (if \<not> drop_empty_on_output then data else filter (\<lambda>(k, v). v \<notin> {VNone, VStr []}) data)"


section \<open>Only declared parameters become filters\<close>

definition supplied :: "string option \<Rightarrow> (string \<times> string) list \<Rightarrow> FilterParam \<Rightarrow> (exn, pyval) result option" where
  "supplied rid query fp =
     map_option (\<lambda>raw. coerce_value rid raw (coerce fp) (query_param fp)) (map_of query (query_param fp))"

lemma extract_loop_Cons:
  "extract_loop rid query (fp # fps) acc =
     (case supplied rid query fp of
        None \<Rightarrow> extract_loop rid query fps acc
      | Some r \<Rightarrow> rbind r (\<lambda>v. extract_loop rid query fps (AList.update (orm_field fp) v acc)))"
  by (simp add: supplied_def split: option.split)

lemma extract_loop_Inr:
  "extract_loop rid query fps acc = Inr fs \<Longrightarrow> distinct (map orm_field fps) \<Longrightarrow>
     map_of fs f = (case find (\<lambda>fp. orm_field fp = f \<and> supplied rid query fp \<noteq> None) fps of
        Some fp \<Rightarrow> (case supplied rid query fp of Some (Inr v) \<Rightarrow> Some v | _ \<Rightarrow> None)
      | None \<Rightarrow> map_of acc f)"
proof (induction fps arbitrary: acc)
  case (Cons fp fps)
  have later: "find (\<lambda>g. orm_field g = orm_field fp \<and> supplied rid query g \<noteq> None) fps = None"
    unfolding find_None_iff using Cons.prems(2) by (metis distinct.simps(2) image_eqI list.set_map list.simps(9))
  show ?case
  proof (cases "supplied rid query fp")
    case None
    with Cons show ?thesis by (simp add: extract_loop_Cons del: extract_loop.simps)
  next
    case (Some r)
    with Cons.prems obtain v where v: "r = Inr v" "extract_loop rid query fps (AList.update (orm_field fp) v acc) = Inr fs"
      by (auto simp: extract_loop_Cons rbind_Inr_iff simp del: extract_loop.simps)
    have ih: "map_of fs f = (case find (\<lambda>g. orm_field g = f \<and> supplied rid query g \<noteq> None) fps of
        Some g \<Rightarrow> (case supplied rid query g of Some (Inr v) \<Rightarrow> Some v | _ \<Rightarrow> None)
      | None \<Rightarrow> map_of (AList.update (orm_field fp) v acc) f)"
      by (rule Cons.IH [OF v(2)]) (use Cons.prems(2) in simp)
    show ?thesis
    proof (cases "f = orm_field fp")
      case True
      then show ?thesis using ih later Some v(1) by (simp add: AList.update_conv')
    next
      case False
      then show ?thesis using ih by (simp add: AList.update_conv' cong: option.case_cong)
    qed
  qed
qed simp

lemma extract_loop_Inl:
  "isl (extract_loop rid query fps acc) \<longleftrightarrow> (\<exists>fp \<in> set fps. \<exists>e. supplied rid query fp = Some (Inl e))"
proof (induction fps arbitrary: acc)
  case (Cons fp fps)
  show ?case
  proof (cases "supplied rid query fp")
    case (Some r)
    with Cons show ?thesis by (cases r) (auto simp: extract_loop_Cons simp del: extract_loop.simps)
  qed (use Cons in \<open>simp add: extract_loop_Cons del: extract_loop.simps\<close>)
qed simp

text \<open>
  A query string can only filter on what the endpoint declared. Extraction succeeds exactly when every
  declared parameter that was sent has the declared type; then the filter holds the converted value of
  each declared parameter that was sent, under its ORM field, and nothing else, whatever other
  parameters the client adds.
\<close>

theorem extract_filters_exact:
  assumes "distinct (map orm_field fps)"
  shows "(isl (extract_filters rid query fps) \<longleftrightarrow>
      (\<exists>fp \<in> set fps. \<exists>raw e. map_of query (query_param fp) = Some raw \<and>
         coerce_value rid raw (coerce fp) (query_param fp) = Inl e)) \<and>
    (\<forall>fs f v. extract_filters rid query fps = Inr fs \<longrightarrow>
      (map_of fs f = Some v \<longleftrightarrow>
        (\<exists>fp \<in> set fps. \<exists>raw. orm_field fp = f \<and> map_of query (query_param fp) = Some raw \<and>
           coerce_value rid raw (coerce fp) (query_param fp) = Inr v)))"
proof (intro conjI allI impI)
  show "isl (extract_filters rid query fps) \<longleftrightarrow>
      (\<exists>fp \<in> set fps. \<exists>raw e. map_of query (query_param fp) = Some raw \<and>
         coerce_value rid raw (coerce fp) (query_param fp) = Inl e)"
    by (auto simp: extract_filters_def extract_loop_Inl supplied_def)
  fix fs f v assume ok: "extract_filters rid query fps = Inr fs"
  have eq: "map_of fs f = (case find (\<lambda>fp. orm_field fp = f \<and> supplied rid query fp \<noteq> None) fps of
      Some fp \<Rightarrow> (case supplied rid query fp of Some (Inr v) \<Rightarrow> Some v | _ \<Rightarrow> None) | None \<Rightarrow> None)"
    using extract_loop_Inr [OF ok [unfolded extract_filters_def] assms, of f] by (simp cong: option.case_cong)
  have uniq: "fp = fp'" if "fp \<in> set fps" "fp' \<in> set fps" "orm_field fp = orm_field fp'" for fp fp'
    using that assms by (metis distinct_map inj_onD)
  show "map_of fs f = Some v \<longleftrightarrow>
        (\<exists>fp \<in> set fps. \<exists>raw. orm_field fp = f \<and> map_of query (query_param fp) = Some raw \<and>
           coerce_value rid raw (coerce fp) (query_param fp) = Inr v)"
  proof (cases "find (\<lambda>fp. orm_field fp = f \<and> supplied rid query fp \<noteq> None) fps")
    case None
    then have "map_of fs f = None" unfolding eq by simp
    with None show ?thesis by (auto simp: find_None_iff supplied_def)
  next
    case (Some fp)
    then have fp: "fp \<in> set fps" "orm_field fp = f" "supplied rid query fp \<noteq> None" by (auto simp: find_Some_iff in_set_conv_nth)
    have only: "g = fp" if "g \<in> set fps" "orm_field g = f" for g using uniq [OF that(1) fp(1)] that(2) fp(2) by simp
    have "map_of fs f = Some v \<longleftrightarrow> supplied rid query fp = Some (Inr v)"
    proof -
      obtain r where r: "supplied rid query fp = Some r" using fp(3) by blast
      show ?thesis unfolding eq Some option.case r by (cases r) simp_all
    qed
    also have "\<dots> \<longleftrightarrow> (\<exists>g \<in> set fps. orm_field g = f \<and> supplied rid query g = Some (Inr v))"
      using fp(1,2) only by blast
    finally show ?thesis by (simp add: supplied_def map_option_eq_Some)
  qed
qed

theorem extract_filters_exact_witness:
  "\<exists>fs. extract_filters None [(''active'', ''Yes''), (''is_staff'', ''1'')] [new_FilterParam ''active'' (Some ''is_active'') CBool] = Inr fs \<and>
     map_of fs ''is_active'' = Some (VBool True) \<and> map_of fs ''is_staff'' \<noteq> Some (VStr ''1'')"
proof -
  let ?ps = "[new_FilterParam ''active'' (Some ''is_active'') CBool]" and ?q = "[(''active'', ''Yes''), (''is_staff'', ''1'')]"
  have d: "distinct (map orm_field ?ps)" by simp
  have fp: "orm_field (hd ?ps) = ''is_active''" "query_param (hd ?ps) = ''active''" "coerce (hd ?ps) = CBool" by code_simp+
  have "extract_filters None ?q ?ps = Inr [(''is_active'', VBool True)]" by code_simp
  then obtain fs where fs: "extract_filters None ?q ?ps = Inr fs" by blast
  note spec = conjunct2 [OF extract_filters_exact [OF d, of None ?q], rule_format, OF fs]
  have yes: "coerce_value None ''Yes'' CBool ''active'' = Inr (VBool True)" by code_simp
  have "map_of fs ''is_active'' = Some (VBool True)"
    by (subst spec) (use fp yes in simp)
  moreover have "map_of fs ''is_staff'' \<noteq> Some (VStr ''1'')"
    by (subst spec) (use fp in simp)
  ultimately show ?thesis using fs by blast
qed

section \<open>The repository verbs agree\<close>

context orm_store
begin

lemma reads_agree:
  "repo_exists orm matches m kwargs db \<longleftrightarrow> repo_count orm matches m kwargs db \<noteq> 0"
  "length (repo_filter orm matches m kwargs db) = repo_count orm matches m kwargs db"
proof -
  have "select_objs orm matches m [] db = filter (\<lambda>x. fst x = m) (all_objs orm db)"
    unfolding select_objs_def using objs_find [of _ db] by (intro filter_cong) (auto split: option.split)
  then show "length (repo_filter orm matches m kwargs db) = repo_count orm matches m kwargs db"
    by (simp add: repo_filter_def repo_count_def)
  then show "repo_exists orm matches m kwargs db \<longleftrightarrow> repo_count orm matches m kwargs db \<noteq> 0"
    unfolding repo_exists_def repo_filter_def by (metis length_0_conv)
qed

lemma active_lookup_is_listed:
  "repo_get_active_by_id orm sch m db pk = Some r \<longleftrightarrow>
     (m, pk) \<in> set (repo_list orm sch m True db) \<and> repo_get_by_id orm m db pk = Some r"
  using objs_find [of "(m, pk)" db]
  by (auto simp: repo_get_active_by_id_def repo_list_def repo_get_by_id_def active_row_def split: option.splits if_splits)

end

lemma register_then_listed:
  "register_task mk name fn reg = (Inr t, reg') \<Longrightarrow>
     map_of (registered_tasks reg') (case or_str name None of Some n \<Rightarrow> n | None \<Rightarrow> fn_module fn @ ''.'' @ fn_qualname fn) = Some t"
  by (auto simp: register_task_def registered_tasks_def Let_def AList.update_conv' split: sum.splits option.splits)

lemma filter_dict_keys_lenient:
  "k \<in> set ks \<Longrightarrow> filter_dict_keys [row] ks False = Inr [out] \<Longrightarrow> map_of out k = map_of row k"
proof -
  have "map_of (foldl (\<lambda>acc k. case map_of row k of Some v \<Rightarrow> AList.update k v acc | None \<Rightarrow> acc) acc ks) x =
      (if x \<in> set ks \<and> map_of row x \<noteq> None then map_of row x else map_of acc x)" for acc x
    by (induction ks arbitrary: acc) (auto simp: AList.update_conv' split: option.splits)
  then show "k \<in> set ks \<Longrightarrow> filter_dict_keys [row] ks False = Inr [out] \<Longrightarrow> map_of out k = map_of row k"
    by (auto simp: filter_dict_keys_def pick_present_def split: if_splits)
qed

text \<open>An empty key list means everything, not nothing.\<close>

lemma filter_dict_keys_empty: "filter_dict_keys data [] strict = Inr data"
  by (simp add: filter_dict_keys_def)

lemma tight_payload:
  "(k, v) \<in> set (schema_to_representation True data) \<longleftrightarrow> (k, v) \<in> set data \<and> v \<noteq> VNone \<and> v \<noteq> VStr []"
  by (auto simp: schema_to_representation_def)

end
