(* ===== verification/Login.thy ===== *)
theory Login
  imports Accounts
begin

text \<open>
  The social login of \<open>apps/accounts/views.py\<close>, the token serializer of \<open>apps/accounts/serializers.py\<close>, the two
  throttle classes and the request-id bridge of \<open>apps/core/middleware/\<close>. The superclass view of dj-rest-auth, the
  field checks of DRF and \<open>bind_to\<close> of the resilience kit are parameters with named laws.
\<close>

section \<open>Throttles\<close>

record throttle_class =
  th_scope :: string
  th_rate :: "string option"

definition AuthThrottle :: throttle_class where
  "AuthThrottle = \<lparr>th_scope = ''auth'', th_rate = None\<rparr>"

definition AuthEndpointThrottle :: throttle_class where
  "AuthEndpointThrottle = \<lparr>th_scope = ''auth_burst'', th_rate = Some ''5/min''\<rparr>"

text \<open>DRF's rule: the \<open>rate\<close> of the class if it has one, else the entry of \<open>DEFAULT_THROTTLE_RATES\<close> for its scope.\<close>

definition rate_of :: "(string \<times> string) list \<Rightarrow> throttle_class \<Rightarrow> string option" where
  "rate_of rates t = (case or_str (th_rate t) None of Some r \<Rightarrow> Some r | None \<Rightarrow> map_of rates (th_scope t))"

text \<open>
  The sustained rate is the configured one; the burst rate is fixed in the class, so the setting written for it,
  and the variable behind that setting, have no effect.
\<close>

lemma auth_rates:
  "rate_of rates AuthThrottle = map_of rates ''auth''"
  "rate_of rates AuthEndpointThrottle = rate_of rates' AuthEndpointThrottle"
  by (simp_all add: rate_of_def AuthThrottle_def AuthEndpointThrottle_def or_str_def)

section \<open>The request id\<close>

definition BindRequestIdMiddleware ::
  "('a comp \<Rightarrow> 'a comp) \<Rightarrow> (http_request \<Rightarrow> 'a comp) \<Rightarrow> http_request \<Rightarrow> 'a comp" where
  "BindRequestIdMiddleware bind_to get_response rq = bind_to (get_response rq)"

text \<open>
  What the kit documents of \<open>bind_to\<close>: within the block the variable has the value that the kit's own variable has
  on entry, and afterwards its own again, whether the block returns or raises.
\<close>

locale request_id_source =
  fixes bind_to :: "'a comp \<Rightarrow> 'a comp"
  assumes bind_to_scope:
    "bind_to body w = (let (r, w') = body (w\<lparr>w_request_id := w_kit_id w\<rparr>) in (r, w'\<lparr>w_request_id := w_request_id w\<rparr>))"
begin

lemma bound_inside:
  assumes "\<And>v. w_request_id v = w_kit_id w \<Longrightarrow> w_kit_id v = w_kit_id w \<Longrightarrow> fst (view rq v) = outcome"
  shows "fst (BindRequestIdMiddleware bind_to view rq w) = outcome"
  using assms by (simp add: BindRequestIdMiddleware_def bind_to_scope split_beta)

lemma restored_outside: "w_request_id (snd (BindRequestIdMiddleware bind_to view rq w)) = w_request_id w"
  by (simp add: BindRequestIdMiddleware_def bind_to_scope split_beta)

end

definition mirror :: "'a comp \<Rightarrow> 'a comp" where
  "mirror body w = (let (r, w') = body (w\<lparr>w_request_id := w_kit_id w\<rparr>) in (r, w'\<lparr>w_request_id := w_request_id w\<rparr>))"

interpretation mirror: request_id_source mirror
  by unfold_locales (simp add: mirror_def)

section \<open>The callback\<close>

text \<open>
  \<open>checks\<close> is what DRF makes of the two required fields of the payload: a \<open>ValidationError\<close>, or the code and the
  URI. When both a field and the allow-list object, DRF reports both; here the first.
\<close>

definition GoogleCallbackSerializer ::
  "(pyval \<Rightarrow> (exn, string \<times> string) result) \<Rightarrow> string list option \<Rightarrow> pyval \<Rightarrow> (exn, string \<times> string) result" where
  "GoogleCallbackSerializer checks allowed data =
     rbind (checks data) (\<lambda>(code, uri). rbind (validate_redirect_uri allowed uri) (\<lambda>uri'. Inr (code, uri')))"

record login_view =
  lv_callback_url :: "string option"
  lv_refresh_token :: "string option"

text \<open>\<open>parent\<close> is the body of the superclass's own \<open>get_response\<close>.\<close>

definition google_get_response :: "(login_view \<Rightarrow> pydict) \<Rightarrow> login_view \<Rightarrow> pydict" where
  "google_get_response parent view =
     (let response = parent view in
      case or_str (lv_refresh_token view) None of
        Some t \<Rightarrow> dset ''refresh'' (VStr t) response
      | None \<Rightarrow> response)"

text \<open>\<open>super_post\<close> is \<open>SocialLoginView.post\<close>, which ends in the \<open>get_response\<close> it is given.\<close>

definition google_post ::
  "(pyval \<Rightarrow> (exn, string \<times> string) result) \<Rightarrow> string list option \<Rightarrow>
     ((login_view \<Rightarrow> pydict) \<Rightarrow> login_view \<Rightarrow> pyval \<Rightarrow> 's \<Rightarrow> (exn + pydict) \<times> 's) \<Rightarrow> (login_view \<Rightarrow> pydict) \<Rightarrow>
     login_view \<Rightarrow> pyval \<Rightarrow> 's \<Rightarrow> (exn + pydict) \<times> 's" where
  "google_post checks allowed super_post parent view data s =
     (case GoogleCallbackSerializer checks allowed data of
        Inl e \<Rightarrow> (Inl e, s)
      | Inr (code, uri) \<Rightarrow>
          super_post (google_get_response parent) (view\<lparr>lv_callback_url := Some uri\<rparr>) data s)"

text \<open>
  What dj-rest-auth documents: a payload with an \<open>access_token\<close> logs in with that token of the provider, and the view's callback
  address plays no part; otherwise the code is exchanged for the callback address of the view. A failed login raises; after a successful
  one the view has its refresh token and the answer is that of \<open>get_response\<close>.
\<close>

definition posts_token :: "pyval \<Rightarrow> bool" where
  "posts_token data =
     (case data of VDict d \<Rightarrow> (case dget d ''access_token'' of Some v \<Rightarrow> truthy v | None \<Rightarrow> False) | _ \<Rightarrow> False)"

locale social_login =
  fixes super_post :: "(login_view \<Rightarrow> pydict) \<Rightarrow> login_view \<Rightarrow> pyval \<Rightarrow> 's \<Rightarrow> (exn + pydict) \<times> 's"
    and exchanged :: "string \<Rightarrow> pyval \<Rightarrow> 's \<Rightarrow> string option"
    and by_token :: "pyval \<Rightarrow> 's \<Rightarrow> string option"
  assumes answers: "super_post respond view data s = (Inr r, s') \<Longrightarrow>
      \<exists>t. t \<noteq> [] \<and> r = respond (view\<lparr>lv_refresh_token := Some t\<rparr>) \<and>
        (if posts_token data then by_token data s = Some t
         else \<exists>uri. lv_callback_url view = Some uri \<and> exchanged uri data s = Some t)"
begin

lemma login_answer:
  assumes "google_post checks allowed super_post parent view data s = (Inr r, s')"
  shows "\<exists>uris uri t. allowed = Some uris \<and> uri \<in> set uris \<and> dget r ''refresh'' = Some (VStr t) \<and>
     (if posts_token data then by_token data s = Some t else exchanged uri data s = Some t)"
proof -
  obtain code uri where ok: "GoogleCallbackSerializer checks allowed data = Inr (code, uri)"
    and post: "super_post (google_get_response parent) (view\<lparr>lv_callback_url := Some uri\<rparr>) data s = (Inr r, s')"
    using assms by (auto simp: google_post_def split: sum.splits)
  from ok obtain uris where u: "allowed = Some uris" "uri \<in> set uris"
    by (auto simp: GoogleCallbackSerializer_def validate_redirect_uri_def rbind_Inr_iff split: option.splits if_splits)
  obtain t where t: "t \<noteq> []" "r = google_get_response parent (view\<lparr>lv_callback_url := Some uri, lv_refresh_token := Some t\<rparr>)"
      "if posts_token data then by_token data s = Some t else exchanged uri data s = Some t"
    using answers [OF post] by (auto split: if_splits)
  then have "dget r ''refresh'' = Some (VStr t)" by (simp add: google_get_response_def or_str_def dict_simps)
  with u t(3) show ?thesis by blast
qed

end

text \<open>One code, bound to the address it was issued for, which is redeemed once; a posted token is taken as it is.\<close>

definition code_login :: "string \<Rightarrow> (login_view \<Rightarrow> pydict) \<Rightarrow> login_view \<Rightarrow> pyval \<Rightarrow> bool \<Rightarrow> (exn + pydict) \<times> bool" where
  "code_login issued_for respond view data unused =
     (if posts_token data then (Inr (respond (view\<lparr>lv_refresh_token := Some ''refresh-2''\<rparr>)), unused)
      else if unused \<and> lv_callback_url view = Some issued_for
      then (Inr (respond (view\<lparr>lv_refresh_token := Some ''refresh-1''\<rparr>)), False)
      else (Inl (raw_exn (OtherException ''OAuth2Error'') ''Invalid code''), unused))"

interpretation code_login: social_login "code_login issued_for"
    "\<lambda>uri data unused. if unused \<and> uri = issued_for then Some ''refresh-1'' else None" "\<lambda>data unused. Some ''refresh-2''"
  by unfold_locales (auto simp: code_login_def split: if_splits)

text \<open>
  A social login names an allowed redirect address and always hands out the refresh token: whenever the view
  answers, the redirect address of the payload is one of the configured ones and the body carries the refresh token of the
  login, which without an \<open>access_token\<close> in the payload is that of exchanging the code for exactly that address; whenever the
  allow-list is empty or does not have the address, the view raises before anything is exchanged.
\<close>

theorem google_login_checked:
  assumes "social_login super_post exchanged by_token"
  shows "(google_post checks allowed super_post parent view data s = (Inr r, s') \<longrightarrow>
      (\<exists>uris uri t. allowed = Some uris \<and> uri \<in> set uris \<and> dget r ''refresh'' = Some (VStr t) \<and>
         (if posts_token data then by_token data s = Some t else exchanged uri data s = Some t))) \<and>
    ((\<forall>code uri uris. checks data = Inr (code, uri) \<longrightarrow> allowed = Some uris \<longrightarrow> uri \<notin> set uris) \<longrightarrow>
      (\<exists>e. google_post checks allowed super_post parent view data s = (Inl e, s)))"
  using social_login.login_answer [OF assms, of checks allowed parent view data s r s']
  by (auto simp: google_post_def GoogleCallbackSerializer_def validate_redirect_uri_def rbind_def
      split: sum.splits option.splits if_splits)

text \<open>
  The view hands the whole payload on, so an \<open>access_token\<close> beside any allowed address logs in although the code is
  worthless: the check of the redirect address does not bind the login to it.
\<close>

lemma posted_token_skips_exchange:
  "google_post (\<lambda>_. Inr (''code'', ''https://app/cb'')) (Some [''https://app/cb'']) (code_login ''https://other/cb'') (\<lambda>_. [])
     \<lparr>lv_callback_url = None, lv_refresh_token = None\<rparr> (VDict [(KStr ''access_token'', VStr ''t'')]) False
     = (Inr [(KStr ''refresh'', VStr ''refresh-2'')], False)"
  by code_simp

section \<open>The token serializer\<close>

text \<open>\<open>declared\<close> is what DRF makes of the declared fields, the method field \<open>user\<close> through \<open>get_user\<close>.\<close>

definition get_user :: "(pyval \<Rightarrow> pyval) \<Rightarrow> pydict \<Rightarrow> pyval" where
  "get_user UserSerializer obj =
     (case dget obj ''user'' of None \<Rightarrow> VNone | Some u \<Rightarrow> if truthy u then UserSerializer u else VNone)"

definition copy_key :: "string \<Rightarrow> pydict \<Rightarrow> pydict \<Rightarrow> pydict" where
  "copy_key k obj data = (case dget obj k of Some v \<Rightarrow> dset k v data | None \<Rightarrow> data)"

definition CustomJWTSerializer ::
  "((pydict \<Rightarrow> pyval) \<Rightarrow> pydict \<Rightarrow> (exn, pydict) result) \<Rightarrow> (pyval \<Rightarrow> pyval) \<Rightarrow> pydict \<Rightarrow> (exn, pydict) result" where
  "CustomJWTSerializer declared UserSerializer obj =
     rbind (declared (get_user UserSerializer) obj) (\<lambda>data.
       Inr (copy_key ''refresh_expiration'' obj (copy_key ''access_expiration'' obj data)))"

text \<open>The expirations are those of the instance, where it has them, and nothing else is touched.\<close>

lemma dget_copy_key: "dget (copy_key k obj data) k' = (if k' = k \<and> dget obj k \<noteq> None then dget obj k else dget data k')"
  by (auto simp: copy_key_def dict_simps split: option.splits)

lemma jwt_body:
  assumes "CustomJWTSerializer declared ser obj = Inr out"
  shows "\<exists>data. declared (get_user ser) obj = Inr data \<and>
    (\<forall>k. dget out k = (if k \<in> {''access_expiration'', ''refresh_expiration''} \<and> dget obj k \<noteq> None then dget obj k else dget data k))"
proof -
  obtain data where "declared (get_user ser) obj = Inr data"
    and out: "out = copy_key ''refresh_expiration'' obj (copy_key ''access_expiration'' obj data)"
    using assms by (auto simp: CustomJWTSerializer_def rbind_Inr_iff)
  then show ?thesis unfolding out dget_copy_key by auto
qed

section \<open>Roles\<close>

definition RoleSerializer_fields :: "string list" where
  "RoleSerializer_fields = [''id'', ''name'', ''description'']"

text \<open>\<open>get_or_create\<close> is the manager's: the lookup, and the values for a new row.\<close>

definition role_get_or_create ::
  "((string \<times> pyval) list \<Rightarrow> (string \<times> pyval) list \<Rightarrow> 'db \<Rightarrow> (exn + int \<times> bool) \<times> 'db) \<Rightarrow> string \<Rightarrow> (string \<times> pyval) list \<Rightarrow>
     'db \<Rightarrow> (exn + int \<times> bool) \<times> 'db" where
  "role_get_or_create get_or_create name defaults = get_or_create [(''name'', VStr name)] defaults"

end
