(* ===== verification/Routes.thy ===== *)
theory Routes
  imports Login SettingsBase IpAddress
begin

text \<open>
  The URL tables \<open>config/urls.py\<close>, \<open>apps/core/urls.py\<close> and \<open>apps/accounts/urls.py\<close>, and the access policy each view
  declares. Matching is what Django documents of \<open>path\<close> and \<open>include\<close>: literal text, decimal digits for an
  \<open>int\<close> parameter, the first pattern that fits, an included table on what is left of the path.
\<close>

section \<open>Patterns\<close>

datatype view =
    AdminSite | HealthCheck | ReadinessCheck | MetricsEndpoint | CspReport | GoogleLogin | TokenRefresh | Logout | Me
  | APIKeyDeleteView | APIKeyRevokeView | SpectacularAPIView | SpectacularSwaggerView | SpectacularRedocView

datatype piece = Text string | IntParam string

text \<open>An \<open>Include\<close> of a table, a \<open>Route\<close> to a view with its name, or a \<open>Site\<close>, which takes all paths below its own.\<close>

datatype url_pattern =
    Route "piece list" view "string option"
  | Include "piece list" "url_pattern list"
  | Site "piece list" view

type_synonym kwargs = "(string \<times> int) list"

fun match_pieces :: "piece list \<Rightarrow> string \<Rightarrow> (kwargs \<times> string) option" where
  "match_pieces [] s = Some ([], s)"
| "match_pieces (Text t # ps) s = (if prefix t s then match_pieces ps (drop (length t) s) else None)"
| "match_pieces (IntParam n # ps) s =
     (case takeWhile is_digit s of
        [] \<Rightarrow> None
      | d # ds \<Rightarrow> map_option (\<lambda>(kw, rest). ((n, dec_digits 0 (d # ds)) # kw, rest)) (match_pieces ps (dropWhile is_digit s)))"

fun resolve :: "url_pattern list \<Rightarrow> string \<Rightarrow> (view \<times> kwargs) option" where
  "resolve [] s = None"
| "resolve (Route ps v name # rest) s =
     (case match_pieces ps s of Some (kw, []) \<Rightarrow> Some (v, kw) | _ \<Rightarrow> resolve rest s)"
| "resolve (Include ps sub # rest) s =
     (case match_pieces ps s of
        None \<Rightarrow> resolve rest s
      | Some (kw, s') \<Rightarrow> (case resolve sub s' of Some (v, kw') \<Rightarrow> Some (v, kw @ kw') | None \<Rightarrow> resolve rest s))"
| "resolve (Site ps v # rest) s = (case match_pieces ps s of Some (kw, _) \<Rightarrow> Some (v, kw) | None \<Rightarrow> resolve rest s)"

section \<open>The tables\<close>

definition core_urlpatterns :: "url_pattern list" where
  "core_urlpatterns =
     [Route [Text ''health/''] HealthCheck None,
      Route [Text ''readiness/''] ReadinessCheck None,
      Route [Text ''metrics''] MetricsEndpoint (Some ''metrics''),
      Route [Text ''csp-report/''] CspReport (Some ''csp-report'')]"

definition accounts_urlpatterns :: "url_pattern list" where
  "accounts_urlpatterns =
     [Route [Text ''google/''] GoogleLogin (Some ''google-login''),
      Route [Text ''token/refresh/''] TokenRefresh (Some ''token-refresh''),
      Route [Text ''logout/''] Logout (Some ''auth-logout''),
      Route [Text ''me/''] Me (Some ''auth-me''),
      Route [Text ''api-keys/'', IntParam ''pk'', Text ''/''] APIKeyDeleteView (Some ''api-key-delete''),
      Route [Text ''api-keys/'', IntParam ''pk'', Text ''/revoke/''] APIKeyRevokeView (Some ''api-key-revoke'')]"

definition urlpatterns :: "url_pattern list" where
  "urlpatterns =
     [Site [Text ''admin/''] AdminSite,
      Include [Text ''api/''] core_urlpatterns,
      Include [Text ''api/accounts/''] accounts_urlpatterns,
      Route [Text ''api/schema/''] SpectacularAPIView (Some ''schema''),
      Route [Text ''api/docs/''] SpectacularSwaggerView (Some ''swagger-ui''),
      Route [Text ''api/redoc/''] SpectacularRedocView (Some ''redoc'')]"

section \<open>Access policies\<close>

text \<open>What a view class or its decorators set; \<open>None\<close> leaves the default of the settings.\<close>

record policy =
  vp_authentication :: "string list option"
  vp_permissions :: "string list option"
  vp_throttles :: "string list option"

definition auth_throttles :: "string list" where
  "auth_throttles = [''BurstThrottle'', ''AuthThrottle'', ''AuthEndpointThrottle'']"

text \<open>The decorators of the function views and the class attributes of the others.\<close>

definition health_check_policy :: policy where
  "health_check_policy = \<lparr>vp_authentication = None, vp_permissions = Some [''AllowAny''], vp_throttles = Some []\<rparr>"

definition readiness_check_policy :: policy where
  "readiness_check_policy = \<lparr>vp_authentication = None, vp_permissions = Some [''AllowAny''], vp_throttles = Some []\<rparr>"

definition csp_report_policy :: policy where
  "csp_report_policy = \<lparr>vp_authentication = None, vp_permissions = Some [''AllowAny''], vp_throttles = Some [''BurstThrottle'']\<rparr>"

definition metrics_endpoint_policy :: policy where
  "metrics_endpoint_policy = \<lparr>vp_authentication = None, vp_permissions = Some [''AllowAny''], vp_throttles = Some []\<rparr>"

definition GoogleLogin_policy :: policy where
  "GoogleLogin_policy = \<lparr>vp_authentication = Some [], vp_permissions = Some [''AllowAny''], vp_throttles = Some auth_throttles\<rparr>"

definition token_refresh_policy :: policy where
  "token_refresh_policy = \<lparr>vp_authentication = None, vp_permissions = Some [''AllowAny''], vp_throttles = Some auth_throttles\<rparr>"

definition logout_policy :: policy where
  "logout_policy = \<lparr>vp_authentication = None, vp_permissions = Some [''IsAuthenticated''], vp_throttles = Some auth_throttles\<rparr>"

definition me_policy :: policy where
  "me_policy = \<lparr>vp_authentication = None, vp_permissions = Some [''IsAuthenticated''], vp_throttles = Some auth_throttles\<rparr>"

definition APIKeyDeleteView_policy :: policy where
  "APIKeyDeleteView_policy = \<lparr>vp_authentication = None, vp_permissions = Some [''HasResourcePermission''], vp_throttles = None\<rparr>"

definition APIKeyRevokeView_policy :: policy where
  "APIKeyRevokeView_policy = \<lparr>vp_authentication = None, vp_permissions = Some [''HasResourcePermission''], vp_throttles = None\<rparr>"

text \<open>The views of the service; those of the admin site and of drf-spectacular have their own rules.\<close>

fun policy_of :: "view \<Rightarrow> policy option" where
  "policy_of HealthCheck = Some health_check_policy"
| "policy_of ReadinessCheck = Some readiness_check_policy"
| "policy_of CspReport = Some csp_report_policy"
| "policy_of MetricsEndpoint = Some metrics_endpoint_policy"
| "policy_of GoogleLogin = Some GoogleLogin_policy"
| "policy_of TokenRefresh = Some token_refresh_policy"
| "policy_of Logout = Some logout_policy"
| "policy_of Me = Some me_policy"
| "policy_of APIKeyDeleteView = Some APIKeyDeleteView_policy"
| "policy_of APIKeyRevokeView = Some APIKeyRevokeView_policy"
| "policy_of _ = None"

lemmas policy_defs = health_check_policy_def readiness_check_policy_def csp_report_policy_def metrics_endpoint_policy_def GoogleLogin_policy_def
  token_refresh_policy_def logout_policy_def me_policy_def APIKeyDeleteView_policy_def APIKeyRevokeView_policy_def

section \<open>Which view a path reaches\<close>

text \<open>The tables laid flat: every pattern with the prefixes of the tables around it.\<close>

definition text_endpoints :: "(string \<times> view) list" where
  "text_endpoints =
     [(''api/health/'', HealthCheck), (''api/readiness/'', ReadinessCheck), (''api/metrics'', MetricsEndpoint), (''api/csp-report/'', CspReport),
      (''api/accounts/google/'', GoogleLogin), (''api/accounts/token/refresh/'', TokenRefresh), (''api/accounts/logout/'', Logout),
      (''api/accounts/me/'', Me), (''api/schema/'', SpectacularAPIView), (''api/docs/'', SpectacularSwaggerView), (''api/redoc/'', SpectacularRedocView)]"

definition endpoints :: "(piece list \<times> view) list" where
  "endpoints = map (\<lambda>(t, v). ([Text t], v)) text_endpoints @
     [([Text ''api/accounts/api-keys/'', IntParam ''pk'', Text ''/''], APIKeyDeleteView),
      ([Text ''api/accounts/api-keys/'', IntParam ''pk'', Text ''/revoke/''], APIKeyRevokeView)]"

lemma match_text: "match_pieces [Text t] s = Some (kw, r) \<longleftrightarrow> kw = [] \<and> s = t @ r"
  by (auto simp: prefix_def)

lemma digit_span:
  "list_all is_digit d \<Longrightarrow> r = [] \<or> \<not> is_digit (hd r) \<Longrightarrow> takeWhile is_digit (d @ r) = d \<and> dropWhile is_digit (d @ r) = r"
  by (induction d) (auto simp: takeWhile_eq_Nil_iff dropWhile_eq_self_iff)

text \<open>A path with one number in it, the number being all the digits between the two texts.\<close>

lemma match_number:
  assumes "u \<noteq> []" and "\<not> is_digit (hd u)"
  shows "match_pieces [Text t, IntParam n, Text u] s = Some (kw, []) \<longleftrightarrow>
    (\<exists>d. s = t @ d @ u \<and> d \<noteq> [] \<and> list_all is_digit d \<and> kw = [(n, dec_digits 0 d)])" (is "?l \<longleftrightarrow> ?r")
proof
  assume ?l
  then obtain s' where s: "s = t @ s'" and l: "match_pieces [IntParam n, Text u] s' = Some (kw, [])"
    by (auto simp: prefix_def split: if_splits)
  let ?d = "takeWhile is_digit s'"
  from l have d: "?d \<noteq> []" "dropWhile is_digit s' = u" "kw = [(n, dec_digits 0 ?d)]"
    by (auto simp: prefix_def split: list.splits if_splits)
  moreover have "s' = ?d @ u" using takeWhile_dropWhile_id [of is_digit s'] d(2) by simp
  moreover have "list_all is_digit ?d" by (auto simp: list_all_iff dest: set_takeWhileD)
  ultimately show ?r using s by metis
next
  assume ?r
  then obtain d where d: "s = t @ d @ u" "d \<noteq> []" "list_all is_digit d" "kw = [(n, dec_digits 0 d)]" by blast
  with digit_span [of d u] assms show ?l by (cases d) auto
qed

lemma slash_no_digit: "\<not> is_digit CHR ''/''" by code_simp

lemma match_key:
  "match_pieces [Text t, IntParam n, Text ''/''] s = Some (kw, []) \<longleftrightarrow>
    (\<exists>d. s = t @ d @ ''/'' \<and> d \<noteq> [] \<and> list_all is_digit d \<and> kw = [(n, dec_digits 0 d)])"
  "match_pieces [Text t, IntParam n, Text ''/revoke/''] s = Some (kw, []) \<longleftrightarrow>
    (\<exists>d. s = t @ d @ ''/revoke/'' \<and> d \<noteq> [] \<and> list_all is_digit d \<and> kw = [(n, dec_digits 0 d)])"
  using slash_no_digit by (intro match_number; simp)+

lemma resolve_Route:
  "resolve (Route ps v name # rest) s = Some (w, kw) \<longleftrightarrow>
     match_pieces ps s = Some (kw, []) \<and> w = v \<or> (\<forall>kw'. match_pieces ps s \<noteq> Some (kw', [])) \<and> resolve rest s = Some (w, kw)"
  by (auto split: option.splits list.splits)

lemma resolve_Include:
  "resolve (Include [Text t] sub # rest) s = Some (w, kw) \<longleftrightarrow>
     (\<exists>r. s = t @ r \<and> resolve sub r = Some (w, kw)) \<or> (\<forall>r. s = t @ r \<longrightarrow> resolve sub r = None) \<and> resolve rest s = Some (w, kw)"
  by (auto simp: prefix_def split: option.splits)

lemma resolve_core:
  "resolve core_urlpatterns s = Some (v, kw) \<longleftrightarrow> kw = [] \<and>
     (s, v) \<in> {(''health/'', HealthCheck), (''readiness/'', ReadinessCheck), (''metrics'', MetricsEndpoint), (''csp-report/'', CspReport)}"
  unfolding core_urlpatterns_def resolve_Route match_text by auto

lemma key_paths_differ: "list_all is_digit d \<Longrightarrow> d @ ''/'' \<noteq> d' @ ''/revoke/''"
proof
  assume d: "list_all is_digit d" "d @ ''/'' = d' @ ''/revoke/''"
  then have "d @ ''/'' = (d' @ ''/revoke'') @ ''/''" by simp
  then have "CHR ''/'' \<in> set d" unfolding append_same_eq by simp
  with d(1) slash_no_digit show False by (auto simp: list_all_iff)
qed

lemma resolve_keys:
  "resolve [Route [Text ''api-keys/'', IntParam ''pk'', Text ''/''] APIKeyDeleteView a,
       Route [Text ''api-keys/'', IntParam ''pk'', Text ''/revoke/''] APIKeyRevokeView b] s = Some (v, kw) \<longleftrightarrow>
     (\<exists>d. d \<noteq> [] \<and> list_all is_digit d \<and> kw = [(''pk'', dec_digits 0 d)] \<and>
        (s = ''api-keys/'' @ d @ ''/'' \<and> v = APIKeyDeleteView \<or> s = ''api-keys/'' @ d @ ''/revoke/'' \<and> v = APIKeyRevokeView))"
proof -
  have "\<not> (s = ''api-keys/'' @ d @ ''/'' \<and> s = ''api-keys/'' @ d' @ ''/revoke/'')" if "list_all is_digit d" for d d'
    using key_paths_differ [OF that, of d'] unfolding same_append_eq by (metis same_append_eq)
  then show ?thesis
    unfolding resolve_Route match_key resolve.simps(1) by blast
qed

lemma resolve_accounts:
  "resolve accounts_urlpatterns s = Some (v, kw) \<longleftrightarrow>
     (kw = [] \<and> (s, v) \<in> {(''google/'', GoogleLogin), (''token/refresh/'', TokenRefresh), (''logout/'', Logout), (''me/'', Me)}) \<or>
     (\<exists>d. d \<noteq> [] \<and> list_all is_digit d \<and> kw = [(''pk'', dec_digits 0 d)] \<and>
        (s = ''api-keys/'' @ d @ ''/'' \<and> v = APIKeyDeleteView \<or> s = ''api-keys/'' @ d @ ''/revoke/'' \<and> v = APIKeyRevokeView))"
  unfolding accounts_urlpatterns_def resolve_Route [of "[Text ''google/'']"] resolve_Route [of "[Text ''token/refresh/'']"]
    resolve_Route [of "[Text ''logout/'']"] resolve_Route [of "[Text ''me/'']"] match_text resolve_keys
  by (cases "s \<in> {''google/'', ''token/refresh/'', ''logout/'', ''me/''}") auto

lemma endpoint_paths:
  "(\<exists>ps. (ps, v) \<in> set endpoints \<and> match_pieces ps s = Some (kw, [])) \<longleftrightarrow>
     (kw = [] \<and> (s, v) \<in> set text_endpoints) \<or>
     (\<exists>d. d \<noteq> [] \<and> list_all is_digit d \<and> kw = [(''pk'', dec_digits 0 d)] \<and>
        (s = ''api/accounts/api-keys/'' @ d @ ''/'' \<and> v = APIKeyDeleteView \<or>
         s = ''api/accounts/api-keys/'' @ d @ ''/revoke/'' \<and> v = APIKeyRevokeView))"
proof -
  have "(\<exists>ps. (ps, v) \<in> set (map (\<lambda>(t, v). ([Text t], v)) text_endpoints) \<and> match_pieces ps s = Some (kw, [])) \<longleftrightarrow>
      kw = [] \<and> (s, v) \<in> set text_endpoints"
    by (auto simp: match_text simp del: match_pieces.simps)
  moreover have "(\<exists>ps. (ps, v) \<in> set endpoints \<and> match_pieces ps s = Some (kw, [])) \<longleftrightarrow>
      (\<exists>ps. (ps, v) \<in> set (map (\<lambda>(t, v). ([Text t], v)) text_endpoints) \<and> match_pieces ps s = Some (kw, [])) \<or>
      v = APIKeyDeleteView \<and> match_pieces [Text ''api/accounts/api-keys/'', IntParam ''pk'', Text ''/''] s = Some (kw, []) \<or>
      v = APIKeyRevokeView \<and> match_pieces [Text ''api/accounts/api-keys/'', IntParam ''pk'', Text ''/revoke/''] s = Some (kw, [])"
    unfolding endpoints_def set_append list.set by blast
  ultimately show ?thesis unfolding match_key by blast
qed

text \<open>What follows the two included tables.\<close>

lemma resolve_docs:
  "resolve [Route [Text ''api/schema/''] SpectacularAPIView a, Route [Text ''api/docs/''] SpectacularSwaggerView b,
       Route [Text ''api/redoc/''] SpectacularRedocView c] s = Some (v, kw) \<longleftrightarrow>
     kw = [] \<and> (s, v) \<in> {(''api/schema/'', SpectacularAPIView), (''api/docs/'', SpectacularSwaggerView), (''api/redoc/'', SpectacularRedocView)}"
  unfolding resolve_Route match_text by auto

lemma resolve_eq_None: "resolve ps s = None \<longleftrightarrow> (\<forall>v kw. resolve ps s \<noteq> Some (v, kw))"
  by (cases "resolve ps s") auto

lemma resolve_Include_skip: "\<not> prefix t s \<Longrightarrow> resolve (Include [Text t] sub # rest) s = resolve rest s"
  by simp

lemma resolve_Include_enter:
  "resolve (Include [Text t] sub # rest) (t @ r) = (case resolve sub r of Some x \<Rightarrow> Some x | None \<Rightarrow> resolve rest (t @ r))"
  by (simp split: option.splits)

lemma core_below_accounts: "resolve core_urlpatterns (''accounts/'' @ r) = None"
  unfolding resolve_eq_None resolve_core by simp

lemma docs_below_accounts:
  "resolve [Route [Text ''api/schema/''] SpectacularAPIView a, Route [Text ''api/docs/''] SpectacularSwaggerView b,
       Route [Text ''api/redoc/''] SpectacularRedocView c] (''api/accounts/'' @ r) = None"
  unfolding resolve_eq_None resolve_docs by simp

lemma resolve_under_accounts: "resolve (tl urlpatterns) (''api/accounts/'' @ r) = resolve accounts_urlpatterns r"
proof -
  have "''api/accounts/'' @ r = ''api/'' @ ''accounts/'' @ r" by simp
  then have "resolve (tl urlpatterns) (''api/accounts/'' @ r) = resolve (tl (tl urlpatterns)) (''api/accounts/'' @ r)"
    by (simp only: urlpatterns_def list.sel resolve_Include_enter core_below_accounts option.case)
  also have "\<dots> = (case resolve accounts_urlpatterns r of Some x \<Rightarrow> Some x | None \<Rightarrow> None)"
    by (simp only: urlpatterns_def list.sel resolve_Include_enter docs_below_accounts)
  finally show ?thesis by (cases "resolve accounts_urlpatterns r") simp_all
qed

lemma resolve_below_api:
  "resolve (tl urlpatterns) s = Some (v, kw) \<longleftrightarrow> (\<exists>ps. (ps, v) \<in> set endpoints \<and> match_pieces ps s = Some (kw, []))"
proof (cases "prefix ''api/accounts/'' s")
  case True
  then obtain r where s: "s = ''api/accounts/'' @ r" by (auto simp: prefix_def)
  have "resolve (tl urlpatterns) s = resolve accounts_urlpatterns r" unfolding s by (rule resolve_under_accounts)
  then have "resolve (tl urlpatterns) s = Some (v, kw) \<longleftrightarrow> resolve accounts_urlpatterns r = Some (v, kw)" by simp
  then show ?thesis unfolding endpoint_paths by (simp add: s resolve_accounts text_endpoints_def)
next
  case False
  then have "resolve (tl (tl urlpatterns)) s = resolve (tl (tl (tl urlpatterns))) s"
    unfolding urlpatterns_def list.sel by (rule resolve_Include_skip)
  note rest = this [unfolded urlpatterns_def list.sel]
  show ?thesis
  proof (cases "prefix ''api/'' s")
    case True
    then obtain r where s: "s = ''api/'' @ r" by (auto simp: prefix_def)
    define core where "core \<longleftrightarrow> (r, v) \<in> {(''health/'', HealthCheck), (''readiness/'', ReadinessCheck), (''metrics'', MetricsEndpoint), (''csp-report/'', CspReport)}"
    define docs where "docs \<longleftrightarrow> (s, v) \<in> {(''api/schema/'', SpectacularAPIView), (''api/docs/'', SpectacularSwaggerView), (''api/redoc/'', SpectacularRedocView)}"
    have no_key: "s \<noteq> ''api/accounts/api-keys/'' @ d" for d using False by auto
    have texts: "(s, v) \<in> set text_endpoints \<longleftrightarrow> core \<or> docs"
      using False unfolding core_def docs_def
      by (simp add: text_endpoints_def s) (elim impE | intro conjI impI iffI | elim disjE | simp)+
    have "docs \<Longrightarrow> resolve core_urlpatterns r = None"
      unfolding docs_def resolve_eq_None resolve_core by (simp add: s) (elim disjE; simp)
    moreover have "resolve core_urlpatterns r = Some (v, kw) \<longleftrightarrow> kw = [] \<and> core" unfolding core_def by (rule resolve_core)
    moreover have "resolve (tl (tl (tl urlpatterns))) s = Some (v, kw) \<longleftrightarrow> kw = [] \<and> docs"
      unfolding docs_def urlpatterns_def list.sel by (rule resolve_docs)
    moreover have "resolve (tl urlpatterns) s = (case resolve core_urlpatterns r of Some x \<Rightarrow> Some x | None \<Rightarrow> resolve (tl (tl (tl urlpatterns))) s)"
      unfolding urlpatterns_def list.sel s resolve_Include_enter rest [unfolded s] ..
    ultimately have "resolve (tl urlpatterns) s = Some (v, kw) \<longleftrightarrow> kw = [] \<and> (core \<or> docs)"
      by (cases "resolve core_urlpatterns r") auto
    then show ?thesis unfolding endpoint_paths texts using no_key by blast
  next
    case outside: False
    have "(s, v) \<notin> set text_endpoints" using outside by (auto simp: text_endpoints_def)
    moreover have "s \<noteq> ''api/accounts/api-keys/'' @ d" for d using False by auto
    ultimately have "\<not> (\<exists>ps. (ps, v) \<in> set endpoints \<and> match_pieces ps s = Some (kw, []))" unfolding endpoint_paths by blast
    moreover have "resolve (tl urlpatterns) s \<noteq> Some (v, kw)"
      unfolding urlpatterns_def list.sel resolve_Include_skip [OF outside] rest resolve_docs using outside by auto
    ultimately show ?thesis by blast
  qed
qed

lemma endpoint_resolves:
  "resolve urlpatterns s = Some (v, kw) \<longleftrightarrow>
     (if prefix ''admin/'' s then v = AdminSite \<and> kw = []
      else \<exists>ps. (ps, v) \<in> set endpoints \<and> match_pieces ps s = Some (kw, []))"
proof -
  have "urlpatterns = Site [Text ''admin/''] AdminSite # tl urlpatterns" by (simp add: urlpatterns_def)
  then have "resolve urlpatterns s = (if prefix ''admin/'' s then Some (AdminSite, []) else resolve (tl urlpatterns) s)"
    by (metis (no_types, lifting) match_pieces.simps(1,2) option.case resolve.simps(4) case_prod_conv)
  then show ?thesis by (auto simp: resolve_below_api)
qed

text \<open>
  The tables route every path exactly. A path below \<open>admin/\<close> reaches the admin site; any other path reaches a view
  if and only if it fits that view's pattern, with the numbers read from it as arguments. So no two
  patterns overlap, and the order of the tables, which decides between overlapping patterns, does not matter.
\<close>

theorem routes_exact:
  "resolve urlpatterns s = Some (v, kw) \<longleftrightarrow>
     (if prefix ''admin/'' s then v = AdminSite \<and> kw = []
      else \<exists>ps. (ps, v) \<in> set endpoints \<and> match_pieces ps s = Some (kw, []))"
  by (rule endpoint_resolves)


text \<open>The decimal numeral of a key leads back to that key.\<close>

lemma key_paths_roundtrip:
  "resolve urlpatterns (''api/accounts/api-keys/'' @ nat_str n @ ''/'') = Some (APIKeyDeleteView, [(''pk'', int n)])"
  "resolve urlpatterns (''api/accounts/api-keys/'' @ nat_str n @ ''/revoke/'') = Some (APIKeyRevokeView, [(''pk'', int n)])"
proof -
  have "nat_str n \<noteq> []" "list_all is_digit (nat_str n)"
    using ascii_digits_nat_str [of n] by (auto simp: ascii_digits_def list_all_iff)
  then show "resolve urlpatterns (''api/accounts/api-keys/'' @ nat_str n @ ''/'') = Some (APIKeyDeleteView, [(''pk'', int n)])"
    "resolve urlpatterns (''api/accounts/api-keys/'' @ nat_str n @ ''/revoke/'') = Some (APIKeyRevokeView, [(''pk'', int n)])"
    unfolding endpoint_resolves endpoint_paths by (auto simp: dec_digits_nat_str intro!: exI [of _ "nat_str n"])
qed

section \<open>Who may call what\<close>

definition anonymous :: "view \<Rightarrow> bool" where
  "anonymous v = (case policy_of v of Some p \<Rightarrow> vp_permissions p = Some [''AllowAny''] | None \<Rightarrow> False)"

lemma anonymous_views: "anonymous v \<longleftrightarrow> v \<in> {HealthCheck, ReadinessCheck, MetricsEndpoint, CspReport, GoogleLogin, TokenRefresh}"
  by (cases v) (simp_all add: anonymous_def policy_defs)

lemma sign_in_routes:
  "resolve urlpatterns ''api/accounts/google/'' = Some (GoogleLogin, [])"
  "resolve urlpatterns ''api/accounts/token/refresh/'' = Some (TokenRefresh, [])"
  by code_simp+

lemma probe_routes:
  "resolve urlpatterns ''api/health/'' = Some (HealthCheck, [])" "resolve urlpatterns ''api/readiness/'' = Some (ReadinessCheck, [])"
  "resolve urlpatterns ''api/metrics'' = Some (MetricsEndpoint, [])" "resolve urlpatterns ''api/csp-report/'' = Some (CspReport, [])"
  by code_simp+

lemma anonymous_paths:
  "{s. \<exists>v kw. resolve urlpatterns s = Some (v, kw) \<and> anonymous v} =
     {''api/health/'', ''api/readiness/'', ''api/metrics'', ''api/csp-report/'', ''api/accounts/google/'', ''api/accounts/token/refresh/''}"
    (is "?l = ?r")
proof
  show "?r \<subseteq> ?l" using sign_in_routes probe_routes unfolding anonymous_views by blast
  show "?l \<subseteq> ?r"
  proof
    fix s assume "s \<in> ?l"
    then obtain v kw where r: "resolve urlpatterns s = Some (v, kw)" and a: "v \<in> {HealthCheck, ReadinessCheck, MetricsEndpoint, CspReport, GoogleLogin, TokenRefresh}"
      unfolding anonymous_views by blast
    from a have own: "v \<noteq> AdminSite" "v \<noteq> APIKeyDeleteView" "v \<noteq> APIKeyRevokeView" "v \<noteq> Logout" "v \<noteq> Me"
      "v \<noteq> SpectacularAPIView" "v \<noteq> SpectacularSwaggerView" "v \<noteq> SpectacularRedocView" by auto
    then have "\<exists>ps. (ps, v) \<in> set endpoints \<and> match_pieces ps s = Some (kw, [])"
      using r unfolding endpoint_resolves by (simp split: if_splits)
    then show "s \<in> ?r" unfolding endpoint_paths using own by (auto simp: text_endpoints_def)
  qed
qed

text \<open>
  C36: the service answers strangers on six paths and no others: of all paths that reach a view of the service, exactly these
  allow any caller. The two among them that hand out tokens carry the sustained and the burst limit for sign-in.
\<close>

theorem anonymous_surface_exact:
  "{s. \<exists>v kw. resolve urlpatterns s = Some (v, kw) \<and> anonymous v} =
     {''api/health/'', ''api/readiness/'', ''api/metrics'', ''api/csp-report/'', ''api/accounts/google/'', ''api/accounts/token/refresh/''} \<and>
   list_all (\<lambda>s. \<exists>v p. resolve urlpatterns s = Some (v, []) \<and> policy_of v = Some p \<and>
      {''AuthThrottle'', ''AuthEndpointThrottle''} \<subseteq> set (the (vp_throttles p))) [''api/accounts/google/'', ''api/accounts/token/refresh/'']"
  by (rule conjI [OF anonymous_paths]) (simp add: sign_in_routes auth_throttles_def policy_defs)

text \<open>The rates of the shipped settings.\<close>

fun text_entries :: "pydict \<Rightarrow> (string \<times> string) list" where
  "text_entries [] = []"
| "text_entries ((KStr k, VStr v) # d) = (k, v) # text_entries d"
| "text_entries (_ # d) = text_entries d"

definition throttle_rates :: "bindings \<Rightarrow> (string \<times> string) list" where
  "throttle_rates b =
     (case map_of b ''REST_FRAMEWORK'' of
        Some (VDict rf) \<Rightarrow> (case dget rf ''DEFAULT_THROTTLE_RATES'' of Some (VDict rates) \<Rightarrow> text_entries rates | _ \<Rightarrow> [])
      | _ \<Rightarrow> [])"

text \<open>\<open>RATE_LIMIT_AUTH\<close> sets the sustained rate; \<open>RATE_LIMIT_AUTH_BURST\<close>, which the settings read for the burst rate, sets nothing.\<close>

lemma sign_in_rates:
  assumes "rest_section env = Inr b"
  shows "rate_of (throttle_rates b) AuthThrottle = Some (getenv env ''RATE_LIMIT_AUTH'' ''20/hour'')"
    and "rate_of (throttle_rates b) AuthEndpointThrottle = Some ''5/min''"
    and "map_of (throttle_rates b) ''auth_burst'' = Some (getenv env ''RATE_LIMIT_AUTH_BURST'' ''5/min'')"
  using assms
  by (auto simp: rest_section_def rbind_Inr_iff throttle_rates_def rate_of_def AuthThrottle_def AuthEndpointThrottle_def or_str_def
      str_dict_def dget_def)

text \<open>The addresses that the views and the API description name for these views reach nothing.\<close>

lemma documented_paths_unrouted:
  "list_all (\<lambda>s. resolve urlpatterns s = None)
     [''api/accounts/auth/google/'', ''api/accounts/auth/token/refresh/'', ''api/accounts/auth/logout/'', ''api/accounts/auth/me/'',
      ''api/auth/login/'', ''api/accounts/api-keys/'']"
  by code_simp

end
