(* ===== verification/Pipeline.thy ===== *)
theory Pipeline
  imports Routes AuthChain ErrorHandler
begin

text \<open>
  A request from its path to its answer: the URL tables choose the view, the view's policy and the settings choose the
  authenticators and the permission class, and what any of them raises goes to the project's exception handler. The
  order in which a view runs these is DRF's (\<open>APIView.dispatch\<close>), whose documented behaviour is the locale
  \<open>drf_dispatch\<close>.
\<close>

section \<open>DRF's view\<close>

text \<open>
  \<open>dispatch\<close> gets the authentication, the permission and the throttle checks, the method's handler and the exception handler of
  the settings. The checks run in this order before the handler, and everything raised is answered by the exception
  handler; the exception it sees may be one DRF puts in place of the one raised (the refusal of an anonymous caller is
  \<open>NotAuthenticated\<close>, the status of a failed authentication depends on the \<open>WWW-Authenticate\<close> header).
\<close>

type_synonym ('u, 's) view_dispatch =
  "('s \<Rightarrow> (exn + 'u) \<times> 's) \<Rightarrow> ('u \<Rightarrow> bool) \<Rightarrow> ('u \<Rightarrow> exn option)
     \<Rightarrow> ('u \<Rightarrow> 's \<Rightarrow> (exn + http_response) \<times> 's) \<Rightarrow> (exn \<Rightarrow> http_response) \<Rightarrow> 's \<Rightarrow> http_response \<times> 's"

locale drf_dispatch =
  fixes dispatch :: "('u, 's) view_dispatch"
  assumes bad_credentials: "authn s = (Inl e, s1) \<Longrightarrow> \<exists>e'. dispatch authn perm throttle handler on_exn s = (on_exn e', s1)"
    and no_permission: "authn s = (Inr u, s1) \<Longrightarrow> \<not> perm u \<Longrightarrow> \<exists>e. dispatch authn perm throttle handler on_exn s = (on_exn e, s1)"
    and throttled: "authn s = (Inr u, s1) \<Longrightarrow> perm u \<Longrightarrow> throttle u = Some e \<Longrightarrow>
      \<exists>e'. dispatch authn perm throttle handler on_exn s = (on_exn e', s1)"
    and handled: "authn s = (Inr u, s1) \<Longrightarrow> perm u \<Longrightarrow> throttle u = None \<Longrightarrow> handler u s1 = (Inr r, s2) \<Longrightarrow>
      dispatch authn perm throttle handler on_exn s = (r, s2)"
    and raised: "authn s = (Inr u, s1) \<Longrightarrow> perm u \<Longrightarrow> throttle u = None \<Longrightarrow> handler u s1 = (Inl e, s2) \<Longrightarrow>
      \<exists>e'. dispatch authn perm throttle handler on_exn s = (on_exn e', s2)"
begin

text \<open>Either the exception handler answers and only authentication touched the state, or the handler ran for a permitted user.\<close>

lemma dispatch_outcome:
  assumes "authn s = (a, s1)" and "dispatch authn perm throttle handler on_exn s = (r, s')"
  shows "(\<exists>e. r = on_exn e) \<and> s' = s1 \<or>
    (\<exists>u h. a = Inr u \<and> perm u \<and> throttle u = None \<and> handler u s1 = (h, s') \<and> (h = Inr r \<or> (\<exists>e. r = on_exn e)))"
proof (cases a)
  case (Inl e)
  then show ?thesis using bad_credentials [of authn s e s1 perm throttle handler on_exn] assms by auto
next
  case (Inr u)
  note authn = assms(1) [unfolded Inr]
  obtain h s2 where h: "handler u s1 = (h, s2)" by force
  consider "\<not> perm u" | e where "perm u" "throttle u = Some e" | "perm u" "throttle u = None" by (cases "throttle u") auto
  then show ?thesis
  proof cases
    case 1
    with no_permission [of authn s u s1 perm throttle handler on_exn] authn assms(2) show ?thesis by auto
  next
    case 2
    with throttled [of authn s u s1 perm throttle e handler on_exn] authn assms(2) show ?thesis by auto
  next
    case 3
    have "s2 = s' \<and> (h = Inr r \<or> (\<exists>e. r = on_exn e))"
      using handled [of authn s u s1 perm throttle handler _ s2 on_exn]
        raised [of authn s u s1 perm throttle handler _ s2 on_exn] authn 3 assms(2) h by (cases h) fastforce+
    with 3 h Inr show ?thesis by auto
  qed
qed

end

section \<open>The service's views behind it\<close>

text \<open>
  What a deployment fixes: the request id of the context, \<open>AUTH_ENABLED_PROVIDERS\<close>, simple-jwt, the users, the throttles, the two
  exception translators and the key table's validation. \<open>st_handler\<close> is the code of the views other than the two for
  keys, and what DRF does on methods those two do not define; \<open>'w\<close> is the state such views change.
\<close>

record 'w site =
  st_request_id :: "string option"
  st_enabled :: "string list option"
  st_jwt :: "auth_request \<Rightarrow> key_store \<Rightarrow> (exn + (int \<times> api_key option) option) \<times> key_store"
  st_jwt_header :: "auth_request \<Rightarrow> string option"
  st_user :: "int \<Rightarrow> account"
  st_throttle :: "view \<Rightarrow> account \<Rightarrow> exn option"
  st_kit :: "exn \<Rightarrow> envelope \<times> int \<times> (string \<times> string) list"
  st_drf :: "exn \<Rightarrow> drf_response option"
  st_orm :: key_orm
  st_handler :: "view \<Rightarrow> string \<Rightarrow> kwargs \<Rightarrow> account \<Rightarrow> key_store \<times> 'w \<Rightarrow> (exn + http_response) \<times> key_store \<times> 'w"

record request =
  hr_path :: string
  hr_method :: string
  hr_now :: nat
  hr_api_key :: "string option"

definition credentials :: "request \<Rightarrow> auth_request" where
  "credentials rq = (hr_now rq, hr_api_key rq)"

text \<open>Django's \<open>AnonymousUser\<close>: not authenticated, no roles.\<close>

definition AnonymousUser :: account where
  "AnonymousUser = \<lparr>user_pk = 0, user_email = [], user_username = [], user_first_name = [], user_last_name = [],
     user_is_active = False, user_is_authenticated = False, user_roles = []\<rparr>"

definition composite :: "'w site \<Rightarrow> (auth_request, key_store, int, api_key option) provider list" where
  "composite site = fst (enabled_providers (st_enabled site) (boot_providers (st_jwt site) (st_jwt_header site)))"

text \<open>A view that sets \<open>authentication_classes\<close> sets it empty; the others take the default, the composite.\<close>

definition view_authn :: "'w site \<Rightarrow> policy \<Rightarrow> request \<Rightarrow> key_store \<times> 'w \<Rightarrow> (exn + account) \<times> key_store \<times> 'w" where
  "view_authn site p rq s =
     (case chain (if vp_authentication p = None then composite site else []) (credentials rq) (fst s) of
        (Inl e, ks) \<Rightarrow> (Inl e, ks, snd s)
      | (Inr None, ks) \<Rightarrow> (Inr AnonymousUser, ks, snd s)
      | (Inr (Some (uid, _)), ks) \<Rightarrow> (Inr (st_user site uid), ks, snd s))"

definition view_action :: "view \<Rightarrow> action option" where
  "view_action v = (case v of APIKeyDeleteView \<Rightarrow> Some DELETE | APIKeyRevokeView \<Rightarrow> Some UPDATE | _ \<Rightarrow> None)"

text \<open>Every class of the list has to agree; a view that sets none takes the default of the settings, \<open>IsAuthenticated\<close>.\<close>

definition permission_holds :: "view \<Rightarrow> account \<Rightarrow> string \<Rightarrow> bool" where
  "permission_holds v u cls =
     (if cls = ''AllowAny'' then True
      else if cls = ''IsAuthenticated'' then user_is_authenticated u
      else if cls = ''HasResourcePermission'' then fst (has_resource_permission (Some API_KEY) (view_action v) (Some u) None)
      else False)"

definition permitted :: "view \<Rightarrow> policy \<Rightarrow> account \<Rightarrow> bool" where
  "permitted v p u = list_all (permission_holds v u) (case vp_permissions p of Some cs \<Rightarrow> cs | None \<Rightarrow> [''IsAuthenticated''])"

definition key_method :: "'w site \<Rightarrow> request \<Rightarrow> view \<Rightarrow> kwargs \<Rightarrow> account \<Rightarrow> key_store \<times> 'w \<Rightarrow> (exn + http_response) \<times> key_store \<times> 'w" where
  "key_method site rq v kw u s =
     (case (v, map_of kw ''pk'') of
        (APIKeyDeleteView, Some pk) \<Rightarrow>
          if hr_method rq = ''DELETE'' then
            (case api_key_delete (st_request_id site) (st_orm site) u pk (fst s) of (r, ks) \<Rightarrow> (r, ks, snd s))
          else st_handler site v (hr_method rq) kw u s
      | (APIKeyRevokeView, Some pk) \<Rightarrow>
          if hr_method rq = ''POST'' then
            (case api_key_revoke (st_request_id site) (st_orm site) (hr_now rq) u pk (fst s) of (r, ks) \<Rightarrow> (r, ks, snd s))
          else st_handler site v (hr_method rq) kw u s
      | _ \<Rightarrow> st_handler site v (hr_method rq) kw u s)"

definition on_exception :: "'w site \<Rightarrow> exn \<Rightarrow> http_response" where
  "on_exception site e = fst (api_exception_handler (st_kit site) (st_drf site) (st_request_id site) boot_status_map e)"

text \<open>\<open>None\<close>: no view of the service takes the path (the admin site, the API description, Django's own 404).\<close>

definition serve :: "(account, key_store \<times> 'w) view_dispatch \<Rightarrow> 'w site \<Rightarrow> request \<Rightarrow> key_store \<times> 'w \<Rightarrow> (http_response \<times> key_store \<times> 'w) option" where
  "serve dispatch site rq s =
     (case resolve urlpatterns (hr_path rq) of
        None \<Rightarrow> None
      | Some (v, kw) \<Rightarrow>
          map_option (\<lambda>p. dispatch (view_authn site p rq) (permitted v p) (st_throttle site v) (key_method site rq v kw) (on_exception site) s)
            (policy_of v))"

section \<open>Nothing happens without authority\<close>

text \<open>The handler never calls an answer a success, provided the resilience kit does not.\<close>

lemma on_exception_fails:
  assumes "\<forall>e. \<not> env_success (fst (st_kit site e))"
  shows "\<not> env_success (rs_body (on_exception site e))"
proof -
  obtain b n hs where "st_kit site e = (b, n, hs)" by (rule prod_cases3)
  moreover from this have "\<not> env_success b" using assms by (metis fst_conv)
  ultimately show ?thesis
    by (auto simp: on_exception_def api_exception_handler_def error_envelope_def Let_def split: prod.splits option.splits)
qed

lemma guarded_policy:
  assumes "policy_of v = Some p" and "\<not> anonymous v"
  shows "vp_authentication p = None" and "permitted v p u \<Longrightarrow> user_is_authenticated u"
    and "view_action v = Some a \<Longrightarrow> permitted v p u \<Longrightarrow> has_superuser_role u \<or> roles_grant u API_KEY a"
  using assms
  by (cases v; force simp: anonymous_def policy_defs permitted_def permission_holds_def has_resource_permission_def
      user_has_permission_def view_action_def Let_def split: if_splits prod.splits option.splits)+

text \<open>What authentication alone leaves of the state: the key's time of last use.\<close>

definition after_authn :: "'w site \<Rightarrow> request \<Rightarrow> key_store \<times> 'w \<Rightarrow> key_store \<times> 'w" where
  "after_authn site rq s = (snd (chain (composite site) (credentials rq) (fst s)), snd s)"

lemma view_authn_accepted:
  assumes "vp_authentication p = None" and "view_authn site p rq s = (Inr u, s1)" and "user_is_authenticated u"
  shows "\<exists>uid c. chain (composite site) (credentials rq) (fst s) = (Inr (Some (uid, c)), fst s1) \<and> u = st_user site uid"
  using assms by (auto simp: view_authn_def AnonymousUser_def split: prod.splits sum.splits option.splits)

lemma view_authn_state: "vp_authentication p = None \<Longrightarrow> snd (view_authn site p rq s) = after_authn site rq s"
  by (auto simp: view_authn_def after_authn_def split: prod.splits sum.splits option.splits)

lemma guarded_authority:
  assumes "drf_dispatch dispatch" and "auth_provider valid_jwt (st_jwt site)"
    and "\<forall>e. \<not> env_success (fst (st_kit site e))"
    and "hr_path rq \<notin> {''api/health/'', ''api/readiness/'', ''api/metrics'', ''api/csp-report/'', ''api/accounts/google/'', ''api/accounts/token/refresh/''}"
    and "serve dispatch site rq s = Some (r, s')"
    and "env_success (rs_body r) \<or> s' \<noteq> after_authn site rq s"
  shows "\<exists>v kw uid c. resolve urlpatterns (hr_path rq) = Some (v, kw) \<and>
    (valid_jwt (credentials rq) (fst s) (uid, c) \<or> valid_api_key (credentials rq) (fst s) (uid, c)) \<and>
    user_is_authenticated (st_user site uid) \<and>
    (\<forall>a. view_action v = Some a \<longrightarrow> has_superuser_role (st_user site uid) \<or> roles_grant (st_user site uid) API_KEY a)"
proof -
  obtain v kw p where v: "resolve urlpatterns (hr_path rq) = Some (v, kw)" and p: "policy_of v = Some p"
    and out: "dispatch (view_authn site p rq) (permitted v p) (st_throttle site v) (key_method site rq v kw) (on_exception site) s = (r, s')"
    using assms(5) by (auto simp: serve_def split: option.splits)
  have guarded: "\<not> anonymous v" using anonymous_paths assms(4) v by blast
  note pol = guarded_policy [OF p guarded]
  obtain a s1 where a: "view_authn site p rq s = (a, s1)" by (rule prod.exhaust)
  then have s1: "s1 = after_authn site rq s" using view_authn_state [OF pol(1), of site rq s] by simp
  obtain u where u: "a = Inr u" "permitted v p u"
    using drf_dispatch.dispatch_outcome [OF assms(1) a out] assms(6) on_exception_fails [OF assms(3)] s1 by blast
  obtain uid c where c: "chain (composite site) (credentials rq) (fst s) = (Inr (Some (uid, c)), fst s1)" "u = st_user site uid"
    using view_authn_accepted [OF pol(1)] a u pol(2) by blast
  have "valid_jwt (credentials rq) (fst s) (uid, c) \<or> valid_api_key (credentials rq) (fst s) (uid, c)"
    using composite_split [OF assms(2) c(1) [unfolded composite_def]] by blast
  with v u c(2) pol(2,3) show ?thesis by blast
qed

text \<open>
  C2: outside the six open paths nothing happens without authority. Whatever views and throttles a deployment has, when a request on
  any other path gets a success, or leaves more behind than the time its key was last used, then it carried a valid
  token, or the full secret of an active, unrevoked key of an active user; the user so named counts as
  authenticated; and where the view is one of the two for keys, that user has a superuser role or a role with the permission
  to update, or to delete, keys.
\<close>

theorem guarded_paths_need_authority:
  assumes "drf_dispatch dispatch" and "auth_provider valid_jwt (st_jwt site)"
    and "\<forall>e. \<not> env_success (fst (st_kit site e))"
    and "hr_path rq \<notin> {''api/health/'', ''api/readiness/'', ''api/metrics'', ''api/csp-report/'', ''api/accounts/google/'', ''api/accounts/token/refresh/''}"
    and "serve dispatch site rq s = Some (r, s')"
    and "env_success (rs_body r) \<or> s' \<noteq> after_authn site rq s"
  shows "\<exists>v kw uid c. resolve urlpatterns (hr_path rq) = Some (v, kw) \<and>
    (valid_jwt (credentials rq) (fst s) (uid, c) \<or> valid_api_key (credentials rq) (fst s) (uid, c)) \<and>
    user_is_authenticated (st_user site uid) \<and>
    (\<forall>a. view_action v = Some a \<longrightarrow> has_superuser_role (st_user site uid) \<or> roles_grant (st_user site uid) API_KEY a)"
  by (rule guarded_authority [OF assms])

section \<open>Revocation, over HTTP\<close>

text \<open>The code that is not the key views' own does not write the key table.\<close>

definition leaves_keys :: "'w site \<Rightarrow> bool" where
  "leaves_keys site \<longleftrightarrow> (\<forall>rq s. ks_keys (snd (st_jwt site rq s)) = ks_keys s) \<and>
     (\<forall>v m kw u s. ks_keys (fst (snd (st_handler site v m kw u s))) = ks_keys (fst s))"

lemma leaves_keysD:
  assumes "leaves_keys site"
  shows "dead pk (snd (st_jwt site rq s)) = dead pk s" and "dead pk (fst (snd (st_handler site v m kw u w))) = dead pk (fst w)"
  using assms dead_frame unfolding leaves_keys_def by blast+

lemma provider_keeps_dead:
  assumes "leaves_keys site" and "p \<in> {JWTProvider (st_jwt site) hdr, APIKeyProvider, GoogleOAuthProvider}" and "dead pk s"
  shows "dead pk (snd (prov_authenticate p rq s))"
proof -
  have "dead pk (snd (st_jwt site rq s))" using assms(1,3) by (simp add: leaves_keysD)
  moreover have "snd (prov_authenticate APIKeyProvider rq s) = snd (authenticate (fst rq) (snd rq) s)"
    by (auto simp: APIKeyProvider_def split: prod.splits sum.splits option.splits)
  ultimately show ?thesis
    using assms(2,3) dead_authenticate [OF assms(3)] by (auto simp: JWTProvider_def GoogleOAuthProvider_def)
qed

lemma chain_keeps_dead:
  assumes "leaves_keys site" and "dead pk s"
  shows "dead pk (snd (chain (composite site) rq s))"
  by (rule chain_keeps [where Q = "dead pk", OF provider_keeps_dead [OF assms(1) composite_known] assms(2)]) (simp_all add: composite_def)

lemma view_authn_keeps_dead:
  assumes "leaves_keys site" and "dead pk (fst s)"
  shows "dead pk (fst (snd (view_authn site p rq s)))"
proof (cases "vp_authentication p = None")
  case True
  then show ?thesis using chain_keeps_dead [OF assms] by (simp add: view_authn_state after_authn_def)
qed (use assms in \<open>auto simp: view_authn_def\<close>)

lemma key_method_keeps_dead:
  assumes "leaves_keys site" and "dead pk (fst s)"
  shows "dead pk (fst (snd (key_method site rq v kw u s)))"
proof -
  have other: "dead pk (fst (snd (st_handler site v m kw u s)))" for m
    using assms by (simp add: leaves_keysD)
  have "snd (api_key_delete ctx db u pk' (fst s)) = snd (delete_key db pk' (user_pk u) (fst s))" for ctx db pk'
    by (auto simp: api_key_delete_def split: prod.splits sum.splits)
  then have del: "dead pk (snd (api_key_delete ctx db u pk' (fst s)))" for ctx db pk'
    using delete_state [of db pk' "user_pk u" "fst s"] dead_replace [OF assms(2)] assms(2) by auto
  have "snd (api_key_revoke ctx db now u pk' (fst s)) = snd (revoke db now pk' (user_pk u) (fst s))" for ctx db now pk'
    by (auto simp: api_key_revoke_def split: prod.splits sum.splits)
  then have rev: "dead pk (snd (api_key_revoke ctx db now u pk' (fst s)))" for ctx db now pk'
    using revoke_state [of db now pk' "user_pk u" "fst s"] dead_replace [OF assms(2)] assms(2) by auto
  show ?thesis
    using other del rev by (auto simp: key_method_def split: prod.split view.split option.split) (metis snd_conv)+
qed

text \<open>Requests one after the other; a path no view of the service takes changes nothing here.\<close>

definition serve_all :: "(account, key_store \<times> 'w) view_dispatch \<Rightarrow> 'w site \<Rightarrow> request list \<Rightarrow> key_store \<times> 'w \<Rightarrow> key_store \<times> 'w" where
  "serve_all dispatch site rqs s = fold (\<lambda>rq s. case serve dispatch site rq s of Some (_, s') \<Rightarrow> s' | None \<Rightarrow> s) rqs s"

lemma serve_keeps_dead:
  assumes "drf_dispatch dispatch" and "leaves_keys site" and "dead pk (fst s)" and "serve dispatch site rq s = Some (r, s')"
  shows "dead pk (fst s')"
proof -
  obtain v kw p where out: "dispatch (view_authn site p rq) (permitted v p) (st_throttle site v) (key_method site rq v kw) (on_exception site) s = (r, s')"
    using assms(4) by (auto simp: serve_def split: option.splits)
  obtain a s1 where a: "view_authn site p rq s = (a, s1)" by (rule prod.exhaust)
  have "dead pk (fst s1)" using view_authn_keeps_dead [OF assms(2,3), of p rq] a by simp
  moreover from this have "dead pk (fst (snd (key_method site rq v kw u s1)))" for u by (rule key_method_keeps_dead [OF assms(2)])
  ultimately show ?thesis
    using drf_dispatch.dispatch_outcome [OF assms(1) a out] by (metis snd_conv)
qed

lemma serve_all_keeps_dead:
  assumes "drf_dispatch dispatch" and "leaves_keys site" and "dead pk (fst s)"
  shows "dead pk (fst (serve_all dispatch site rqs s))"
  using assms(3)
  by (induction rqs arbitrary: s) (auto simp: serve_all_def split: option.split intro: serve_keeps_dead [OF assms(1,2)])

lemma revoke_request_kills:
  assumes "drf_dispatch dispatch" and "\<forall>e. \<not> env_success (fst (st_kit site e))"
    and "resolve urlpatterns (hr_path rq) = Some (APIKeyRevokeView, [(''pk'', pk)])" and "hr_method rq = ''POST''"
    and "serve dispatch site rq s = Some (r, s')"
    and "env_success (rs_body r)" and "env_message (rs_body r) = ''API key revoked.''"
  shows "dead pk (fst s')"
proof -
  have out: "dispatch (view_authn site APIKeyRevokeView_policy rq) (permitted APIKeyRevokeView APIKeyRevokeView_policy) (st_throttle site APIKeyRevokeView)
      (key_method site rq APIKeyRevokeView [(''pk'', pk)]) (on_exception site) s = (r, s')"
    using assms(3,5) by (simp add: serve_def)
  obtain a s1 where a: "view_authn site APIKeyRevokeView_policy rq s = (a, s1)" by (rule prod.exhaust)
  obtain u where "key_method site rq APIKeyRevokeView [(''pk'', pk)] u s1 = (Inr r, s')"
    using drf_dispatch.dispatch_outcome [OF assms(1), where authn = "view_authn site APIKeyRevokeView_policy rq", OF a out] on_exception_fails [OF assms(2)] assms(6) by blast
  then have "api_key_revoke (st_request_id site) (st_orm site) (hr_now rq) u pk (fst s1) = (Inr r, fst s')"
    using assms(4) by (auto simp: key_method_def split: prod.splits)
  then have "revoke (st_orm site) (hr_now rq) pk (user_pk u) (fst s1) = (Inr (True, False), fst s')"
    using assms(6,7)
    by (auto simp: api_key_revoke_def SuccessResponse_def ErrorResponse_def BaseResponse_def split: prod.splits sum.splits if_splits)
  then show ?thesis by (intro killed) blast
qed

text \<open>
  C3: revocation over HTTP. Let the service answer a revocation request with its message of success. Then after any further requests, on
  any paths and with any credentials, a request outside the six open paths that gets a success, or leaves more
  behind than a time of last use, was let in by a valid token or by a key other than the revoked one, for a user who
  counts as authenticated and, at the two views for keys, has the permission the view asks for.
\<close>

theorem revoked_key_opens_nothing:
  assumes "drf_dispatch dispatch" and "auth_provider valid_jwt (st_jwt site)" and "leaves_keys site"
    and "\<forall>e. \<not> env_success (fst (st_kit site e))"
    and "resolve urlpatterns (hr_path rq) = Some (APIKeyRevokeView, [(''pk'', pk)])" and "hr_method rq = ''POST''"
    and "serve dispatch site rq s = Some (r, s1)" and "env_success (rs_body r)" and "env_message (rs_body r) = ''API key revoked.''"
    and "hr_path rq' \<notin> {''api/health/'', ''api/readiness/'', ''api/metrics'', ''api/csp-report/'', ''api/accounts/google/'', ''api/accounts/token/refresh/''}"
    and "serve dispatch site rq' (serve_all dispatch site rqs s1) = Some (r', s')"
    and "env_success (rs_body r') \<or> s' \<noteq> after_authn site rq' (serve_all dispatch site rqs s1)"
  shows "\<exists>v kw uid c. resolve urlpatterns (hr_path rq') = Some (v, kw) \<and>
    (valid_jwt (credentials rq') (fst (serve_all dispatch site rqs s1)) (uid, c) \<or>
     (\<exists>k. c = Some k \<and> ak_pk k \<noteq> pk \<and> valid_api_key (credentials rq') (fst (serve_all dispatch site rqs s1)) (uid, Some k))) \<and>
    user_is_authenticated (st_user site uid) \<and>
    (\<forall>a. view_action v = Some a \<longrightarrow> has_superuser_role (st_user site uid) \<or> roles_grant (st_user site uid) API_KEY a)"
proof -
  let ?s = "serve_all dispatch site rqs s1"
  have "dead pk (fst s1)" by (rule revoke_request_kills [OF assms(1,4-9)])
  then have "dead pk (fst ?s)" by (rule serve_all_keeps_dead [OF assms(1,3)])
  then have "\<exists>k. c = Some k \<and> ak_pk k \<noteq> pk \<and> valid_api_key (credentials rq') (fst ?s) (uid, Some k)"
    if "valid_api_key (credentials rq') (fst ?s) (uid, c)" for uid c
    using that by (auto simp: valid_api_key_def dead_def)
  moreover obtain v kw uid c where "resolve urlpatterns (hr_path rq') = Some (v, kw)"
      "valid_jwt (credentials rq') (fst ?s) (uid, c) \<or> valid_api_key (credentials rq') (fst ?s) (uid, c)"
      "user_is_authenticated (st_user site uid)"
      "\<forall>a. view_action v = Some a \<longrightarrow> has_superuser_role (st_user site uid) \<or> roles_grant (st_user site uid) API_KEY a"
    using guarded_authority [OF assms(1,2,4,10-12)] by (elim exE conjE)
  ultimately show ?thesis by (intro exI [of _ v] exI [of _ kw] exI [of _ uid] exI [of _ c]) blast
qed

section \<open>The shipped settings\<close>

text \<open>
  The settings name what the pipeline takes as its defaults: the composite, \<open>IsAuthenticated\<close> and the project's exception
  handler; and they enable tokens first, then keys.
\<close>

lemma shipped_defaults:
  assumes "rest_section env = Inr b"
  shows "map_of b ''AUTH_ENABLED_PROVIDERS'' = Some (strs [''jwt'', ''api_key''])"
    and "\<exists>rf. map_of b ''REST_FRAMEWORK'' = Some (VDict rf) \<and>
      dget rf ''DEFAULT_AUTHENTICATION_CLASSES'' = Some (strs [''core.auth.composite.CompositeAuthentication'']) \<and>
      dget rf ''DEFAULT_PERMISSION_CLASSES'' = Some (strs [''rest_framework.permissions.IsAuthenticated'']) \<and>
      dget rf ''EXCEPTION_HANDLER'' = Some (VStr ''core.exceptions.handler.api_exception_handler'')"
  using assms by (auto simp: rest_section_def rbind_Inr_iff str_dict_def dget_def)

lemma shipped_composite:
  assumes "st_enabled site = Some [''jwt'', ''api_key'']"
  shows "composite site = [JWTProvider (st_jwt site) (st_jwt_header site), APIKeyProvider]"
  using assms
  by (simp add: composite_def enabled_providers_def enabled_loop_providers boot_providers_def register_def empty_auth_registry_def
      JWTProvider_def APIKeyProvider_def GoogleOAuthProvider_def map_filter_simps)

text \<open>So a request with a token is the token's business alone: whatever it says in \<open>X-API-Key\<close> is not looked at.\<close>

lemma token_shadows_key:
  assumes "st_enabled site = Some [''jwt'', ''api_key'']" and "st_jwt site rq ks = (Inr (Some r), ks') \<or> st_jwt site rq ks = (Inl e, ks')"
  shows "chain (composite site) rq ks = st_jwt site rq ks"
  using assms(2) by (auto simp: shipped_composite [OF assms(1)] JWTProvider_def)

section \<open>A site\<close>

text \<open>A dispatch with the documented order, and a site of one user whose role may update keys and who holds two keys.\<close>

definition api_view :: "('u, 's) view_dispatch" where
  "api_view authn perm throttle handler on_exn s =
     (case authn s of
        (Inl e, s1) \<Rightarrow> (on_exn e, s1)
      | (Inr u, s1) \<Rightarrow>
          if \<not> perm u then (on_exn permission_denied, s1)
          else
            (case throttle u of
               Some e \<Rightarrow> (on_exn e, s1)
             | None \<Rightarrow> (case handler u s1 of (Inr r, s2) \<Rightarrow> (r, s2) | (Inl e, s2) \<Rightarrow> (on_exn e, s2))))"

interpretation api_view: drf_dispatch api_view
  by unfold_locales (auto simp: api_view_def)

definition demo_site :: "unit site" where
  "demo_site =
     \<lparr>st_request_id = Some ''r-1'', st_enabled = Some [''jwt'', ''api_key''], st_jwt = no_jwt, st_jwt_header = (\<lambda>_. None),
      st_user = (\<lambda>uid. demo_user\<lparr>user_pk := uid, user_roles := [\<lparr>role_name = ''ops'', is_superuser_role = False, is_default = False,
        role_permissions = [\<lparr>perm_resource = API_KEY, perm_action = UPDATE\<rparr>]\<rparr>]\<rparr>),
      st_throttle = (\<lambda>_ _. None), st_kit = (\<lambda>e. (error_envelope ''kit'' [] None, 500, [])), st_drf = (\<lambda>e. None),
      st_orm = list_key_orm True,
      st_handler = (\<lambda>v m kw u s. (Inl (raw_exn (DRFException ''MethodNotAllowed'') m), s))\<rparr>"

definition two_keys :: key_store where
  "two_keys = demo_store\<lparr>ks_keys := [demo_key, (new_key 7 ''two'' None ''zyxwvuts-two'')\<lparr>ak_pk := 2\<rparr>]\<rparr>"

definition revoke_first :: "nat \<Rightarrow> string \<Rightarrow> request" where
  "revoke_first now key = \<lparr>hr_path = ''api/accounts/api-keys/1/revoke/'', hr_method = ''POST'', hr_now = now, hr_api_key = Some key\<rparr>"

lemma demo_site_laws:
  "auth_provider (\<lambda>rq s r. False) (st_jwt demo_site)" "leaves_keys demo_site" "\<forall>e. \<not> env_success (fst (st_kit demo_site e))"
  using no_jwt.auth_provider_axioms by (auto simp: demo_site_def leaves_keys_def no_jwt_def error_envelope_def)

lemma revoke_first_path:
  "resolve urlpatterns (hr_path (revoke_first now key)) = Some (APIKeyRevokeView, [(''pk'', 1)])" "hr_method (revoke_first now key) = ''POST''"
  "hr_path (revoke_first now key) \<notin> {''api/health/'', ''api/readiness/'', ''api/metrics'', ''api/csp-report/'', ''api/accounts/google/'', ''api/accounts/token/refresh/''}"
  by code_simp+

theorem guarded_paths_need_authority_witness:
  "\<exists>r s' uid c. serve api_view demo_site (revoke_first 5 ''abcdefgh-secret'') (two_keys, ()) = Some (r, s') \<and>
     env_message (rs_body r) = ''API key revoked.'' \<and> valid_api_key (5, Some ''abcdefgh-secret'') two_keys (uid, c) \<and>
     roles_grant (st_user demo_site uid) API_KEY UPDATE"
proof -
  let ?rq = "revoke_first 5 ''abcdefgh-secret''"
  let ?out = "serve api_view demo_site ?rq (two_keys, ())"
  have "map_option (\<lambda>o1. (env_success (rs_body (fst o1)), env_message (rs_body (fst o1)))) ?out = Some (True, ''API key revoked.'')" by code_simp
  then obtain r s' where out: "?out = Some (r, s')" and ok: "env_success (rs_body r)" "env_message (rs_body r) = ''API key revoked.''" by auto
  have no_super: "\<not> has_superuser_role (st_user demo_site uid)" for uid by (simp add: demo_site_def has_superuser_role_def)
  have cr: "credentials ?rq = (5, Some ''abcdefgh-secret'')" by code_simp
  from guarded_paths_need_authority [OF api_view.drf_dispatch_axioms demo_site_laws(1,3) revoke_first_path(3) out disjI1 [OF ok(1)]]
  obtain uid c where "valid_api_key (credentials ?rq) two_keys (uid, c)" "roles_grant (st_user demo_site uid) API_KEY UPDATE"
    using no_super by (auto simp: revoke_first_path view_action_def)
  with out ok cr show ?thesis by (intro exI [of _ r] exI [of _ s'] exI [of _ uid] exI [of _ c]) simp
qed

text \<open>The revoked key asks once more and is refused; the user's other key is let in.\<close>

theorem revoked_key_opens_nothing_witness:
  "\<exists>r s1 r' s' uid k. serve api_view demo_site (revoke_first 5 ''abcdefgh-secret'') (two_keys, ()) = Some (r, s1) \<and>
     env_message (rs_body r) = ''API key revoked.'' \<and>
     serve api_view demo_site (revoke_first 9 ''zyxwvuts-two'') (serve_all api_view demo_site [revoke_first 7 ''abcdefgh-secret''] s1) = Some (r', s') \<and>
     env_message (rs_body r') = ''API key already revoked.'' \<and> ak_pk k \<noteq> 1 \<and>
     valid_api_key (9, Some ''zyxwvuts-two'') (fst (serve_all api_view demo_site [revoke_first 7 ''abcdefgh-secret''] s1)) (uid, Some k)"
proof -
  let ?rq = "revoke_first 5 ''abcdefgh-secret''" and ?rq' = "revoke_first 9 ''zyxwvuts-two''"
  let ?all = "serve_all api_view demo_site [revoke_first 7 ''abcdefgh-secret'']"
  let ?out = "serve api_view demo_site ?rq (two_keys, ())"
  let ?out' = "\<lambda>s. serve api_view demo_site ?rq' (?all s)"
  have "map_option (\<lambda>(r, s). (env_success (rs_body r), env_message (rs_body r),
      map_option (\<lambda>(r', s'). (env_success (rs_body r'), env_message (rs_body r'))) (?out' s))) ?out =
      Some (True, ''API key revoked.'', Some (True, ''API key already revoked.''))" by code_simp
  then obtain r s1 r' s' where out: "?out = Some (r, s1)" "?out' s1 = Some (r', s')"
    and ok: "env_success (rs_body r)" "env_message (rs_body r) = ''API key revoked.''" "env_success (rs_body r')" "env_message (rs_body r') = ''API key already revoked.''"
    by auto
  have cr: "credentials ?rq' = (9, Some ''zyxwvuts-two'')" by code_simp
  from revoked_key_opens_nothing [OF api_view.drf_dispatch_axioms demo_site_laws revoke_first_path(1,2) out(1) ok(1,2) revoke_first_path(3) out(2) disjI1 [OF ok(3)]]
  obtain uid k where "ak_pk k \<noteq> 1" "valid_api_key (credentials ?rq') (fst (?all s1)) (uid, Some k)" by blast
  with out ok cr show ?thesis by (intro exI [of _ r] exI [of _ s1] exI [of _ r'] exI [of _ s'] exI [of _ uid] exI [of _ k]) simp
qed

end
