(* ===== verification/Stack.thy ===== *)
theory Stack
  imports Login SettingsBase
begin

text \<open>
  The middlewares in the order of \<open>MIDDLEWARE\<close> in \<open>config/settings/base.py\<close>. Django documents the order: the first of
  the list is the outermost, and each gets the next as its \<open>get_response\<close>. Two of the list are the project's, \<open>BindRequestIdMiddleware\<close>
  and \<open>RequestLoggingMiddleware\<close>; the others are a parameter.
\<close>

section \<open>The stack\<close>

type_synonym handler = "http_request \<Rightarrow> int comp"
type_synonym middleware = "handler \<Rightarrow> handler"

text \<open>\<open>bind_to\<close> is the kit's, the settings and the duration are what request logging takes from its surroundings.\<close>

definition middleware_of ::
  "(int comp \<Rightarrow> int comp) \<Rightarrow> log_settings \<Rightarrow> bool \<Rightarrow> string \<Rightarrow> (string \<Rightarrow> middleware) \<Rightarrow> string \<Rightarrow> middleware" where
  "middleware_of bind_to st use_xff duration_ms foreign name =
     (if name = ''core.middleware.bind_request_id.BindRequestIdMiddleware'' then BindRequestIdMiddleware bind_to
      else if name = ''core.middleware.request_logging.RequestLoggingMiddleware'' then request_logging st use_xff duration_ms
      else foreign name)"

definition load_middleware :: "(string \<Rightarrow> middleware) \<Rightarrow> string list \<Rightarrow> middleware" where
  "load_middleware mw names view = foldr mw names view"

section \<open>Which request id a view sees\<close>

text \<open>
  Two handlers are alike under a condition when they do the same in every world that satisfies it. The condition of interest is
  what the two variables hold: the kit's, and the project's own.
\<close>

definition alike :: "(ctx_world \<Rightarrow> bool) \<Rightarrow> handler \<Rightarrow> handler \<Rightarrow> bool" where
  "alike P h h' \<longleftrightarrow> (\<forall>rq w. P w \<longrightarrow> h rq w = h' rq w)"

definition ids :: "string option \<Rightarrow> string option \<Rightarrow> ctx_world \<Rightarrow> bool" where
  "ids kit own w \<longleftrightarrow> w_kit_id w = kit \<and> w_request_id w = own"

text \<open>
  A middleware that leaves the two variables alone calls what is below it only with the ids it was called with:
  alike handlers stay alike.
\<close>

locale id_passing =
  fixes mw :: middleware
  assumes passes: "alike (ids kit own) h h' \<Longrightarrow> alike (ids kit own) (mw h) (mw h')"

text \<open>
  The kit's \<open>RequestIdMiddleware\<close> writes the id of the request to the kit's variable before it calls what is below it, and leaves the
  project's variable alone. \<open>rid\<close> is the id it takes for a request.
\<close>

locale id_stamping =
  fixes stamp :: middleware and rid :: "http_request \<Rightarrow> string"
  assumes stamps: "alike (ids (Some (rid rq)) own) h h' \<Longrightarrow> w_request_id w = own \<Longrightarrow> stamp h rq w = stamp h' rq w"

lemma emit_log_keeps_ids: "ids kit own (snd (emit_log lg lv msg args extra w)) = ids kit own w"
  by (simp add: emit_log_def ids_def split: option.split)

interpretation request_logging: id_passing "request_logging st use_xff duration_ms"
proof
  fix kit own h h' assume a: "alike (ids kit own) h h'"
  show "alike (ids kit own) (request_logging st use_xff duration_ms h) (request_logging st use_xff duration_ms h')"
    unfolding alike_def
  proof (intro allI impI)
    fix rq w assume w: "ids kit own w"
    obtain r1 w1 where e: "emit_log ''core.middleware.request_logging'' INFO ''Incoming request'' []
        (extra_of (safe_log_dict st [(''method'', VStr (rq_method rq)), (''path'', VStr (shorten (rq_path rq) 200)),
          (''user_id'', opt_int_val (get_user_id rq)), (''remote_addr'', VStr (client_ip use_xff rq))])) w = (r1, w1)"
      by (rule prod.exhaust)
    have "ids kit own w1" using emit_log_keeps_ids [of kit own "''core.middleware.request_logging''"] e w by (metis snd_conv)
    with a have "h rq w1 = h' rq w1" by (simp add: alike_def)
    then show "request_logging st use_xff duration_ms h rq w = request_logging st use_xff duration_ms h' rq w"
      unfolding request_logging_def Let_def e by (simp only: prod.case)
  qed
qed

text \<open>The bridge binds the kit's id: below it the project's variable is the kit's, whatever it was before.\<close>

lemma bind_equalises:
  assumes "request_id_source bind_to" and "alike (ids kit kit) h h'"
  shows "alike (ids kit own) (BindRequestIdMiddleware bind_to h) (BindRequestIdMiddleware bind_to h')"
  using assms(2)
  by (auto simp: alike_def ids_def BindRequestIdMiddleware_def request_id_source.bind_to_scope [OF assms(1)])

definition REQUEST_ID :: string where
  "REQUEST_ID = ''resilience_kit.adapters.django.middleware.RequestIdMiddleware''"

definition BRIDGE :: string where
  "BRIDGE = ''core.middleware.bind_request_id.BindRequestIdMiddleware''"

lemma ids_pass:
  assumes "\<And>n. n \<noteq> REQUEST_ID \<Longrightarrow> id_passing (foreign n)" and "alike (ids kit own) h h'"
    and "REQUEST_ID \<notin> set names" and "BRIDGE \<notin> set names"
  shows "alike (ids kit own) (load_middleware (middleware_of bind_to st use_xff ms foreign) names h)
    (load_middleware (middleware_of bind_to st use_xff ms foreign) names h')"
  using assms(3,4)
proof (induction names)
  case (Cons n names)
  have "id_passing (middleware_of bind_to st use_xff ms foreign n)"
    using Cons.prems assms(1) request_logging.id_passing_axioms by (auto simp: middleware_of_def BRIDGE_def)
  from id_passing.passes [OF this] Cons show ?case by (simp add: load_middleware_def)
qed (use assms(2) in \<open>simp add: load_middleware_def\<close>)

text \<open>From the stamp inwards, with the bridge below it: both variables hold the id of the request.\<close>

lemma stamp_then_bridge:
  assumes "\<And>n. n \<noteq> REQUEST_ID \<Longrightarrow> id_passing (foreign n)" and "id_stamping (foreign REQUEST_ID) rid"
    and "request_id_source bind_to"
    and "REQUEST_ID \<notin> set mid" "BRIDGE \<notin> set mid" "REQUEST_ID \<notin> set inner" "BRIDGE \<notin> set inner"
    and view: "alike (ids (Some (rid rq)) (Some (rid rq))) view view'"
  shows "load_middleware (middleware_of bind_to st use_xff ms foreign) (REQUEST_ID # mid @ BRIDGE # inner) view rq w =
    load_middleware (middleware_of bind_to st use_xff ms foreign) (REQUEST_ID # mid @ BRIDGE # inner) view' rq w"
proof -
  let ?mw = "middleware_of bind_to st use_xff ms foreign" and ?i = "Some (rid rq)"
  have mw: "?mw BRIDGE = BindRequestIdMiddleware bind_to" "?mw REQUEST_ID = foreign REQUEST_ID"
    by (simp_all add: middleware_of_def BRIDGE_def REQUEST_ID_def)
  have "alike (ids ?i ?i) (load_middleware ?mw inner view) (load_middleware ?mw inner view')"
    by (rule ids_pass [OF assms(1) view assms(6,7)])
  then have "alike (ids ?i own) (load_middleware ?mw (BRIDGE # inner) view) (load_middleware ?mw (BRIDGE # inner) view')" for own
    using bind_equalises [OF assms(3)] mw by (simp add: load_middleware_def)
  then have "alike (ids ?i own) (load_middleware ?mw (mid @ BRIDGE # inner) view)
      (load_middleware ?mw (mid @ BRIDGE # inner) view')" for own
    using ids_pass [OF assms(1) _ assms(4,5), where bind_to = bind_to and st = st and use_xff = use_xff and ms = ms]
    by (simp add: load_middleware_def)
  from id_stamping.stamps [OF assms(2) this [of "w_request_id w"] refl] show ?thesis
    using mw by (simp add: load_middleware_def)
qed

text \<open>The list of the settings: the bridge stands directly below the stamp, and neither occurs again.\<close>

definition shipped_middleware :: "string list" where
  "shipped_middleware = (case map_of apps_section ''MIDDLEWARE'' of Some (VList vs) \<Rightarrow> map (\<lambda>v. case v of VStr s \<Rightarrow> s | _ \<Rightarrow> []) vs | _ \<Rightarrow> [])"

lemma shipped_middleware_listed: "map_of apps_section ''MIDDLEWARE'' = Some (strs shipped_middleware)"
  by code_simp

lemma shipped_order:
  defines "rest \<equiv> dropWhile (\<lambda>n. n \<noteq> REQUEST_ID) shipped_middleware"
  shows "rest = REQUEST_ID # [] @ BRIDGE # drop 2 rest" "REQUEST_ID \<notin> set (drop 2 rest)" "BRIDGE \<notin> set (drop 2 rest)"
  unfolding rest_def by code_simp+

lemma map_VStr_inject: "map VStr xs = map VStr ys \<Longrightarrow> xs = ys"
  by (simp add: inj_map_eq_map inj_def)

text \<open>
  C25: below the shipped stack a view runs under the id of its request. The kit's \<open>RequestIdMiddleware\<close> stamps the kit's variable, \<open>bind_to\<close>
  mirrors that variable as it is on entry, and every other middleware leaves the two variables alone. Then, for the
  \<open>MIDDLEWARE\<close> list of the settings: from the stamping middleware inwards, the answer to a request is the same for two views that
  do the same when both variables hold the id of that request; and two views that do the same whenever the variables hold one and the same id, not
  \<open>None\<close>, are one application: no answer, exception or log record tells them apart. The order matters: \<open>bridge_first_sees_no_id\<close>.
\<close>

theorem views_run_under_the_kit_id:
  assumes "map_of apps_section ''MIDDLEWARE'' = Some (strs names)"
    and "request_id_source bind_to" and "id_stamping (foreign REQUEST_ID) rid"
    and "\<And>n. n \<noteq> REQUEST_ID \<Longrightarrow> id_passing (foreign n)"
  shows "(alike (ids (Some (rid rq)) (Some (rid rq))) view view' \<longrightarrow>
      load_middleware (middleware_of bind_to st use_xff ms foreign) (dropWhile (\<lambda>n. n \<noteq> REQUEST_ID) names) view rq w =
      load_middleware (middleware_of bind_to st use_xff ms foreign) (dropWhile (\<lambda>n. n \<noteq> REQUEST_ID) names) view' rq w) \<and>
    ((\<forall>i. alike (ids (Some i) (Some i)) view view') \<longrightarrow>
      load_middleware (middleware_of bind_to st use_xff ms foreign) names view =
      load_middleware (middleware_of bind_to st use_xff ms foreign) names view')"
proof -
  let ?mw = "middleware_of bind_to st use_xff ms foreign"
  let ?outer = "takeWhile (\<lambda>n. n \<noteq> REQUEST_ID) names" let ?rest = "dropWhile (\<lambda>n. n \<noteq> REQUEST_ID) names"
  have "names = shipped_middleware"
    using assms(1) shipped_middleware_listed by (simp add: strs_def map_VStr_inject)
  then obtain inner where rest: "?rest = REQUEST_ID # [] @ BRIDGE # inner" "REQUEST_ID \<notin> set inner" "BRIDGE \<notin> set inner"
    using shipped_order by metis
  have one: "load_middleware ?mw ?rest view rq w = load_middleware ?mw ?rest view' rq w"
    if "alike (ids (Some (rid rq)) (Some (rid rq))) view view'" for rq w
    unfolding rest(1)
    using stamp_then_bridge [of foreign rid bind_to "[]" inner rq view view' st use_xff ms w] assms(2-4) rest(2,3) that
    by simp
  have "load_middleware ?mw names v = load_middleware ?mw ?outer (load_middleware ?mw ?rest v)" for v
    by (subst takeWhile_dropWhile_id [of "\<lambda>n. n \<noteq> REQUEST_ID" names, symmetric])
       (simp only: load_middleware_def foldr_append comp_apply)
  moreover have "load_middleware ?mw ?rest view = load_middleware ?mw ?rest view'"
    if "\<forall>i. alike (ids (Some i) (Some i)) view view'"
    using one that by (intro ext) blast
  ultimately show ?thesis using one by metis
qed

text \<open>
  A stamp that takes the path as the id, and the other middlewares doing nothing.
\<close>

definition path_stamp :: middleware where
  "path_stamp h rq w = (let (r, w') = h rq (w\<lparr>w_kit_id := Some (rq_path rq)\<rparr>) in (r, w'\<lparr>w_kit_id := w_kit_id w\<rparr>))"

interpretation path_stamp: id_stamping path_stamp rq_path
  by unfold_locales (simp add: path_stamp_def alike_def ids_def)

interpretation no_middleware: id_passing "\<lambda>h. h"
  by unfold_locales

definition demo_foreign :: "string \<Rightarrow> middleware" where
  "demo_foreign n = (if n = REQUEST_ID then path_stamp else (\<lambda>h. h))"

text \<open>A view that answers 500 unless the project's id is set and is the kit's.\<close>

definition id_view :: handler where
  "id_view rq w = (Inr (if w_request_id w \<noteq> None \<and> w_request_id w = w_kit_id w then 200 else 500), w)"

theorem views_run_under_the_kit_id_witness:
  "load_middleware (middleware_of mirror no_log_settings False ''1.0'' demo_foreign) shipped_middleware id_view =
   load_middleware (middleware_of mirror no_log_settings False ''1.0'' demo_foreign) shipped_middleware (\<lambda>rq w. (Inr 200, w))"
proof -
  have 2: "id_stamping (demo_foreign REQUEST_ID) rq_path" "n \<noteq> REQUEST_ID \<Longrightarrow> id_passing (demo_foreign n)" for n
    using path_stamp.id_stamping_axioms no_middleware.id_passing_axioms by (simp_all add: demo_foreign_def)
  have 3: "\<forall>i. alike (ids (Some i) (Some i)) id_view (\<lambda>rq w. (Inr 200, w))"
    by (simp add: alike_def ids_def id_view_def)
  show ?thesis
    using views_run_under_the_kit_id [OF shipped_middleware_listed mirror.request_id_source_axioms, of demo_foreign rq_path
        undefined id_view "\<lambda>rq w. (Inr 200, w)"] 2 3 by blast
qed

text \<open>With the bridge outside the stamp the project's variable is still \<open>None\<close> when the view runs.\<close>

lemma bridge_first_sees_no_id:
  "fst (load_middleware (middleware_of mirror st use_xff ms demo_foreign) [BRIDGE, REQUEST_ID] id_view rq fresh_world) = Inr 500"
  "fst (load_middleware (middleware_of mirror st use_xff ms demo_foreign) [REQUEST_ID, BRIDGE] id_view rq fresh_world) = Inr 200"
  by (simp_all add: load_middleware_def middleware_of_def demo_foreign_def BRIDGE_def REQUEST_ID_def BindRequestIdMiddleware_def
      mirror_def path_stamp_def id_view_def fresh_world_def)

end
