(* ===== verification/Admin.thy ===== *)
theory Admin
  imports ApiKeys
begin

text \<open>
  The admin site: \<open>apps/core/base/admin.py\<close>, \<open>apps/core/base/widgets.py\<close> and \<open>apps/accounts/admin.py\<close>. Django's own admin
  classes give what the attributes of a class say; its \<open>escape\<close>, \<open>escapejs\<close> and \<open>reverse\<close>, and the JSON
  module, are parameters.
\<close>

section \<open>Field sets\<close>

record fieldset =
  fs_title :: "string option"
  fs_fields :: "string list"
  fs_classes :: "string list"
  fs_description :: string

definition audit_fields :: "string list" where
  "audit_fields = [''created_by'', ''updated_by'', ''created_at'', ''updated_at'']"

definition audit_fieldset :: fieldset where
  "audit_fieldset = \<lparr>fs_title = Some ''Audit Trail'', fs_fields = [''created_by'', ''updated_by'', ''created_at'', ''updated_at''],
     fs_classes = [''collapse''], fs_description = []\<rparr>"

text \<open>\<open>tuple(set)\<close> has no order of its own; here that of the parts.\<close>

definition base_readonly_fields :: "string list \<Rightarrow> string list" where
  "base_readonly_fields readonly = remdups (readonly @ audit_fields)"

definition base_fieldsets :: "fieldset list \<Rightarrow> fieldset list" where
  "base_fieldsets fieldsets =
     (let already_present = list_ex (\<lambda>fs. list_ex (\<lambda>f. f \<in> set audit_fields) (fs_fields fs)) fieldsets in
      if \<not> already_present then fieldsets @ [audit_fieldset] else fieldsets)"

text \<open>\<open>save\<close> is the save of Django's admin, the model's own \<open>save()\<close>.\<close>

definition base_save_model ::
  "(int option \<Rightarrow> 'o \<Rightarrow> 'o) \<Rightarrow> (int option \<Rightarrow> 'o \<Rightarrow> 'o) \<Rightarrow> ('o \<Rightarrow> 's \<Rightarrow> (exn + unit) \<times> 's) \<Rightarrow> int \<Rightarrow> bool \<Rightarrow> 'o \<Rightarrow> 's
     \<Rightarrow> (exn + 'o) \<times> 's" where
  "base_save_model set_created set_updated save user change obj s =
     (let obj = (if \<not> change then set_created (Some user) obj else obj);
          obj = set_updated (Some user) obj
      in case save obj s of (Inl e, s') \<Rightarrow> (Inl e, s') | (Inr _, s') \<Rightarrow> (Inr obj, s'))"

definition inline_readonly_fields :: "string list" where
  "inline_readonly_fields = [''created_by'', ''updated_by'', ''created_at'', ''updated_at'']"

section \<open>The registered classes\<close>

record model_admin =
  ma_list_display :: "string list"
  ma_list_filter :: "string list"
  ma_search_fields :: "string list"
  ma_ordering :: "string list"
  ma_fieldsets :: "fieldset list"
  ma_add_fieldsets :: "fieldset list"
  ma_readonly_fields :: "string list"
  ma_filter_horizontal :: "string list"
  ma_autocomplete_fields :: "string list"

definition plain_fieldset :: "string option \<Rightarrow> string list \<Rightarrow> fieldset" where
  "plain_fieldset title names = \<lparr>fs_title = title, fs_fields = names, fs_classes = [], fs_description = []\<rparr>"

definition UserAdmin :: model_admin where
  "UserAdmin =
     \<lparr>ma_list_display = [''email'', ''first_name'', ''last_name'', ''is_staff'', ''is_active''],
      ma_list_filter = [''is_staff'', ''is_active'', ''roles''],
      ma_search_fields = [''email'', ''first_name'', ''last_name''],
      ma_ordering = [''email''],
      ma_fieldsets =
        [plain_fieldset None [''email'', ''username'', ''password''],
         plain_fieldset (Some ''Personal Info'') [''first_name'', ''last_name'', ''avatar_url''],
         \<lparr>fs_title = Some ''Permissions'', fs_fields = [''is_active'', ''is_staff'', ''roles''], fs_classes = [],
          fs_description = [squote] @ ''Staff status'' @ [squote] @ '' grants Django admin panel access. '' @
            ''All resource permissions are managed through Roles.''\<rparr>,
         plain_fieldset (Some ''Auth Details'') [''email_verified'', ''timezone'', ''last_login_ip'', ''last_login'', ''date_joined'']],
      ma_add_fieldsets =
        [\<lparr>fs_title = None,
          fs_fields = [''email'', ''username'', ''password1'', ''password2'', ''first_name'', ''last_name'', ''is_staff'', ''is_active'', ''roles''],
          fs_classes = [''wide''], fs_description = []\<rparr>],
      ma_readonly_fields = [''date_joined'', ''last_login'', ''last_login_ip''],
      ma_filter_horizontal = [''roles''],
      ma_autocomplete_fields = []\<rparr>"

definition PermissionAdmin :: model_admin where
  "PermissionAdmin =
     \<lparr>ma_list_display = [''resource'', ''action''], ma_list_filter = [''action''], ma_search_fields = [''resource''],
      ma_ordering = [''resource'', ''action''], ma_fieldsets = [], ma_add_fieldsets = [], ma_readonly_fields = [],
      ma_filter_horizontal = [], ma_autocomplete_fields = []\<rparr>"

definition RoleAdmin :: model_admin where
  "RoleAdmin =
     \<lparr>ma_list_display = [''name'', ''is_superuser_role'', ''is_default'', ''created_at''],
      ma_list_filter = [''is_superuser_role'', ''is_default''], ma_search_fields = [''name''], ma_ordering = [''name''],
      ma_fieldsets = [], ma_add_fieldsets = [], ma_readonly_fields = [], ma_filter_horizontal = [''permissions''],
      ma_autocomplete_fields = []\<rparr>"

definition APIKeyAdmin :: model_admin where
  "APIKeyAdmin =
     \<lparr>ma_list_display = [''name'', ''prefix'', ''user'', ''is_active'', ''last_used_at'', ''created_at''],
      ma_list_filter = [''is_active''], ma_search_fields = [''name'', ''prefix'', ''user__email''], ma_ordering = [''-created_at''],
      ma_fieldsets =
        [plain_fieldset None [''user'', ''name'', ''is_active''],
         \<lparr>fs_title = Some ''Key Info'', fs_fields = [''prefix'', ''last_used_at''], fs_classes = [''collapse''], fs_description = []\<rparr>],
      ma_add_fieldsets =
        [\<lparr>fs_title = None, fs_fields = [''user'', ''name''], fs_classes = [],
          fs_description = ''A new API key will be auto-generated. Copy it from the success message '' @ [em_dash] @
            '' it won'' @ [squote] @ ''t be shown again.''\<rparr>],
      ma_readonly_fields = [''prefix'', ''secret'', ''last_used_at''],
      ma_filter_horizontal = [],
      ma_autocomplete_fields = [''user'']\<rparr>"

section \<open>The API key admin\<close>

definition key_fieldsets :: "api_key option \<Rightarrow> fieldset list" where
  "key_fieldsets obj = (case obj of None \<Rightarrow> ma_add_fieldsets APIKeyAdmin | Some k \<Rightarrow> base_fieldsets (ma_fieldsets APIKeyAdmin))"

definition key_readonly_fields :: "api_key option \<Rightarrow> string list" where
  "key_readonly_fields obj =
     (let readonly = base_readonly_fields (ma_readonly_fields APIKeyAdmin) in
      case obj of None \<Rightarrow> readonly | Some k \<Rightarrow> remdups (readonly @ [''user'']))"

record admin_request =
  rq_user :: int
  raw_api_key :: "string option"

record key_form =
  fm_user :: int
  fm_name :: string

text \<open>\<open>BaseModel.save\<close> of an existing key: validation, then every column of the row.\<close>

definition key_save :: "key_orm \<Rightarrow> api_key \<Rightarrow> key_store \<Rightarrow> (exn + unit) \<times> key_store" where
  "key_save db k s = (case clean_key db s k of Some e \<Rightarrow> (Inl e, s) | None \<Rightarrow> (Inr (), replace_key k s))"

definition key_save_model ::
  "key_orm \<Rightarrow> string option \<Rightarrow> (nat \<Rightarrow> string) \<Rightarrow> admin_request \<Rightarrow> api_key \<Rightarrow> key_form \<Rightarrow> bool \<Rightarrow> key_store
     \<Rightarrow> (exn + api_key \<times> admin_request) \<times> key_store" where
  "key_save_model db rid token_urlsafe rq obj form change s =
     (if \<not> change then
        (case create_key db rid (fm_user form) (fm_name form) (Some (rq_user rq)) token_urlsafe s of
           (Inl e, s') \<Rightarrow> (Inl e, s')
         | (Inr (k, raw_key), s') \<Rightarrow> (Inr (obj\<lparr>ak_pk := ak_pk k\<rparr>, rq\<lparr>raw_api_key := Some raw_key\<rparr>), s'))
      else
        (case base_save_model (\<lambda>u k. k\<lparr>ak_created_by := u\<rparr>) (\<lambda>u k. k\<lparr>ak_updated_by := u\<rparr>) (key_save db) (rq_user rq) change
             (obj\<lparr>ak_updated_by := Some (rq_user rq)\<rparr>) s of
           (Inl e, s') \<Rightarrow> (Inl e, s')
         | (Inr k, s') \<Rightarrow> (Inr (k, rq), s')))"

definition key_page :: "(string \<Rightarrow> string) \<Rightarrow> string \<Rightarrow> string \<Rightarrow> string \<Rightarrow> string \<Rightarrow> string" where
  "key_page escape name key_prefix key url =
     ''<!DOCTYPE html><html><head><title>API Key Created</title></head><body style='' @ [dquote] @ ''font-family: system-ui, sans-serif; max-width: 600px; margin: 4em auto; padding: 0 1em;'' @ [dquote] @ ''><h1>API Key Created</h1><p><strong>'' @
     escape name @
     ''</strong> ('' @
     escape key_prefix @
     ''...)</p><p>Copy this key now &mdash; it will <strong>not</strong> be shown again:</p><pre style='' @ [dquote] @ ''background: #f4f4f4; padding: 1em; font-size: 1.1em; border-radius: 4px; user-select: all; overflow-x: auto;'' @ [dquote] @ ''>'' @
     escape key @
     ''</pre><p><a href='' @ [dquote] @
     escape url @
     [dquote] @ ''>&larr; Back to API Keys</a></p></body></html>''"

text \<open>\<open>Inl\<close> is the page, \<open>Inr\<close> the answer of Django's own \<open>response_add\<close>.\<close>

definition key_response_add ::
  "(string \<Rightarrow> string) \<Rightarrow> string \<Rightarrow> (api_key \<Rightarrow> 'r) \<Rightarrow> admin_request \<Rightarrow> api_key \<Rightarrow> key_store \<Rightarrow> (exn, string + 'r) result" where
  "key_response_add escape changelist_url super_response rq obj s =
     (case find (\<lambda>k. ak_pk k = ak_pk obj) (ks_keys s) of
        None \<Rightarrow> Inl (raw_exn (OtherException ''DoesNotExist'') ''APIKey matching query does not exist.'')
      | Some k \<Rightarrow>
          (case or_str (raw_api_key rq) None of
             Some raw_key \<Rightarrow> Inr (Inl (key_page escape (ak_name k) (ak_prefix k) raw_key changelist_url))
           | None \<Rightarrow> Inr (Inr (super_response k))))"

section \<open>The JSON editor\<close>

text \<open>The attributes a widget is built with.\<close>

definition default_attrs :: "(string \<times> pyval) list" where
  "default_attrs = [(''rows'', VInt 18), (''spellcheck'', VStr ''false''), (''autocomplete'', VStr ''off''),
     (''autocorrect'', VStr ''off''), (''autocapitalize'', VStr ''off'')]"

definition new_widget :: "(string \<times> pyval) list option \<Rightarrow> (string \<times> pyval) list" where
  "new_widget attrs = fold (\<lambda>(k, v). AList.update k v) (case attrs of Some as \<Rightarrow> as | None \<Rightarrow> []) default_attrs"

text \<open>\<open>loads\<close> and \<open>dumps\<close> are those of \<open>json\<close>; a \<open>JSONDecodeError\<close> is \<open>None\<close>.\<close>

definition pretty :: "(string \<Rightarrow> pyval option) \<Rightarrow> (pyval \<Rightarrow> string) \<Rightarrow> pyval \<Rightarrow> pyval" where
  "pretty loads dumps v =
     (if truthy v \<and> (is_dict v \<or> is_list v) then VStr (dumps v)
      else case v of
        VStr s \<Rightarrow> if s = [] then v else (case loads s of Some parsed \<Rightarrow> VStr (dumps parsed) | None \<Rightarrow> v)
      | _ \<Rightarrow> v)"

definition styling :: "string \<Rightarrow> string \<Rightarrow> (string \<times> pyval) list" where
  "styling name widget_id =
     [(''name'', VStr name), (''id'', VStr widget_id),
      (''class'', VStr ''vLargeTextField border border-base-200 bg-white font-medium rounded-default shadow-xs text-font-default-light text-sm focus:outline-2 focus:-outline-offset-2 focus:outline-primary-600 dark:bg-base-900 dark:border-base-700 dark:text-font-default-dark dark:scheme-dark px-3 py-2.5 w-full max-w-4xl font-mono leading-relaxed resize-y tab-size-2''),
      (''style'', VStr (''font-family: ui-monospace, SFMono-Regular, '' @ [squote] @ ''SF Mono'' @ [squote] @ '', Menlo, Consolas, '' @ [squote] @ ''Liberation Mono'' @ [squote] @ '', monospace; tab-size: 2; white-space: pre;''))]"

definition widget_id_of :: "string \<Rightarrow> (string \<times> pyval) list \<Rightarrow> string" where
  "widget_id_of name attrs = (case map_of attrs ''id'' of Some v \<Rightarrow> text_of v | None \<Rightarrow> ''id_'' @ name)"

definition attrs_text :: "(string \<times> pyval) list \<Rightarrow> string" where
  "attrs_text attrs =
     py_join '' '' (map (\<lambda>(k, v). k @ ''='' @ [dquote] @ text_of v @ [dquote]) (filter (\<lambda>(k, v). v \<noteq> VNone) attrs))"

definition widget_html :: "string \<Rightarrow> string \<Rightarrow> string \<Rightarrow> string \<Rightarrow> string" where
  "widget_html escaped_id attrs_str escaped_value escaped_id_js =
     [lf] @ ''        <div class='' @ [dquote] @ ''flex flex-col gap-1.5 max-w-4xl'' @ [dquote] @ '' id='' @ [dquote] @
     escaped_id @
     ''_wrapper'' @ [dquote] @ ''>'' @ [lf] @
     ''            <div class='' @ [dquote] @ ''flex items-center justify-end'' @ [dquote] @ ''>'' @ [lf] @
     ''                <button type='' @ [dquote] @ ''button'' @ [dquote] @ '' id='' @ [dquote] @
     escaped_id @
     ''_format'' @ [dquote, lf] @ ''                    class='' @ [dquote] @ ''font-medium inline-flex items-center gap-1 rounded-default'' @ [lf] @
     ''                           justify-center whitespace-nowrap cursor-pointer px-2 py-1 text-xs'' @ [lf] @
     ''                           border border-base-200 shadow-xs text-important'' @ [lf] @
     ''                           bg-white dark:bg-base-900 dark:border-base-700'' @ [lf] @
     ''                           hover:bg-base-100 dark:hover:bg-base-800'' @ [dquote] @ ''>'' @ [lf] @
     ''                    <span class='' @ [dquote] @ ''material-symbols-outlined'' @ [dquote] @ '' style='' @ [dquote] @ ''font-size: 14px;'' @ [dquote] @ ''>format_align_left</span>'' @ [lf] @
     ''                    Format'' @ [lf] @
     ''                </button>'' @ [lf] @
     ''            </div>'' @ [lf] @
     ''            <textarea '' @
     attrs_str @
     ''>'' @
     escaped_value @
     ''</textarea>'' @ [lf] @
     ''            <div class='' @ [dquote] @ ''flex items-center justify-end'' @ [dquote] @ ''>'' @ [lf] @
     ''                <div id='' @ [dquote] @
     escaped_id @
     ''_status'' @ [dquote] @ '' class='' @ [dquote] @ ''text-xs flex items-center gap-1'' @ [dquote] @ ''></div>'' @ [lf] @
     ''            </div>'' @ [lf] @
     ''        </div>'' @ [lf] @
     ''        <script>'' @ [lf] @
     ''        (function() {'' @ [lf] @
     ''            const ta = document.getElementById('' @ [dquote] @
     escaped_id_js @
     [dquote] @ '');'' @ [lf] @
     ''            const statusEl = document.getElementById('' @ [dquote] @
     escaped_id_js @
     ''_status'' @ [dquote] @ '');'' @ [lf] @
     ''            const formatBtn = document.getElementById('' @ [dquote] @
     escaped_id_js @
     ''_format'' @ [dquote] @ '');'' @ [lf, lf] @
     ''            function validate() {'' @ [lf] @
     ''                const val = ta.value.trim();'' @ [lf] @
     ''                if (!val) {'' @ [lf] @
     ''                    statusEl.innerHTML = '' @ [squote, squote] @ '';'' @ [lf] @
     ''                    return;'' @ [lf] @
     ''                }'' @ [lf] @
     ''                try {'' @ [lf] @
     ''                    JSON.parse(val);'' @ [lf] @
     ''                    statusEl.innerHTML ='' @ [lf] @
     ''                        '' @ [squote] @ ''<span class='' @ [dquote] @ ''text-green-600 dark:text-green-400 flex items-center gap-1'' @ [dquote] @ ''>'' @ [squote] @ '' +'' @ [lf] @
     ''                        '' @ [squote] @ ''<span class='' @ [dquote] @ ''material-symbols-outlined'' @ [dquote] @ '' style='' @ [dquote] @ ''font-size:14px'' @ [dquote] @ ''>check_circle</span>'' @ [squote] @ '' +'' @ [lf] @
     ''                        '' @ [squote] @ '' Valid JSON</span>'' @ [squote] @ '';'' @ [lf] @
     ''                } catch (e) {'' @ [lf] @
     ''                    statusEl.innerHTML ='' @ [lf] @
     ''                        '' @ [squote] @ ''<span class='' @ [dquote] @ ''text-red-600 dark:text-red-400 flex items-center gap-1'' @ [dquote] @ ''>'' @ [squote] @ '' +'' @ [lf] @
     ''                        '' @ [squote] @ ''<span class='' @ [dquote] @ ''material-symbols-outlined'' @ [dquote] @ '' style='' @ [dquote] @ ''font-size:14px'' @ [dquote] @ ''>error</span> '' @ [squote] @ '' +'' @ [lf] @
     ''                        e.message.replace(/</g, '' @ [squote] @ ''&lt;'' @ [squote] @ '') + '' @ [squote] @ ''</span>'' @ [squote] @ '';'' @ [lf] @
     ''                }'' @ [lf] @
     ''            }'' @ [lf, lf] @
     ''            formatBtn.addEventListener('' @ [dquote] @ ''click'' @ [dquote] @ '', function() {'' @ [lf] @
     ''                const val = ta.value.trim();'' @ [lf] @
     ''                if (!val) return;'' @ [lf] @
     ''                try {'' @ [lf] @
     ''                    const parsed = JSON.parse(val);'' @ [lf] @
     ''                    ta.value = JSON.stringify(parsed, null, 2);'' @ [lf] @
     ''                    validate();'' @ [lf] @
     ''                } catch (e) {'' @ [lf] @
     ''                    validate();'' @ [lf] @
     ''                }'' @ [lf] @
     ''            });'' @ [lf, lf] @
     ''            ta.addEventListener('' @ [dquote] @ ''keydown'' @ [dquote] @ '', function(e) {'' @ [lf] @
     ''                if (e.key === '' @ [dquote] @ ''Tab'' @ [dquote] @ '') {'' @ [lf] @
     ''                    e.preventDefault();'' @ [lf] @
     ''                    const start = this.selectionStart;'' @ [lf] @
     ''                    const end = this.selectionEnd;'' @ [lf] @
     ''                    this.value = this.value.substring(0, start) + '' @ [dquote] @ ''  '' @ [dquote] @ '' + this.value.substring(end);'' @ [lf] @
     ''                    this.selectionStart = this.selectionEnd = start + 2;'' @ [lf] @
     ''                    validate();'' @ [lf] @
     ''                }'' @ [lf] @
     ''            });'' @ [lf, lf] @
     ''            ta.addEventListener('' @ [dquote] @ ''input'' @ [dquote] @ '', validate);'' @ [lf] @
     ''            validate();'' @ [lf] @
     ''        })();'' @ [lf] @
     ''        </script>'' @ [lf] @
     ''        ''"

text \<open>\<open>merge\<close> is Django's \<open>build_attrs\<close>; the first argument is the widget, with the attributes it was built with.\<close>

definition render ::
  "(string \<Rightarrow> string) \<Rightarrow> (string \<Rightarrow> string) \<Rightarrow> ((string \<times> pyval) list \<Rightarrow> (string \<times> pyval) list \<Rightarrow> (string \<times> pyval) list) \<Rightarrow>
     (string \<Rightarrow> pyval option) \<Rightarrow> (pyval \<Rightarrow> string) \<Rightarrow> (string \<times> pyval) list \<Rightarrow> string \<Rightarrow> pyval \<Rightarrow> (string \<times> pyval) list option \<Rightarrow> string" where
  "render escape escapejs merge loads dumps widget name val attrs =
     (let v = pretty loads dumps val;
          given = (case attrs of Some as \<Rightarrow> as | None \<Rightarrow> []);
          widget_id = widget_id_of name given;
          final_attrs = merge given (styling name widget_id)
      in widget_html (escape widget_id) (attrs_text final_attrs)
           (escape (if truthy v then text_of v else [])) (escapejs widget_id))"

section \<open>What the key form shows\<close>

text \<open>
  The form of an existing key never shows its secret, and of what it shows only the name and the active flag can be
  changed: not the owner, the prefix, the revocation or the audit fields. A new key has an owner and a name.
\<close>

lemma key_form_exact:
  "{f. \<exists>fs \<in> set (key_fieldsets (Some k)). f \<in> set (fs_fields fs)} - set (key_readonly_fields (Some k)) = {''name'', ''is_active''}"
  "\<forall>fs \<in> set (key_fieldsets obj). ''secret'' \<notin> set (fs_fields fs) \<and> ''revoked_at'' \<notin> set (fs_fields fs)"
  "concat (map fs_fields (key_fieldsets None)) = [''user'', ''name'']"
  by (auto simp: key_fieldsets_def key_readonly_fields_def base_fieldsets_def base_readonly_fields_def audit_fieldset_def
      audit_fields_def APIKeyAdmin_def plain_fieldset_def split: option.splits)

text \<open>Every admin page of a model with audit fields shows them, read-only.\<close>

lemma audit_fields_shown_readonly:
  "\<exists>fs \<in> set (base_fieldsets fieldsets). \<exists>f \<in> set audit_fields. f \<in> set (fs_fields fs)"
  "set audit_fields \<subseteq> set (base_readonly_fields readonly)"
  by (auto simp: base_fieldsets_def base_readonly_fields_def audit_fieldset_def audit_fields_def list_ex_iff)

section \<open>Pages without foreign markup\<close>

text \<open>The characters that open or close tags and attribute values.\<close>

definition markup :: "string \<Rightarrow> string" where
  "markup s = filter (\<lambda>c. c \<in> {CHR ''<'', CHR ''>'', dquote, squote}) s"

lemma markup_append [simp]: "markup (s @ t) = markup s @ markup t" by (simp add: markup_def)

lemma key_page_holds_key: "sublist (escape key) (key_page escape name pre key url)"
proof -
  have "\<exists>a b. key_page escape name pre key url = a @ escape key @ b"
    unfolding key_page_def append_assoc [symmetric] by (metis append_assoc)
  then show ?thesis by (auto simp: sublist_def)
qed

text \<open>The contract of an HTML escape: its result holds none of these.\<close>

locale html_escaper =
  fixes escape :: "string \<Rightarrow> string"
  assumes escape_inert: "markup (escape s) = []"
begin

lemma key_page_inert: "markup (key_page escape name pre key url) = markup (key_page escape [] [] [] [])"
  by (simp only: key_page_def markup_append escape_inert append_Nil)

lemma widget_value_inert:
  "markup (render escape escapejs merge loads dumps widget name v attrs) =
     markup (render escape escapejs merge loads dumps widget name VNone attrs)"
  by (simp only: render_def widget_html_def Let_def markup_append escape_inert append_Nil)

end

definition html_escape :: "string \<Rightarrow> string" where
  "html_escape s = concat (map (\<lambda>c.
     if c = CHR ''&'' then ''&amp;'' else if c = CHR ''<'' then ''&lt;'' else if c = CHR ''>'' then ''&gt;''
     else if c = dquote then ''&quot;'' else if c = squote then ''&#x27;'' else [c]) s)"

lemma html_escape_inert: "markup (html_escape s) = []"
  by (induction s) (auto simp: html_escape_def markup_def dquote_def squote_def)

interpretation html: html_escaper html_escape
  by unfold_locales (rule html_escape_inert)

section \<open>Creating a key from the admin site\<close>

text \<open>
  What keeps the raw key from being shown a second time: an edit puts no raw key on its request, a request without one gets
  Django's own answer, and the stored secret is neither a column of the list nor a field of the form.
\<close>

lemma key_never_shown_again:
  "key_save_model db rid tokens q obj form True t = (Inr (obj', q'), t') \<Longrightarrow> raw_api_key q' = raw_api_key q"
  "raw_api_key q = None \<Longrightarrow> key_response_add escape url super_response q obj t \<noteq> Inr (Inl page)"
  "''secret'' \<notin> set (ma_list_display APIKeyAdmin)"
  "fs \<in> set (key_fieldsets obj'') \<Longrightarrow> ''secret'' \<notin> set (fs_fields fs)"
proof -
  show "key_save_model db rid tokens q obj form True t = (Inr (obj', q'), t') \<Longrightarrow> raw_api_key q' = raw_api_key q"
    by (auto simp: key_save_model_def split: prod.splits sum.splits)
  show "raw_api_key q = None \<Longrightarrow> key_response_add escape url super_response q obj t \<noteq> Inr (Inl page)"
    by (auto simp: key_response_add_def or_str_def split: option.splits)
  show "''secret'' \<notin> set (ma_list_display APIKeyAdmin)" by code_simp
  show "fs \<in> set (key_fieldsets obj'') \<Longrightarrow> ''secret'' \<notin> set (fs_fields fs)"
    using key_form_exact(2) by blast
qed

text \<open>
  C33: a key made on the admin site is shown once and works. Take a user who is active and tokens of at least eight ASCII
  characters, as \<open>token_urlsafe\<close> gives them. When \<open>save_model\<close> returns for a new key, the request holds the raw key, the answer
  is the page with that raw key in it (escaped, so that names, keys and addresses add no markup to the page), the key is
  stored for the user of the form under the name of the form and audited to the administrator, and the raw key authenticates
  that user at once. And it is not shown again: saving a change puts no raw key on its request, a request without one is never
  answered with a key page, and the stored secret is in no field set of the form and not in the list.
\<close>

theorem admin_creation_shows_working_key:
  assumes "key_db db" and "html_escaper escape"
    and saved: "key_save_model db rid tokens rq obj form False s = (Inr (obj', rq'), s')"
    and "list_all (\<lambda>i. is_ascii (tokens i) \<and> 8 \<le> length (tokens i)) [0, 1, 2]"
    and "map_of (ks_users s) (fm_user form) = Some True"
  shows "\<exists>raw k page. raw_api_key rq' = Some raw \<and> ks_keys s' = k # ks_keys s \<and> ak_pk k = ak_pk obj' \<and>
     key_response_add escape url super_response rq' obj' s' = Inr (Inl page) \<and>
     sublist (escape raw) page \<and> markup page = markup (key_page escape [] [] [] []) \<and>
     ak_user k = fm_user form \<and> ak_name k = fm_name form \<and> ak_created_by k = Some (rq_user rq) \<and>
     fst (authenticate now (Some raw) s') = Inr (Some (fm_user form, k)) \<and>
     (\<forall>q o2 f2 t q2 o3 t2. key_save_model db rid tokens q o2 f2 True t = (Inr (o3, q2), t2) \<longrightarrow> raw_api_key q2 = raw_api_key q) \<and>
     (\<forall>q o2 t p. raw_api_key q = None \<longrightarrow> key_response_add escape url super_response q o2 t \<noteq> Inr (Inl p)) \<and>
     (\<forall>fs \<in> set (key_fieldsets (Some k)). ''secret'' \<notin> set (fs_fields fs)) \<and> ''secret'' \<notin> set (ma_list_display APIKeyAdmin)"
proof -
  obtain k raw where made: "create_key db rid (fm_user form) (fm_name form) (Some (rq_user rq)) tokens s = (Inr (k, raw), s')"
    and out: "obj' = obj\<lparr>ak_pk := ak_pk k\<rparr>" "rq' = rq\<lparr>raw_api_key := Some raw\<rparr>"
    using saved by (auto simp: key_save_model_def split: prod.splits sum.splits)
  obtain pk where k: "k = (new_key (fm_user form) (fm_name form) (Some (rq_user rq)) raw)\<lparr>ak_pk := pk\<rparr>"
    and keys: "ks_keys s' = k # ks_keys s" by (rule created_key [OF assms(1) made])
  have "raw \<in> set (map tokens [0, 1, 2])"
    using key_db.create_attempts_state [OF assms(1), of rid _ _ _ "map tokens [0, 1, 2]" s] made
    by (fastforce simp: create_key_def)
  then have raw: "is_ascii raw" "8 \<le> length raw" using assms(4) by auto
  let ?page = "key_page escape (ak_name k) (ak_prefix k) raw url"
  have "key_response_add escape url super_response rq' obj' s' = Inr (Inl ?page)"
    using raw by (auto simp: key_response_add_def keys out or_str_def)
  moreover have "sublist (escape raw) ?page" by (rule key_page_holds_key)
  moreover have "markup ?page = markup (key_page escape [] [] [] [])"
    by (rule html_escaper.key_page_inert [OF assms(2)])
  moreover have "fst (authenticate now (Some raw) s') = Inr (Some (fm_user form, k))"
    by (rule created_key_authenticates [OF assms(1) made raw assms(5)])
  moreover have "ak_pk k = ak_pk obj'" "raw_api_key rq' = Some raw" "ak_user k = fm_user form" "ak_name k = fm_name form"
    "ak_created_by k = Some (rq_user rq)"
    by (simp_all add: out k new_key_def)
  moreover have "\<forall>q o2 f2 t q2 o3 t2. key_save_model db rid tokens q o2 f2 True t = (Inr (o3, q2), t2) \<longrightarrow> raw_api_key q2 = raw_api_key q"
    "\<forall>q o2 t p. raw_api_key q = None \<longrightarrow> key_response_add escape url super_response q o2 t \<noteq> Inr (Inl p)"
    "\<forall>fs \<in> set (key_fieldsets (Some k)). ''secret'' \<notin> set (fs_fields fs)"
    by (simp_all add: key_never_shown_again)
  ultimately show ?thesis using keys key_never_shown_again(3) by blast
qed

theorem admin_creation_shows_working_key_witness:
  "\<exists>obj' rq' s' raw k page. key_save_model (list_key_orm True) None (\<lambda>i. ''zyxwvuts-new'') \<lparr>rq_user = 7, raw_api_key = None\<rparr> demo_key
        \<lparr>fm_user = 7, fm_name = ''<b>ci</b>''\<rparr> False demo_store = (Inr (obj', rq'), s') \<and>
     raw_api_key rq' = Some raw \<and> key_response_add html_escape ''/admin/'' (\<lambda>_. ()) rq' obj' s' = Inr (Inl page) \<and>
     sublist (html_escape raw) page \<and> markup page = markup (key_page html_escape [] [] [] []) \<and>
     fst (authenticate 9 (Some raw) s') = Inr (Some (fm_user \<lparr>fm_user = 7, fm_name = ''<b>ci</b>''\<rparr>, k))"
proof -
  let ?form = "\<lparr>fm_user = 7, fm_name = ''<b>ci</b>''\<rparr>" and ?rq = "\<lparr>rq_user = 7, raw_api_key = None\<rparr>"
  let ?k = "(new_key 7 ''<b>ci</b>'' (Some 7) ''zyxwvuts-new'')\<lparr>ak_pk := 2\<rparr>"
  have 1: "key_save_model (list_key_orm True) None (\<lambda>i. ''zyxwvuts-new'') ?rq demo_key ?form False demo_store
      = (Inr (demo_key\<lparr>ak_pk := 2\<rparr>, \<lparr>rq_user = 7, raw_api_key = Some ''zyxwvuts-new''\<rparr>), demo_store\<lparr>ks_keys := [?k, demo_key]\<rparr>)"
    by code_simp
  have 2: "list_all (\<lambda>i. is_ascii ((\<lambda>i. ''zyxwvuts-new'') i) \<and> 8 \<le> length ((\<lambda>i. ''zyxwvuts-new'') i)) [0, 1, 2]"
    "map_of (ks_users demo_store) (fm_user ?form) = Some True" by code_simp+
  from admin_creation_shows_working_key [OF lkeys.key_db_axioms html.html_escaper_axioms 1 2, of "''/admin/''" "\<lambda>_. ()" 9] 1
  show ?thesis by blast
qed

section \<open>Editing a key from the admin site\<close>

text \<open>
  An edit that works on the current row of a dead key leaves it dead, unless it switches a deleted key on
  again: the form cannot touch the revocation.
\<close>

lemma admin_edit_keeps_revocation:
  assumes "key_save_model db rid tokens rq (k\<lparr>ak_name := name, ak_active := active\<rparr>) form True s = (r, s')"
    and "k \<in> set (ks_keys s)" and "is_revoked k" and "distinct (map ak_pk (ks_keys s))"
  shows "dead (ak_pk k) s'"
proof -
  let ?k = "k\<lparr>ak_name := name, ak_active := active, ak_updated_by := Some (rq_user rq)\<rparr>"
  have "dead (ak_pk k) s"
    using assms(2-4) by (auto simp: dead_def usable_def distinct_map dest: inj_onD)
  moreover have "dead (ak_pk ?k) (replace_key ?k s)"
    using assms(2,3) by (intro dead_killed) (auto simp: usable_def is_revoked_def)
  moreover have "s' = s \<or> s' = replace_key ?k s"
    using assms(1)
    by (auto simp: key_save_model_def base_save_model_def key_save_def Let_def split: option.splits prod.splits sum.splits)
  ultimately show ?thesis by auto
qed

text \<open>
  The save writes every column. An edit whose object was loaded before a revocation and saved after it writes the
  old empty \<open>revoked_at\<close> back: the revoked key authenticates again.
\<close>

lemma stale_admin_edit_unrevokes:
  "\<exists>s1 r s2 u k. revoke (list_key_orm True) 5 1 7 demo_store = (Inr (True, False), s1) \<and>
     key_save_model (list_key_orm True) None (\<lambda>_. []) \<lparr>rq_user = 8, raw_api_key = None\<rparr> (demo_key\<lparr>ak_name := ''renamed''\<rparr>)
       \<lparr>fm_user = 7, fm_name = ''renamed''\<rparr> True s1 = (r, s2) \<and>
     fst (authenticate 6 (Some ''abcdefgh-secret'') s1) = Inl (AuthenticationFailed ''Invalid API key.'') \<and>
     fst (authenticate 6 (Some ''abcdefgh-secret'') s2) = Inr (Some (u, k)) \<and> ak_pk k = 1"
proof -
  let ?s1 = "demo_store\<lparr>ks_keys := [demo_key\<lparr>ak_revoked_at := Some 5, ak_updated_by := Some 7\<rparr>]\<rparr>"
  let ?k = "demo_key\<lparr>ak_name := ''renamed'', ak_updated_by := Some 8\<rparr>"
  let ?s2 = "demo_store\<lparr>ks_keys := [?k]\<rparr>"
  have "revoke (list_key_orm True) 5 1 7 demo_store = (Inr (True, False), ?s1)" by code_simp
  moreover have "key_save_model (list_key_orm True) None (\<lambda>_. []) \<lparr>rq_user = 8, raw_api_key = None\<rparr> (demo_key\<lparr>ak_name := ''renamed''\<rparr>)
       \<lparr>fm_user = 7, fm_name = ''renamed''\<rparr> True ?s1 = (Inr (?k, \<lparr>rq_user = 8, raw_api_key = None\<rparr>), ?s2)" by code_simp
  moreover have "fst (authenticate 6 (Some ''abcdefgh-secret'') ?s1) = Inl (AuthenticationFailed ''Invalid API key.'')" by code_simp
  moreover have "fst (authenticate 6 (Some ''abcdefgh-secret'') ?s2) = Inr (Some (7, ?k))" by code_simp
  moreover have "ak_pk ?k = 1" by code_simp
  ultimately show ?thesis by blast
qed

section \<open>What the editor drops\<close>

text \<open>
  Whatever attributes the widget was built with, the rows and the switched off completion among them, the page
  is the same; and the attribute values it does write are not escaped.
\<close>

lemma widget_attrs_never_rendered:
  "render escape escapejs merge loads dumps (new_widget a) name v attrs = render escape escapejs merge loads dumps (new_widget b) name v attrs"
  by (simp add: render_def)

lemma widget_attrs_unescaped:
  "markup (attrs_text [(''title'', VStr ([dquote] @ ''><script>''))]) = [dquote, dquote, CHR ''>'', CHR ''<'', CHR ''>'', dquote]"
  by code_simp

end
