(* ===== verification/KeyRaces.thy ===== *)
theory KeyRaces
  imports Admin
begin

text \<open>
  The key table under the API and the admin site at once. A change form of Django's admin loads the row it
  edits, sets the form's fields on that object and saves every column, with no lock on the row: between the load and the
  save any call of the service may run. The world is the table and the objects that open edits hold, and a step
  is a whole call of the service, a load, an edit's save (\<open>APIKeyAdmin.save_model\<close>) or an add.
\<close>

section \<open>The world and its steps\<close>

record key_world =
  kw_store :: key_store
  kw_open :: "api_key list"

inductive world_step :: "key_orm \<Rightarrow> key_world \<Rightarrow> key_world \<Rightarrow> bool" for db where
  service: "world_step db w (w\<lparr>kw_store := key_step db op (kw_store w)\<rparr>)"
| load: "k \<in> set (ks_keys (kw_store w)) \<Longrightarrow> world_step db w (w\<lparr>kw_open := k # kw_open w\<rparr>)"
| abandon: "world_step db w (w\<lparr>kw_open := remove1 k (kw_open w)\<rparr>)"
| edit: "k \<in> set (kw_open w) \<Longrightarrow>
    key_save_model db rid tokens rq (k\<lparr>ak_name := name, ak_active := active\<rparr>) form True (kw_store w) = (r, s') \<Longrightarrow>
    world_step db w \<lparr>kw_store = s', kw_open = remove1 k (kw_open w)\<rparr>"
| add: "key_save_model db rid tokens rq obj form False (kw_store w) = (r, s') \<Longrightarrow> world_step db w (w\<lparr>kw_store := s'\<rparr>)"

inductive_cases world_stepE: "world_step db w w'"

section \<open>What keeps a revocation\<close>

text \<open>Every stored row of the key is revoked; and so is every copy of it that an open edit holds.\<close>

definition revoked_rows :: "int \<Rightarrow> api_key list \<Rightarrow> bool" where
  "revoked_rows pk ks \<longleftrightarrow> (\<forall>k \<in> set ks. ak_pk k = pk \<longrightarrow> is_revoked k)"

definition revoked_for_good :: "int \<Rightarrow> key_world \<Rightarrow> bool" where
  "revoked_for_good pk w \<longleftrightarrow>
     pk \<in> ak_pk ` set (ks_keys (kw_store w)) \<and> revoked_rows pk (ks_keys (kw_store w)) \<and> revoked_rows pk (kw_open w)"

text \<open>
  The ways a call changes the table: a row's columns other than its revocation, a row of the key put in place of it,
  and a row of a fresh primary key.
\<close>

lemma revoked_rows_replace:
  "revoked_rows pk (ks_keys s) \<Longrightarrow> ak_pk k = pk \<longrightarrow> is_revoked k \<Longrightarrow> revoked_rows pk (ks_keys (replace_key k s))"
  by (auto simp: revoked_rows_def replace_key_def)

lemma revoked_rows_stamp: "revoked_rows pk (ks_keys s) \<Longrightarrow> revoked_rows pk (ks_keys (stamp_last_used now pk' s))"
  by (auto simp: revoked_rows_def stamp_last_used_def is_revoked_def)

lemma revoked_rows_authenticate:
  "revoked_rows pk (ks_keys s) \<Longrightarrow> revoked_rows pk (ks_keys (snd (authenticate now header s)))"
  using authenticate_state [of now header s] revoked_rows_stamp by auto

lemma authenticate_pks: "ak_pk ` set (ks_keys (snd (authenticate now header s))) = ak_pk ` set (ks_keys s)"
  using authenticate_state [of now header s] by (elim exE disjE) (simp_all add: pks_stamp)

lemma delete_replaces:
  "snd (delete_key db pk user s) = s \<or>
   (\<exists>k \<in> set (ks_keys s). snd (delete_key db pk user s) = replace_key (k\<lparr>ak_active := False, ak_updated_by := Some user\<rparr>) s)"
  by (auto simp: delete_key_def Let_def split: option.splits dest!: find_active_SomeD)

lemma revoke_replaces:
  "snd (revoke db now pk user s) = s \<or>
   (\<exists>k. is_revoked k \<and> snd (revoke db now pk user s) = replace_key k s)"
  by (force simp: revoke_def Let_def is_revoked_def split: option.splits)

lemma edit_replaces:
  assumes "key_save_model db rid tokens rq k form True s = (r, s')"
  shows "s' = s \<or> s' = replace_key (k\<lparr>ak_updated_by := Some (rq_user rq)\<rparr>) s"
  using assms by (auto simp: key_save_model_def base_save_model_def key_save_def Let_def split: option.splits prod.splits sum.splits)

lemma add_state:
  "snd (key_save_model db rid tokens rq obj form False s) = snd (create_key db rid (fm_user form) (fm_name form) (Some (rq_user rq)) tokens s)"
  by (auto simp: key_save_model_def split: prod.splits sum.splits)

lemma revoke_kills:
  "revoke db now pk user s = (Inr (True, False), s') \<Longrightarrow> pk \<in> ak_pk ` set (ks_keys s') \<and> revoked_rows pk (ks_keys s')"
  by (auto simp: revoke_def Let_def pks_replace split: option.splits if_splits dest!: find_active_SomeD)
     (auto simp: revoked_rows_def replace_key_def is_revoked_def)

section \<open>Revocation is final where no edit is stale\<close>

context key_db
begin

lemma created_rows:
  assumes "pk \<in> ak_pk ` set (ks_keys s)" and "revoked_rows pk (ks_keys s)"
  shows "pk \<in> ak_pk ` set (ks_keys (snd (create_key db rid user name who tokens s))) \<and>
    revoked_rows pk (ks_keys (snd (create_key db rid user name who tokens s)))"
  using create_key_state [of rid user name who tokens s] assms by (auto simp: revoked_rows_def)

lemma service_keeps_revoked:
  assumes "pk \<in> ak_pk ` set (ks_keys s)" and "revoked_rows pk (ks_keys s)"
  shows "pk \<in> ak_pk ` set (ks_keys (key_step db op s)) \<and> revoked_rows pk (ks_keys (key_step db op s))"
proof (cases op)
  case (OpCreate rid user name who tokens)
  then show ?thesis using created_rows [OF assms] by simp
next
  case (OpAuthenticate now header)
  then show ?thesis using assms by (simp add: authenticate_pks revoked_rows_authenticate)
next
  case (OpRevoke now pk' user)
  then show ?thesis
    using revoke_replaces [of db now pk' user s] assms by (auto simp: pks_replace intro: revoked_rows_replace)
next
  case (OpDelete pk' user)
  show ?thesis
    using delete_replaces [of db pk' user s]
  proof
    assume "\<exists>k \<in> set (ks_keys s). snd (delete_key db pk' user s) = replace_key (k\<lparr>ak_active := False, ak_updated_by := Some user\<rparr>) s"
    then obtain k where k: "k \<in> set (ks_keys s)"
      and out: "snd (delete_key db pk' user s) = replace_key (k\<lparr>ak_active := False, ak_updated_by := Some user\<rparr>) s" by blast
    have "revoked_rows pk (ks_keys (replace_key (k\<lparr>ak_active := False, ak_updated_by := Some user\<rparr>) s))"
      using assms(2) k by (intro revoked_rows_replace) (auto simp: revoked_rows_def is_revoked_def)
    with out OpDelete assms(1) show ?thesis by (simp add: pks_replace)
  qed (use OpDelete assms in simp)
qed

lemma step_keeps_revoked:
  assumes "world_step db w w'" and "revoked_for_good pk w"
  shows "revoked_for_good pk w'"
  using assms
proof (induction rule: world_step.induct)
  case (service w op)
  then show ?case using service_keeps_revoked [of pk "kw_store w" op] by (simp add: revoked_for_good_def)
next
  case (load k w)
  then show ?case by (auto simp: revoked_for_good_def revoked_rows_def)
next
  case (abandon w k)
  then show ?case by (auto simp: revoked_for_good_def revoked_rows_def dest: notin_set_remove1)
next
  case (edit k w rid tokens rq active name form r s')
  let ?k = "k\<lparr>ak_name := name, ak_active := active, ak_updated_by := Some (rq_user rq)\<rparr>"
  have "ak_pk ?k = pk \<longrightarrow> is_revoked ?k"
    using edit.hyps(1) edit.prems by (auto simp: revoked_for_good_def revoked_rows_def is_revoked_def)
  moreover have "s' = kw_store w \<or> s' = replace_key ?k (kw_store w)" using edit_replaces [OF edit.hyps(2)] by simp
  ultimately show ?case
    using edit.prems
    by (auto simp: revoked_for_good_def pks_replace intro: revoked_rows_replace)
       (auto simp: revoked_rows_def dest: notin_set_remove1)
next
  case (add rid tokens rq obj form w r s')
  have "s' = snd (create_key db rid (fm_user form) (fm_name form) (Some (rq_user rq)) tokens (kw_store w))"
    using add_state [of db rid tokens rq obj form "kw_store w"] add.hyps by simp
  then show ?case
    using created_rows [of pk "kw_store w"] add.prems by (simp add: revoked_for_good_def)
qed

lemma reachable_keeps_revoked:
  "(world_step db)\<^sup>*\<^sup>* w w' \<Longrightarrow> revoked_for_good pk w \<Longrightarrow> revoked_for_good pk w'"
  by (induction rule: rtranclp_induct) (auto intro: step_keeps_revoked)

end

text \<open>
  C4: revocation is final beside the admin site too, as long as no edit is stale. Let a call report that it revoked a key
  while every object of that key an open admin edit holds is itself revoked, as when no edit of it is open. Then through every
  interleaving of service calls with admin loads, saves and adds, in which a form may rename the key and tick
  \<open>is_active\<close> again, no authentication answers with the key. (\<open>stale_admin_edit_unrevokes\<close> is what
  happens where an edit was open.)
\<close>

theorem revocation_final_beside_admin:
  assumes "key_db db"
    and "revoke db now pk user (kw_store w) = (Inr (True, False), s1)"
    and "revoked_rows pk (kw_open w)"
    and "(world_step db)\<^sup>*\<^sup>* (w\<lparr>kw_store := s1\<rparr>) w'"
    and "fst (authenticate t header (kw_store w')) = Inr (Some (u, k))"
  shows "ak_pk k \<noteq> pk"
proof -
  have "revoked_for_good pk (w\<lparr>kw_store := s1\<rparr>)"
    using revoke_kills [OF assms(2)] assms(3) by (simp add: revoked_for_good_def)
  then have "revoked_for_good pk w'" by (rule key_db.reachable_keeps_revoked [OF assms(1,4)])
  then show ?thesis
    using authenticate_sound [OF assms(5)] by (auto simp: revoked_for_good_def revoked_rows_def usable_def)
qed

text \<open>
  The edit that follows the revocation ticks the box again and saves; the key still does not open anything, while a key
  made in the same run does.
\<close>

definition edited_after_revoke :: key_store where
  "edited_after_revoke =
     \<lparr>ks_keys = [(new_key 7 ''new'' None ''zyxwvuts-new'')\<lparr>ak_pk := 2\<rparr>,
        demo_key\<lparr>ak_name := ''again'', ak_revoked_at := Some 5, ak_updated_by := Some 8\<rparr>],
      ks_users = [(7, True)], ks_debounce = []\<rparr>"

theorem revocation_final_beside_admin_witness:
  "\<exists>s1 k. revoke (list_key_orm True) 5 1 7 demo_store = (Inr (True, False), s1) \<and>
     (world_step (list_key_orm True))\<^sup>*\<^sup>* \<lparr>kw_store = s1, kw_open = []\<rparr> \<lparr>kw_store = edited_after_revoke, kw_open = []\<rparr> \<and>
     fst (authenticate 9 (Some ''zyxwvuts-new'') edited_after_revoke) = Inr (Some (7, k)) \<and> ak_pk k \<noteq> 1"
proof -
  let ?db = "list_key_orm True"
  let ?r = "demo_key\<lparr>ak_revoked_at := Some 5, ak_updated_by := Some 7\<rparr>"
  let ?s1 = "demo_store\<lparr>ks_keys := [?r]\<rparr>"
  let ?w = "\<lparr>kw_store = demo_store, kw_open = []\<rparr>"
  let ?s2 = "demo_store\<lparr>ks_keys := [demo_key\<lparr>ak_name := ''again'', ak_revoked_at := Some 5, ak_updated_by := Some 8\<rparr>]\<rparr>"
  let ?k = "(new_key 7 ''new'' None ''zyxwvuts-new'')\<lparr>ak_pk := 2\<rparr>"
  have rev: "revoke ?db 5 1 7 demo_store = (Inr (True, False), ?s1)" by code_simp
  have "world_step ?db \<lparr>kw_store = ?s1, kw_open = []\<rparr> \<lparr>kw_store = ?s1, kw_open = [?r]\<rparr>"
    using world_step.load [of ?r "\<lparr>kw_store = ?s1, kw_open = []\<rparr>" ?db] by simp
  moreover have "key_save_model ?db None (\<lambda>_. []) \<lparr>rq_user = 8, raw_api_key = None\<rparr> (?r\<lparr>ak_name := ''again'', ak_active := True\<rparr>)
      \<lparr>fm_user = 7, fm_name = ''again''\<rparr> True ?s1 =
      (Inr (demo_key\<lparr>ak_name := ''again'', ak_revoked_at := Some 5, ak_updated_by := Some 8\<rparr>, \<lparr>rq_user = 8, raw_api_key = None\<rparr>), ?s2)"
    by code_simp
  then have "world_step ?db \<lparr>kw_store = ?s1, kw_open = [?r]\<rparr> \<lparr>kw_store = ?s2, kw_open = []\<rparr>"
    using world_step.edit [of ?r "\<lparr>kw_store = ?s1, kw_open = [?r]\<rparr>" ?db] by simp
  moreover have "key_step ?db (OpCreate None 7 ''new'' None (\<lambda>_. ''zyxwvuts-new'')) ?s2 = edited_after_revoke" by code_simp
  then have "world_step ?db \<lparr>kw_store = ?s2, kw_open = []\<rparr> \<lparr>kw_store = edited_after_revoke, kw_open = []\<rparr>"
    using world_step.service [of ?db "\<lparr>kw_store = ?s2, kw_open = []\<rparr>" "OpCreate None 7 ''new'' None (\<lambda>_. ''zyxwvuts-new'')"] by simp
  ultimately have run: "(world_step ?db)\<^sup>*\<^sup>* \<lparr>kw_store = ?s1, kw_open = []\<rparr> \<lparr>kw_store = edited_after_revoke, kw_open = []\<rparr>"
    by (meson converse_rtranclp_into_rtranclp r_into_rtranclp)
  have auth: "fst (authenticate 9 (Some ''zyxwvuts-new'') edited_after_revoke) = Inr (Some (7, ?k))" by code_simp
  have "ak_pk ?k \<noteq> 1"
    by (rule revocation_final_beside_admin [OF lkeys.key_db_axioms, where w = ?w and w' = "\<lparr>kw_store = edited_after_revoke, kw_open = []\<rparr>"])
       (use rev run auth in \<open>simp_all add: revoked_rows_def\<close>)
  with rev run auth show ?thesis by blast
qed

text \<open>
  A deletion is only a switched off row: the change form that ticks \<open>is_active\<close> brings the key back, with no stale
  object involved.
\<close>

lemma admin_edit_undeletes:
  "\<exists>s1 w2 k. delete_key (list_key_orm True) 1 7 demo_store = (Inr True, s1) \<and>
     (world_step (list_key_orm True))\<^sup>*\<^sup>* \<lparr>kw_store = s1, kw_open = []\<rparr> w2 \<and>
     fst (authenticate 9 (Some ''abcdefgh-secret'') (kw_store w2)) = Inr (Some (7, k)) \<and> ak_pk k = 1"
proof -
  let ?db = "list_key_orm True"
  let ?d = "demo_key\<lparr>ak_active := False, ak_updated_by := Some 7\<rparr>"
  let ?k = "demo_key\<lparr>ak_updated_by := Some 8\<rparr>"
  let ?s1 = "demo_store\<lparr>ks_keys := [?d]\<rparr>" and ?s2 = "demo_store\<lparr>ks_keys := [?k]\<rparr>"
  have del: "delete_key ?db 1 7 demo_store = (Inr True, ?s1)" by code_simp
  have "world_step ?db \<lparr>kw_store = ?s1, kw_open = []\<rparr> \<lparr>kw_store = ?s1, kw_open = [?d]\<rparr>"
    using world_step.load [of ?d "\<lparr>kw_store = ?s1, kw_open = []\<rparr>" ?db] by simp
  moreover have "key_save_model ?db None (\<lambda>_. []) \<lparr>rq_user = 8, raw_api_key = None\<rparr> (?d\<lparr>ak_name := ''ci'', ak_active := True\<rparr>)
      \<lparr>fm_user = 7, fm_name = ''ci''\<rparr> True ?s1 = (Inr (?k, \<lparr>rq_user = 8, raw_api_key = None\<rparr>), ?s2)"
    by code_simp
  then have "world_step ?db \<lparr>kw_store = ?s1, kw_open = [?d]\<rparr> \<lparr>kw_store = ?s2, kw_open = []\<rparr>"
    using world_step.edit [of ?d "\<lparr>kw_store = ?s1, kw_open = [?d]\<rparr>" ?db] by simp
  ultimately have run: "(world_step ?db)\<^sup>*\<^sup>* \<lparr>kw_store = ?s1, kw_open = []\<rparr> \<lparr>kw_store = ?s2, kw_open = []\<rparr>"
    by (meson converse_rtranclp_into_rtranclp r_into_rtranclp)
  have "fst (authenticate 9 (Some ''abcdefgh-secret'') ?s2) = Inr (Some (7, ?k))" "ak_pk ?k = 1" by code_simp+
  with del run show ?thesis by (metis key_world.select_convs(1))
qed

end
