(* ===== verification/Bootstrap.thy ===== *)
theory Bootstrap
  imports Settings
begin

text \<open>
  The ways into the process: \<open>manage.py\<close>, \<open>config/wsgi.py\<close>, \<open>config/asgi.py\<close>, \<open>config/celery.py\<close> and the head of
  \<open>config/settings/__init__.py\<close>. Each puts the \<open>apps\<close> directory on the import path, names the settings
  module and hands over to Django or Celery, whose functions are arguments.
\<close>

section \<open>Paths\<close>

text \<open>A resolved path is the list of its names below the root; \<open>parent\<close> of the root is the root.\<close>

type_synonym path = "string list"

definition parent :: "path \<Rightarrow> path" where
  "parent p = butlast p"

definition parents_at :: "path \<Rightarrow> nat \<Rightarrow> (exn, path) result" where
  "parents_at p n =
     (if n < length p then Inr (take (length p - Suc n) p) else Inl (raw_exn (OtherException ''IndexError'') (nat_str n)))"

definition path_str :: "path \<Rightarrow> string" where
  "path_str p = (if p = [] then ''/'' else concat (map (\<lambda>n. ''/'' @ n) p))"

definition ensure_on_path :: "string \<Rightarrow> string list \<Rightarrow> string list" where
  "ensure_on_path d sys_path = (if d \<in> set sys_path then sys_path else d # sys_path)"

section \<open>The process\<close>

record process =
  sys_path :: "string list"
  os_environ :: environ

definition path_block :: "string \<Rightarrow> process \<Rightarrow> process" where
  "path_block d s = s\<lparr>sys_path := ensure_on_path d (sys_path s)\<rparr>"

definition name_settings :: "process \<Rightarrow> process" where
  "name_settings s = s\<lparr>os_environ := env_setdefault ''DJANGO_SETTINGS_MODULE'' ''config.settings'' (os_environ s)\<rparr>"

subsection \<open>\<open>manage.py\<close>\<close>

definition manage_apps_dir :: "path \<Rightarrow> string" where
  "manage_apps_dir file = path_str (parent file @ [''apps''])"

text \<open>
  \<open>execute\<close> is \<open>execute_from_command_line\<close>, or the exception its import raises; an \<open>ImportError\<close> is told as advice on the
  installation, with the exception it came from.
\<close>

definition ImportError :: exc_class where
  "ImportError = OtherException ''ImportError''"

definition import_advice :: exn where
  "import_advice = raw_exn ImportError
     (''Couldn'' @ [CHR 0x27] @ ''t import Django. Are you sure it'' @ [CHR 0x27] @ ''s installed and available on your PYTHONPATH environment variable? '' @
      ''Did you forget to activate a virtual environment?'')"

definition main ::
  "(process \<Rightarrow> (exn, string list \<Rightarrow> process \<Rightarrow> (exn, 'r) result \<times> process) result) \<Rightarrow> string list \<Rightarrow> process
     \<Rightarrow> (exn \<times> exn option, 'r) result \<times> process" where
  "main execute argv s =
     (let s' = name_settings s in
      case execute s' of
        Inl e \<Rightarrow> (if isinstance e ImportError then Inl (import_advice, Some e) else Inl (e, None), s')
      | Inr run \<Rightarrow> (case run argv s' of (Inl e, t) \<Rightarrow> (Inl (e, None), t) | (Inr r, t) \<Rightarrow> (Inr r, t)))"

definition manage ::
  "path \<Rightarrow> (process \<Rightarrow> (exn, string list \<Rightarrow> process \<Rightarrow> (exn, 'r) result \<times> process) result) \<Rightarrow> string list \<Rightarrow> process
     \<Rightarrow> (exn \<times> exn option, 'r) result \<times> process" where
  "manage file execute argv s = main execute argv (path_block (manage_apps_dir file) s)"

subsection \<open>The servers\<close>

definition wsgi_apps_dir :: "path \<Rightarrow> string" where
  "wsgi_apps_dir file = path_str (parent (parent file) @ [''apps''])"

definition wsgi :: "path \<Rightarrow> (process \<Rightarrow> (exn, 'app) result \<times> process) \<Rightarrow> process \<Rightarrow> (exn, 'app) result \<times> process" where
  "wsgi file get_wsgi_application s = get_wsgi_application (name_settings (path_block (wsgi_apps_dir file) s))"

definition asgi_apps_dir :: "path \<Rightarrow> string" where
  "asgi_apps_dir file = path_str (parent (parent file) @ [''apps''])"

definition asgi :: "path \<Rightarrow> (process \<Rightarrow> (exn, 'app) result \<times> process) \<Rightarrow> process \<Rightarrow> (exn, 'app) result \<times> process" where
  "asgi file get_asgi_application s = get_asgi_application (name_settings (path_block (asgi_apps_dir file) s))"

subsection \<open>The worker\<close>

text \<open>What the module asks of Celery, in order.\<close>

datatype celery_call = Celery string | ConfigFromObject string string | AutodiscoverTasks

definition celery_apps_dir :: "path \<Rightarrow> string" where
  "celery_apps_dir file = path_str (parent (parent file) @ [''apps''])"

definition celery_module :: "path \<Rightarrow> process \<Rightarrow> celery_call list \<times> process" where
  "celery_module file s =
     (let s' = name_settings (path_block (celery_apps_dir file) s) in
      ([Celery (getenv (os_environ s') ''CELERY_APP_NAME'' ''app''), ConfigFromObject ''django.conf:settings'' ''CELERY'', AutodiscoverTasks], s'))"

subsection \<open>The head of the settings package\<close>

definition settings_apps_dir :: "path \<Rightarrow> string" where
  "settings_apps_dir file = path_str (parent (parent (parent file)) @ [''apps''])"

definition drift_message :: "string \<Rightarrow> string \<Rightarrow> string" where
  "drift_message d d' =
     ''sys.path drift between config/settings/__init__.py ('' @ repr_str d @ '') and config/celery.py ('' @ repr_str d' @
     ''). Re-sync the two blocks.''"

definition settings_path_block :: "path \<Rightarrow> process \<Rightarrow> (exn, unit) result \<times> process" where
  "settings_path_block file s =
     (let d = settings_apps_dir file; s' = path_block d s in
      case parents_at file 2 of
        Inl e \<Rightarrow> (Inl e, s')
      | Inr proj \<Rightarrow>
          (let d' = path_str (proj @ [''apps'']) in
           if d \<noteq> d' then (Inl (raw_exn PyRuntimeError (drift_message d d')), s') else (Inr (), s')))"

section \<open>One directory, inserted once\<close>

lemma ensure_on_path_idem: "ensure_on_path d (ensure_on_path d sp) = ensure_on_path d sp"
  by (simp add: ensure_on_path_def)

datatype entry = Manage | Wsgi | Asgi | Worker | SettingsPackage

text \<open>The block an entry point runs, at its place below the project's root.\<close>

fun entry_block :: "path \<Rightarrow> entry \<Rightarrow> process \<Rightarrow> process" where
  "entry_block proj Manage s = path_block (manage_apps_dir (proj @ [''manage.py''])) s"
| "entry_block proj Wsgi s = path_block (wsgi_apps_dir (proj @ [''config'', ''wsgi.py''])) s"
| "entry_block proj Asgi s = path_block (asgi_apps_dir (proj @ [''config'', ''asgi.py''])) s"
| "entry_block proj Worker s = path_block (celery_apps_dir (proj @ [''config'', ''celery.py''])) s"
| "entry_block proj SettingsPackage s = snd (settings_path_block (proj @ [''config'', ''settings'', ''__init__.py'']) s)"

lemma entry_block_dir: "entry_block proj e s = path_block (path_str (proj @ [''apps''])) s"
  by (cases e) (simp_all add: manage_apps_dir_def wsgi_apps_dir_def asgi_apps_dir_def celery_apps_dir_def settings_apps_dir_def
      settings_path_block_def parents_at_def parent_def butlast_append Let_def)

text \<open>
  A start-up runs several of these blocks, a server its own, the worker's when the package \<open>config\<close> is imported and
  the settings' own. Whichever run, in whatever order and however often, they agree on the directory: the import path
  gains \<open>apps\<close> at its front exactly once, or not at all where it was there, and nothing else changes.
\<close>

theorem entry_points_agree:
  "es \<noteq> [] \<Longrightarrow> fold (entry_block proj) es s = path_block (path_str (proj @ [''apps''])) s"
proof (induction es rule: rev_induct)
  case (snoc e es)
  then show ?case by (cases "es = []") (simp_all add: entry_block_dir path_block_def ensure_on_path_idem)
qed simp

text \<open>
  The guard that is to catch a difference between the settings' block and the worker's computes both sides from the settings file
  itself: below a root directory it cannot fail, and so it says nothing of what \<open>config/celery.py\<close> computes.
\<close>

theorem drift_guard_is_blind:
  assumes "3 \<le> length file"
  shows "fst (settings_path_block file s) = Inr ()"
proof -
  have "butlast (butlast (butlast file)) = take (length file - 3) file"
    by (simp add: butlast_conv_take min_def eval_nat_numeral)
  then show ?thesis using assms
    by (simp add: settings_path_block_def parents_at_def settings_apps_dir_def parent_def Let_def numeral_eq_Suc)
qed

section \<open>The settings named\<close>

text \<open>A name the environment already has stands; otherwise the package is named.\<close>

lemma settings_named:
  "map_of (os_environ (name_settings s)) ''DJANGO_SETTINGS_MODULE'' =
     Some (case map_of (os_environ s) ''DJANGO_SETTINGS_MODULE'' of Some v \<Rightarrow> v | None \<Rightarrow> ''config.settings'')"
  by (simp add: name_settings_def env_setdefault_def split: option.split)

lemma name_settings_frame:
  "n \<noteq> ''DJANGO_SETTINGS_MODULE'' \<Longrightarrow> map_of (os_environ (name_settings s)) n = map_of (os_environ s) n"
  by (simp add: name_settings_def env_setdefault_def split: option.split)

lemma celery_app_name:
  "hd (fst (celery_module file s)) = Celery (getenv (os_environ s) ''CELERY_APP_NAME'' ''app'')"
  by (simp add: celery_module_def Let_def getenv_def name_settings_frame path_block_def)

text \<open>Every failed import becomes the advice, also one of a package that Django itself misses; no other failure does.\<close>

lemma main_advises:
  assumes "execute (name_settings s) = Inl e"
  shows "fst (main execute argv s) = (if isinstance e ImportError then Inl (import_advice, Some e) else Inl (e, None))"
  using assms by (simp add: main_def Let_def)

end
