(* ===== verification/Migrations.thy ===== *)
theory Migrations
  imports ApiKeys
begin

text \<open>
  The database schema: the model classes of \<open>apps/accounts/models.py\<close>, \<open>apps/core/base/model.py\<close> and
  \<open>apps/core/api_log/models.py\<close> as data, the migrations of both apps as lists of operations, and what applying the
  operations to a schema means. Options stand as the source writes them; a callable or an expression object is its text.
\<close>

section \<open>Schemas and operations\<close>

record model_field =
  fd_type :: string
  fd_options :: "(string \<times> pyval) list"

record db_index =
  ix_fields :: "string list"
  ix_condition :: "(string \<times> pyval) list"
  ix_name :: "string option"

datatype db_constraint =
    Unique "string list" string
  | Check "(string \<times> pyval) list" string

record model_class =
  mc_fields :: "(string \<times> model_field) list"
  mc_options :: "(string \<times> pyval) list"
  mc_indexes :: "db_index list"
  mc_constraints :: "db_constraint list"

datatype operation =
    CreateModel string "(string \<times> model_field) list" "(string \<times> pyval) list" "db_index list" "db_constraint list"
  | AddField string string model_field
  | AlterField string string model_field
  | RenameField string string string
  | AddIndex string db_index
  | AddConstraint string db_constraint

type_synonym schema = "(string \<times> model_class) list"

text \<open>\<open>None\<close> is the error of an operation on a table or column that is not there, or is there already.\<close>

definition on_table :: "string \<Rightarrow> (model_class \<Rightarrow> model_class option) \<Rightarrow> schema \<Rightarrow> schema option" where
  "on_table name f sch =
     (case map_of sch (py_lower name) of
        None \<Rightarrow> None
      | Some t \<Rightarrow> map_option (\<lambda>t'. AList.update (py_lower name) t' sch) (f t))"

definition renamed :: "string \<Rightarrow> string \<Rightarrow> string \<Rightarrow> string" where
  "renamed old new f = (if f = old then new else f)"

fun apply_op :: "operation \<Rightarrow> schema \<Rightarrow> schema option" where
  "apply_op (CreateModel name fs opts ixs cs) sch =
     (if map_of sch (py_lower name) \<noteq> None then None
      else Some (sch @ [(py_lower name, \<lparr>mc_fields = fs, mc_options = opts, mc_indexes = ixs, mc_constraints = cs\<rparr>)]))"
| "apply_op (AddField m name f) sch =
     on_table m (\<lambda>t. if map_of (mc_fields t) name \<noteq> None then None else Some (t\<lparr>mc_fields := mc_fields t @ [(name, f)]\<rparr>)) sch"
| "apply_op (AlterField m name f) sch =
     on_table m (\<lambda>t. if map_of (mc_fields t) name = None then None else Some (t\<lparr>mc_fields := AList.update name f (mc_fields t)\<rparr>)) sch"
| "apply_op (RenameField m old new) sch =
     on_table m (\<lambda>t. if map_of (mc_fields t) old = None \<or> map_of (mc_fields t) new \<noteq> None then None
       else Some (t\<lparr>mc_fields := map (\<lambda>(n, f). (renamed old new n, f)) (mc_fields t),
          mc_indexes := map (\<lambda>ix. ix\<lparr>ix_fields := map (renamed old new) (ix_fields ix)\<rparr>) (mc_indexes t)\<rparr>)) sch"
| "apply_op (AddIndex m ix) sch = on_table m (\<lambda>t. Some (t\<lparr>mc_indexes := mc_indexes t @ [ix]\<rparr>)) sch"
| "apply_op (AddConstraint m c) sch = on_table m (\<lambda>t. Some (t\<lparr>mc_constraints := mc_constraints t @ [c]\<rparr>)) sch"

fun migrate :: "operation list \<Rightarrow> schema \<Rightarrow> schema option" where
  "migrate [] sch = Some sch"
| "migrate (op # ops) sch = (case apply_op op sch of None \<Rightarrow> None | Some sch' \<Rightarrow> migrate ops sch')"

section \<open>Choices\<close>

definition strs_of :: "string list \<Rightarrow> pyval" where "strs_of ss = VList (map VStr ss)"

definition choices_of :: "(string \<times> string) list \<Rightarrow> pyval" where
  "choices_of vs = VList (map (\<lambda>(v, label). VSeq STuple [VStr v, VStr label]) vs)"

definition Resource_choices :: pyval where
  "Resource_choices = choices_of [(resource_value ACCOUNT, ''Account''), (resource_value ROLE, ''Role''), (resource_value API_KEY, ''API Key'')]"

definition Action_choices :: pyval where
  "Action_choices = choices_of [(action_value CREATE, ''Create''), (action_value READ, ''Read''), (action_value UPDATE, ''Update''),
     (action_value DELETE, ''Delete'')]"

definition Direction_choices :: pyval where
  "Direction_choices = choices_of [(''inbound'', ''Inbound''), (''outbound'', ''Outbound'')]"

section \<open>The migrations\<close>

definition accounts_0001 :: "operation list" where
  "accounts_0001 =
     [CreateModel ''User''
        [(''id'', \<lparr>fd_type = ''BigAutoField'', fd_options = [(''auto_created'', VBool True), (''primary_key'', VBool True), (''serialize'', VBool False), (''verbose_name'', VStr ''ID'')]\<rparr>),
         (''password'', \<lparr>fd_type = ''CharField'', fd_options = [(''max_length'', VInt 128), (''verbose_name'', VStr ''password'')]\<rparr>),
         (''last_login'', \<lparr>fd_type = ''DateTimeField'', fd_options = [(''blank'', VBool True), (''null'', VBool True), (''verbose_name'', VStr ''last login'')]\<rparr>),
         (''is_superuser'', \<lparr>fd_type = ''BooleanField'', fd_options = [(''default'', VBool False), (''help_text'', VStr ''Designates that this user has all permissions without explicitly assigning them.''), (''verbose_name'', VStr ''superuser status'')]\<rparr>),
         (''username'', \<lparr>fd_type = ''CharField'', fd_options = [(''error_messages'', str_dict [(''unique'', VStr ''A user with that username already exists.'')]), (''help_text'', VStr ''Required. 150 characters or fewer. Letters, digits and @/./+/-/_ only.''), (''max_length'', VInt 150), (''unique'', VBool True), (''validators'', VList [VObj ''django.contrib.auth.validators.UnicodeUsernameValidator'' None]), (''verbose_name'', VStr ''username'')]\<rparr>),
         (''first_name'', \<lparr>fd_type = ''CharField'', fd_options = [(''blank'', VBool True), (''max_length'', VInt 150), (''verbose_name'', VStr ''first name'')]\<rparr>),
         (''last_name'', \<lparr>fd_type = ''CharField'', fd_options = [(''blank'', VBool True), (''max_length'', VInt 150), (''verbose_name'', VStr ''last name'')]\<rparr>),
         (''is_staff'', \<lparr>fd_type = ''BooleanField'', fd_options = [(''default'', VBool False), (''help_text'', VStr ''Designates whether the user can log into this admin site.''), (''verbose_name'', VStr ''staff status'')]\<rparr>),
         (''is_active'', \<lparr>fd_type = ''BooleanField'', fd_options = [(''default'', VBool True), (''help_text'', VStr ''Designates whether this user should be treated as active. Unselect this instead of deleting accounts.''), (''verbose_name'', VStr ''active'')]\<rparr>),
         (''date_joined'', \<lparr>fd_type = ''DateTimeField'', fd_options = [(''default'', VObj ''django.utils.timezone.now'' None), (''verbose_name'', VStr ''date joined'')]\<rparr>),
         (''email'', \<lparr>fd_type = ''EmailField'', fd_options = [(''max_length'', VInt 254), (''unique'', VBool True), (''verbose_name'', VStr ''email address'')]\<rparr>),
         (''avatar_url'', \<lparr>fd_type = ''URLField'', fd_options = [(''blank'', VBool True), (''max_length'', VInt 500), (''null'', VBool True)]\<rparr>),
         (''email_verified'', \<lparr>fd_type = ''BooleanField'', fd_options = [(''default'', VBool False)]\<rparr>),
         (''timezone'', \<lparr>fd_type = ''CharField'', fd_options = [(''default'', VStr ''Asia/Kolkata''), (''max_length'', VInt 50)]\<rparr>),
         (''last_login_ip'', \<lparr>fd_type = ''GenericIPAddressField'', fd_options = [(''blank'', VBool True), (''null'', VBool True)]\<rparr>),
         (''groups'', \<lparr>fd_type = ''ManyToManyField'', fd_options = [(''blank'', VBool True), (''help_text'', VStr ''The groups this user belongs to. A user will get all permissions granted to each of their groups.''), (''related_name'', VStr ''user_set''), (''related_query_name'', VStr ''user''), (''to'', VStr ''auth.group''), (''verbose_name'', VStr ''groups'')]\<rparr>),
         (''user_permissions'', \<lparr>fd_type = ''ManyToManyField'', fd_options = [(''blank'', VBool True), (''help_text'', VStr ''Specific permissions for this user.''), (''related_name'', VStr ''user_set''), (''related_query_name'', VStr ''user''), (''to'', VStr ''auth.permission''), (''verbose_name'', VStr ''user permissions'')]\<rparr>)]
        [(''ordering'', VList [VStr ''-date_joined''])]
        []
        [],
      CreateModel ''APIKey''
        [(''id'', \<lparr>fd_type = ''BigAutoField'', fd_options = [(''editable'', VBool False), (''primary_key'', VBool True), (''serialize'', VBool False)]\<rparr>),
         (''created_at'', \<lparr>fd_type = ''DateTimeField'', fd_options = [(''auto_now_add'', VBool True)]\<rparr>),
         (''updated_at'', \<lparr>fd_type = ''DateTimeField'', fd_options = [(''auto_now'', VBool True)]\<rparr>),
         (''is_active'', \<lparr>fd_type = ''BooleanField'', fd_options = [(''db_index'', VBool True), (''default'', VBool True)]\<rparr>),
         (''notes'', \<lparr>fd_type = ''JSONField'', fd_options = [(''blank'', VBool True), (''null'', VBool True)]\<rparr>),
         (''name'', \<lparr>fd_type = ''CharField'', fd_options = [(''help_text'', VStr (''Label for this key, e.g. '' @ [squote] @ ''CI Pipeline'' @ [squote] @ '' or '' @ [squote] @ ''Mobile App Prod'' @ [squote])), (''max_length'', VInt 255)]\<rparr>),
         (''prefix'', \<lparr>fd_type = ''CharField'', fd_options = [(''db_index'', VBool True), (''editable'', VBool False), (''help_text'', VStr ''First 8 chars of the key, used for lookup.''), (''max_length'', VInt 8), (''unique'', VBool True)]\<rparr>),
         (''encrypted_key'', \<lparr>fd_type = ''EncryptedCharField'', fd_options = [(''editable'', VBool False), (''help_text'', VStr ''Full key encrypted at rest via Fernet.''), (''max_length'', VInt 500)]\<rparr>),
         (''last_used_at'', \<lparr>fd_type = ''DateTimeField'', fd_options = [(''blank'', VBool True), (''editable'', VBool False), (''null'', VBool True)]\<rparr>),
         (''revoked_at'', \<lparr>fd_type = ''DateTimeField'', fd_options = [(''blank'', VBool True), (''editable'', VBool False), (''help_text'', VStr ''Set when the key is revoked. Authentication rejects keys with a non-null revoked_at even if the row is otherwise active. Soft-revocation is preferred over delete so audit trails stay intact.''), (''null'', VBool True)]\<rparr>),
         (''created_by'', \<lparr>fd_type = ''ForeignKey'', fd_options = [(''blank'', VBool True), (''null'', VBool True), (''on_delete'', VStr ''SET_NULL''), (''related_name'', VStr ''%(app_label)s_%(class)s_created''), (''to'', VStr ''accounts.User'')]\<rparr>),
         (''updated_by'', \<lparr>fd_type = ''ForeignKey'', fd_options = [(''blank'', VBool True), (''null'', VBool True), (''on_delete'', VStr ''SET_NULL''), (''related_name'', VStr ''%(app_label)s_%(class)s_updated''), (''to'', VStr ''accounts.User'')]\<rparr>),
         (''user'', \<lparr>fd_type = ''ForeignKey'', fd_options = [(''on_delete'', VStr ''CASCADE''), (''related_name'', VStr ''api_keys''), (''to'', VStr ''accounts.User'')]\<rparr>)]
        [(''verbose_name'', VStr ''API Key''), (''verbose_name_plural'', VStr ''API Keys''), (''ordering'', VList [VStr ''-created_at''])]
        []
        [],
      CreateModel ''Permission''
        [(''id'', \<lparr>fd_type = ''BigAutoField'', fd_options = [(''auto_created'', VBool True), (''primary_key'', VBool True), (''serialize'', VBool False), (''verbose_name'', VStr ''ID'')]\<rparr>),
         (''resource'', \<lparr>fd_type = ''CharField'', fd_options = [(''choices'', VList [VSeq STuple [VStr ''account'', VStr ''Account''], VSeq STuple [VStr ''role'', VStr ''Role''], VSeq STuple [VStr ''api_key'', VStr ''API Key'']]), (''max_length'', VInt 100)]\<rparr>),
         (''action'', \<lparr>fd_type = ''CharField'', fd_options = [(''choices'', VList [VSeq STuple [VStr ''create'', VStr ''Create''], VSeq STuple [VStr ''read'', VStr ''Read''], VSeq STuple [VStr ''update'', VStr ''Update''], VSeq STuple [VStr ''delete'', VStr ''Delete'']]), (''max_length'', VInt 20)]\<rparr>)]
        [(''ordering'', VList [VStr ''resource'', VStr ''action''])]
        []
        [Unique [''resource'', ''action''] ''unique_permission_resource_action'', Check [(''resource__in'', VList [VStr ''account'', VStr ''role'', VStr ''api_key''])] ''ck_permission_resource'', Check [(''action__in'', VList [VStr ''create'', VStr ''read'', VStr ''update'', VStr ''delete''])] ''ck_permission_action''],
      CreateModel ''Role''
        [(''id'', \<lparr>fd_type = ''BigAutoField'', fd_options = [(''auto_created'', VBool True), (''primary_key'', VBool True), (''serialize'', VBool False), (''verbose_name'', VStr ''ID'')]\<rparr>),
         (''name'', \<lparr>fd_type = ''CharField'', fd_options = [(''max_length'', VInt 100), (''unique'', VBool True)]\<rparr>),
         (''description'', \<lparr>fd_type = ''TextField'', fd_options = [(''blank'', VBool True)]\<rparr>),
         (''is_superuser_role'', \<lparr>fd_type = ''BooleanField'', fd_options = [(''default'', VBool False), (''help_text'', VStr ''Superuser roles have full access to all resources.'')]\<rparr>),
         (''is_default'', \<lparr>fd_type = ''BooleanField'', fd_options = [(''default'', VBool False), (''help_text'', VStr ''Default roles are auto-assigned to new users on signup.'')]\<rparr>),
         (''created_at'', \<lparr>fd_type = ''DateTimeField'', fd_options = [(''auto_now_add'', VBool True)]\<rparr>),
         (''updated_at'', \<lparr>fd_type = ''DateTimeField'', fd_options = [(''auto_now'', VBool True)]\<rparr>),
         (''permissions'', \<lparr>fd_type = ''ManyToManyField'', fd_options = [(''blank'', VBool True), (''related_name'', VStr ''roles''), (''to'', VStr ''accounts.permission'')]\<rparr>)]
        [(''ordering'', VList [VStr ''name''])]
        []
        [],
      AddField ''user'' ''roles'' \<lparr>fd_type = ''ManyToManyField'', fd_options = [(''blank'', VBool True), (''related_name'', VStr ''users''), (''to'', VStr ''accounts.role'')]\<rparr>]"

definition accounts_0002 :: "operation list" where
  "accounts_0002 =
     [RenameField ''apikey'' ''encrypted_key'' ''secret'',
      AlterField ''apikey'' ''secret'' \<lparr>fd_type = ''EncryptedCharField'', fd_options = [(''editable'', VBool False), (''help_text'', VStr ''Encrypted at rest via Fernet; decrypted to plaintext on read.''), (''max_length'', VInt 500)]\<rparr>]"

definition accounts_0003 :: "operation list" where
  "accounts_0003 =
     [AlterField ''apikey'' ''created_at'' \<lparr>fd_type = ''DateTimeField'', fd_options = [(''auto_now_add'', VBool True), (''db_index'', VBool True)]\<rparr>,
      AlterField ''apikey'' ''revoked_at'' \<lparr>fd_type = ''DateTimeField'', fd_options = [(''blank'', VBool True), (''db_index'', VBool True), (''editable'', VBool False), (''help_text'', VStr ''Set when the key is revoked. Authentication rejects keys with a non-null revoked_at even if the row is otherwise active. Soft-revocation is preferred over delete so audit trails stay intact.''), (''null'', VBool True)]\<rparr>,
      AlterField ''apikey'' ''updated_at'' \<lparr>fd_type = ''DateTimeField'', fd_options = [(''auto_now'', VBool True), (''db_index'', VBool True)]\<rparr>,
      AlterField ''role'' ''created_at'' \<lparr>fd_type = ''DateTimeField'', fd_options = [(''auto_now_add'', VBool True), (''db_index'', VBool True)]\<rparr>,
      AlterField ''role'' ''updated_at'' \<lparr>fd_type = ''DateTimeField'', fd_options = [(''auto_now'', VBool True), (''db_index'', VBool True)]\<rparr>,
      AddIndex ''apikey'' \<lparr>ix_fields = [''prefix''], ix_condition = [(''is_active'', VBool True), (''revoked_at__isnull'', VBool True)], ix_name = Some ''apikey_active_lookup''\<rparr>,
      AddConstraint ''apikey'' (Check [(''updated_at__gte'', VObj ''F'' (Some ''created_at''))] ''accounts_apikey_updated_at_gte_created_at'')]"

definition api_log_0001 :: "operation list" where
  "api_log_0001 =
     [CreateModel ''ApiLog''
        [(''id'', \<lparr>fd_type = ''UUIDField'', fd_options = [(''default'', VObj ''uuid.uuid4'' None), (''editable'', VBool False), (''primary_key'', VBool True), (''serialize'', VBool False)]\<rparr>),
         (''direction'', \<lparr>fd_type = ''CharField'', fd_options = [(''choices'', VList [VSeq STuple [VStr ''inbound'', VStr ''Inbound''], VSeq STuple [VStr ''outbound'', VStr ''Outbound'']]), (''max_length'', VInt 16)]\<rparr>),
         (''service_name'', \<lparr>fd_type = ''CharField'', fd_options = [(''max_length'', VInt 128)]\<rparr>),
         (''request_id'', \<lparr>fd_type = ''CharField'', fd_options = [(''db_index'', VBool True), (''max_length'', VInt 128)]\<rparr>),
         (''method'', \<lparr>fd_type = ''CharField'', fd_options = [(''max_length'', VInt 16)]\<rparr>),
         (''url'', \<lparr>fd_type = ''TextField'', fd_options = []\<rparr>),
         (''status_code'', \<lparr>fd_type = ''IntegerField'', fd_options = [(''blank'', VBool True), (''null'', VBool True)]\<rparr>),
         (''duration_ms'', \<lparr>fd_type = ''FloatField'', fd_options = [(''blank'', VBool True), (''null'', VBool True)]\<rparr>),
         (''request_headers'', \<lparr>fd_type = ''JSONField'', fd_options = [(''blank'', VBool True), (''default'', VObj ''dict'' None)]\<rparr>),
         (''request_body'', \<lparr>fd_type = ''TextField'', fd_options = [(''blank'', VBool True), (''null'', VBool True)]\<rparr>),
         (''response_headers'', \<lparr>fd_type = ''JSONField'', fd_options = [(''blank'', VBool True), (''default'', VObj ''dict'' None)]\<rparr>),
         (''response_body'', \<lparr>fd_type = ''TextField'', fd_options = [(''blank'', VBool True), (''null'', VBool True)]\<rparr>),
         (''error'', \<lparr>fd_type = ''JSONField'', fd_options = [(''blank'', VBool True), (''null'', VBool True)]\<rparr>),
         (''extra'', \<lparr>fd_type = ''JSONField'', fd_options = [(''blank'', VBool True), (''default'', VObj ''dict'' None)]\<rparr>),
         (''created_at'', \<lparr>fd_type = ''DateTimeField'', fd_options = [(''auto_now_add'', VBool True), (''db_index'', VBool True)]\<rparr>),
         (''ttl_expires_at'', \<lparr>fd_type = ''IntegerField'', fd_options = [(''blank'', VBool True), (''null'', VBool True)]\<rparr>)]
        [(''db_table'', VStr ''api_logs''), (''ordering'', VSeq STuple [VStr ''-created_at''])]
        [\<lparr>ix_fields = [''service_name'', ''created_at''], ix_condition = [], ix_name = Some ''api_logs_service_bceee2_idx''\<rparr>, \<lparr>ix_fields = [''direction'', ''created_at''], ix_condition = [], ix_name = Some ''api_logs_directi_9f86f5_idx''\<rparr>]
        []]"

section \<open>The models\<close>

definition BaseModel_fields :: "(string \<times> model_field) list" where
  "BaseModel_fields =
     [(''id'', \<lparr>fd_type = ''BigAutoField'', fd_options = [(''primary_key'', VBool True), (''editable'', VBool False)]\<rparr>),
      (''created_at'', \<lparr>fd_type = ''DateTimeField'', fd_options = [(''auto_now_add'', VBool True), (''db_index'', VBool True)]\<rparr>),
      (''created_by'', \<lparr>fd_type = ''ForeignKey'', fd_options = [(''to'', VStr ''accounts.User''), (''on_delete'', VStr ''SET_NULL''), (''null'', VBool True), (''blank'', VBool True), (''related_name'', VStr ''%(app_label)s_%(class)s_created'')]\<rparr>),
      (''updated_at'', \<lparr>fd_type = ''DateTimeField'', fd_options = [(''auto_now'', VBool True), (''db_index'', VBool True)]\<rparr>),
      (''updated_by'', \<lparr>fd_type = ''ForeignKey'', fd_options = [(''to'', VStr ''accounts.User''), (''on_delete'', VStr ''SET_NULL''), (''null'', VBool True), (''blank'', VBool True), (''related_name'', VStr ''%(app_label)s_%(class)s_updated'')]\<rparr>),
      (''is_active'', \<lparr>fd_type = ''BooleanField'', fd_options = [(''default'', VBool True), (''db_index'', VBool True)]\<rparr>),
      (''notes'', \<lparr>fd_type = ''JSONField'', fd_options = [(''blank'', VBool True), (''null'', VBool True)]\<rparr>)]"

text \<open>The abstract constraint, its name filled in for a concrete model.\<close>

definition BaseModel_constraints :: "string \<Rightarrow> string \<Rightarrow> db_constraint list" where
  "BaseModel_constraints app_label cls =
     [Check [(''updated_at__gte'', VObj ''F'' (Some ''created_at''))] (app_label @ ''_'' @ cls @ ''_updated_at_gte_created_at'')]"

definition Permission_class :: model_class where
  "Permission_class =
     \<lparr>mc_fields = [(''resource'', \<lparr>fd_type = ''CharField'', fd_options = [(''max_length'', VInt 100), (''choices'', Resource_choices)]\<rparr>),
        (''action'', \<lparr>fd_type = ''CharField'', fd_options = [(''max_length'', VInt 20), (''choices'', Action_choices)]\<rparr>)],
      mc_options = [(''ordering'', VList [VStr ''resource'', VStr ''action''])],
      mc_indexes = [],
      mc_constraints = [Unique [''resource'', ''action''] ''unique_permission_resource_action'', Check [(''resource__in'', strs_of (map resource_value [ACCOUNT, ROLE, API_KEY]))] ''ck_permission_resource'', Check [(''action__in'', strs_of (map action_value [CREATE, READ, UPDATE, DELETE]))] ''ck_permission_action'']\<rparr>"

definition Role_class :: model_class where
  "Role_class =
     \<lparr>mc_fields = [(''name'', \<lparr>fd_type = ''CharField'', fd_options = [(''max_length'', VInt 100), (''unique'', VBool True)]\<rparr>),
        (''description'', \<lparr>fd_type = ''TextField'', fd_options = [(''blank'', VBool True)]\<rparr>),
        (''is_superuser_role'', \<lparr>fd_type = ''BooleanField'', fd_options = [(''default'', VBool False), (''help_text'', VStr ''Superuser roles have full access to all resources.'')]\<rparr>),
        (''is_default'', \<lparr>fd_type = ''BooleanField'', fd_options = [(''default'', VBool False), (''help_text'', VStr ''Default roles are auto-assigned to new users on signup.'')]\<rparr>),
        (''permissions'', \<lparr>fd_type = ''ManyToManyField'', fd_options = [(''to'', VStr ''accounts.Permission''), (''blank'', VBool True), (''related_name'', VStr ''roles'')]\<rparr>),
        (''created_at'', \<lparr>fd_type = ''DateTimeField'', fd_options = [(''auto_now_add'', VBool True), (''db_index'', VBool True)]\<rparr>),
        (''updated_at'', \<lparr>fd_type = ''DateTimeField'', fd_options = [(''auto_now'', VBool True), (''db_index'', VBool True)]\<rparr>)],
      mc_options = [(''ordering'', VList [VStr ''name''])],
      mc_indexes = [],
      mc_constraints = []\<rparr>"

definition User_class :: model_class where
  "User_class =
     \<lparr>mc_fields = [(''email'', \<lparr>fd_type = ''EmailField'', fd_options = [(''verbose_name'', VStr ''email address''), (''unique'', VBool True), (''blank'', VBool False)]\<rparr>),
        (''avatar_url'', \<lparr>fd_type = ''URLField'', fd_options = [(''max_length'', VInt 500), (''blank'', VBool True), (''null'', VBool True)]\<rparr>),
        (''email_verified'', \<lparr>fd_type = ''BooleanField'', fd_options = [(''default'', VBool False)]\<rparr>),
        (''roles'', \<lparr>fd_type = ''ManyToManyField'', fd_options = [(''to'', VStr ''accounts.Role''), (''blank'', VBool True), (''related_name'', VStr ''users'')]\<rparr>),
        (''timezone'', \<lparr>fd_type = ''CharField'', fd_options = [(''max_length'', VInt 50), (''default'', VStr ''Asia/Kolkata'')]\<rparr>),
        (''last_login_ip'', \<lparr>fd_type = ''GenericIPAddressField'', fd_options = [(''blank'', VBool True), (''null'', VBool True)]\<rparr>)],
      mc_options = [(''ordering'', VList [VStr ''-date_joined''])],
      mc_indexes = [],
      mc_constraints = []\<rparr>"

definition APIKey_class :: model_class where
  "APIKey_class =
     \<lparr>mc_fields = BaseModel_fields @
       [(''user'', \<lparr>fd_type = ''ForeignKey'', fd_options = [(''to'', VStr ''accounts.User''), (''on_delete'', VStr ''CASCADE''), (''related_name'', VStr ''api_keys'')]\<rparr>),
        (''name'', \<lparr>fd_type = ''CharField'', fd_options = [(''max_length'', VInt 255), (''help_text'', VStr (''Label for this key, e.g. '' @ [squote] @ ''CI Pipeline'' @ [squote] @ '' or '' @ [squote] @ ''Mobile App Prod'' @ [squote]))]\<rparr>),
        (''prefix'', \<lparr>fd_type = ''CharField'', fd_options = [(''max_length'', VInt 8), (''unique'', VBool True), (''editable'', VBool False), (''db_index'', VBool True), (''help_text'', VStr ''First 8 chars of the key, used for lookup.'')]\<rparr>),
        (''secret'', \<lparr>fd_type = ''EncryptedCharField'', fd_options = [(''max_length'', VInt 500), (''editable'', VBool False), (''help_text'', VStr ''Encrypted at rest via Fernet; decrypted to plaintext on read.'')]\<rparr>),
        (''last_used_at'', \<lparr>fd_type = ''DateTimeField'', fd_options = [(''null'', VBool True), (''blank'', VBool True), (''editable'', VBool False)]\<rparr>),
        (''revoked_at'', \<lparr>fd_type = ''DateTimeField'', fd_options = [(''null'', VBool True), (''blank'', VBool True), (''editable'', VBool False), (''db_index'', VBool True), (''help_text'', VStr ''Set when the key is revoked. Authentication rejects keys with a non-null revoked_at even if the row is otherwise active. Soft-revocation is preferred over delete so audit trails stay intact.'')]\<rparr>)],
      mc_options = [(''ordering'', VList [VStr ''-created_at'']), (''verbose_name'', VStr ''API Key''), (''verbose_name_plural'', VStr ''API Keys'')],
      mc_indexes = [\<lparr>ix_fields = [''prefix''], ix_condition = [(''is_active'', VBool True), (''revoked_at__isnull'', VBool True)], ix_name = Some ''apikey_active_lookup''\<rparr>],
      mc_constraints = BaseModel_constraints ''accounts'' ''apikey''\<rparr>"

definition ApiLog_class :: model_class where
  "ApiLog_class =
     \<lparr>mc_fields = [(''id'', \<lparr>fd_type = ''UUIDField'', fd_options = [(''primary_key'', VBool True), (''default'', VObj ''uuid.uuid4'' None), (''editable'', VBool False)]\<rparr>),
        (''direction'', \<lparr>fd_type = ''CharField'', fd_options = [(''max_length'', VInt 16), (''choices'', Direction_choices)]\<rparr>),
        (''service_name'', \<lparr>fd_type = ''CharField'', fd_options = [(''max_length'', VInt 128)]\<rparr>),
        (''request_id'', \<lparr>fd_type = ''CharField'', fd_options = [(''max_length'', VInt 128), (''db_index'', VBool True)]\<rparr>),
        (''method'', \<lparr>fd_type = ''CharField'', fd_options = [(''max_length'', VInt 16)]\<rparr>),
        (''url'', \<lparr>fd_type = ''TextField'', fd_options = []\<rparr>),
        (''status_code'', \<lparr>fd_type = ''IntegerField'', fd_options = [(''null'', VBool True), (''blank'', VBool True)]\<rparr>),
        (''duration_ms'', \<lparr>fd_type = ''FloatField'', fd_options = [(''null'', VBool True), (''blank'', VBool True)]\<rparr>),
        (''request_headers'', \<lparr>fd_type = ''JSONField'', fd_options = [(''default'', VObj ''dict'' None), (''blank'', VBool True)]\<rparr>),
        (''request_body'', \<lparr>fd_type = ''TextField'', fd_options = [(''null'', VBool True), (''blank'', VBool True)]\<rparr>),
        (''response_headers'', \<lparr>fd_type = ''JSONField'', fd_options = [(''default'', VObj ''dict'' None), (''blank'', VBool True)]\<rparr>),
        (''response_body'', \<lparr>fd_type = ''TextField'', fd_options = [(''null'', VBool True), (''blank'', VBool True)]\<rparr>),
        (''error'', \<lparr>fd_type = ''JSONField'', fd_options = [(''null'', VBool True), (''blank'', VBool True)]\<rparr>),
        (''extra'', \<lparr>fd_type = ''JSONField'', fd_options = [(''default'', VObj ''dict'' None), (''blank'', VBool True)]\<rparr>),
        (''created_at'', \<lparr>fd_type = ''DateTimeField'', fd_options = [(''auto_now_add'', VBool True), (''db_index'', VBool True)]\<rparr>),
        (''ttl_expires_at'', \<lparr>fd_type = ''IntegerField'', fd_options = [(''null'', VBool True), (''blank'', VBool True)]\<rparr>)],
      mc_options = [(''db_table'', VStr ''api_logs''), (''ordering'', VSeq STuple [VStr ''-created_at''])],
      mc_indexes = [\<lparr>ix_fields = [''service_name'', ''created_at''], ix_condition = [], ix_name = None\<rparr>, \<lparr>ix_fields = [''direction'', ''created_at''], ix_condition = [], ix_name = None\<rparr>],
      mc_constraints = []\<rparr>"


section \<open>The migrated schema is the declared one\<close>

text \<open>
  What Django itself adds to or leaves out of a recorded field: \<open>serialize\<close> of a primary key, a \<open>blank\<close> that is off, the
  length of an e-mail field; references are compared without case, options without order.
\<close>

definition canonical_options :: "string \<Rightarrow> (string \<times> pyval) list \<Rightarrow> (string \<times> pyval) list" where
  "canonical_options typ opts =
     sort_key fst
       (map (\<lambda>(k, v). (k, if k = ''to'' then (case v of VStr s \<Rightarrow> VStr (py_lower s) | _ \<Rightarrow> v) else v))
         (filter (\<lambda>(k, v). k \<noteq> ''serialize'' \<and> (k, v) \<noteq> (''blank'', VBool False)) opts @
          (if typ = ''EmailField'' \<and> map_of opts ''max_length'' = None then [(''max_length'', VInt 254)] else [])))"

definition canonical :: "model_field \<Rightarrow> model_field" where
  "canonical f = f\<lparr>fd_options := canonical_options (fd_type f) (fd_options f)\<rparr>"

text \<open>An index without a name gets one from Django.\<close>

definition same_index :: "db_index \<Rightarrow> db_index \<Rightarrow> bool" where
  "same_index declared ix \<longleftrightarrow> ix_fields declared = ix_fields ix \<and> ix_condition declared = ix_condition ix \<and>
     (ix_name declared = None \<or> ix_name declared = ix_name ix)"

text \<open>\<open>inherited\<close> are the columns that come from Django: those of \<open>AbstractUser\<close>, and the implicit primary key.\<close>

definition agrees :: "string list \<Rightarrow> model_class \<Rightarrow> model_class option \<Rightarrow> bool" where
  "agrees inherited m table =
     (case table of
        None \<Rightarrow> False
      | Some t \<Rightarrow>
          sort (map fst (mc_fields t)) = sort (map fst (mc_fields m) @ inherited) \<and>
          list_all (\<lambda>(name, f). map_option canonical (map_of (mc_fields t) name) = Some (canonical f)) (mc_fields m) \<and>
          sort_key fst (mc_options t) = sort_key fst (mc_options m) \<and>
          list_all2 same_index (mc_indexes m) (mc_indexes t) \<and> mc_constraints t = mc_constraints m)"

definition AbstractUser_fields :: "string list" where
  "AbstractUser_fields = [''password'', ''last_login'', ''is_superuser'', ''username'', ''first_name'', ''last_name'', ''is_staff'', ''is_active'',
     ''date_joined'', ''groups'', ''user_permissions'']"

definition all_migrations :: "operation list" where
  "all_migrations = accounts_0001 @ accounts_0002 @ accounts_0003 @ api_log_0001"

definition migrated :: schema where
  "migrated = (case migrate all_migrations [] of Some sch \<Rightarrow> sch | None \<Rightarrow> [])"

lemma migrations_apply: "migrate all_migrations [] = Some migrated" "map fst migrated = [''user'', ''apikey'', ''permission'', ''role'', ''apilog'']"
  by code_simp+

lemma role_agrees: "agrees [''id''] Role_class (map_of migrated ''role'')"
  by code_simp

lemma apikey_agrees: "agrees [] APIKey_class (map_of migrated ''apikey'')"
  by code_simp

lemma user_agrees: "agrees (''id'' # AbstractUser_fields) User_class (map_of migrated ''user'')"
  by code_simp

lemma permission_agrees: "agrees [''id''] Permission_class (map_of migrated ''permission'')"
  by code_simp

lemma apilog_agrees: "agrees [] ApiLog_class (map_of migrated ''apilog'')"
  by code_simp

text \<open>
  The migrations bring an empty database to exactly the declared models. Applied in order none of their operations fails, the
  five tables exist and no others, and every table has the columns of its class, those Django adds and no
  others, each column with the options of its declaration, and the ordering, names, indexes and constraints of the class.
\<close>

theorem migrated_schema_is_declared:
  "migrate (accounts_0001 @ accounts_0002 @ accounts_0003 @ api_log_0001) [] = Some migrated \<and>
   map fst migrated = [''user'', ''apikey'', ''permission'', ''role'', ''apilog''] \<and>
   agrees (''id'' # AbstractUser_fields) User_class (map_of migrated ''user'') \<and>
   agrees [] APIKey_class (map_of migrated ''apikey'') \<and>
   agrees [''id''] Permission_class (map_of migrated ''permission'') \<and>
   agrees [''id''] Role_class (map_of migrated ''role'') \<and>
   agrees [] ApiLog_class (map_of migrated ''apilog'')"
  unfolding all_migrations_def [symmetric]
  by (intro conjI migrations_apply user_agrees apikey_agrees permission_agrees role_agrees apilog_agrees)

text \<open>The order matters: the rename needs the table.\<close>

lemma rename_needs_table: "migrate (accounts_0002 @ accounts_0001) [] = None"
  by code_simp

section \<open>What the database enforces\<close>

text \<open>The checks on permissions admit exactly the vocabulary of the role code.\<close>

lemma database_vocabulary:
  "Check [(''resource__in'', strs_of (map resource_value [ACCOUNT, ROLE, API_KEY]))] ''ck_permission_resource'' \<in> set (mc_constraints Permission_class)"
  "Check [(''action__in'', strs_of (map action_value [CREATE, READ, UPDATE, DELETE]))] ''ck_permission_action'' \<in> set (mc_constraints Permission_class)"
  "r \<in> set [ACCOUNT, ROLE, API_KEY]" "a \<in> set [CREATE, READ, UPDATE, DELETE]"
  by (simp_all add: Permission_class_def) (cases r; simp; fail | cases a; simp)+

text \<open>A condition of an index on a row of the key table; anything the model of a key does not have is undefined.\<close>

fun holds_on :: "api_key \<Rightarrow> string \<times> pyval \<Rightarrow> bool option" where
  "holds_on k (f, VBool b) =
     (if f = ''is_active'' then Some (ak_active k = b)
      else if f = ''revoked_at__isnull'' then Some ((ak_revoked_at k = None) = b) else None)"
| "holds_on k _ = None"

definition covers :: "db_index \<Rightarrow> api_key \<Rightarrow> bool" where
  "covers ix k = list_all (\<lambda>c. holds_on k c = Some True) (ix_condition ix)"

text \<open>The partial index holds exactly the usable keys, the only ones the lookup of the authentication can find.\<close>

lemma lookup_index_holds_usable_keys:
  "\<exists>ix \<in> set (mc_indexes APIKey_class). ix_fields ix = [''prefix''] \<and> (\<forall>k. covers ix k \<longleftrightarrow> usable k)"
  by (simp add: APIKey_class_def covers_def usable_def is_revoked_def)

lemma find_key_in_index:
  "find_key pre s = Some k \<Longrightarrow> \<exists>ix \<in> set (mc_indexes APIKey_class). ix_fields ix = [''prefix''] \<and> covers ix k"
  using find_key_SomeD lookup_index_holds_usable_keys by blast

end
