(* ===== verification/Wiring.thy ===== *)
theory Wiring
  imports Exceptions
begin

text \<open>
  Start-up and lookup glue: \<open>CoreConfig.ready\<close> of \<open>apps/core/apps.py\<close>, the lazy exports of \<open>apps/core/base/__init__.py\<close>, the deprecated alias
  of \<open>apps/core/exceptions/repository.py\<close>, the argument search of the inbound audit decorator and the security scheme of the
  API key. The service registry of the resilience kit is a parameter with the laws of the locale \<open>service_registry\<close>.
\<close>

section \<open>Start-up\<close>

record boot_state =
  bs_atexit :: "string list"
  bs_services :: "(string \<times> pyval) list"

definition s3_policy :: pyval where
  "s3_policy = str_dict [(''circuit_breaker'', str_dict
     [(''fail_max'', VInt 5), (''reset_timeout'', VInt 30),
      (''excluded_exceptions'', VSeq STuple [VStr ''core.exceptions.infrastructure.S3NotFoundError''])])]"

definition register_resilience_services ::
  "(string \<Rightarrow> pyval \<Rightarrow> boot_state \<Rightarrow> (exn + unit) \<times> boot_state) \<Rightarrow> boot_state \<Rightarrow> (exn + unit) \<times> boot_state" where
  "register_resilience_services register_service s =
     (case register_service ''s3'' s3_policy s of
        (Inl e, s') \<Rightarrow> if isinstance e PyValueError then (Inr (), s') else (Inl e, s')
      | (Inr _, s') \<Rightarrow> (Inr (), s'))"

definition core_ready ::
  "(string \<Rightarrow> pyval \<Rightarrow> boot_state \<Rightarrow> (exn + unit) \<times> boot_state) \<Rightarrow> boot_state \<Rightarrow> (exn + unit) \<times> boot_state" where
  "core_ready register_service s =
     register_resilience_services register_service (s\<lparr>bs_atexit := bs_atexit s @ [''dispose_all_engines'']\<rparr>)"

text \<open>A new name is added; a name that is taken is refused with a \<open>ValueError\<close> and nothing changes.\<close>

locale service_registry =
  fixes register_service :: "string \<Rightarrow> pyval \<Rightarrow> boot_state \<Rightarrow> (exn + unit) \<times> boot_state"
  assumes fresh: "map_of (bs_services s) name = None \<Longrightarrow> register_service name cfg s = (Inr (), s\<lparr>bs_services := bs_services s @ [(name, cfg)]\<rparr>)"
    and taken: "map_of (bs_services s) name \<noteq> None \<Longrightarrow> \<exists>e. register_service name cfg s = (Inl e, s) \<and> isinstance e PyValueError"
begin

lemma ready_never_fails:
  "\<exists>s'. core_ready register_service s = (Inr (), s') \<and>
     map_of (bs_services s') ''s3'' = Some (case map_of (bs_services s) ''s3'' of Some cfg \<Rightarrow> cfg | None \<Rightarrow> s3_policy) \<and>
     (\<forall>n. n \<noteq> ''s3'' \<longrightarrow> map_of (bs_services s') n = map_of (bs_services s) n)"
proof (cases "map_of (bs_services s) ''s3''")
  case None
  then show ?thesis
    using fresh [of "s\<lparr>bs_atexit := bs_atexit s @ [''dispose_all_engines'']\<rparr>" "''s3''" s3_policy]
    by (auto simp: core_ready_def register_resilience_services_def map_add_def split: option.splits)
next
  case (Some cfg)
  then obtain e where "register_service ''s3'' s3_policy (s\<lparr>bs_atexit := bs_atexit s @ [''dispose_all_engines'']\<rparr>) =
      (Inl e, s\<lparr>bs_atexit := bs_atexit s @ [''dispose_all_engines'']\<rparr>)" "isinstance e PyValueError"
    using taken [of "s\<lparr>bs_atexit := bs_atexit s @ [''dispose_all_engines'']\<rparr>" "''s3''" s3_policy] by auto
  with Some show ?thesis by (simp add: core_ready_def register_resilience_services_def)
qed

end

definition list_register :: "string \<Rightarrow> pyval \<Rightarrow> boot_state \<Rightarrow> (exn + unit) \<times> boot_state" where
  "list_register name cfg s =
     (if map_of (bs_services s) name \<noteq> None then (Inl (raw_exn PyValueError (name @ '' is already registered'')), s)
      else (Inr (), s\<lparr>bs_services := bs_services s @ [(name, cfg)]\<rparr>))"

interpretation lreg: service_registry list_register
  by unfold_locales (auto simp: list_register_def isinstance_def issubclass_def raw_exn_def)

text \<open>A second start-up in the same process keeps the policy of the first.\<close>

lemma ready_twice:
  "map_of (bs_services (snd (core_ready list_register (snd (core_ready list_register s))))) = map_of (bs_services (snd (core_ready list_register s)))"
proof -
  obtain s1 where s1: "core_ready list_register s = (Inr (), s1)" "map_of (bs_services s1) ''s3'' \<noteq> None" using lreg.ready_never_fails by blast
  obtain s2 where "core_ready list_register s1 = (Inr (), s2)"
    "map_of (bs_services s2) ''s3'' = Some (case map_of (bs_services s1) ''s3'' of Some cfg \<Rightarrow> cfg | None \<Rightarrow> s3_policy)"
    "\<forall>n. n \<noteq> ''s3'' \<longrightarrow> map_of (bs_services s2) n = map_of (bs_services s1) n" using lreg.ready_never_fails by blast
  moreover from this s1(2) have "map_of (bs_services s2) n = map_of (bs_services s1) n" for n by (cases "n = ''s3''") auto
  ultimately show ?thesis using s1 by auto
qed

section \<open>Lazy exports\<close>

definition base_all :: "string list" where
  "base_all = [''BaseCustomError'', ''BaseGenericTabularInline'', ''BaseModel'', ''BaseModelAdmin'', ''BaseResponse'', ''BaseService'',
     ''BaseTabularInline'', ''NamedBaseModel'']"

text \<open>The module a name is imported from.\<close>

definition base_getattr :: "string \<Rightarrow> (exn, string) result" where
  "base_getattr name =
     (if name = ''BaseCustomError'' then Inr ''core.base.exception''
      else if name = ''BaseModel'' then Inr ''core.base.model''
      else if name = ''NamedBaseModel'' then Inr ''core.base.model''
      else if name = ''BaseModelAdmin'' then Inr ''core.base.admin''
      else if name = ''BaseTabularInline'' then Inr ''core.base.admin''
      else if name = ''BaseGenericTabularInline'' then Inr ''core.base.admin''
      else if name = ''BaseResponse'' then Inr ''core.base.response''
      else if name = ''BaseService'' then Inr ''core.base.service''
      else Inl (raw_exn PyAttributeError (''module '' @ repr_str ''core.base'' @ '' has no attribute '' @ repr_str name)))"

text \<open>What the package announces is what it gives.\<close>

lemma exports_resolve: "(\<exists>origin. base_getattr name = Inr origin) \<longleftrightarrow> name \<in> set base_all"
  by (auto simp: base_getattr_def base_all_def)

text \<open>The class, and the text of the deprecation warning.\<close>

definition repository_getattr :: "string \<Rightarrow> (exn, exc_class \<times> string) result" where
  "repository_getattr name =
     (if name = ''InvalidOutboundURLError''
      then Inr (OutboundURLNotAllowedError, ''InvalidOutboundURLError moved to '' @
        ''core.exceptions.infrastructure.OutboundURLNotAllowedError. '' @ ''Update the import.'')
      else Inl (raw_exn PyAttributeError (''module '' @ [squote] @ ''core.exceptions.repository'' @ [squote] @ '' has no attribute '' @ repr_str name)))"

section \<open>Arguments and schemes\<close>

text \<open>\<open>is_request\<close> tells whether an argument has \<open>META\<close> and \<open>method\<close>.\<close>

definition request_from_args :: "('a \<Rightarrow> bool) \<Rightarrow> 'a list \<Rightarrow> (string \<times> 'a) list \<Rightarrow> 'a option" where
  "request_from_args is_request args kwargs =
     (case map_of kwargs ''request'' of Some r \<Rightarrow> Some r | None \<Rightarrow> find is_request args)"

definition APIKeyAuthenticationScheme :: pyval where
  "APIKeyAuthenticationScheme = str_dict
     [(''type'', VStr ''apiKey''), (''in'', VStr ''header''), (''name'', VStr ''X-API-Key''),
      (''description'', VStr (''API key issued per service account. '' @
        ''Pass the raw key in the '' @ [backtick, backtick] @ ''X-API-Key'' @ [backtick, backtick] @ '' header.''))]"

end
