(* ===== verification/ApiDocs.thy ===== *)
theory ApiDocs
  imports Accounts SystemViews ErrorHandler
begin

text \<open>
  The published API description: \<open>apps/core/api_schemas/\<close>, \<open>apps/accounts/api_schemas/\<close> and \<open>apps/core/openapi/metadata.py\<close>.
  What the files build is kept as the data they build, with the objects of drf-spectacular as records; a
  serializer class stands for itself. The second half says what such a schema means for a JSON value and compares the
  description with what the views of the other theories answer.
\<close>

section \<open>The objects of the description\<close>

record api_example =
  ex_name :: string
  ex_value :: pyval
  ex_description :: string

record api_response =
  ar_description :: string
  ar_response :: pyval
  ar_examples :: "api_example list"

record api_operation =
  op_id :: string
  op_summary :: string
  op_description :: string
  op_request :: pyval
  op_responses :: "(int \<times> api_response) list"
  op_tags :: "string list"

record api_parameter =
  ap_name :: string
  ap_type :: string
  ap_required :: bool
  ap_description :: string

section \<open>Envelope schemas and examples\<close>

definition PAGINATION_PARAMETERS :: "api_parameter list" where
  "PAGINATION_PARAMETERS =
     [\<lparr>ap_name = ''page'', ap_type = ''int'', ap_required = False,
       ap_description = ''Page number (1-based). Defaults to 1.''\<rparr>,
      \<lparr>ap_name = ''page_size'', ap_type = ''int'', ap_required = False,
       ap_description = ''Number of items per page (1'' @ [en_dash] @ ''100). Defaults to 20.''\<rparr>]"

definition sample_request_id :: string where "sample_request_id = ''b0f1e6c2-1a1e-4f7a-9a6a-0b0e2d2b2a9e''"

text \<open>The entry for \<open>errors\<close> and the one for \<open>request_id\<close>, alike in both envelopes.\<close>

definition errors_schema :: "pyval \<Rightarrow> pyval" where
  "errors_schema ex =
     str_dict [(''type'', VStr ''array''), (''items'', str_dict [(''type'', VStr ''object'')]), (''nullable'', VBool True), (''example'', ex)]"

definition request_id_schema :: pyval where
  "request_id_schema = str_dict [(''type'', VStr ''string''), (''nullable'', VBool True), (''example'', VStr sample_request_id)]"

definition envelope_schema :: "pyval \<Rightarrow> bool \<Rightarrow> string \<Rightarrow> pyval" where
  "envelope_schema data_schema success message_example =
     str_dict
       [(''type'', VStr ''object''),
        (''properties'', str_dict
          [(''success'', str_dict [(''type'', VStr ''boolean''), (''example'', VBool success)]),
           (''message'', str_dict [(''type'', VStr ''string''), (''example'', VStr message_example)]),
           (''data'', if truthy data_schema then data_schema
             else str_dict [(''type'', VStr ''object''), (''nullable'', VBool True)]),
           (''errors'', errors_schema VNone),
           (''request_id'', request_id_schema)]),
        (''required'', VList [VStr ''success'', VStr ''message''])]"

definition pagination_schema :: pyval where
  "pagination_schema =
     str_dict
       [(''type'', VStr ''object''),
        (''properties'', str_dict
          [(''total_count'', str_dict [(''type'', VStr ''integer''), (''example'', VInt 42)]),
           (''page_size'', str_dict [(''type'', VStr ''integer''), (''example'', VInt 20)]),
           (''page_number'', str_dict [(''type'', VStr ''integer''), (''example'', VInt 1)]),
           (''total_pages'', str_dict [(''type'', VStr ''integer''), (''example'', VInt 3)]),
           (''has_previous'', str_dict [(''type'', VStr ''boolean''), (''example'', VBool False)]),
           (''has_next'', str_dict [(''type'', VStr ''boolean''), (''example'', VBool True)])]),
        (''required'', VList [VStr ''total_count'', VStr ''page_size'', VStr ''page_number'', VStr ''total_pages'',
           VStr ''has_previous'', VStr ''has_next''])]"

definition paginated_envelope_schema :: "pyval \<Rightarrow> pyval" where
  "paginated_envelope_schema item_schema =
     envelope_schema
       (str_dict
         [(''type'', VStr ''object''),
          (''properties'', str_dict
            [(''items'', str_dict [(''type'', VStr ''array''), (''items'', item_schema)]),
             (''pagination'', pagination_schema)]),
          (''required'', VList [VStr ''items'', VStr ''pagination''])]) True ''Success''"

definition error_envelope_schema :: "string \<Rightarrow> pyval \<Rightarrow> pyval" where
  "error_envelope_schema message_example errors_example =
     str_dict
       [(''type'', VStr ''object''),
        (''properties'', str_dict
          [(''success'', str_dict [(''type'', VStr ''boolean''), (''example'', VBool False)]),
           (''message'', str_dict [(''type'', VStr ''string''), (''example'', VStr message_example)]),
           (''data'', str_dict [(''type'', VStr ''object''), (''nullable'', VBool True), (''example'', VNone)]),
           (''errors'', errors_schema errors_example),
           (''request_id'', request_id_schema)]),
        (''required'', VList [VStr ''success'', VStr ''message''])]"

definition envelope_example :: "pyval \<Rightarrow> string \<Rightarrow> pyval" where
  "envelope_example data message =
     str_dict [(''success'', VBool True), (''message'', VStr message), (''data'', data), (''errors'', VNone),
       (''request_id'', VStr sample_request_id)]"

definition error_example :: "string \<Rightarrow> pyval \<Rightarrow> pyval" where
  "error_example message errors =
     str_dict [(''success'', VBool False), (''message'', VStr message), (''data'', VNone), (''errors'', errors),
       (''request_id'', VStr sample_request_id)]"

section \<open>Shared responses\<close>

definition not_found_response :: api_response where
  "not_found_response = \<lparr>ar_description = ''Resource not found.'',
 ar_response = (error_envelope_schema ''Partner not found'' VNone),
 ar_examples = [\<lparr>ex_name = ''not_found'', ex_value = (error_example ''Partner not found'' VNone), ex_description = []\<rparr>]\<rparr>"

definition validation_error_response :: api_response where
  "validation_error_response = \<lparr>ar_description = ''Request body failed validation.'',
 ar_response = (error_envelope_schema ''Invalid input'' (VList [(str_dict [(''field'', (VStr ''code'')),
 (''detail'', (VStr ''This field is required.''))])])),
 ar_examples = [\<lparr>ex_name = ''validation_error'', ex_value = (error_example ''Invalid input'' (VList [(str_dict [(''field'', (VStr ''code'')),
 (''detail'', (VStr ''This field is required.''))])])), ex_description = []\<rparr>]\<rparr>"

definition auth_required_response :: api_response where
  "auth_required_response = \<lparr>ar_description = ''Authentication credentials were not provided or are invalid.'',
 ar_response = (str_dict [(''type'', (VStr ''object'')),
 (''properties'', (str_dict [(''detail'', (str_dict [(''type'', (VStr ''string'')),
 (''example'', (VStr ''Authentication credentials were not provided.''))]))]))]),
 ar_examples = [\<lparr>ex_name = ''unauthorized'', ex_value = (str_dict [(''detail'', (VStr ''Authentication credentials were not provided.''))]), ex_description = []\<rparr>]\<rparr>"

definition forbidden_response :: api_response where
  "forbidden_response = \<lparr>ar_description = ''The authenticated user lacks permission for this action.'',
 ar_response = (str_dict [(''type'', (VStr ''object'')),
 (''properties'', (str_dict [(''detail'', (str_dict [(''type'', (VStr ''string'')),
 (''example'', (VStr ''You do not have permission to perform this action.''))]))]))]),
 ar_examples = [\<lparr>ex_name = ''forbidden'', ex_value = (str_dict [(''detail'', (VStr ''You do not have permission to perform this action.''))]), ex_description = []\<rparr>]\<rparr>"

definition throttle_response :: api_response where
  "throttle_response = \<lparr>ar_description = (''Rate limit exceeded. Apply exponential backoff or wait for '' @ [backtick, backtick] @ ''retry_after'' @ [backtick, backtick] @ '' seconds before retrying. The default throttle stack ('' @ [backtick, backtick] @ ''UserTierThrottle'' @ [backtick, backtick] @ '' + '' @ [backtick, backtick] @ ''BurstThrottle'' @ [backtick, backtick] @ '' + '' @ [backtick, backtick] @ ''GlobalThrottle'' @ [backtick, backtick] @ '') is applied to every endpoint; some endpoints add stricter throttles on top.''),
 ar_response = (str_dict [(''type'', (VStr ''object'')),
 (''properties'', (str_dict [(''detail'', (str_dict [(''type'', (VStr ''string'')),
 (''example'', (VStr ''Request was throttled. Expected available in 3600 seconds.''))])),
 (''retry_after'', (str_dict [(''type'', (VStr ''integer'')),
 (''nullable'', (VBool True)),
 (''example'', (VInt 3600)),
 (''description'', (VStr ''Seconds until the next attempt is allowed (when reported).''))]))])),
 (''required'', (VList [(VStr ''detail'')]))]),
 ar_examples = [\<lparr>ex_name = ''throttled'', ex_value = (str_dict [(''detail'', (VStr ''Request was throttled. Expected available in 3600 seconds.'')),
 (''retry_after'', (VInt 3600))]), ex_description = []\<rparr>]\<rparr>"

definition external_dependency_response :: api_response where
  "external_dependency_response = \<lparr>ar_description = (''An external dependency (S3, partner API, AWS SES, '' @ [CHR 0x85] @ '') failed, timed out, or returned an unexpected status. The user-facing transaction has been rolled back where applicable. Safe to retry after a short delay.''),
 ar_response = (error_envelope_schema ''External dependency failed.'' (VList [(str_dict [(''code'', (VStr ''EXTERNAL_DEPENDENCY_ERROR'')),
 (''message'', (VStr ''Upstream service returned 503.''))])])),
 ar_examples = [\<lparr>ex_name = ''s3_failure'', ex_value = (error_example ''S3 service is unavailable.'' (VList [(str_dict [(''code'', (VStr ''S3_ERROR'')),
 (''message'', (VStr ''S3 returned 503 ServiceUnavailable.''))])])), ex_description = []\<rparr>,
 \<lparr>ex_name = ''partner_api_failure'', ex_value = (error_example ''Partner API returned an error.'' (VList [(str_dict [(''code'', (VStr ''PARTNER_PUSH_ERROR'')),
 (''message'', (VStr ''Partner API responded with 500.''))])])), ex_description = []\<rparr>]\<rparr>"

definition service_unavailable_response :: api_response where
  "service_unavailable_response = \<lparr>ar_description = (''Service is temporarily unavailable '' @ [em_dash] @ '' typically because a primary datastore (PostgreSQL or the cache) is unreachable. Retry with backoff.''),
 ar_response = (error_envelope_schema ''Service temporarily unavailable.'' (VList [(str_dict [(''code'', (VStr ''SERVICE_UNAVAILABLE'')),
 (''message'', (VStr ''Database connection failed.''))])])),
 ar_examples = [\<lparr>ex_name = ''database_unavailable'', ex_value = (error_example ''Service temporarily unavailable.'' (VList [(str_dict [(''code'', (VStr ''SERVICE_UNAVAILABLE'')),
 (''message'', (VStr ''Database connection failed.''))])])), ex_description = []\<rparr>]\<rparr>"

section \<open>System endpoints\<close>

definition health_schema :: api_operation where
  "health_schema = \<lparr>op_id = ''system_health'', op_summary = ''Service health check'',
 op_description = (''Lightweight health probe for load balancers. Returns 200 when the database is reachable, 503 otherwise. Staff users additionally receive a '' @ [backtick, backtick] @ ''checks'' @ [backtick, backtick] @ '' map with component-level status.''),
 op_request = VNone,
 op_responses = [(200, \<lparr>ar_description = ''Service is healthy.'',
 ar_response = (str_dict [(''type'', (VStr ''object'')),
 (''properties'', (str_dict [(''status'', (str_dict [(''type'', (VStr ''string'')),
 (''example'', (VStr ''healthy''))])),
 (''checks'', (str_dict [(''type'', (VStr ''object'')),
 (''nullable'', (VBool True)),
 (''properties'', (str_dict [(''database'', (str_dict [(''type'', (VStr ''string'')),
 (''example'', (VStr ''connected''))]))]))]))]))]),
 ar_examples = [\<lparr>ex_name = ''healthy'', ex_value = (str_dict [(''status'', (VStr ''healthy''))]), ex_description = []\<rparr>,
 \<lparr>ex_name = ''healthy_staff'', ex_value = (str_dict [(''status'', (VStr ''healthy'')),
 (''checks'', (str_dict [(''database'', (VStr ''connected''))]))]), ex_description = ''Response seen by staff users.''\<rparr>]\<rparr>),
 (503, \<lparr>ar_description = (''Service is unhealthy '' @ [em_dash] @ '' database unreachable.''),
 ar_response = (str_dict [(''type'', (VStr ''object'')),
 (''properties'', (str_dict [(''status'', (str_dict [(''type'', (VStr ''string'')),
 (''example'', (VStr ''unhealthy''))]))]))]),
 ar_examples = [\<lparr>ex_name = ''unhealthy'', ex_value = (str_dict [(''status'', (VStr ''unhealthy''))]), ex_description = []\<rparr>]\<rparr>)],
 op_tags = [''System'']\<rparr>"

definition readiness_schema :: api_operation where
  "readiness_schema = \<lparr>op_id = ''system_readiness'', op_summary = ''Service readiness check'',
 op_description = (''Readiness probe for orchestration systems (Kubernetes, ECS). Checks database, Valkey cache, and Celery broker connectivity. Returns 200 when all dependencies are reachable, 503 otherwise. Staff users additionally receive a '' @ [backtick, backtick] @ ''checks'' @ [backtick, backtick] @ '' map.''),
 op_request = VNone,
 op_responses = [(200, \<lparr>ar_description = ''All dependencies are reachable.'',
 ar_response = (str_dict [(''type'', (VStr ''object'')),
 (''properties'', (str_dict [(''status'', (str_dict [(''type'', (VStr ''string'')),
 (''example'', (VStr ''ready''))])),
 (''checks'', (str_dict [(''type'', (VStr ''object'')),
 (''nullable'', (VBool True)),
 (''properties'', (str_dict [(''database'', (str_dict [(''type'', (VStr ''string'')),
 (''example'', (VStr ''connected''))])),
 (''cache'', (str_dict [(''type'', (VStr ''string'')),
 (''example'', (VStr ''connected''))])),
 (''celery_broker'', (str_dict [(''type'', (VStr ''string'')),
 (''example'', (VStr ''connected''))]))]))]))]))]),
 ar_examples = [\<lparr>ex_name = ''ready'', ex_value = (str_dict [(''status'', (VStr ''ready''))]), ex_description = []\<rparr>,
 \<lparr>ex_name = ''ready_staff'', ex_value = (str_dict [(''status'', (VStr ''ready'')),
 (''checks'', (str_dict [(''database'', (VStr ''connected'')),
 (''cache'', (VStr ''connected'')),
 (''celery_broker'', (VStr ''connected''))]))]), ex_description = []\<rparr>]\<rparr>),
 (503, \<lparr>ar_description = ''One or more dependencies are unreachable.'',
 ar_response = (str_dict [(''type'', (VStr ''object'')),
 (''properties'', (str_dict [(''status'', (str_dict [(''type'', (VStr ''string'')),
 (''example'', (VStr ''not_ready''))]))]))]),
 ar_examples = [\<lparr>ex_name = ''not_ready'', ex_value = (str_dict [(''status'', (VStr ''not_ready''))]), ex_description = []\<rparr>]\<rparr>)],
 op_tags = [''System'']\<rparr>"

section \<open>Account endpoints\<close>

definition error_response_schema :: pyval where
  "error_response_schema = (str_dict [(''type'', (VStr ''object'')),
 (''properties'', (str_dict [(''success'', (str_dict [(''type'', (VStr ''boolean'')),
 (''example'', (VBool False))])),
 (''message'', (str_dict [(''type'', (VStr ''string''))]))])),
 (''required'', (VList [(VStr ''success''), (VStr ''message'')]))])"

definition validation_error_schema :: pyval where
  "validation_error_schema = (str_dict [(''type'', (VStr ''object'')),
 (''description'', (VStr (''DRF validation error '' @ [em_dash] @ '' keys are field names, values are lists of error strings.''))),
 (''additionalProperties'', (str_dict [(''type'', (VStr ''array'')),
 (''items'', (str_dict [(''type'', (VStr ''string''))]))])),
 (''example'', (str_dict [(''code'', (VList [(VStr ''This field is required.'')])),
 (''redirect_uri'', (VList [(VStr ''Enter a valid URL.'')]))]))])"

definition jwt_token_pair_schema :: pyval where
  "jwt_token_pair_schema = (str_dict [(''type'', (VStr ''object'')),
 (''properties'', (str_dict [(''access'', (str_dict [(''type'', (VStr ''string'')),
 (''example'', (VStr ''eyJhbGciOiJIUzI1NiIs...''))])),
 (''refresh'', (str_dict [(''type'', (VStr ''string'')),
 (''example'', (VStr ''eyJhbGciOiJIUzI1NiIs...''))]))])),
 (''required'', (VList [(VStr ''access''), (VStr ''refresh'')]))])"

definition throttled_response_schema :: pyval where
  "throttled_response_schema = (str_dict [(''type'', (VStr ''object'')),
 (''properties'', (str_dict [(''detail'', (str_dict [(''type'', (VStr ''string'')),
 (''example'', (VStr ''Request was throttled. Expected available in 3600 seconds.''))]))])),
 (''required'', (VList [(VStr ''detail'')]))])"

definition auth_required_schema :: pyval where
  "auth_required_schema = (str_dict [(''type'', (VStr ''object'')),
 (''properties'', (str_dict [(''detail'', (str_dict [(''type'', (VStr ''string'')),
 (''example'', (VStr ''Authentication credentials were not provided.''))]))])),
 (''required'', (VList [(VStr ''detail'')]))])"

definition google_login_schema :: api_operation where
  "google_login_schema = \<lparr>op_id = ''auth_google_login'', op_summary = ''Google OAuth login'',
 op_description = (''Exchange a Google authorization code for JWT access and refresh tokens.'' @ [lf, lf] @ ''The frontend obtains an authorization code from Google'' @ [squote] @ ''s OAuth consent screen and sends it here along with the redirect URI that was used. The backend exchanges the code for Google tokens via allauth, creates or links the user account, and returns a JWT token pair.'' @ [lf, lf] @ ''**Rate limit:** 20 requests/hour per IP.''),
 op_request = (VObj ''GoogleCallbackSerializer'' None),
 op_responses = [(200, \<lparr>ar_description = ''Login successful. Returns JWT token pair and user profile.'',
 ar_response = jwt_token_pair_schema,
 ar_examples = []\<rparr>),
 (400, \<lparr>ar_description = (''Invalid request '' @ [em_dash] @ '' missing or invalid fields, or Google code exchange failed.''),
 ar_response = validation_error_schema,
 ar_examples = [\<lparr>ex_name = ''missing_fields'', ex_value = (str_dict [(''code'', (VList [(VStr ''This field is required.'')]))]), ex_description = ''Required fields missing from request body''\<rparr>,
 \<lparr>ex_name = ''invalid_redirect_uri'', ex_value = (str_dict [(''redirect_uri'', (VList [(VStr ''Enter a valid URL.'')]))]), ex_description = ''redirect_uri is not a valid URL''\<rparr>]\<rparr>),
 (429, \<lparr>ar_description = ''Rate limit exceeded (20 requests/hour per IP).'',
 ar_response = throttled_response_schema,
 ar_examples = [\<lparr>ex_name = ''throttled'', ex_value = (str_dict [(''detail'', (VStr ''Request was throttled. Expected available in 3600 seconds.''))]), ex_description = []\<rparr>]\<rparr>)],
 op_tags = [''Auth'']\<rparr>"

definition token_refresh_schema :: api_operation where
  "token_refresh_schema = \<lparr>op_id = ''auth_token_refresh'', op_summary = ''Refresh JWT access token'',
 op_description = (''Submit a valid refresh token to receive a new access/refresh token pair.'' @ [lf, lf] @ ''Tokens are rotated on each refresh: the old refresh token is blacklisted and a new pair is issued.'' @ [lf, lf] @ ''**Rate limit:** 20 requests/hour per IP.''),
 op_request = (str_dict [(''name'', (VStr ''TokenRefreshRequest'')),
 (''fields'', (str_dict [(''refresh'', (str_dict [(''type'', VStr ''CharField''), (''help_text'', (VStr ''JWT refresh token obtained from login or a previous refresh.''))]))]))]),
 op_responses = [(200, \<lparr>ar_description = ''Token refreshed successfully.'',
 ar_response = jwt_token_pair_schema,
 ar_examples = [\<lparr>ex_name = ''success'', ex_value = (str_dict [(''access'', (VStr ''eyJhbGciOiJIUzI1NiIs...'')),
 (''refresh'', (VStr ''eyJhbGciOiJIUzI1NiIs...''))]), ex_description = []\<rparr>]\<rparr>),
 (400, \<lparr>ar_description = ''Refresh token not provided in request body.'',
 ar_response = error_response_schema,
 ar_examples = [\<lparr>ex_name = ''missing_refresh'', ex_value = (str_dict [(''success'', (VBool False)),
 (''message'', (VStr ''Refresh token is required.''))]), ex_description = []\<rparr>]\<rparr>),
 (401, \<lparr>ar_description = ''Refresh token is invalid or expired.'',
 ar_response = error_response_schema,
 ar_examples = [\<lparr>ex_name = ''invalid_refresh'', ex_value = (str_dict [(''success'', (VBool False)),
 (''message'', (VStr ''Token is invalid or expired.''))]), ex_description = []\<rparr>]\<rparr>),
 (429, \<lparr>ar_description = ''Rate limit exceeded (20 requests/hour per IP).'',
 ar_response = throttled_response_schema,
 ar_examples = [\<lparr>ex_name = ''throttled'', ex_value = (str_dict [(''detail'', (VStr ''Request was throttled. Expected available in 3600 seconds.''))]), ex_description = []\<rparr>]\<rparr>)],
 op_tags = [''Auth'']\<rparr>"

definition logout_schema :: api_operation where
  "logout_schema = \<lparr>op_id = ''auth_logout'', op_summary = ''Logout (blacklist refresh token)'',
 op_description = (''Blacklist the provided refresh token so it can no longer be used to obtain new access tokens. The client should also discard the access token.'' @ [lf, lf] @ ''**Authentication:** Bearer JWT required.''),
 op_request = (str_dict [(''name'', (VStr ''LogoutRequest'')),
 (''fields'', (str_dict [(''refresh'', (str_dict [(''type'', VStr ''CharField''), (''help_text'', (VStr ''JWT refresh token to blacklist.''))]))]))]),
 op_responses = [(200, \<lparr>ar_description = ''Successfully logged out.'',
 ar_response = (str_dict [(''type'', (VStr ''object'')),
 (''properties'', (str_dict [(''message'', (str_dict [(''type'', (VStr ''string'')),
 (''example'', (VStr ''Successfully logged out.''))]))]))]),
 ar_examples = [\<lparr>ex_name = ''success'', ex_value = (str_dict [(''message'', (VStr ''Successfully logged out.''))]), ex_description = []\<rparr>]\<rparr>),
 (400, \<lparr>ar_description = ''Refresh token missing.'',
 ar_response = error_response_schema,
 ar_examples = [\<lparr>ex_name = ''missing_refresh'', ex_value = (str_dict [(''success'', (VBool False)),
 (''message'', (VStr ''Refresh token is required.''))]), ex_description = []\<rparr>]\<rparr>),
 (401, \<lparr>ar_description = ''Authentication required or token invalid.'',
 ar_response = auth_required_schema,
 ar_examples = [\<lparr>ex_name = ''unauthorized'', ex_value = (str_dict [(''detail'', (VStr ''Authentication credentials were not provided.''))]), ex_description = []\<rparr>]\<rparr>),
 (429, throttle_response)],
 op_tags = [''Auth'']\<rparr>"

definition user_profile_example :: pyval where
  "user_profile_example = (str_dict [(''id'', (VInt 1)),
 (''email'', (VStr ''user@example.com'')),
 (''first_name'', (VStr ''Jane'')),
 (''last_name'', (VStr ''Doe'')),
 (''full_name'', (VStr ''Jane Doe'')),
 (''avatar_url'', (VStr ''https://lh3.googleusercontent.com/a/photo'')),
 (''roles'', (VList [(str_dict [(''id'', (VInt 1)),
 (''name'', (VStr ''user'')),
 (''description'', (VStr ''Default user role''))])])),
 (''timezone'', (VStr ''Asia/Kolkata'')),
 (''email_verified'', (VBool True)),
 (''date_joined'', (VStr ''2025-01-15T10:30:00Z'')),
 (''last_login'', (VStr ''2025-06-01T14:22:00Z'')),
 (''google_connected'', (VBool True))])"

definition me_get_schema :: api_operation where
  "me_get_schema = \<lparr>op_id = ''auth_me_retrieve'', op_summary = ''Get current user profile'',
 op_description = (''Returns the authenticated user'' @ [squote] @ ''s profile including roles and social account status.'' @ [lf, lf] @ ''**Authentication:** Bearer JWT required.''),
 op_request = VNone,
 op_responses = [(200, \<lparr>ar_description = ''User profile retrieved successfully.'',
 ar_response = (VObj ''UserProfileSerializer'' None),
 ar_examples = [\<lparr>ex_name = ''success'', ex_value = user_profile_example, ex_description = ''Complete user profile with roles and social status''\<rparr>]\<rparr>),
 (401, \<lparr>ar_description = ''Authentication required.'',
 ar_response = auth_required_schema,
 ar_examples = [\<lparr>ex_name = ''unauthorized'', ex_value = (str_dict [(''detail'', (VStr ''Authentication credentials were not provided.''))]), ex_description = []\<rparr>]\<rparr>),
 (429, throttle_response)],
 op_tags = [''Auth'']\<rparr>"

definition me_patch_schema :: api_operation where
  "me_patch_schema = \<lparr>op_id = ''auth_me_partial_update'', op_summary = ''Update current user profile'',
 op_description = (''Update the authenticated user'' @ [squote] @ ''s profile. Only '' @ [backtick] @ ''timezone'' @ [backtick] @ '', '' @ [backtick] @ ''first_name'' @ [backtick] @ '', and '' @ [backtick] @ ''last_name'' @ [backtick] @ '' are accepted; other fields are ignored.'' @ [lf, lf] @ ''**Authentication:** Bearer JWT required.''),
 op_request = (str_dict [(''name'', (VStr ''MeUpdateRequest'')),
 (''fields'', (str_dict [(''timezone'', (str_dict [(''type'', VStr ''CharField''), (''required'', (VBool False)), (''help_text'', (VStr ''IANA timezone identifier.''))])),
 (''first_name'', (str_dict [(''type'', VStr ''CharField''), (''required'', (VBool False)), (''help_text'', (VStr (''User'' @ [squote] @ ''s first name.'')))])),
 (''last_name'', (str_dict [(''type'', VStr ''CharField''), (''required'', (VBool False)), (''help_text'', (VStr (''User'' @ [squote] @ ''s last name.'')))]))]))]),
 op_responses = [(200, \<lparr>ar_description = ''Profile updated successfully.'',
 ar_response = (VObj ''UserProfileSerializer'' None),
 ar_examples = [\<lparr>ex_name = ''success'', ex_value = user_profile_example, ex_description = ''Updated user profile''\<rparr>]\<rparr>),
 (400, \<lparr>ar_description = ''No valid fields provided.'',
 ar_response = error_response_schema,
 ar_examples = [\<lparr>ex_name = ''no_fields'', ex_value = (str_dict [(''success'', (VBool False)),
 (''message'', (VStr ''No valid fields provided.''))]), ex_description = []\<rparr>]\<rparr>),
 (401, \<lparr>ar_description = ''Authentication required.'',
 ar_response = auth_required_schema,
 ar_examples = [\<lparr>ex_name = ''unauthorized'', ex_value = (str_dict [(''detail'', (VStr ''Authentication credentials were not provided.''))]), ex_description = []\<rparr>]\<rparr>),
 (429, throttle_response)],
 op_tags = [''Auth'']\<rparr>"

definition api_key_delete_schema :: api_operation where
  "api_key_delete_schema = \<lparr>op_id = ''api_keys_delete'', op_summary = ''Delete an API key'',
 op_description = (''Soft-deletes an API key by setting '' @ [backtick, backtick] @ ''is_active=False'' @ [backtick, backtick] @ ''. The row is retained for audit; the raw key bytes were never persisted (only an HMAC-comparable encrypted form), so the credential is irrecoverable once revoked.'' @ [lf, lf] @ ''**Idempotent:** revoking an already-revoked key is a no-op and still returns '' @ [backtick, backtick] @ ''204'' @ [backtick, backtick] @ ''.'' @ [lf, lf] @ ''**Authentication:** Bearer JWT required.'' @ [lf] @ ''**RBAC:** '' @ [backtick, backtick] @ ''API_KEY:DELETE'' @ [backtick, backtick] @ ''.''),
 op_request = VNone,
 op_responses = [(204, \<lparr>ar_description = ''API key soft-deleted (no body).'',
 ar_response = VNone,
 ar_examples = []\<rparr>),
 (401, \<lparr>ar_description = ''Authentication credentials missing or invalid.'',
 ar_response = auth_required_schema,
 ar_examples = [\<lparr>ex_name = ''unauthorized'', ex_value = (str_dict [(''detail'', (VStr ''Authentication credentials were not provided.''))]), ex_description = []\<rparr>]\<rparr>),
 (403, \<lparr>ar_description = (''The authenticated user lacks '' @ [backtick, backtick] @ ''API_KEY:DELETE'' @ [backtick, backtick] @ ''.''),
 ar_response = auth_required_schema,
 ar_examples = [\<lparr>ex_name = ''forbidden'', ex_value = (str_dict [(''detail'', (VStr ''You do not have permission to perform this action.''))]), ex_description = []\<rparr>]\<rparr>),
 (404, \<lparr>ar_description = ''API key not found (or already soft-deleted by another caller).'',
 ar_response = error_response_schema,
 ar_examples = [\<lparr>ex_name = ''not_found'', ex_value = (str_dict [(''success'', (VBool False)),
 (''message'', (VStr ''API key not found.''))]), ex_description = []\<rparr>]\<rparr>),
 (429, throttle_response)],
 op_tags = [''API Keys'']\<rparr>"

definition api_key_revoke_schema :: api_operation where
  "api_key_revoke_schema = \<lparr>op_id = ''api_keys_revoke'', op_summary = ''Revoke an API key'',
 op_description = (''Soft-revokes an API key by stamping '' @ [backtick, backtick] @ ''revoked_at'' @ [backtick, backtick] @ ''. The row stays around with '' @ [backtick, backtick] @ ''is_active=True'' @ [backtick, backtick] @ '' (distinct from delete) so the audit trail is preserved, but '' @ [backtick, backtick] @ ''APIKeyAuthentication'' @ [backtick, backtick] @ '' returns '' @ [backtick, backtick] @ ''401'' @ [backtick, backtick] @ '' on the next request that presents the key.'' @ [lf, lf] @ ''**Idempotent:** revoking an already-revoked key returns '' @ [backtick, backtick] @ ''200'' @ [backtick, backtick] @ '' with a message indicating no state change.'' @ [lf, lf] @ ''**Authentication:** Bearer JWT required.'' @ [lf] @ ''**RBAC:** '' @ [backtick, backtick] @ ''API_KEY:UPDATE'' @ [backtick, backtick] @ ''.''),
 op_request = VNone,
 op_responses = [(200, \<lparr>ar_description = (''API key revoked. Two payload shapes share this status: a fresh revocation ('' @ [backtick, backtick] @ ''API key revoked.'' @ [backtick, backtick] @ '') or an idempotent no-op when the key was already revoked ('' @ [backtick, backtick] @ ''API key already revoked.'' @ [backtick, backtick] @ '').''),
 ar_response = VNone,
 ar_examples = [\<lparr>ex_name = ''revoked'', ex_value = (str_dict [(''success'', (VBool True)),
 (''message'', (VStr ''API key revoked.''))]), ex_description = []\<rparr>,
 \<lparr>ex_name = ''already_revoked'', ex_value = (str_dict [(''success'', (VBool True)),
 (''message'', (VStr ''API key already revoked.''))]), ex_description = []\<rparr>]\<rparr>),
 (401, \<lparr>ar_description = ''Authentication credentials missing or invalid.'',
 ar_response = auth_required_schema,
 ar_examples = [\<lparr>ex_name = ''unauthorized'', ex_value = (str_dict [(''detail'', (VStr ''Authentication credentials were not provided.''))]), ex_description = []\<rparr>]\<rparr>),
 (403, \<lparr>ar_description = (''The authenticated user lacks '' @ [backtick, backtick] @ ''API_KEY:UPDATE'' @ [backtick, backtick] @ ''.''),
 ar_response = auth_required_schema,
 ar_examples = [\<lparr>ex_name = ''forbidden'', ex_value = (str_dict [(''detail'', (VStr ''You do not have permission to perform this action.''))]), ex_description = []\<rparr>]\<rparr>),
 (404, \<lparr>ar_description = (''No active API key with that '' @ [backtick, backtick] @ ''pk'' @ [backtick, backtick] @ ''. Soft-deleted keys ('' @ [backtick, backtick] @ ''is_active=False'' @ [backtick, backtick] @ '') are NOT revivable through this endpoint.''),
 ar_response = error_response_schema,
 ar_examples = [\<lparr>ex_name = ''not_found'', ex_value = (str_dict [(''success'', (VBool False)),
 (''message'', (VStr ''API key not found.''))]), ex_description = []\<rparr>]\<rparr>),
 (429, throttle_response)],
 op_tags = [''API Keys'']\<rparr>"

section \<open>The catalogue\<close>

definition API_DESCRIPTION :: string where
  "API_DESCRIPTION =
     (''Project API built on the django_boilerplate scaffold. Replace this description in :data:'' @ [backtick] @ ''core.openapi.metadata.API_DESCRIPTION'' @ [backtick] @ '' with one specific to your service.'' @ [lf, lf] @
     ''## Authentication'' @ [lf, lf] @
     ''- **Bearer JWT** '' @ [em_dash] @ '' '' @ [backtick] @ ''POST /api/auth/login/'' @ [backtick] @ '' (or OAuth provider). Pass as '' @ [backtick] @ ''Authorization: Bearer <token>'' @ [backtick] @ ''.'' @ [lf] @
     ''- **API Key** '' @ [em_dash] @ '' '' @ [backtick] @ ''POST /api/accounts/api-keys/'' @ [backtick] @ ''. Pass as '' @ [backtick] @ ''X-API-Key: <key>'' @ [backtick] @ ''.'' @ [lf, lf] @
     ''## Response Envelope'' @ [lf, lf] @
     ''All responses share a common JSON envelope: '' @ [backtick] @ ''success'' @ [backtick] @ '', '' @ [backtick] @ ''message'' @ [backtick] @ '', '' @ [backtick] @ ''data'' @ [backtick] @ '', '' @ [backtick] @ ''errors'' @ [backtick] @ '', '' @ [backtick] @ ''request_id'' @ [backtick] @ ''. Paginated list endpoints wrap items under '' @ [backtick] @ ''data.items'' @ [backtick] @ '' with a '' @ [backtick] @ ''data.pagination'' @ [backtick] @ '' object.'' @ [lf, lf] @
     ''## Error Codes'' @ [lf, lf] @
     ''Errors are returned as '' @ [backtick] @ ''{success: false, errors: [{code, message, field, details}]}'' @ [backtick] @ ''. The '' @ [backtick] @ ''code'' @ [backtick] @ '' is UPPER_SNAKE_CASE and stable; the '' @ [backtick] @ ''message'' @ [backtick] @ '' is human-readable and may change between versions. Common codes:'' @ [lf, lf] @
     ''| Code | Meaning |'' @ [lf] @
     ''| --- | --- |'' @ [lf] @
     ''| '' @ [backtick] @ ''AUTHENTICATION_FAILED'' @ [backtick] @ '' | Credentials missing or invalid (401). |'' @ [lf] @
     ''| '' @ [backtick] @ ''TOKEN_EXPIRED'' @ [backtick] @ '' | JWT '' @ [backtick] @ ''exp'' @ [backtick] @ '' elapsed '' @ [em_dash] @ '' refresh and retry (401). |'' @ [lf] @
     ''| '' @ [backtick] @ ''PERMISSION_DENIED'' @ [backtick] @ '' | Authenticated but lacking RBAC permission (403). |'' @ [lf] @
     ''| '' @ [backtick] @ ''ENTITY_NOT_FOUND'' @ [backtick] @ '' | Requested row does not exist (404). |'' @ [lf] @
     ''| '' @ [backtick] @ ''VALIDATION_ERROR'' @ [backtick] @ '' | Semantic / business-rule validation failed (400). |'' @ [lf] @
     ''| '' @ [backtick] @ ''RATE_LIMITED'' @ [backtick] @ '' | Throttle bucket exhausted (429). |'' @ [lf] @
     ''| '' @ [backtick] @ ''API_ERROR'' @ [backtick] @ '' | Outbound HTTP call failed (502). |'' @ [lf] @
     ''| '' @ [backtick] @ ''SERVICE_UNAVAILABLE'' @ [backtick] @ '' | Circuit breaker open (503). |'' @ [lf, lf] @
     ''## Request Correlation'' @ [lf, lf] @
     ''Every response carries a '' @ [backtick] @ ''request_id'' @ [backtick] @ '' (also surfaced in the '' @ [backtick] @ ''X-Request-ID'' @ [backtick] @ '' response header). Clients may send their own '' @ [backtick] @ ''X-Request-ID'' @ [backtick] @ '' header to thread their trace through this service.'' @ [lf])"

definition TAGS_METADATA :: "pyval list" where
  "TAGS_METADATA =
     [(str_dict [(''name'', (VStr ''System'')),
 (''description'', (VStr ''Health and readiness probes. No auth required.''))]),
      (str_dict [(''name'', (VStr ''Auth'')),
 (''description'', (VStr ''Login, JWT token refresh, logout, and current-user profile.''))]),
      (str_dict [(''name'', (VStr ''API Keys'')),
 (''description'', (VStr ''Issue, list, and revoke service-account API keys.''))])]"

text \<open>The fields of the two documented serializers: name, type, whether required, whether null is allowed.\<close>

record serializer_field =
  sfd_name :: string
  sfd_type :: string
  sfd_required :: bool
  sfd_null :: bool

definition ErrorItemSerializer :: "serializer_field list" where
  "ErrorItemSerializer =
     [\<lparr>sfd_name = ''code'', sfd_type = ''CharField'', sfd_required = True, sfd_null = False\<rparr>,
      \<lparr>sfd_name = ''message'', sfd_type = ''CharField'', sfd_required = True, sfd_null = False\<rparr>,
      \<lparr>sfd_name = ''field'', sfd_type = ''CharField'', sfd_required = False, sfd_null = True\<rparr>,
      \<lparr>sfd_name = ''details'', sfd_type = ''DictField'', sfd_required = False, sfd_null = True\<rparr>]"

text \<open>A field with a default is not required.\<close>

definition ErrorEnvelopeSerializer :: "serializer_field list" where
  "ErrorEnvelopeSerializer =
     [\<lparr>sfd_name = ''success'', sfd_type = ''BooleanField'', sfd_required = False, sfd_null = False\<rparr>,
      \<lparr>sfd_name = ''message'', sfd_type = ''CharField'', sfd_required = True, sfd_null = False\<rparr>,
      \<lparr>sfd_name = ''data'', sfd_type = ''JSONField'', sfd_required = False, sfd_null = True\<rparr>,
      \<lparr>sfd_name = ''errors'', sfd_type = ''ErrorItemSerializer'', sfd_required = True, sfd_null = False\<rparr>,
      \<lparr>sfd_name = ''request_id'', sfd_type = ''CharField'', sfd_required = False, sfd_null = True\<rparr>]"

definition metadata_example :: "string \<Rightarrow> string \<Rightarrow> string option \<Rightarrow> api_example" where
  "metadata_example code message field =
     \<lparr>ex_name = code,
      ex_value = str_dict
        [(''success'', VBool False), (''message'', VStr message), (''data'', VNone),
         (''errors'', VList [str_dict [(''code'', VStr code), (''message'', VStr message),
            (''field'', case field of Some f \<Rightarrow> VStr f | None \<Rightarrow> VNone), (''details'', VNone)]]),
         (''request_id'', VStr ''550e8400-e29b-41d4-a716-446655440000'')],
      ex_description = []\<rparr>"

definition err_response :: "int \<Rightarrow> string \<Rightarrow> string \<Rightarrow> string option \<Rightarrow> (int \<times> api_response) list" where
  "err_response status code message field =
     [(status, \<lparr>ar_description = message, ar_response = VObj ''ErrorEnvelopeSerializer'' None,
        ar_examples = [metadata_example code message field]\<rparr>)]"

definition RESPONSES_BAD_REQUEST :: "(int \<times> api_response) list" where
  "RESPONSES_BAD_REQUEST = err_response 400 ''BAD_REQUEST'' ''Malformed request.'' None"

definition RESPONSES_VALIDATION :: "(int \<times> api_response) list" where
  "RESPONSES_VALIDATION = err_response 400 ''VALIDATION_ERROR'' ''Semantic validation failed.'' (Some ''amount'')"

definition RESPONSES_UNAUTHORIZED :: "(int \<times> api_response) list" where
  "RESPONSES_UNAUTHORIZED = err_response 401 ''AUTHENTICATION_FAILED'' ''Authentication required.'' None"

definition RESPONSES_FORBIDDEN :: "(int \<times> api_response) list" where
  "RESPONSES_FORBIDDEN = err_response 403 ''PERMISSION_DENIED'' ''Permission denied.'' None"

definition RESPONSES_NOT_FOUND :: "(int \<times> api_response) list" where
  "RESPONSES_NOT_FOUND = err_response 404 ''ENTITY_NOT_FOUND'' ''Requested resource was not found.'' None"

definition RESPONSES_RATE_LIMITED :: "(int \<times> api_response) list" where
  "RESPONSES_RATE_LIMITED = err_response 429 ''RATE_LIMITED'' ''Rate limit exceeded.'' None"

definition RESPONSES_INTERNAL_SERVER_ERROR :: "(int \<times> api_response) list" where
  "RESPONSES_INTERNAL_SERVER_ERROR = err_response 500 ''INTERNAL_SERVER_ERROR'' ''An unexpected error occurred.'' None"

definition RESPONSES_BAD_GATEWAY :: "(int \<times> api_response) list" where
  "RESPONSES_BAD_GATEWAY = err_response 502 ''API_ERROR'' ''Upstream service returned an error.'' None"

definition RESPONSES_SERVICE_UNAVAILABLE :: "(int \<times> api_response) list" where
  "RESPONSES_SERVICE_UNAVAILABLE = err_response 503 ''SERVICE_UNAVAILABLE'' ''Service is currently unavailable.'' None"

text \<open>Dictionary displays with several unpacked parts: a later key replaces an earlier one.\<close>

definition spread :: "(int \<times> api_response) list list \<Rightarrow> (int \<times> api_response) list" where
  "spread parts = fold (\<lambda>(k, v). AList.update k v) (concat parts) []"

definition DEFAULT_RESPONSES :: "(int \<times> api_response) list" where
  "DEFAULT_RESPONSES = spread [RESPONSES_BAD_REQUEST, RESPONSES_UNAUTHORIZED, RESPONSES_FORBIDDEN, RESPONSES_RATE_LIMITED,
     RESPONSES_INTERNAL_SERVER_ERROR]"

section \<open>What a schema says\<close>

text \<open>
  The keywords of OpenAPI 3.0 the description uses. A value that is \<open>None\<close> satisfies a nullable schema; otherwise its
  type has to fit, required keys have to be there, and the values under known keys, of items, and under the other
  keys where these are restricted, have to fit in turn. Anything that is no dictionary restricts nothing.
\<close>

fun has_type :: "string \<Rightarrow> pyval \<Rightarrow> bool" where
  "has_type t (VDict d) = (t = ''object'')"
| "has_type t (VSeq k xs) = (t = ''array'')"
| "has_type t (VStr s) = (t = ''string'')"
| "has_type t (VBool b) = (t = ''boolean'')"
| "has_type t (VInt i) = (t = ''integer'' \<or> t = ''number'')"
| "has_type t (VFloat f) = (t = ''number'')"
| "has_type t _ = False"

definition type_fits :: "pydict \<Rightarrow> pyval \<Rightarrow> bool" where
  "type_fits s v = (case dget s ''type'' of Some (VStr t) \<Rightarrow> has_type t v | _ \<Rightarrow> True)"

fun required_keys :: "pyval list \<Rightarrow> pydict \<Rightarrow> bool" where
  "required_keys [] d = True"
| "required_keys (VStr k # ks) d = (dget d k \<noteq> None \<and> required_keys ks d)"
| "required_keys (_ # ks) d = required_keys ks d"

fun has_required :: "pyval option \<Rightarrow> pyval \<Rightarrow> bool" where
  "has_required (Some (VSeq k ks)) (VDict d) = required_keys ks d"
| "has_required _ v = True"

fun dict_of :: "pyval option \<Rightarrow> pydict" where
  "dict_of (Some (VDict d)) = d"
| "dict_of _ = []"

lemma dget_smaller: "dget d k = Some x \<Longrightarrow> size x < size (VDict d)"
proof -
  assume "dget d k = Some x"
  then have "(KStr k, x) \<in> set d" by (auto simp: dget_def dest: map_of_SomeD)
  then show "size x < size (VDict d)" by (induction d) auto
qed

lemma dict_of_smaller: "(k, x) \<in> set (dict_of (dget d p)) \<Longrightarrow> size x < size (VDict d)"
proof -
  assume x: "(k, x) \<in> set (dict_of (dget d p))"
  then obtain ps where ps: "dget d p = Some (VDict ps)" by (cases "dget d p" rule: dict_of.cases) auto
  with x have "(k, x) \<in> set ps" by simp
  then have "size x < size (VDict ps)" by (induction ps) auto
  with dget_smaller [OF ps] show "size x < size (VDict d)" by simp
qed

function conforms :: "pyval \<Rightarrow> pyval \<Rightarrow> bool" where
  "conforms s v =
     (case s of
        VDict d \<Rightarrow>
          (v = VNone \<and> dget d ''nullable'' = Some (VBool True)) \<or>
          (type_fits d v \<and> has_required (dget d ''required'') v \<and>
           (case v of
              VDict vs \<Rightarrow>
                (\<forall>(k, sub) \<in> set (dict_of (dget d ''properties'')).
                   case map_of vs k of None \<Rightarrow> True | Some x \<Rightarrow> conforms sub x) \<and>
                (case dget d ''additionalProperties'' of
                   None \<Rightarrow> True
                 | Some sub \<Rightarrow> (\<forall>(k, x) \<in> set vs. k \<in> fst ` set (dict_of (dget d ''properties'')) \<or> conforms sub x))
            | VSeq q xs \<Rightarrow>
                (case dget d ''items'' of None \<Rightarrow> True | Some sub \<Rightarrow> (\<forall>x \<in> set xs. conforms sub x))
            | _ \<Rightarrow> True))
      | _ \<Rightarrow> True)"
  by pat_completeness auto
termination
  by (relation "measure (\<lambda>(s, v). size s)") (auto dest: dget_smaller dict_of_smaller)

declare conforms.simps [simp del]

section \<open>The envelope keeps its description\<close>

text \<open>The payload \<open>BaseResponse\<close> hands to DRF.\<close>

definition error_json :: "error_item \<Rightarrow> pyval" where
  "error_json e = str_dict [(''code'', VStr (ei_code e)), (''message'', VStr (ei_message e)),
     (''field'', case ei_field e of Some f \<Rightarrow> VStr f | None \<Rightarrow> VNone),
     (''details'', case ei_details e of Some d \<Rightarrow> VDict d | None \<Rightarrow> VNone)]"

definition envelope_json :: "envelope \<Rightarrow> pyval" where
  "envelope_json e = str_dict
     [(''success'', VBool (env_success e)), (''message'', VStr (env_message e)), (''data'', env_data e),
      (''errors'', case env_errors e of Some es \<Rightarrow> VList (map error_json es) | None \<Rightarrow> VNone),
      (''request_id'', case env_request_id e of Some r \<Rightarrow> VStr r | None \<Rightarrow> VNone)]"

lemma conforms_VDict:
  "conforms (VDict d) v \<longleftrightarrow> (v = VNone \<and> dget d ''nullable'' = Some (VBool True)) \<or>
     (type_fits d v \<and> has_required (dget d ''required'') v \<and>
      (case v of
         VDict vs \<Rightarrow>
           (\<forall>(k, sub) \<in> set (dict_of (dget d ''properties'')).
              case map_of vs k of None \<Rightarrow> True | Some x \<Rightarrow> conforms sub x) \<and>
           (case dget d ''additionalProperties'' of
              None \<Rightarrow> True
            | Some sub \<Rightarrow> (\<forall>(k, x) \<in> set vs. k \<in> fst ` set (dict_of (dget d ''properties'')) \<or> conforms sub x))
       | VSeq q xs \<Rightarrow> (case dget d ''items'' of None \<Rightarrow> True | Some sub \<Rightarrow> (\<forall>x \<in> set xs. conforms sub x))
       | _ \<Rightarrow> True))"
  by (subst conforms.simps) simp

lemmas schema_simps = conforms_VDict str_dict_def dget_def type_fits_def

text \<open>The schemas without parts.\<close>

lemma conforms_leaf [simp]:
  "conforms (str_dict [(''type'', VStr ''boolean''), (''example'', x)]) (VBool b)"
  "conforms (str_dict [(''type'', VStr ''string''), (''example'', x)]) (VStr t)"
  "conforms (str_dict [(''type'', VStr ''integer''), (''example'', x)]) (VInt i)"
  "conforms (str_dict [(''type'', VStr ''object'')]) (VDict d)"
  by (simp_all add: schema_simps)

lemmas conforms_leaf_VDict [simp] = conforms_leaf [unfolded str_dict_def list.map prod.case]

lemma conforms_errors [simp]: "conforms (errors_schema x) (case es of Some l \<Rightarrow> VList (map error_json l) | None \<Rightarrow> VNone)"
  by (cases es) (auto simp: errors_schema_def error_json_def schema_simps)

lemma conforms_request_id [simp]: "conforms request_id_schema (case r of Some t \<Rightarrow> VStr t | None \<Rightarrow> VNone)"
  by (cases r) (auto simp: request_id_schema_def schema_simps)

lemma envelope_schema_iff:
  "conforms (envelope_schema ds b m) (envelope_json e) \<longleftrightarrow>
     conforms (if truthy ds then ds else str_dict [(''type'', VStr ''object''), (''nullable'', VBool True)]) (env_data e)"
  unfolding envelope_schema_def envelope_json_def
  by (subst str_dict_def, subst conforms_VDict)
     (simp add: str_dict_def [of "_ # _"] dget_def type_fits_def)


lemma error_schema_iff:
  "conforms (error_envelope_schema m x) (envelope_json e) \<longleftrightarrow>
     conforms (str_dict [(''type'', VStr ''object''), (''nullable'', VBool True), (''example'', VNone)]) (env_data e)"
  unfolding error_envelope_schema_def envelope_json_def
  by (subst str_dict_def, subst conforms_VDict) (simp add: str_dict_def [of "_ # _"] dget_def type_fits_def)

lemma conforms_page [simp]:
  "conforms pagination_schema (str_dict [(''total_count'', VInt a), (''page_size'', VInt b), (''page_number'', VInt c),
     (''total_pages'', VInt d), (''has_previous'', VBool p), (''has_next'', VBool n)])"
  unfolding pagination_schema_def
  by (subst str_dict_def, subst conforms_VDict) (simp add: str_dict_def [of "_ # _"] dget_def type_fits_def)

lemma paginated_schema_iff:
  "conforms (paginated_envelope_schema item) (envelope_json \<lparr>env_success = b, env_message = m,
       env_data = pagination_data items tc ps pn tp hp hn, env_errors = es, env_request_id = rid\<rparr>) \<longleftrightarrow>
     (\<forall>x \<in> set items. conforms item x)"
proof -
  have "conforms (str_dict [(''type'', VStr ''array''), (''items'', item)]) (VList items) \<longleftrightarrow> (\<forall>x \<in> set items. conforms item x)"
    by (simp add: schema_simps)
  then show ?thesis
    unfolding paginated_envelope_schema_def envelope_schema_iff pagination_data_def
    by (simp add: str_dict_def [of "(''type'', VStr ''object'') # _"])
       (subst conforms_VDict, simp add: str_dict_def [of "(''items'', _) # _"] dget_def type_fits_def)
qed

text \<open>
  The envelope is what the description says. Every success answer fits the envelope schema of its data schema exactly when its data fits;
  every paginated answer fits the paginated schema exactly when its items do; and every error answer, built by a view or by the
  exception handler from any exception at all, fits the error schema, provided the resilience kit puts an object or nothing under \<open>data\<close>.
\<close>

theorem envelopes_keep_description:
  assumes "conforms (str_dict [(''type'', VStr ''object''), (''nullable'', VBool True), (''example'', VNone)]) (env_data (fst (kit e)))"
    and "truthy data_schema"
  shows "(conforms (envelope_schema data_schema b m) (envelope_json (rs_body (SuccessResponse ctx data msg st))) \<longleftrightarrow> conforms data_schema data) \<and>
    (\<forall>page total_n psize number r. PaginatedResponse ctx page (Some xs) total_n psize number msg st = Inr r \<longrightarrow>
       (conforms (paginated_envelope_schema item) (envelope_json (rs_body r)) \<longleftrightarrow> (\<forall>x \<in> set xs. conforms item x))) \<and>
    conforms (error_envelope_schema m ex) (envelope_json (rs_body (ErrorResponse ctx msg errors st))) \<and>
    conforms (error_envelope_schema m ex) (envelope_json (rs_body (fst (api_exception_handler kit drf ctx s e))))"
proof -
  have null: "conforms (str_dict [(''type'', VStr ''object''), (''nullable'', VBool True), (''example'', VNone)]) VNone"
    by (simp add: schema_simps)
  have handler: "env_data (rs_body (fst (api_exception_handler kit drf ctx s e))) \<in> {VNone, env_data (fst (kit e))}"
    by (auto simp: api_exception_handler_def error_envelope_def split_beta Let_def split: option.splits)
  have page: "conforms (paginated_envelope_schema item) (envelope_json (rs_body r)) \<longleftrightarrow> (\<forall>x \<in> set xs. conforms item x)"
    if "PaginatedResponse ctx page (Some xs) total_n psize number msg st = Inr r" for page total_n psize number r
    using that by (auto simp: PaginatedResponse_def BaseResponse_def paginated_schema_iff Let_def split: option.splits)
  show ?thesis
    using assms null handler page by (auto simp: envelope_schema_iff error_schema_iff)
qed

theorem envelopes_keep_description_witness:
  "conforms (error_envelope_schema [] VNone)
     (envelope_json (rs_body (fst (api_exception_handler (\<lambda>e. (error_envelope [] [] None, 503, [])) (\<lambda>e. None) None boot_status_map
        (raw_exn PyKeyError ''secret''))))) \<and>
   conforms (envelope_schema (str_dict [(''type'', VStr ''array'')]) True ''Success'')
     (envelope_json (rs_body (SuccessResponse None (VList []) ''Success'' 200)))"
proof -
  have "conforms (str_dict [(''type'', VStr ''object''), (''nullable'', VBool True), (''example'', VNone)])
      (env_data (fst (error_envelope [] [] None, 503 :: int, [] :: (string \<times> string) list)))" by code_simp
  moreover have "truthy (str_dict [(''type'', VStr ''array'')])" "conforms (str_dict [(''type'', VStr ''array'')]) (VList [])" by code_simp+
  ultimately show ?thesis
    using envelopes_keep_description [of "\<lambda>e. (error_envelope [] [] None, 503, [])" "raw_exn PyKeyError ''secret''"
      "str_dict [(''type'', VStr ''array'')]"] by blast
qed

text \<open>
  Four of the documented shapes are never sent: no envelope, whatever it holds, has the keys that the schemas for missing
  credentials, for throttling, for a token pair and for validation errors ask for at the top level.
\<close>

lemma documented_shapes_never_sent:
  "\<not> conforms auth_required_schema (envelope_json e)"
  "\<not> conforms throttled_response_schema (envelope_json e)"
  "\<not> conforms (ar_response throttle_response) (envelope_json e)"
  "\<not> conforms jwt_token_pair_schema (envelope_json e)"
  "\<not> conforms validation_error_schema (envelope_json e)"
  by (simp_all add: auth_required_schema_def throttled_response_schema_def throttle_response_def jwt_token_pair_schema_def
      validation_error_schema_def envelope_json_def schema_simps)

section \<open>Statuses\<close>

definition documented :: "api_operation \<Rightarrow> int set" where
  "documented op = fst ` set (op_responses op)"

lemma documented_statuses [simp]:
  "documented token_refresh_schema = {200, 400, 401, 429}"
  "documented logout_schema = {200, 400, 401, 429}"
  "documented me_get_schema = {200, 401, 429}"
  "documented me_patch_schema = {200, 400, 401, 429}"
  "documented api_key_delete_schema = {204, 401, 403, 404, 429}"
  "documented api_key_revoke_schema = {200, 401, 403, 404, 429}"
  by (auto simp: documented_def token_refresh_schema_def logout_schema_def me_get_schema_def me_patch_schema_def
      api_key_delete_schema_def api_key_revoke_schema_def)

text \<open>
  The answers a view builds itself are documented, with two exceptions. A logout, a profile request and a
  revocation answer only with documented statuses; a refresh too, unless the old token could not be blacklisted, which is answered by an undocumented
  503; and a deletion that succeeds answers with 200, where only 204 is documented.
\<close>

theorem view_statuses_documented:
  "(\<forall>r j'. logout ctx lib trunc uid data j = (Inr r, j') \<longrightarrow> rs_status r \<in> documented logout_schema) \<and>
   (\<forall>r db'. me ctx orm refuse tzs repr_field google req_method pk u data db = (Inr r, db') \<longrightarrow>
      rs_status r \<in> documented me_get_schema \<and> rs_status r \<in> documented me_patch_schema) \<and>
   (\<forall>r ks'. api_key_revoke_view ctx kdb now acc pk ks = (Inr r, ks') \<longrightarrow> rs_status r \<in> documented api_key_revoke_schema) \<and>
   (\<forall>r j'. token_refresh ctx lib trunc orm db data j = (Inr r, j') \<longrightarrow> rs_status r \<in> documented token_refresh_schema \<union> {503}) \<and>
   (\<forall>r ks'. api_key_delete_view ctx kdb acc pk ks = (Inr r, ks') \<longrightarrow> rs_status r \<in> documented api_key_delete_schema \<union> {200})"
proof (intro conjI allI impI)
  fix r j' assume "logout ctx lib trunc uid data j = (Inr r, j')"
  then show "rs_status r \<in> documented logout_schema"
    by (auto simp: logout_def logout_block_def catching_def missing_token_def invalid_token_def split: sum.splits prod.splits if_splits)
next
  fix r j' assume "token_refresh ctx lib trunc orm db data j = (Inr r, j')"
  then show "rs_status r \<in> documented token_refresh_schema \<union> {503}"
    by (auto simp: token_refresh_def rotate_token_def catching_def missing_token_def invalid_token_def
        split: sum.splits prod.splits if_splits option.splits)
qed (auto simp: me_def api_key_revoke_view_def api_key_revoke_def api_key_delete_view_def api_key_delete_def split: sum.splits prod.splits if_splits)

theorem view_statuses_documented_witness:
  "rs_status (missing_token None) \<in> documented logout_schema \<and> rs_status (missing_token None) \<in> documented token_refresh_schema \<union> {503}"
proof -
  have "logout None list_jwt (\<lambda>f. Inr 0) 1 (VDict []) [] = (Inr (missing_token None), [])"
    "token_refresh None list_jwt (\<lambda>f. Inr 0) list_orm [] (VDict []) [] = (Inr (missing_token None), [])" by code_simp+
  then show ?thesis
    using view_statuses_documented [of None list_jwt "\<lambda>f. Inr 0" 1 "VDict []" "[]" list_orm "\<lambda>db x r. None" "[]" "\<lambda>r f. VNone"
      "\<lambda>r. True" "''GET''" 1 "[]" "[]"] by blast
qed

lemma deletion_status_undocumented:
  "api_key_delete_view ctx kdb acc pk ks = (Inr r, ks') \<Longrightarrow> env_success (rs_body r) \<Longrightarrow> rs_status r \<notin> documented api_key_delete_schema"
  by (auto simp: api_key_delete_view_def api_key_delete_def split: sum.splits prod.splits if_splits)

section \<open>Health and readiness\<close>

text \<open>Every value in the map of checks is a string.\<close>

lemma checks_are_strings:
  "(k, v) \<in> set (fold (\<lambda>r. dset (hr_name r) (VStr (g r))) results d) \<Longrightarrow> (\<And>k v. (k, v) \<in> set d \<Longrightarrow> \<exists>t. v = VStr t) \<Longrightarrow> \<exists>t. v = VStr t"
proof (induction results arbitrary: d)
  case (Cons r results)
  have "\<exists>t. v = VStr t" if "(k, v) \<in> set (dset (hr_name r) (VStr (g r)) d)" for k v
  proof -
    from that have "(k, v) \<in> set d \<or> v = VStr (g r)"
      unfolding dset_def by (induction d) (auto split: if_splits)
    then show ?thesis using Cons.prems(2) by blast
  qed
  with Cons.IH [of "dset (hr_name r) (VStr (g r)) d"] Cons.prems(1) show ?case by simp
qed simp

definition verdict_schema :: "(string \<times> pyval) list \<Rightarrow> string \<Rightarrow> pyval" where
  "verdict_schema checks good =
     str_dict [(''type'', VStr ''object''),
       (''properties'', str_dict
         [(''status'', str_dict [(''type'', VStr ''string''), (''example'', VStr good)]),
          (''checks'', str_dict [(''type'', VStr ''object''), (''nullable'', VBool True), (''properties'', str_dict checks)])])]"

lemma verdict_body_conforms:
  assumes "\<And>k sub t. (k, sub) \<in> set checks \<Longrightarrow> conforms sub (VStr t)"
  shows "conforms (verdict_schema checks good) (VDict (attach_checks [(KStr ''status'', VStr x)] results priv))"
proof -
  let ?m = "fold (\<lambda>r. dset (hr_name r) (VStr (if hr_detail r \<noteq> [] then hr_detail r else short_status r))) results []"
  have strings: "\<exists>t. v = VStr t" if "map_of ?m k = Some v" for k v
    using that checks_are_strings [where d = "[]" and v = v] by (auto dest!: map_of_SomeD)
  have c: "conforms (VDict [(KStr ''type'', VStr ''object''), (KStr ''nullable'', VBool True), (KStr ''properties'', str_dict checks)]) (VDict ?m)"
    unfolding conforms_VDict using assms strings by (fastforce simp: dget_def type_fits_def str_dict_def split: option.splits)
  show ?thesis
    unfolding verdict_schema_def str_dict_def [of "(''type'', VStr ''object'') # _"] conforms_VDict
    by (simp add: attach_checks_def dset_def str_dict_def [of "(''status'', _) # _"] str_dict_def [of "(''type'', _) # _"]
        dget_def type_fits_def c)
qed

lemma verdict_only_conforms:
  "conforms (str_dict [(''type'', VStr ''object''), (''properties'', str_dict [(''status'', str_dict [(''type'', VStr ''string''), (''example'', y)])])])
     (VDict (attach_checks [(KStr ''status'', VStr x)] results priv))"
  by (simp add: attach_checks_def dset_def schema_simps)

lemma system_schemas:
  "\<exists>ok bad. op_responses health_schema = [(200, ok), (503, bad)] \<and>
     ar_response ok = verdict_schema [(''database'', str_dict [(''type'', VStr ''string''), (''example'', VStr ''connected'')])] ''healthy'' \<and>
     ar_response bad = str_dict [(''type'', VStr ''object''),
       (''properties'', str_dict [(''status'', str_dict [(''type'', VStr ''string''), (''example'', VStr ''unhealthy'')])])]"
  "\<exists>ok bad. op_responses readiness_schema = [(200, ok), (503, bad)] \<and>
     ar_response ok = verdict_schema
       [(''database'', str_dict [(''type'', VStr ''string''), (''example'', VStr ''connected'')]),
        (''cache'', str_dict [(''type'', VStr ''string''), (''example'', VStr ''connected'')]),
        (''celery_broker'', str_dict [(''type'', VStr ''string''), (''example'', VStr ''connected'')])] ''ready'' \<and>
     ar_response bad = str_dict [(''type'', VStr ''object''),
       (''properties'', str_dict [(''status'', str_dict [(''type'', VStr ''string''), (''example'', VStr ''not_ready'')])])]"
  by (simp_all add: health_schema_def readiness_schema_def verdict_schema_def)

text \<open>
  The probes keep their description. Whenever the health or the readiness endpoint answers, for any
  caller and any state of the dependencies, its status is one of the two documented ones and its body fits the schema documented for that status.
\<close>

theorem probes_keep_description:
  assumes "health_check p user s = (Inr (st, body), s') \<and> op = health_schema \<or>
    readiness_check p user s = (Inr (st, body), s') \<and> op = readiness_schema"
  shows "\<exists>resp. map_of (op_responses op) st = Some resp \<and> conforms (ar_response resp) body"
proof -
  from assms obtain good bad results healthy where
    b: "st = (if healthy then 200 else 503)"
      "body = VDict (attach_checks [(KStr ''status'', VStr (if healthy then good else bad))] results (is_privileged user))"
    by (auto simp: health_check_def readiness_check_def verdict_view_def andthen_def split: sum.splits prod.splits)
  from assms show ?thesis
  proof (elim disjE conjE)
    assume "op = health_schema"
    then show ?thesis
      using system_schemas(1) verdict_only_conforms verdict_body_conforms by (auto simp: b) (auto intro!: verdict_body_conforms)
  next
    assume "op = readiness_schema"
    then show ?thesis
      using system_schemas(2) verdict_only_conforms verdict_body_conforms by (auto simp: b) (auto intro!: verdict_body_conforms)
  qed
qed

theorem probes_keep_description_witness:
  "\<exists>resp. map_of (op_responses readiness_schema) 503 = Some resp \<and> conforms (ar_response resp) (VDict [(KStr ''status'', VStr ''not_ready'')])"
proof -
  have "readiness_check broker_down None () = (Inr (503, VDict [(KStr ''status'', VStr ''not_ready'')]), ())" by code_simp
  then show ?thesis by (rule probes_keep_description [OF disjI2 [OF conjI [OF _ refl]]])
qed

section \<open>Examples and codes\<close>

definition shared_responses :: "api_response list" where
  "shared_responses = [not_found_response, validation_error_response, auth_required_response, forbidden_response, throttle_response,
     external_dependency_response, service_unavailable_response]"

definition operations :: "api_operation list" where
  "operations = [health_schema, readiness_schema, google_login_schema, token_refresh_schema, logout_schema, me_get_schema,
     me_patch_schema, api_key_delete_schema, api_key_revoke_schema]"

definition all_responses :: "api_response list" where
  "all_responses = shared_responses @ concat (map (map snd \<circ> op_responses) operations)"

text \<open>Every example of the description fits the schema it illustrates.\<close>

lemma examples_conform: "\<forall>r \<in> set all_responses. \<forall>x \<in> set (ar_examples r). conforms (ar_response r) (ex_value x)"
  by code_simp

text \<open>
  The documented error responses are the ones the handler gives: each pair of status and code comes out for an exception of the project, with the exception
  of \<open>BAD_REQUEST\<close>, a code none of DRF's request errors is given.
\<close>

definition emitted :: "exn \<Rightarrow> int \<times> string list" where
  "emitted e = (let r = fst (api_exception_handler (\<lambda>e. (error_envelope [] [] None, 500, [])) (\<lambda>e. None) None boot_status_map e)
     in (rs_status r, map ei_code (case env_errors (rs_body r) of Some es \<Rightarrow> es | None \<Rightarrow> [])))"

definition documented_error :: "(int \<times> api_response) list \<Rightarrow> int \<times> string list" where
  "documented_error r = (fst (hd r), map ex_name (ar_examples (snd (hd r))))"

lemma documented_errors_emitted:
  "list_all (\<lambda>(r, e). documented_error r = emitted e)
     [(RESPONSES_VALIDATION, new_custom None ValidationError None None NoFields),
      (RESPONSES_UNAUTHORIZED, new_custom None AuthenticationFailedError None None NoFields),
      (RESPONSES_FORBIDDEN, new_custom None PermissionDeniedError None None NoFields),
      (RESPONSES_NOT_FOUND, new_custom None EntityNotFoundError None None NoFields),
      (RESPONSES_RATE_LIMITED, new_custom None RateLimitError None None NoFields),
      (RESPONSES_INTERNAL_SERVER_ERROR, raw_exn PyRuntimeError []),
      (RESPONSES_BAD_GATEWAY, new_custom None APIError None None NoFields),
      (RESPONSES_SERVICE_UNAVAILABLE, new_custom None ServiceUnavailableError None None NoFields)]"
  by code_simp

lemma no_bad_request_code:
  "''BAD_REQUEST'' \<notin> set (map (\<lambda>n. drf_error_code (raw_exn (DRFException n) []))
     [''APIException'', ''ValidationError'', ''ParseError'', ''AuthenticationFailed'', ''NotAuthenticated'', ''PermissionDenied'', ''NotFound'',
      ''MethodNotAllowed'', ''NotAcceptable'', ''UnsupportedMediaType'', ''Throttled''])"
  by code_simp

lemma default_responses_statuses: "map fst DEFAULT_RESPONSES = [400, 401, 403, 429, 500]"
  by code_simp

lemma envelope_serializer_fields: "\<exists>d. envelope_json e = VDict d \<and> map fst d = map (KStr \<circ> sfd_name) ErrorEnvelopeSerializer"
  by (simp add: envelope_json_def str_dict_def ErrorEnvelopeSerializer_def)

end
