(* ===== verification/PySyntax.thy ===== *)
theory PySyntax
  imports PyValue Exceptions "HOL-Library.Multiset"
begin

text \<open>
  Python's syntax tree, \<open>ast.walk\<close>, and the checkout as the scripts under \<open>scripts/\<close> see it. The parser itself is not
  modelled: a source file carries its text and the tree, or the message of the \<open>SyntaxError\<close>. A node has the
  fields the scripts read, in the order of \<open>_fields\<close>; every kind they do not test for is an \<open>OtherNode\<close> with its
  children. Leaves without fields (contexts, operators, aliases) are left out.
\<close>

section \<open>The tree\<close>

datatype node =
    Name string
  | Constant pyval
  | JoinedStr "node list"
  | BinOp node node
  | Attribute node string
  | Subscript node node
  | Call nat node "node list" "node list"
  | DictLit "node list"
  | ListLit "node list"
  | SetLit "node list"
  | ExprStmt node
  | Import nat nat "string list"
  | ImportFrom nat nat "string option" "string list" nat
  | Assign nat "node list" node
  | AugAssign node node
  | AnnAssign nat node node "node option"
  | Delete "node list"
  | FunctionDef nat string "node list" "node list" "node list"
  | ClassDef nat string "node list" "node list" "node list" "node list"
  | OtherNode "node list"

text \<open>
  The arguments are: of a \<open>Call\<close> its line, function, positional arguments and keywords; of an \<open>Import\<close> its first and
  last line and the names; of an \<open>ImportFrom\<close> also the module and the level; of an \<open>Assign\<close> its line, targets and
  value; of a function, synchronous or not, its line, name, arguments with annotations, body and decorators;
  of a class its line, name, bases, keywords, body and decorators.
\<close>

fun iter_child_nodes :: "node \<Rightarrow> node list" where
  "iter_child_nodes (JoinedStr vs) = vs"
| "iter_child_nodes (BinOp l r) = [l, r]"
| "iter_child_nodes (Attribute v a) = [v]"
| "iter_child_nodes (Subscript v s) = [v, s]"
| "iter_child_nodes (Call ln f args kws) = f # args @ kws"
| "iter_child_nodes (DictLit ns) = ns"
| "iter_child_nodes (ListLit ns) = ns"
| "iter_child_nodes (SetLit ns) = ns"
| "iter_child_nodes (ExprStmt e) = [e]"
| "iter_child_nodes (Assign ln ts v) = ts @ [v]"
| "iter_child_nodes (AugAssign t v) = [t, v]"
| "iter_child_nodes (AnnAssign ln t a v) = t # a # (case v of None \<Rightarrow> [] | Some x \<Rightarrow> [x])"
| "iter_child_nodes (Delete ts) = ts"
| "iter_child_nodes (FunctionDef ln nm args body decs) = args @ body @ decs"
| "iter_child_nodes (ClassDef ln nm bases kws body decs) = bases @ kws @ body @ decs"
| "iter_child_nodes (OtherNode ns) = ns"
| "iter_child_nodes _ = []"

definition weight :: "node list \<Rightarrow> nat" where
  "weight ns = sum_list (map (\<lambda>n. 2 * size n + 1) ns)"

lemma weight_simps [simp]:
  "weight [] = 0" "weight (n # ns) = 2 * size n + 1 + weight ns" "weight (ms @ ns) = weight ms + weight ns"
  by (simp_all add: weight_def)

lemma weight_le_size_list: "weight ns \<le> 2 * size_list size ns"
  by (induction ns) auto

lemma children_smaller: "weight (iter_child_nodes n) < 2 * size n + 1"
proof (cases n)
  case (FunctionDef ln nm args body decs)
  then show ?thesis using weight_le_size_list [of args] weight_le_size_list [of body] weight_le_size_list [of decs] by simp
next
  case (ClassDef ln nm bases kws body decs)
  then show ?thesis using weight_le_size_list [of bases] weight_le_size_list [of kws]
    weight_le_size_list [of body] weight_le_size_list [of decs] by simp
next
  case (Call ln f args kws)
  then show ?thesis using weight_le_size_list [of args] weight_le_size_list [of kws] by simp
qed (auto simp: less_Suc_eq_le intro: weight_le_size_list le_SucI order_trans [OF weight_le_size_list] split: option.splits)

text \<open>\<open>ast.walk\<close>: a queue, breadth first.\<close>

function walk_from :: "node list \<Rightarrow> node list" where
  "walk_from [] = []"
| "walk_from (n # todo) = n # walk_from (todo @ iter_child_nodes n)"
  by pat_completeness auto
termination
  by (relation "measure weight") (use children_smaller in \<open>simp_all add: less_Suc_eq_le\<close>)

definition ast_walk :: "node list \<Rightarrow> node list" where
  "ast_walk body = walk_from [OtherNode body]"

section \<open>What a walk visits\<close>

text \<open>The nodes of a tree in the order of the text.\<close>

function preorder :: "node \<Rightarrow> node list" where
  "preorder n = n # concat (map preorder (iter_child_nodes n))"
  by pat_completeness auto
termination
proof (relation "measure size")
  fix n m assume "m \<in> set (iter_child_nodes n)"
  then have "2 * size m + 1 \<le> weight (iter_child_nodes n)" unfolding weight_def by (intro member_le_sum_list) auto
  with children_smaller [of n] show "(m, n) \<in> measure size" by simp
qed simp

declare preorder.simps [simp del]

inductive within :: "node \<Rightarrow> node \<Rightarrow> bool" where
  here: "within n n"
| child: "m \<in> set (iter_child_nodes n) \<Longrightarrow> within k m \<Longrightarrow> within k n"

inductive_simps within_leaf:
  "within k (Name x)" "within k (Constant v)" "within k (Import a b ns)" "within k (ImportFrom a b m ns l)"

text \<open>A walk visits every node of the trees in the queue, each as often as it occurs.\<close>

lemma walk_from_preorder: "mset (walk_from ns) = mset (concat (map preorder ns))"
proof (induction ns rule: walk_from.induct)
  case (2 n todo)
  then show ?case by (simp add: preorder.simps [of n])
qed simp

lemma set_preorder: "k \<in> set (preorder n) \<longleftrightarrow> within k n"
proof
  show "k \<in> set (preorder n) \<Longrightarrow> within k n"
  proof (induction n rule: preorder.induct)
    case (1 n)
    then show ?case by (subst (asm) (2) preorder.simps) (auto intro: within.intros)
  qed
  show "within k n \<Longrightarrow> k \<in> set (preorder n)"
    by (induction rule: within.induct) (subst preorder.simps, auto)+
qed

lemma set_walk_from: "k \<in> set (walk_from ns) \<longleftrightarrow> (\<exists>n \<in> set ns. within k n)"
proof -
  have "set (walk_from ns) = set (concat (map preorder ns))"
    using walk_from_preorder [of ns] by (metis set_mset_mset)
  then show ?thesis by (simp add: set_preorder)
qed

text \<open>A node of a module: of one of the statements of its body, at any depth.\<close>

definition in_module :: "node \<Rightarrow> node list \<Rightarrow> bool" where
  "in_module k body \<longleftrightarrow> (\<exists>n \<in> set body. within k n)"

lemma set_ast_walk: "set (ast_walk body) = insert (OtherNode body) {k. in_module k body}"
  by (auto simp: ast_walk_def set_walk_from in_module_def elim: within.cases intro: within.intros)

section \<open>Lines and paths\<close>

text \<open>
  \<open>str.splitlines\<close>. The separator U+0085 is not among the boundaries: its code stands for the ellipsis here.
\<close>

definition is_line_break :: "char \<Rightarrow> bool" where
  "is_line_break c \<longleftrightarrow> char_code c \<in> {10, 11, 12, 13, 28, 29, 30}"

fun lines_from :: "string \<Rightarrow> string \<Rightarrow> string list" where
  "lines_from acc [] = (if acc = [] then [] else [rev acc])"
| "lines_from acc (c # cs) =
     (if \<not> is_line_break c then lines_from (c # acc) cs
      else case cs of
        d # ds \<Rightarrow> if c = cr \<and> d = lf then rev acc # lines_from [] ds else rev acc # lines_from [] cs
      | [] \<Rightarrow> [rev acc])"

definition splitlines :: "string \<Rightarrow> string list" where
  "splitlines s = lines_from [] s"

lemma py_join_append: "xs \<noteq> [] \<Longrightarrow> ys \<noteq> [] \<Longrightarrow> py_join sep (xs @ ys) = py_join sep xs @ sep @ py_join sep ys"
proof (induction xs)
  case (Cons x xs)
  then show ?case by (cases "xs = []") (simp_all add: py_join_Cons)
qed simp

text \<open>A path relative to the checkout is the list of its parts.\<close>

type_synonym path = "string list"

definition path_name :: "path \<Rightarrow> string" where
  "path_name p = (case rev p of [] \<Rightarrow> [] | x # xs \<Rightarrow> x)"

lemma path_name_simps [simp]: "path_name [] = []" "path_name (x # xs) = (if xs = [] then x else path_name xs)"
  by (simp add: path_name_def) (cases xs rule: rev_cases, auto simp: path_name_def)

definition path_str :: "path \<Rightarrow> string" where
  "path_str p = py_join ''/'' p"

text \<open>\<open>with_suffix("")\<close>: the name up to its last dot, unless that dot is the first or the last character.\<close>

definition drop_suffix :: "string \<Rightarrow> string" where
  "drop_suffix nm =
     (let tail = takeWhile (\<lambda>c. c \<noteq> CHR ''.'') (rev nm); stem = take (length nm - Suc (length tail)) nm in
      if CHR ''.'' \<in> set nm \<and> stem \<noteq> [] \<and> tail \<noteq> [] then stem else nm)"

definition stem_parts :: "path \<Rightarrow> path" where
  "stem_parts p = (if p = [] then [] else butlast p @ [drop_suffix (last p)])"

section \<open>The checkout\<close>

record source_file =
  sf_path :: path
  sf_text :: "(exn, string) result"
  sf_tree :: "(string, node list) result"

record checkout =
  co_root :: path
  co_files :: "source_file list"

definition SyntaxError :: exc_class where "SyntaxError = OtherException ''SyntaxError''"
definition OSError :: exc_class where "OSError = OtherException ''OSError''"

definition abs_parts :: "checkout \<Rightarrow> source_file \<Rightarrow> path" where
  "abs_parts co f = co_root co @ sf_path f"

definition below :: "path \<Rightarrow> source_file \<Rightarrow> bool" where
  "below dir f \<longleftrightarrow> strict_prefix dir (sf_path f)"

definition is_py :: "source_file \<Rightarrow> bool" where
  "is_py f \<longleftrightarrow> suffix ''.py'' (path_name (sf_path f))"

text \<open>\<open>(root / dir).rglob("*.py")\<close>, and its sorted list.\<close>

definition rglob_py :: "checkout \<Rightarrow> path \<Rightarrow> source_file list" where
  "rglob_py co dir = filter (\<lambda>f. below dir f \<and> is_py f) (co_files co)"

definition sorted_py :: "checkout \<Rightarrow> path \<Rightarrow> source_file list" where
  "sorted_py co dir = sort_key sf_path (rglob_py co dir)"

lemma set_sorted_py [simp]: "f \<in> set (sorted_py co dir) \<longleftrightarrow> f \<in> set (co_files co) \<and> below dir f \<and> is_py f"
  by (auto simp: sorted_py_def rglob_py_def)

text \<open>Reading and parsing; here a \<open>SyntaxError\<close> is raised.\<close>

definition parse_or_raise :: "source_file \<Rightarrow> (exn, node list) result" where
  "parse_or_raise f =
     rbind (sf_text f) (\<lambda>text. case sf_tree f of Inl msg \<Rightarrow> Inl (raw_exn SyntaxError msg) | Inr body \<Rightarrow> Inr body)"

text \<open>The loop of a gate: what each file contributes, until one raises.\<close>

fun collect :: "('f \<Rightarrow> (exn, 'b list) result) \<Rightarrow> 'f list \<Rightarrow> (exn, 'b list) result" where
  "collect g [] = Inr []"
| "collect g (f # fs) = rbind (g f) (\<lambda>xs. rbind (collect g fs) (\<lambda>ys. Inr (xs @ ys)))"

lemma collect_total: "(\<And>f. f \<in> set fs \<Longrightarrow> g f = Inr (h f)) \<Longrightarrow> collect g fs = Inr (concat (map h fs))"
  by (induction fs) auto

lemma collect_Inr_iff: "collect g fs = Inr xs \<longleftrightarrow> (\<forall>f \<in> set fs. \<exists>ys. g f = Inr ys) \<and> xs = concat (map (projr \<circ> g) fs)"
  by (induction fs arbitrary: xs) (auto simp: rbind_Inr_iff)

lemma concat_map_Nil: "concat (map h xs) = [] \<longleftrightarrow> (\<forall>x \<in> set xs. h x = [])"
  by simp

text \<open>The loop of a gate whose files all give a list, some of them by contract empty.\<close>

lemma gate_exact:
  assumes "\<And>f. f \<in> set fs \<Longrightarrow> \<exists>ys. g f = Inr ys \<and> (ys = [] \<longleftrightarrow> ok f)"
  shows "\<exists>xs. collect g fs = Inr xs \<and> (xs = [] \<longleftrightarrow> (\<forall>f \<in> set fs. ok f))"
proof -
  from assms obtain h where h: "\<And>f. f \<in> set fs \<Longrightarrow> g f = Inr (h f) \<and> (h f = [] \<longleftrightarrow> ok f)" by metis
  then have "collect g fs = Inr (concat (map h fs))" by (intro collect_total) blast
  moreover have "concat (map h fs) = [] \<longleftrightarrow> (\<forall>f \<in> set fs. ok f)" unfolding concat_map_Nil using h by blast
  ultimately show ?thesis by blast
qed

text \<open>The exit status of a gate and the lines it prints about files.\<close>

type_synonym gate_result = "(exn, nat \<times> string list) result"

definition report :: "string list \<Rightarrow> nat \<times> string list" where
  "report msgs = (if msgs = [] then 0 else 1, msgs)"

lemma report_clean [simp]: "fst (report msgs) = 0 \<longleftrightarrow> msgs = []" by (simp add: report_def)

end
