(* ===== verification/ImportGates.thy ===== *)
theory ImportGates
  imports PySyntax
begin

text \<open>
  The two gates over imports: \<open>scripts/check_layering.py\<close>, which keeps \<open>apps/core\<close> free of domain code, and
  \<open>scripts/check_dormant_imports.py\<close>, which keeps dormant modules off the request path.
\<close>

section \<open>Layering\<close>

fun domain_app :: "path \<Rightarrow> string list" where
  "domain_app [a, p, i] = (if a = ''apps'' \<and> i = ''__init__.py'' \<and> p \<noteq> ''core'' then [p] else [])"
| "domain_app _ = []"

definition domain_apps :: "checkout \<Rightarrow> string list" where
  "domain_apps co = sort (remdups (concat (map (domain_app \<circ> sf_path) (co_files co))))"

definition forbidden_prefixes :: "checkout \<Rightarrow> string list" where
  "forbidden_prefixes co = ''config'' # concat (map (\<lambda>app. [''apps.'' @ app, app]) (domain_apps co))"

definition hits_prefix :: "string \<Rightarrow> string \<Rightarrow> bool" where
  "hits_prefix m p \<longleftrightarrow> m = p \<or> prefix (p @ ''.'') m"

fun node_violations :: "string list \<Rightarrow> node \<Rightarrow> (nat \<times> string) list" where
  "node_violations forbidden (ImportFrom ln e (Some m) names level) =
     (if m \<noteq> [] then map (\<lambda>p. (ln, m)) (filter (hits_prefix m) forbidden) else [])"
| "node_violations forbidden (Import ln e names) =
     concat (map (\<lambda>a. map (\<lambda>p. (ln, a)) (filter (hits_prefix a) forbidden)) names)"
| "node_violations forbidden _ = []"

definition layering_violations :: "string list \<Rightarrow> source_file \<Rightarrow> (exn, (nat \<times> string) list) result" where
  "layering_violations forbidden f =
     rbind (parse_or_raise f) (\<lambda>body. Inr (concat (map (node_violations forbidden) (ast_walk body))))"

definition in_tests_dir :: "path \<Rightarrow> bool" where
  "in_tests_dir p \<longleftrightarrow> ''tests'' \<in> set p"

definition layering_file :: "checkout \<Rightarrow> source_file \<Rightarrow> (exn, string list) result" where
  "layering_file co f =
     (if in_tests_dir (abs_parts co f) then Inr []
      else rbind (layering_violations (forbidden_prefixes co) f) (\<lambda>vs.
        Inr (map (\<lambda>(ln, dotted). path_str (sf_path f) @ '':'' @ nat_str ln @ '': forbidden import in apps/core/: '' @ dotted) vs)))"

definition layering_main :: "checkout \<Rightarrow> gate_result" where
  "layering_main co = rbind (collect (layering_file co) (sorted_py co [''apps'', ''core''])) (\<lambda>msgs. Inr (report msgs))"

section \<open>The dormant set\<close>

definition strip_inline_comment :: "string \<Rightarrow> string" where
  "strip_inline_comment line = takeWhile (\<lambda>c. c \<noteq> CHR ''#'') line"

text \<open>\<open>raw\<close> is what \<open>configparser\<close> gives for \<open>omit\<close> in the section \<open>run\<close>, or the empty fallback.\<close>

definition load_omit_paths :: "string \<Rightarrow> string list" where
  "load_omit_paths raw =
     filter (\<lambda>c. c \<noteq> [] \<and> prefix ''apps/'' c \<and> CHR ''*'' \<notin> set c)
       (map (\<lambda>line. py_strip (strip_inline_comment line)) (splitlines raw))"

text \<open>
  \<open>ast.get_docstring\<close> also tidies the indentation of the text, which the marker pattern, confined to one
  line, does not see.
\<close>

fun get_docstring :: "node list \<Rightarrow> string option" where
  "get_docstring (ExprStmt (Constant (VStr s)) # stmts) = Some s"
| "get_docstring _ = None"

definition module_docstring :: "source_file \<Rightarrow> (exn, string option) result" where
  "module_docstring f =
     rbind (sf_text f) (\<lambda>text. Inr (case sf_tree f of Inl msg \<Rightarrow> None | Inr body \<Rightarrow> get_docstring body))"

text \<open>\<open>\\w\<close> on the modelled characters.\<close>

definition is_word :: "char \<Rightarrow> bool" where
  "is_word c \<longleftrightarrow> is_lower c \<or> is_upper c \<or> is_digit c \<or> c = CHR ''_'' \<or>
     char_code c \<in> {170, 178, 179, 181, 185, 186, 188, 189, 190} \<or> char_code c \<in> {192..255} - {215, 247}"

text \<open>The pattern \<open>\\bDormant\\b[^:\\n]*:\<close>; \<open>prev\<close> tells whether a word character stands before.\<close>

fun marker_search :: "bool \<Rightarrow> string \<Rightarrow> bool" where
  "marker_search prev [] = False"
| "marker_search prev (c # cs) =
     ((\<not> prev \<and> prefix ''Dormant'' (c # cs) \<and>
       (let rest = drop 7 (c # cs); tail = dropWhile (\<lambda>d. d \<noteq> CHR '':'' \<and> d \<noteq> lf) rest in
        (case rest of d # ds \<Rightarrow> \<not> is_word d | [] \<Rightarrow> True) \<and> (case tail of d # ds \<Rightarrow> d = CHR '':'' | [] \<Rightarrow> False)))
      \<or> marker_search (is_word c) cs)"

definition has_marker :: "string option \<Rightarrow> bool" where
  "has_marker doc = (case doc of None \<Rightarrow> False | Some d \<Rightarrow> d \<noteq> [] \<and> marker_search False d)"

definition is_test_path :: "path \<Rightarrow> bool" where
  "is_test_path p \<longleftrightarrow> ''tests'' \<in> set p \<or> prefix ''test_'' (path_name p)"

definition scan_dormant_markers :: "checkout \<Rightarrow> (exn, string list) result" where
  "scan_dormant_markers co =
     collect (\<lambda>f. if is_test_path (abs_parts co f) then Inr []
                  else rbind (module_docstring f) (\<lambda>doc. Inr (if has_marker doc then [path_str (sf_path f)] else [])))
       (rglob_py co [''apps''])"

text \<open>The two differences of sets are visited in some order; here in that of the lists.\<close>

definition check_drift :: "string list \<Rightarrow> string list \<Rightarrow> checkout \<Rightarrow> string list" where
  "check_drift omit markers co =
     map (\<lambda>entry.
        if entry \<notin> set (map (path_str \<circ> sf_path) (co_files co))
        then ''dormant-set drift: '' @ entry @ '' omitted in .coveragerc but file does not exist''
        else ''dormant-set drift: '' @ entry @ '' omitted in .coveragerc but missing '' @ [squote] @ ''Dormant:'' @ [squote] @
          '' module-docstring marker'')
       (filter (\<lambda>e. e \<notin> set markers) (remdups omit)) @
     map (\<lambda>entry. ''dormant-set drift: '' @ entry @ '' carries '' @ [squote] @ ''Dormant:'' @ [squote] @
          '' docstring marker but is not in .coveragerc [run] omit'')
       (filter (\<lambda>e. e \<notin> set omit) (remdups markers))"

definition dotted_names_for :: "string \<Rightarrow> string" where
  "dotted_names_for entry =
     (let relative = (if prefix ''apps/'' entry then drop 5 entry else entry);
          relative = (if suffix ''.py'' relative then take (length relative - 3) relative else relative)
      in map (\<lambda>c. if c = CHR ''/'' then CHR ''.'' else c) relative)"

section \<open>Resolving imports\<close>

definition anchor_of :: "path \<Rightarrow> path" where
  "anchor_of p =
     (let parts = stem_parts p;
          parts = (case parts of q # qs \<Rightarrow> if q = ''apps'' then qs else parts | [] \<Rightarrow> [])
      in butlast parts)"

definition candidates :: "string \<Rightarrow> string list \<Rightarrow> string list" where
  "candidates full_base names =
     (if full_base = [] then []
      else full_base # map (\<lambda>a. full_base @ ''.'' @ a) (filter (\<lambda>a. a \<noteq> ''*'') names))"

fun resolve_import_names :: "path \<Rightarrow> node \<Rightarrow> string list" where
  "resolve_import_names p (Import ln e names) = names"
| "resolve_import_names p (ImportFrom ln e m names level) =
     (let base = (case m of Some b \<Rightarrow> b | None \<Rightarrow> []) in
      if level \<noteq> 0 then
        (let anchor = anchor_of p in
         if level > length anchor then []
         else
           (let prefix_parts = take (length anchor - level + 1) anchor in
            candidates (if base \<noteq> [] then py_join ''.'' (prefix_parts @ [base]) else py_join ''.'' prefix_parts) names))
      else candidates base names)"
| "resolve_import_names p _ = []"

section \<open>The gate\<close>

text \<open>The pattern \<open>#\\s*allow-dormant-import:\\s*\\S+\<close>.\<close>

definition waiver_at :: "string \<Rightarrow> bool" where
  "waiver_at s =
     (case s of
        [] \<Rightarrow> False
      | c # cs \<Rightarrow> c = CHR ''#'' \<and>
          (let rest = dropWhile is_space cs in
           prefix ''allow-dormant-import:'' rest \<and> dropWhile is_space (drop 21 rest) \<noteq> []))"

definition waiver_search :: "string \<Rightarrow> bool" where
  "waiver_search line \<longleftrightarrow> list_ex waiver_at (suffixes line)"

definition span_has_waiver :: "string list \<Rightarrow> nat \<Rightarrow> nat \<Rightarrow> bool" where
  "span_has_waiver source_lines start end_line =
     list_ex (\<lambda>ln. waiver_search (source_lines ! (ln - 1))) [max 1 start..<Suc (min (length source_lines) end_line)]"

fun import_span :: "node \<Rightarrow> (nat \<times> nat) option" where
  "import_span (Import ln e names) = Some (ln, e)"
| "import_span (ImportFrom ln e m names level) = Some (ln, e)"
| "import_span _ = None"

definition node_dormant :: "string list \<Rightarrow> string list \<Rightarrow> path \<Rightarrow> node \<Rightarrow> (nat \<times> string) list" where
  "node_dormant dormant_dotted source_lines p n =
     (case import_span n of
        None \<Rightarrow> []
      | Some (ln, e) \<Rightarrow>
          (case filter (\<lambda>d. d \<in> set dormant_dotted \<and> \<not> span_has_waiver source_lines ln e) (resolve_import_names p n) of
             [] \<Rightarrow> [] | d # ds \<Rightarrow> [(ln, d)]))"

text \<open>A line of the report, and whether it counts as a violation.\<close>

definition dormant_file :: "string list \<Rightarrow> source_file \<Rightarrow> (exn, (string \<times> bool) list) result" where
  "dormant_file omit f =
     (if path_str (sf_path f) \<in> set omit \<or> is_test_path (sf_path f) then Inr []
      else rbind (sf_text f) (\<lambda>source.
        case sf_tree f of
          Inl msg \<Rightarrow> Inr [(path_str (sf_path f) @ '': syntax error: '' @ msg, False)]
        | Inr body \<Rightarrow>
            Inr (map (\<lambda>(ln, dotted). (path_str (sf_path f) @ '':'' @ nat_str ln @ '': dormant import: '' @ dotted @
                '' (allow with '' @ [squote] @ ''# allow-dormant-import: <reason>'' @ [squote] @ '')'', True))
              (concat (map (node_dormant (map dotted_names_for omit) (splitlines source) (sf_path f)) (ast_walk body))))))"

definition walk_targets :: "checkout \<Rightarrow> source_file list" where
  "walk_targets co = sorted_py co [''apps''] @ sorted_py co [''config'']"

definition dormant_main :: "string option \<Rightarrow> checkout \<Rightarrow> gate_result" where
  "dormant_main rc co =
     (case rc of
        None \<Rightarrow> Inr (2, [''check_dormant_imports: no .coveragerc at /'' @ path_str (co_root co @ [''.coveragerc''])])
      | Some raw \<Rightarrow>
          (let omit = load_omit_paths raw in
           rbind (scan_dormant_markers co) (\<lambda>markers.
             let drift = check_drift omit markers co in
             if drift \<noteq> [] then Inr (2, drift)
             else rbind (collect (dormant_file omit) (walk_targets co)) (\<lambda>hits.
               Inr (if hits \<noteq> []
                    then (1, map fst hits @ [[lf] @ nat_str (length (filter snd hits)) @ '' dormant import(s) found.''])
                    else (0, []))))))"

section \<open>Packages\<close>




section \<open>What the layering gate lets through\<close>









definition src_file :: "path \<Rightarrow> node list \<Rightarrow> source_file" where
  "src_file p body = \<lparr>sf_path = p, sf_text = Inr [], sf_tree = Inr body\<rparr>"

definition sample_checkout :: "node list \<Rightarrow> checkout" where
  "sample_checkout stmts = \<lparr>co_root = [''home'', ''dev'', ''project''],
     co_files = [src_file [''apps'', ''accounts'', ''__init__.py''] [],
       src_file [''apps'', ''core'', ''views.py''] [FunctionDef 3 ''view'' [] stmts []]]\<rparr>"


text \<open>
  What is outside that promise. A checkout below a directory called \<open>tests\<close> passes whatever it imports, since the test is on
  the absolute path; \<open>from apps import accounts\<close> passes, since only the part before \<open>import\<close> is looked at; and
  \<open>from .config import x\<close> is reported although it names a module of core.
\<close>

lemma layering_off_below_tests:
  "''tests'' \<in> set (co_root co) \<Longrightarrow> layering_main co = Inr (0, [])"
proof -
  assume "''tests'' \<in> set (co_root co)"
  then have "collect (layering_file co) fs = Inr (concat (map (\<lambda>f. []) fs))" for fs
    by (intro collect_total) (simp add: layering_file_def in_tests_dir_def abs_parts_def)
  then show "layering_main co = Inr (0, [])" by (simp add: layering_main_def report_def)
qed

lemma layering_misses_from_apps:
  "layering_main (sample_checkout [ImportFrom 4 4 (Some ''apps'') [''accounts''] 0]) = Inr (0, [])"
  by code_simp

lemma layering_reports_relative_config:
  "map_sum id fst (layering_main (sample_checkout [ImportFrom 4 4 (Some ''config'') [''x''] 1])) = Inr 1"
  by code_simp

section \<open>Relative imports\<close>

text \<open>
  Python's own rule: one dot is the package of the module, each further dot its parent, and a climb out
  of the top-level package is an error.
\<close>

fun climb :: "path \<Rightarrow> nat \<Rightarrow> path option" where
  "climb pkg 0 = None"
| "climb pkg (Suc 0) = (if pkg = [] then None else Some pkg)"
| "climb pkg (Suc (Suc k)) = (if pkg = [] then None else climb (butlast pkg) (Suc k))"

definition package_of :: "path \<Rightarrow> path" where
  "package_of p = (case butlast p of q # qs \<Rightarrow> if q = ''apps'' then qs else q # qs | [] \<Rightarrow> [])"

lemma anchor_is_package: "p \<noteq> [] \<Longrightarrow> anchor_of p = package_of p"
proof -
  assume "p \<noteq> []"
  then obtain ds nm where p: "p = ds @ [nm]" by (metis rev_exhaust)
  show "anchor_of p = package_of p"
    unfolding p by (cases ds) (auto simp: anchor_of_def package_of_def stem_parts_def butlast_append)
qed

lemma climb_take: "0 < level \<Longrightarrow> climb pkg level = (if level > length pkg then None else Some (take (length pkg - level + 1) pkg))"
proof (induction pkg level rule: climb.induct)
  case (3 pkg k)
  then show ?case
    by (cases "pkg = []") (auto simp: butlast_conv_take min_def not_less_eq Suc_diff_le intro: arg_cong2 [where f = take])
qed (auto simp: Suc_le_eq)

lemma resolve_relative:
  assumes "p \<noteq> []" and "0 < level"
  shows "resolve_import_names p (ImportFrom ln e m names level) =
    (case climb (package_of p) level of
       None \<Rightarrow> []
     | Some pkg \<Rightarrow> candidates (py_join ''.'' (pkg @ (case or_str m None of Some b \<Rightarrow> [b] | None \<Rightarrow> []))) names)"
  using assms by (auto simp: Let_def anchor_is_package climb_take or_str_def split: option.splits)

text \<open>
  C35: the dormant gate reads relative imports as Python does. For every module file, module part and level
  above zero, the names it tries are those of the package Python's climb from the module's own package
  ends in, and none when Python would refuse the import.
\<close>

theorem relative_imports_like_python:
  assumes "p \<noteq> []" and "0 < level"
  shows "resolve_import_names p (ImportFrom ln e m names level) =
    (case climb (package_of p) level of
       None \<Rightarrow> []
     | Some pkg \<Rightarrow> candidates (py_join ''.'' (pkg @ (case or_str m None of Some b \<Rightarrow> [b] | None \<Rightarrow> []))) names)"
  by (rule resolve_relative [OF assms])

theorem relative_imports_like_python_witness:
  "resolve_import_names [''apps'', ''core'', ''lifecycle'', ''boot.py''] (ImportFrom 1 1 (Some ''utils'') [''s3''] 2) =
     [''core.utils'', ''core.utils.s3'']"
proof -
  have "climb (package_of [''apps'', ''core'', ''lifecycle'', ''boot.py'']) 2 = Some [''core'']" by code_simp
  moreover have "candidates (py_join ''.'' ([''core''] @ [''utils''])) [''s3''] = [''core.utils'', ''core.utils.s3'']" by code_simp
  ultimately show ?thesis
    by (subst relative_imports_like_python) (simp_all add: or_str_def)
qed

section \<open>What the dormant gate lets through\<close>

text \<open>
  The specification speaks of files and of Python's imports. A marked file below \<open>apps\<close> is dormant, under the dotted path of
  the file without \<open>apps\<close> and \<open>.py\<close>. An import statement names the modules it lists, or the module it imports
  from and, below it, each name it imports; a relative one is read from the package that Python's climb ends in.
\<close>

definition marked_file :: "source_file \<Rightarrow> bool" where
  "marked_file f \<longleftrightarrow> below [''apps''] f \<and> is_py f \<and> \<not> is_test_path (sf_path f) \<and>
     (\<exists>body. sf_tree f = Inr body \<and> has_marker (get_docstring body))"

definition marked :: "checkout \<Rightarrow> string set" where
  "marked co = {path_str (sf_path f) | f. f \<in> set (co_files co) \<and> marked_file f}"

fun dotted_path :: "path \<Rightarrow> string" where
  "dotted_path [] = []"
| "dotted_path (top_dir # parts) =
     py_join ''.'' (butlast parts @ [take (length (last parts) - 3) (last parts)])"

definition dormant_module :: "checkout \<Rightarrow> string \<Rightarrow> bool" where
  "dormant_module co x \<longleftrightarrow> (\<exists>f \<in> set (co_files co). marked_file f \<and> x = dotted_path (sf_path f))"

definition own_part :: "string option \<Rightarrow> string list" where
  "own_part m = (case m of Some b \<Rightarrow> if b = [] then [] else [b] | None \<Rightarrow> [])"

inductive names_module :: "path \<Rightarrow> node \<Rightarrow> string \<Rightarrow> bool" for p where
  plain: "a \<in> set names \<Longrightarrow> names_module p (Import ln e names) a"
| from_module: "m \<noteq> [] \<Longrightarrow> names_module p (ImportFrom ln e (Some m) names 0) m"
| from_member: "m \<noteq> [] \<Longrightarrow> a \<in> set names \<Longrightarrow> a \<noteq> ''*'' \<Longrightarrow>
    names_module p (ImportFrom ln e (Some m) names 0) (m @ ''.'' @ a)"
| from_relative: "climb (package_of p) level = Some pkg \<Longrightarrow>
    names_module p (ImportFrom ln e m names level) (py_join ''.'' (pkg @ own_part m))"
| from_relative_member: "climb (package_of p) level = Some pkg \<Longrightarrow> a \<in> set names \<Longrightarrow> a \<noteq> ''*'' \<Longrightarrow>
    names_module p (ImportFrom ln e m names level) (py_join ''.'' (pkg @ own_part m) @ ''.'' @ a)"

inductive_simps names_module_simps:
  "names_module p (Import ln e names) x"
  "names_module p (ImportFrom ln e m names level) x"

text \<open>A live module: a Python file of \<open>apps\<close> or \<open>config\<close> that is neither marked nor a test.\<close>

definition live_module :: "checkout \<Rightarrow> source_file \<Rightarrow> bool" where
  "live_module co f \<longleftrightarrow> (below [''apps''] f \<or> below [''config''] f) \<and> is_py f \<and>
     path_str (sf_path f) \<notin> marked co \<and> \<not> is_test_path (sf_path f)"

text \<open>A waiver stands on one of the lines of the statement.\<close>

definition waived :: "string list \<Rightarrow> nat \<Rightarrow> nat \<Rightarrow> bool" where
  "waived src ln e \<longleftrightarrow> (\<exists>i. 1 \<le> i \<and> ln \<le> i \<and> i \<le> e \<and> i \<le> length src \<and> waiver_search (src ! (i - 1)))"

text \<open>Path parts as a file system has them.\<close>

definition plain_paths :: "checkout \<Rightarrow> bool" where
  "plain_paths co \<longleftrightarrow> (\<forall>f \<in> set (co_files co). \<forall>x \<in> set (sf_path f). x \<noteq> [] \<and> CHR ''/'' \<notin> set x)"

lemma span_has_waiver_iff: "span_has_waiver src ln e \<longleftrightarrow> waived src ln e"
proof -
  have "set [max 1 ln..<Suc (min (length src) e)] = {i. 1 \<le> i \<and> ln \<le> i \<and> i \<le> e \<and> i \<le> length src}" by auto
  then show ?thesis unfolding span_has_waiver_def waived_def list_ex_iff by blast
qed

lemma climb_nonempty: "climb pkg level = Some q \<Longrightarrow> q \<noteq> [] \<and> set q \<subseteq> set pkg"
  by (induction pkg level rule: climb.induct) (auto split: if_splits dest: in_set_butlastD)

lemma set_package_of: "set (package_of p) \<subseteq> set p"
proof -
  have "set (package_of p) \<subseteq> set (butlast p)" by (cases "butlast p") (auto simp: package_of_def)
  then show ?thesis by (meson in_set_butlastD subsetI subset_iff)
qed

lemma py_join_nonempty: "xs \<noteq> [] \<Longrightarrow> [] \<notin> set xs \<Longrightarrow> py_join sep xs \<noteq> []"
  by (cases xs rule: list.exhaust; cases "tl xs") (auto simp: py_join_Cons)

lemma set_candidates:
  "full \<noteq> [] \<Longrightarrow> set (candidates full names) = insert full {full @ ''.'' @ a | a. a \<in> set names \<and> a \<noteq> ''*''}"
  by (auto simp: candidates_def)

text \<open>The names the gate tries are those of the specification.\<close>

lemma resolve_names_module:
  assumes "p \<noteq> []" "\<forall>x \<in> set p. x \<noteq> []"
  shows "x \<in> set (resolve_import_names p n) \<longleftrightarrow> names_module p n x"
proof (cases n)
  case (ImportFrom ln e m names level)
  show ?thesis
  proof (cases "level = 0")
    case True
    then show ?thesis
      by (cases m) (auto simp: ImportFrom names_module_simps candidates_def)
  next
    case False
    show ?thesis
    proof (cases "climb (package_of p) level")
      case None
      then show ?thesis using False assms(1) resolve_relative [of p level ln e m names]
        by (simp add: ImportFrom names_module_simps)
    next
      case (Some pkg)
      have part: "(case or_str m None of Some b \<Rightarrow> [b] | None \<Rightarrow> []) = own_part m"
        by (auto simp: or_str_def own_part_def split: option.splits)
      have "pkg \<noteq> []" "[] \<notin> set (pkg @ own_part m)"
        using climb_nonempty [OF Some] set_package_of [of p] assms(2)
        by (auto simp: own_part_def split: option.splits if_splits)
      then have "py_join ''.'' (pkg @ own_part m) \<noteq> []" by (intro py_join_nonempty) auto
      then show ?thesis
        using False Some assms(1) resolve_relative [of p level ln e m names]
        by (auto simp: ImportFrom names_module_simps part set_candidates simp del: resolve_import_names.simps)
    qed
  qed
qed (auto simp: names_module_simps elim: names_module.cases)

lemma map_join:
  "\<forall>x \<in> set xs. CHR ''/'' \<notin> set x \<Longrightarrow>
     map (\<lambda>c. if c = CHR ''/'' then CHR ''.'' else c) (py_join ''/'' xs) = py_join ''.'' xs"
proof -
  have same: "map (\<lambda>c. if c = CHR ''/'' then CHR ''.'' else c) x = x" if "CHR ''/'' \<notin> set x" for x
    using that by (intro map_idI) auto
  show "\<forall>x \<in> set xs. CHR ''/'' \<notin> set x \<Longrightarrow>
     map (\<lambda>c. if c = CHR ''/'' then CHR ''.'' else c) (py_join ''/'' xs) = py_join ''.'' xs"
    by (induction "''/''" xs rule: py_join.induct) (auto simp: same)
qed

lemma take_join:
  assumes "suffix ''.py'' y"
  shows "take (length (py_join sep (xs @ [y])) - 3) (py_join sep (xs @ [y])) = py_join sep (xs @ [take (length y - 3) y])"
    and "suffix ''.py'' (py_join sep (xs @ [y]))"
proof -
  obtain z where y: "y = z @ ''.py''" using assms by (auto simp: suffix_def)
  have join: "py_join sep (xs @ [z @ ''.py'']) = py_join sep (xs @ [z]) @ ''.py''"
    by (induction xs) (auto simp: py_join_Cons)
  show "take (length (py_join sep (xs @ [y])) - 3) (py_join sep (xs @ [y])) = py_join sep (xs @ [take (length y - 3) y])"
    using join by (simp add: y)
  show "suffix ''.py'' (py_join sep (xs @ [y]))"
    unfolding y join by (simp add: suffix_def)
qed

text \<open>The dotted name the gate computes from the text of a path is the dotted path of the file.\<close>

lemma dotted_name_of_file:
  assumes "below [''apps''] f" "is_py f" "\<forall>x \<in> set (sf_path f). CHR ''/'' \<notin> set x"
  shows "dotted_names_for (path_str (sf_path f)) = dotted_path (sf_path f)"
proof -
  obtain q where q: "sf_path f = ''apps'' # q" "q \<noteq> []"
    using assms(1) by (auto simp: below_def strict_prefix_def prefix_def)
  then obtain xs y where xy: "q = xs @ [y]" by (metis rev_exhaust)
  have y: "suffix ''.py'' y" using assms(2) by (simp add: is_py_def q xy path_name_def)
  have "path_str (sf_path f) = ''apps/'' @ py_join ''/'' q" using q by (simp add: path_str_def py_join_Cons)
  moreover have "\<forall>x \<in> set (xs @ [take (length y - 3) y]). CHR ''/'' \<notin> set x"
    using assms(3) by (auto simp: q xy dest: in_set_takeD)
  ultimately show ?thesis
    using take_join [OF y, of "''/''" xs] by (simp add: dotted_names_for_def Let_def q(1) xy map_join butlast_append)
qed

lemma dormant_names:
  assumes "plain_paths co" and "set omit = marked co"
  shows "x \<in> dotted_names_for ` set omit \<longleftrightarrow> dormant_module co x"
proof -
  have "dotted_names_for (path_str (sf_path f)) = dotted_path (sf_path f)" if "f \<in> set (co_files co)" "marked_file f" for f
    using that assms(1) by (intro dotted_name_of_file) (auto simp: marked_file_def plain_paths_def)
  then show ?thesis by (auto simp: assms(2) marked_def dormant_module_def image_iff)
qed

lemma check_drift_Nil: "check_drift omit markers co = [] \<longleftrightarrow> set omit = set markers"
  by (auto simp: check_drift_def filter_empty_conv)

lemma test_path_root:
  "''tests'' \<notin> set (co_root co) \<Longrightarrow> sf_path f \<noteq> [] \<Longrightarrow> is_test_path (abs_parts co f) \<longleftrightarrow> is_test_path (sf_path f)"
  by (cases "sf_path f" rule: rev_cases) (auto simp: is_test_path_def abs_parts_def path_name_def)

lemma scan_dormant_markers_set:
  assumes "''tests'' \<notin> set (co_root co)" and "\<forall>f \<in> set (co_files co). \<exists>text. sf_text f = Inr text"
  shows "\<exists>markers. scan_dormant_markers co = Inr markers \<and> set markers = marked co"
proof -
  define h where "h f = (if is_test_path (sf_path f) then []
      else case sf_tree f of Inl m \<Rightarrow> [] | Inr body \<Rightarrow> if has_marker (get_docstring body) then [path_str (sf_path f)] else [])"
    for f :: source_file
  have "scan_dormant_markers co = Inr (concat (map h (rglob_py co [''apps''])))"
    unfolding scan_dormant_markers_def
  proof (rule collect_total)
    fix f assume "f \<in> set (rglob_py co [''apps''])"
    then have "f \<in> set (co_files co)" "sf_path f \<noteq> []" by (auto simp: rglob_py_def below_def)
    with assms test_path_root [of co f]
    show "(if is_test_path (abs_parts co f) then Inr []
        else rbind (module_docstring f) (\<lambda>doc. Inr (if has_marker doc then [path_str (sf_path f)] else []))) = Inr (h f)"
      by (auto simp: h_def module_docstring_def has_marker_def split: sum.splits)
  qed
  moreover have "x \<in> set (h f) \<longleftrightarrow> \<not> is_test_path (sf_path f) \<and>
      (\<exists>body. sf_tree f = Inr body \<and> has_marker (get_docstring body) \<and> x = path_str (sf_path f))" for x f
    by (cases "sf_tree f") (auto simp: h_def)
  then have "set (concat (map h (rglob_py co [''apps'']))) = marked co"
    by (auto simp: marked_def marked_file_def rglob_py_def) blast
  ultimately show ?thesis by blast
qed

lemma node_dormant_Nil:
  "node_dormant dotted src p n = [] \<longleftrightarrow>
     (\<forall>ln e. import_span n = Some (ln, e) \<longrightarrow> \<not> span_has_waiver src ln e \<longrightarrow> set (resolve_import_names p n) \<inter> set dotted = {})"
proof -
  have "(case xs of [] \<Rightarrow> [] | d # ds \<Rightarrow> [(ln, d)]) = [] \<longleftrightarrow> xs = []" for xs :: "string list" and ln :: nat by (cases xs) auto
  then show ?thesis by (cases "import_span n") (auto simp: node_dormant_def filter_empty_conv)
qed

definition clean_import :: "string list \<Rightarrow> source_file \<Rightarrow> string \<Rightarrow> node \<Rightarrow> bool" where
  "clean_import omit f text n \<longleftrightarrow>
     (\<forall>ln e. import_span n = Some (ln, e) \<longrightarrow>
        span_has_waiver (splitlines text) ln e \<or> (\<forall>x \<in> set (resolve_import_names (sf_path f) n). x \<notin> dotted_names_for ` set omit))"

lemma dormant_file_clean:
  assumes "sf_text f = Inr text"
  shows "\<exists>hits. dormant_file omit f = Inr hits \<and>
    (hits = [] \<longleftrightarrow> (path_str (sf_path f) \<notin> set omit \<longrightarrow> \<not> is_test_path (sf_path f) \<longrightarrow>
       (\<exists>body. sf_tree f = Inr body \<and> (\<forall>n. in_module n body \<longrightarrow> clean_import omit f text n))))"
proof (cases "path_str (sf_path f) \<in> set omit \<or> is_test_path (sf_path f)")
  case False
  have other: "clean_import omit f text (OtherNode body)" for body by (simp add: clean_import_def)
  have nil: "node_dormant (map dotted_names_for omit) (splitlines text) (sf_path f) n = [] \<longleftrightarrow> clean_import omit f text n" for n
    by (auto simp: node_dormant_Nil clean_import_def)
  show ?thesis
  proof (cases "sf_tree f")
    case (Inr body)
    with False assms show ?thesis
      by (auto simp: dormant_file_def concat_map_Nil nil set_ast_walk other simp del: concat_eq_Nil_conv)
  qed (use False assms in \<open>simp add: dormant_file_def\<close>)
qed (use assms in \<open>auto simp: dormant_file_def\<close>)

definition clean_module :: "checkout \<Rightarrow> source_file \<Rightarrow> bool" where
  "clean_module co f \<longleftrightarrow>
     (\<exists>body. sf_tree f = Inr body \<and>
        (\<forall>n ln e x text. in_module n body \<longrightarrow> import_span n = Some (ln, e) \<longrightarrow> names_module (sf_path f) n x \<longrightarrow>
           dormant_module co x \<longrightarrow> sf_text f = Inr text \<longrightarrow> waived (splitlines text) ln e))"

lemma clean_import_module:
  assumes "plain_paths co" "set omit = marked co" "f \<in> set (co_files co)" "sf_path f \<noteq> []" "sf_text f = Inr text"
  shows "(\<exists>body. sf_tree f = Inr body \<and> (\<forall>n. in_module n body \<longrightarrow> clean_import omit f text n)) \<longleftrightarrow> clean_module co f"
proof -
  have res: "x \<in> set (resolve_import_names (sf_path f) n) \<longleftrightarrow> names_module (sf_path f) n x" for x n
    using assms(1,3,4) by (intro resolve_names_module) (auto simp: plain_paths_def)
  have "clean_import omit f text n \<longleftrightarrow> (\<forall>ln e x. import_span n = Some (ln, e) \<longrightarrow> names_module (sf_path f) n x \<longrightarrow>
      dormant_module co x \<longrightarrow> waived (splitlines text) ln e)" for n
    unfolding clean_import_def span_has_waiver_iff Ball_def res dormant_names [OF assms(1,2)] by blast
  then show ?thesis using assms(5) by (auto simp: clean_module_def)
qed

text \<open>
  C34: the dormant gate decides exactly what it promises. In a readable checkout with a coverage configuration, ordinary path
  parts and no part \<open>tests\<close> in its own path it exits with 2 exactly when the omitted files are not the marked
  files; otherwise with 0 exactly when every live module of \<open>apps\<close> and \<open>config\<close> parses and every import statement
  in it, at any depth, that names a dormant module, as Python reads the import and under the module's dotted path below \<open>apps\<close>, has a waiver
  on one of its lines; and with 1 in all other cases, which include a live file that does not parse. What it does not catch is a
  module by another spelling, \<open>apps.core.x\<close> for \<open>core.x\<close> (\<open>dormant_misses_apps_spelling\<close>) or a package for its
  \<open>__init__\<close> (\<open>dormant_package_name\<close>).
\<close>

theorem dormant_gate_exact:
  assumes "''tests'' \<notin> set (co_root co)" and readable: "\<forall>f \<in> set (co_files co). \<exists>text. sf_text f = Inr text"
    and plain: "plain_paths co"
  shows "\<exists>code msgs. dormant_main (Some raw) co = Inr (code, msgs) \<and>
    (code = 2 \<longleftrightarrow> set (load_omit_paths raw) \<noteq> marked co) \<and>
    (code = 0 \<longleftrightarrow> set (load_omit_paths raw) = marked co \<and>
       (\<forall>f \<in> set (co_files co). live_module co f \<longrightarrow> clean_module co f)) \<and>
    code \<in> {0, 1, 2}"
proof -
  let ?omit = "load_omit_paths raw"
  obtain markers where m: "scan_dormant_markers co = Inr markers" "set markers = marked co"
    using scan_dormant_markers_set [OF assms(1,2)] by blast
  have drift: "check_drift ?omit markers co = [] \<longleftrightarrow> set ?omit = marked co" by (simp add: check_drift_Nil m(2))
  let ?ok = "\<lambda>f. path_str (sf_path f) \<notin> set ?omit \<longrightarrow> \<not> is_test_path (sf_path f) \<longrightarrow>
    (\<forall>text. sf_text f = Inr text \<longrightarrow> (\<exists>body. sf_tree f = Inr body \<and> (\<forall>n. in_module n body \<longrightarrow> clean_import ?omit f text n)))"
  have each: "\<exists>hits. dormant_file ?omit f = Inr hits \<and> (hits = [] \<longleftrightarrow> ?ok f)" if "f \<in> set (walk_targets co)" for f
    using that readable dormant_file_clean [of f _ ?omit] by (fastforce simp: walk_targets_def)
  from gate_exact [of "walk_targets co" "dormant_file ?omit" ?ok, OF each] obtain hits where
    files: "collect (dormant_file ?omit) (walk_targets co) = Inr hits" and
    nil: "hits = [] \<longleftrightarrow> (\<forall>f \<in> set (walk_targets co). ?ok f)"
    by blast
  show ?thesis
  proof (cases "set ?omit = marked co")
    case True
    have "?ok f \<longleftrightarrow> (live_module co f \<longrightarrow> clean_module co f)" if "f \<in> set (walk_targets co)" for f
    proof -
      have f: "f \<in> set (co_files co)" "sf_path f \<noteq> []" "below [''apps''] f \<or> below [''config''] f" "is_py f"
        using that by (auto simp: walk_targets_def below_def)
      then obtain src where "sf_text f = Inr src" using readable by blast
      then show ?thesis using clean_import_module [OF plain True f(1,2)] f(3,4) True by (auto simp: live_module_def)
    qed
    then have "hits = [] \<longleftrightarrow> (\<forall>f \<in> set (co_files co). live_module co f \<longrightarrow> clean_module co f)"
      using nil by (auto simp: walk_targets_def live_module_def)
    then show ?thesis using True m(1) drift by (simp add: dormant_main_def Let_def files del: concat_eq_Nil_conv)
  next
    case False
    then show ?thesis using m(1) drift by (simp add: dormant_main_def Let_def)
  qed
qed

definition dormant_sample :: "node list \<Rightarrow> checkout" where
  "dormant_sample stmts = \<lparr>co_root = [''home'', ''dev'', ''project''],
     co_files = [src_file [''apps'', ''core'', ''utils'', ''s3.py''] [ExprStmt (Constant (VStr ''Dormant: kept for forks.''))],
       src_file [''apps'', ''core'', ''views.py''] [FunctionDef 3 ''view'' [] stmts []]]\<rparr>"

theorem dormant_gate_exact_witness:
  "\<exists>code msgs. dormant_main (Some ''apps/core/utils/s3.py'') (dormant_sample [ImportFrom 4 4 (Some ''utils'') [''s3''] 1]) = Inr (code, msgs) \<and>
     code \<noteq> 0"
proof -
  let ?n = "ImportFrom 4 4 (Some ''utils'') [''s3''] 1" let ?co = "dormant_sample [?n]" let ?raw = "''apps/core/utils/s3.py''"
  let ?body = "[FunctionDef 3 ''view'' [] [?n] []]" let ?f = "src_file [''apps'', ''core'', ''views.py''] ?body"
  let ?s3 = "src_file [''apps'', ''core'', ''utils'', ''s3.py''] [ExprStmt (Constant (VStr ''Dormant: kept for forks.''))]"
  have a: "''tests'' \<notin> set (co_root ?co)" "\<forall>f \<in> set (co_files ?co). \<exists>text. sf_text f = Inr text" "plain_paths ?co"
    by (simp_all add: dormant_sample_def src_file_def plain_paths_def)
  obtain code msgs where r: "dormant_main (Some ?raw) ?co = Inr (code, msgs)"
    and iff: "code = 0 \<longrightarrow> (\<forall>f \<in> set (co_files ?co). live_module ?co f \<longrightarrow> clean_module ?co f)"
    using dormant_gate_exact [OF a, of ?raw] by (elim exE conjE) (rule that, assumption, simp)
  have f: "?f \<in> set (co_files ?co)" "?s3 \<in> set (co_files ?co)" "sf_text ?f = Inr []" "sf_tree ?f = Inr ?body"
    by (simp_all add: dormant_sample_def src_file_def)
  have path: "below [''apps''] ?f" "is_py ?f" "\<not> is_test_path (sf_path ?f)" "below [''apps''] ?s3" "is_py ?s3" "\<not> is_test_path (sf_path ?s3)"
    by (simp_all add: src_file_def below_def is_py_def is_test_path_def path_name_def suffix_def strict_prefix_def prefix_def)
  have "\<not> has_marker (get_docstring ?body)" "has_marker (Some ''Dormant: kept for forks.'')"
      "path_str [''apps'', ''core'', ''views.py''] \<noteq> path_str [''apps'', ''core'', ''utils'', ''s3.py'']" by code_simp+
  moreover have "get_docstring [ExprStmt (Constant (VStr ''Dormant: kept for forks.''))] = Some ''Dormant: kept for forks.''"
    by simp
  ultimately have nf: "\<not> marked_file ?f" and s3: "marked_file ?s3"
      and ne: "path_str (sf_path ?f) \<noteq> path_str (sf_path ?s3)"
    using path unfolding marked_file_def by (simp_all add: src_file_def)
  have "marked ?co \<subseteq> {path_str (sf_path ?s3)}" using nf by (auto simp: marked_def dormant_sample_def)
  with ne have "path_str (sf_path ?f) \<notin> marked ?co" by blast
  then have live: "live_module ?co ?f" using path by (simp add: live_module_def)
  have "dotted_path (sf_path ?s3) = ''core.utils.s3''" by code_simp
  then have dormant: "dormant_module ?co ''core.utils.s3''" unfolding dormant_module_def using f(2) s3 by metis
  have "within ?n (FunctionDef 3 ''view'' [] [?n] [])" by (rule within.child [OF _ within.here]) simp
  then have n: "in_module ?n ?body" unfolding in_module_def by simp
  have climb: "climb (package_of (sf_path ?f)) 1 = Some [''core'']"
      "py_join ''.'' ([''core''] @ own_part (Some ''utils'')) @ ''.'' @ ''s3'' = ''core.utils.s3''" by code_simp+
  then have named: "names_module (sf_path ?f) ?n ''core.utils.s3''"
    using names_module.from_relative_member [OF climb(1), of "''s3''" "[''s3'']" 4 4 "Some ''utils''"] by simp
  have "\<not> waived (splitlines []) 4 4" "import_span ?n = Some (4, 4)" by (simp_all add: waived_def splitlines_def)
  then have "\<not> clean_module ?co ?f" unfolding clean_module_def using f(3,4) n dormant named by (metis sum.inject(2))
  with iff f(1) live r show ?thesis by blast
qed

text \<open>
  What is outside that promise: the other spelling of the same module, which \<open>check_layering.py\<close> says the repository
  uses too, passes; and a dormant package is known by the name of its \<open>__init__\<close> module, which no import has.
\<close>

lemma dormant_misses_apps_spelling:
  "dormant_main (Some ''apps/core/utils/s3.py'') (dormant_sample [Import 4 4 [''apps.core.utils.s3'']]) = Inr (0, [])"
  by code_simp

lemma dormant_package_name: "dotted_names_for ''apps/core/tasks/__init__.py'' = ''core.tasks.__init__''"
  by code_simp

end
