(* ===== verification/SourceGates.thy ===== *)
theory SourceGates
  imports ImportGates
begin

text \<open>
  The gates over the sources themselves: \<open>scripts/check_thread_safety.py\<close> (module-level mutable state without a
  lock), \<open>check_dead_utils.py\<close> (public symbols nobody uses), \<open>check_openapi_metadata.py\<close> (views without a schema) and
  \<open>check_stale_refs.py\<close> (names of the past). The advice printed after the findings is left out.
\<close>

section \<open>Thread safety\<close>

definition MUTABLE_CALL_NAMES :: "string list" where "MUTABLE_CALL_NAMES = [''dict'', ''set'', ''list'']"
definition LOCK_CALL_LEAVES :: "string list" where "LOCK_CALL_LEAVES = [''Lock'', ''RLock'', ''local'']"
definition WAIVER_TAG :: string where "WAIVER_TAG = ''thread-safety:''"

definition MUTATING_METHODS :: "string list" where
  "MUTATING_METHODS = [''append'', ''extend'', ''insert'', ''remove'', ''pop'', ''clear'', ''add'', ''discard'',
     ''update'', ''setdefault'', ''popitem'']"

fun is_mutable_container_value :: "node \<Rightarrow> bool" where
  "is_mutable_container_value (DictLit ns) = True"
| "is_mutable_container_value (ListLit ns) = True"
| "is_mutable_container_value (SetLit ns) = True"
| "is_mutable_container_value (Call ln (Name x) args kws) = (x \<in> set MUTABLE_CALL_NAMES)"
| "is_mutable_container_value _ = False"

fun is_lock_call :: "node \<Rightarrow> bool" where
  "is_lock_call (Call ln (Attribute v a) args kws) = (a \<in> set LOCK_CALL_LEAVES)"
| "is_lock_call (Call ln (Name x) args kws) = (x \<in> set LOCK_CALL_LEAVES)"
| "is_lock_call _ = False"

fun declares_lock :: "node \<Rightarrow> bool" where
  "declares_lock (Assign ln ts v) = is_lock_call v"
| "declares_lock (AnnAssign ln t a (Some v)) = is_lock_call v"
| "declares_lock _ = False"

definition module_has_lock :: "node list \<Rightarrow> bool" where
  "module_has_lock body = list_ex declares_lock body"

definition line_has_waiver :: "string list \<Rightarrow> nat \<Rightarrow> bool" where
  "line_has_waiver source_lines lineno =
     (if lineno < 1 \<or> lineno > length source_lines then False else sublist WAIVER_TAG (source_lines ! (lineno - 1)))"

fun subscripted :: "node \<Rightarrow> string list" where
  "subscripted (Subscript (Name x) s) = [x]"
| "subscripted _ = []"

fun mutated_by :: "node \<Rightarrow> string list" where
  "mutated_by (Assign ln ts v) = concat (map subscripted ts)"
| "mutated_by (AugAssign (Name x) v) = [x]"
| "mutated_by (AugAssign t v) = subscripted t"
| "mutated_by (Delete ts) = concat (map subscripted ts)"
| "mutated_by (Call ln (Attribute (Name x) m) args kws) = (if m \<in> set MUTATING_METHODS then [x] else [])"
| "mutated_by _ = []"

definition collect_mutated_names :: "node list \<Rightarrow> string list" where
  "collect_mutated_names body = concat (map mutated_by (ast_walk body))"

fun binding :: "node \<Rightarrow> (nat \<times> node list \<times> node) option" where
  "binding (Assign ln ts v) = Some (ln, ts, v)"
| "binding (AnnAssign ln t a (Some v)) = Some (ln, [t], v)"
| "binding _ = None"

fun target_violation :: "string list \<Rightarrow> string list \<Rightarrow> nat \<Rightarrow> node \<Rightarrow> (nat \<times> string) list" where
  "target_violation mutated source_lines ln (Name x) =
     (if prefix ''__'' x then [] else if x \<notin> set mutated then []
      else if line_has_waiver source_lines ln then [] else [(ln, x)])"
| "target_violation mutated source_lines ln _ = []"

definition stmt_violations :: "string list \<Rightarrow> string list \<Rightarrow> node \<Rightarrow> (nat \<times> string) list" where
  "stmt_violations mutated source_lines n =
     (case binding n of
        None \<Rightarrow> []
      | Some (ln, targets, v) \<Rightarrow>
          if \<not> is_mutable_container_value v then [] else concat (map (target_violation mutated source_lines ln) targets))"

definition module_violations :: "node list \<Rightarrow> string list \<Rightarrow> (nat \<times> string) list" where
  "module_violations body source_lines =
     (if module_has_lock body then []
      else let mutated = collect_mutated_names body in
        if mutated = [] then [] else concat (map (stmt_violations mutated source_lines) body))"

definition thread_file :: "checkout \<Rightarrow> source_file \<Rightarrow> (exn, string list) result" where
  "thread_file co f =
     (if is_test_path (abs_parts co f) then Inr []
      else rbind (sf_text f) (\<lambda>source.
        case sf_tree f of
          Inl msg \<Rightarrow> Inr [''/'' @ path_str (abs_parts co f) @ '': syntax error: '' @ msg]
        | Inr body \<Rightarrow>
            Inr (map (\<lambda>(ln, name). path_str (sf_path f) @ '':'' @ nat_str ln @ '': module-level mutable '' @ repr_str name @
                '' without a sibling threading.Lock / RLock / local()'')
              (module_violations body (splitlines source)))))"

definition thread_safety_main :: "checkout \<Rightarrow> gate_result" where
  "thread_safety_main co = rbind (collect (thread_file co) (sorted_py co [''apps'', ''core''])) (\<lambda>msgs. Inr (report msgs))"

section \<open>Dead symbols\<close>

definition SKIP_DIR_NAMES :: "string list" where "SKIP_DIR_NAMES = [''__pycache__'', ''.pytest_cache'', ''migrations'']"
definition SCAN_ROOTS :: "path list" where "SCAN_ROOTS = [[''apps''], [''config''], [''tests'']]"

definition module_dotted :: "path \<Rightarrow> string" where
  "module_dotted p = py_join ''.'' (stem_parts (tl p))"

fun public_names :: "node \<Rightarrow> string list" where
  "public_names (FunctionDef ln nm args body decs) = (if prefix ''_'' nm then [] else [nm])"
| "public_names (ClassDef ln nm bases kws body decs) = (if prefix ''_'' nm then [] else [nm])"
| "public_names (Assign ln ts v) = concat (map (\<lambda>t. case t of Name x \<Rightarrow> if prefix ''_'' x then [] else [x] | _ \<Rightarrow> []) ts)"
| "public_names _ = []"

definition collect_public_symbols :: "source_file \<Rightarrow> (exn, string list) result" where
  "collect_public_symbols f =
     rbind (sf_text f) (\<lambda>text. Inr (case sf_tree f of Inl msg \<Rightarrow> [] | Inr body \<Rightarrow> concat (map public_names body)))"

definition iter_python_files :: "checkout \<Rightarrow> path \<Rightarrow> source_file list" where
  "iter_python_files co dir = filter (\<lambda>f. \<not> list_ex (\<lambda>p. p \<in> set SKIP_DIR_NAMES) (abs_parts co f)) (rglob_py co dir)"

text \<open>The allow-list file: missing, not readable as JSON, or an array.\<close>

definition JSONDecodeError :: exc_class where "JSONDecodeError = OtherException ''JSONDecodeError''"

definition load_allowlist :: "(exn, string list) result option \<Rightarrow> (exn, string list) result" where
  "load_allowlist file =
     (case file of
        None \<Rightarrow> Inr []
      | Some (Inr keys) \<Rightarrow> Inr keys
      | Some (Inl e) \<Rightarrow> if isinstance e OSError \<or> isinstance e JSONDecodeError then Inr [] else Inl e)"

fun scan_for :: "string \<Rightarrow> source_file \<Rightarrow> source_file list \<Rightarrow> (exn, bool) result" where
  "scan_for needle defining [] = Inr False"
| "scan_for needle defining (f # fs) =
     (if sf_path f = sf_path defining \<or> path_name (sf_path f) = ''check_dead_utils.py'' then scan_for needle defining fs
      else case sf_text f of
        Inr text \<Rightarrow> if sublist needle text then Inr True else scan_for needle defining fs
      | Inl e \<Rightarrow> if isinstance e OSError then scan_for needle defining fs else Inl e)"

definition has_reference :: "checkout \<Rightarrow> string \<Rightarrow> source_file \<Rightarrow> (exn, bool) result" where
  "has_reference co name defining = scan_for name defining (concat (map (iter_python_files co) SCAN_ROOTS))"

definition dead_file :: "checkout \<Rightarrow> string list \<Rightarrow> source_file \<Rightarrow> (exn, string list) result" where
  "dead_file co allowlist f =
     (if in_tests_dir (abs_parts co f) then Inr []
      else rbind (collect_public_symbols f) (\<lambda>names.
        collect (\<lambda>name.
            let key = module_dotted (sf_path f) @ '':'' @ name in
            if key \<in> set allowlist then Inr []
            else rbind (has_reference co name f) (\<lambda>found.
              Inr (if found then [] else [''  '' @ key @ ''   ('' @ path_str (sf_path f) @ '')'']))) names))"

definition dead_utils_main :: "(exn, string list) result option \<Rightarrow> checkout \<Rightarrow> gate_result" where
  "dead_utils_main file co =
     rbind (load_allowlist file) (\<lambda>allowlist.
       rbind (collect (dead_file co allowlist) (iter_python_files co [''apps'', ''core''])) (\<lambda>orphans. Inr (report orphans)))"

section \<open>OpenAPI metadata\<close>

definition CBV_BASE_NAMES :: "string list" where
  "CBV_BASE_NAMES = [''APIView'', ''GenericAPIView'', ''ViewSet'', ''GenericViewSet'', ''ModelViewSet'',
     ''ReadOnlyModelViewSet'', ''ListAPIView'', ''RetrieveAPIView'', ''CreateAPIView'', ''UpdateAPIView'',
     ''DestroyAPIView'', ''ListCreateAPIView'', ''RetrieveUpdateAPIView'', ''RetrieveDestroyAPIView'',
     ''RetrieveUpdateDestroyAPIView'', ''SocialLoginView'']"

definition VERB_METHODS :: "string list" where
  "VERB_METHODS = [''get'', ''post'', ''put'', ''patch'', ''delete'', ''head'', ''options'', ''list'', ''retrieve'',
     ''create'', ''update'', ''partial_update'', ''destroy'']"

fun reference_name :: "node \<Rightarrow> string option" where
  "reference_name (Name x) = Some x"
| "reference_name (Attribute v a) = Some a"
| "reference_name _ = None"

fun decorator_name :: "node \<Rightarrow> string option" where
  "decorator_name (Call ln f args kws) = reference_name f"
| "decorator_name d = reference_name d"

definition schema_name :: "string option \<Rightarrow> bool" where
  "schema_name name = (case name of None \<Rightarrow> False | Some x \<Rightarrow> x = ''extend_schema'' \<or> (x \<noteq> [] \<and> suffix ''_schema'' x))"

definition has_extend_schema :: "node list \<Rightarrow> bool" where
  "has_extend_schema decorators = list_ex (\<lambda>d. schema_name (decorator_name d)) decorators"

definition is_api_view :: "node list \<Rightarrow> bool" where
  "is_api_view decorators = list_ex (\<lambda>d. decorator_name d = Some ''api_view'') decorators"

fun sets_serializer :: "node \<Rightarrow> bool" where
  "sets_serializer (Assign ln ts v) = list_ex (\<lambda>t. t = Name ''serializer_class'') ts"
| "sets_serializer _ = False"

fun schema_on_verb :: "node \<Rightarrow> bool" where
  "schema_on_verb (FunctionDef ln nm args body decs) = (nm \<in> set VERB_METHODS \<and> has_extend_schema decs)"
| "schema_on_verb _ = False"

definition is_cbv_base :: "node \<Rightarrow> bool" where
  "is_cbv_base b = (case reference_name b of Some x \<Rightarrow> x \<in> set CBV_BASE_NAMES | None \<Rightarrow> False)"

fun view_violations :: "node \<Rightarrow> (nat \<times> string \<times> string) list" where
  "view_violations (ClassDef ln nm bases kws body decs) =
     (if \<not> list_ex is_cbv_base bases then []
      else if list_ex sets_serializer body \<or> has_extend_schema decs then []
      else if list_ex schema_on_verb body then []
      else [(ln, nm, ''serializer_class or @extend_schema'')])"
| "view_violations (FunctionDef ln nm args body decs) =
     (if \<not> is_api_view decs then [] else if has_extend_schema decs then [] else [(ln, nm, ''@extend_schema'')])"
| "view_violations _ = []"

definition views_files :: "checkout \<Rightarrow> source_file list" where
  "views_files co = sort_key sf_path (filter (\<lambda>f. below [''apps''] f \<and> path_name (sf_path f) = ''views.py'') (co_files co))"

definition openapi_file :: "source_file \<Rightarrow> (exn, string list) result" where
  "openapi_file f =
     (if path_name (butlast (sf_path f)) = ''core'' then Inr []
      else rbind (parse_or_raise f) (\<lambda>body.
        Inr (map (\<lambda>(ln, nm, missing). path_str (sf_path f) @ '':'' @ nat_str ln @ '': '' @ nm @ '': missing '' @ missing)
          (concat (map view_violations body)))))"

definition openapi_main :: "checkout \<Rightarrow> gate_result" where
  "openapi_main co = rbind (collect openapi_file (views_files co)) (\<lambda>msgs. Inr (report msgs))"

section \<open>Stale references\<close>

definition INCLUDE_GLOBS :: "string list" where
  "INCLUDE_GLOBS = [''docs/**/*.md'', ''CLAUDE.md'', ''README.md'', ''apps/*/CLAUDE.md'', ''apps/*/*/CLAUDE.md'',
     ''apps/**/*.py'', ''config/**/*.py'', ''scripts/**/*.py'']"

definition ALLOW_MARKER :: string where "ALLOW_MARKER = ''# stale-refs: allow''"
definition EXCLUDE_PREFIXES :: "string list" where "EXCLUDE_PREFIXES = [''.code_review/'', ''CHANGELOG.md'']"
definition EXCLUDE_SUBSTRINGS :: "string list" where "EXCLUDE_SUBSTRINGS = [''/migrations/'']"

text \<open>\<open>Path.glob\<close>: a star within a part, two stars for any number of directories.\<close>

fun star_match :: "string \<Rightarrow> string \<Rightarrow> bool" where
  "star_match [] s = (s = [])"
| "star_match (g # gs) s =
     (if g = CHR ''*'' then star_match gs s \<or> (case s of [] \<Rightarrow> False | c # cs \<Rightarrow> star_match (g # gs) cs)
      else case s of [] \<Rightarrow> False | c # cs \<Rightarrow> c = g \<and> star_match gs cs)"

fun glob_parts :: "string list \<Rightarrow> path \<Rightarrow> bool" where
  "glob_parts [] p = (p = [])"
| "glob_parts (g # gs) p =
     (if g = ''**'' then glob_parts gs p \<or> (case p of [] \<Rightarrow> False | x # xs \<Rightarrow> glob_parts (g # gs) xs)
      else case p of [] \<Rightarrow> False | x # xs \<Rightarrow> star_match g x \<and> glob_parts gs xs)"

text \<open>The entries of the manifest; \<open>compile\<close> stands for \<open>re.compile\<close> and gives the search.\<close>

definition entry_str :: "pydict \<Rightarrow> string \<Rightarrow> string" where
  "entry_str entry key = (case dget entry key of Some (VStr s) \<Rightarrow> s | _ \<Rightarrow> [])"

definition load_manifest ::
  "(string \<Rightarrow> (exn, string \<Rightarrow> bool) result) \<Rightarrow> pydict list option \<Rightarrow> (exn, ((string \<Rightarrow> bool) \<times> string) list option) result" where
  "load_manifest compile manifest =
     (case manifest of
        None \<Rightarrow> Inr None
      | Some entries \<Rightarrow>
          rbind (collect (\<lambda>entry. let pattern = entry_str entry ''pattern'' in
              if pattern = [] then Inr []
              else rbind (compile pattern) (\<lambda>search. Inr [(search, entry_str entry ''replacement'')])) entries)
            (\<lambda>compiled. Inr (Some compiled)))"

definition discovered :: "source_file \<Rightarrow> bool" where
  "discovered f \<longleftrightarrow>
     list_ex (\<lambda>g. glob_parts (py_split ''/'' g) (sf_path f)) INCLUDE_GLOBS \<and>
     \<not> list_ex (\<lambda>x. prefix x (path_str (sf_path f))) EXCLUDE_PREFIXES \<and>
     \<not> list_ex (\<lambda>x. sublist x (''/'' @ path_str (sf_path f))) EXCLUDE_SUBSTRINGS"

definition discover_files :: "checkout \<Rightarrow> source_file list" where
  "discover_files co = sort_key sf_path (filter discovered (co_files co))"

text \<open>A hit is its line of the report with the hint of the pattern.\<close>

definition line_hits :: "((string \<Rightarrow> bool) \<times> string) list \<Rightarrow> path \<Rightarrow> nat \<times> string \<Rightarrow> (string \<times> string) list" where
  "line_hits patterns p = (\<lambda>(lineno, line).
     if sublist ALLOW_MARKER line then []
     else map (\<lambda>(search, hint). (path_str p @ '':'' @ nat_str lineno @ '': '' @ take 120 (py_strip line), hint))
       (filter (\<lambda>(search, hint). search line) patterns))"

definition stale_file :: "((string \<Rightarrow> bool) \<times> string) list \<Rightarrow> source_file \<Rightarrow> (exn, (string \<times> string) list) result" where
  "stale_file patterns f =
     (case sf_text f of
        Inl e \<Rightarrow> if isinstance e OSError then Inr [] else Inl e
      | Inr text \<Rightarrow> Inr (concat (map (line_hits patterns (sf_path f)) (enumerate 1 (splitlines text)))))"

definition stale_refs_main ::
  "(string \<Rightarrow> (exn, string \<Rightarrow> bool) result) \<Rightarrow> pydict list option \<Rightarrow> checkout \<Rightarrow> (exn, nat \<times> (string \<times> string) list) result" where
  "stale_refs_main compile manifest co =
     rbind (load_manifest compile manifest) (\<lambda>loaded.
       case loaded of
         None \<Rightarrow> Inr (2, [])
       | Some patterns \<Rightarrow>
           if patterns = [] then Inr (0, [])
           else rbind (collect (stale_file patterns) (discover_files co)) (\<lambda>hits. Inr (if hits \<noteq> [] then 1 else 0, hits)))"

section \<open>What the gates let through\<close>

subsection \<open>Thread safety\<close>

definition guarded :: "node list \<Rightarrow> string list \<Rightarrow> bool" where
  "guarded body source_lines \<longleftrightarrow> module_has_lock body \<or>
     (\<forall>n \<in> set body. \<forall>ln ts v x. binding n = Some (ln, ts, v) \<longrightarrow> is_mutable_container_value v \<longrightarrow> Name x \<in> set ts \<longrightarrow>
        (\<exists>k. in_module k body \<and> x \<in> set (mutated_by k)) \<longrightarrow> prefix ''__'' x \<or> line_has_waiver source_lines ln)"

lemma set_collect_mutated_names: "x \<in> set (collect_mutated_names body) \<longleftrightarrow> (\<exists>k. in_module k body \<and> x \<in> set (mutated_by k))"
  by (auto simp: collect_mutated_names_def set_ast_walk)

lemma target_violation_Nil:
  "target_violation mutated src ln t = [] \<longleftrightarrow>
     (\<forall>x. t = Name x \<longrightarrow> x \<in> set mutated \<longrightarrow> prefix ''__'' x \<or> line_has_waiver src ln)"
  by (cases t) auto

lemma stmt_violations_Nil:
  "stmt_violations mutated src n = [] \<longleftrightarrow>
     (\<forall>ln ts v x. binding n = Some (ln, ts, v) \<longrightarrow> is_mutable_container_value v \<longrightarrow> Name x \<in> set ts \<longrightarrow>
        x \<in> set mutated \<longrightarrow> prefix ''__'' x \<or> line_has_waiver src ln)"
  by (cases "binding n") (auto simp: stmt_violations_def target_violation_Nil)

lemma module_violations_Nil: "module_violations body src = [] \<longleftrightarrow> guarded body src"
proof (cases "module_has_lock body")
  case False
  have "module_violations body src = [] \<longleftrightarrow> (\<forall>n \<in> set body. stmt_violations (collect_mutated_names body) src n = [])"
    using False by (auto simp: module_violations_def Let_def stmt_violations_Nil)
  with False show ?thesis by (simp add: guarded_def stmt_violations_Nil set_collect_mutated_names)
qed (simp add: module_violations_def guarded_def)

text \<open>
  The thread-safety gate decides exactly what it promises: with readable core modules it exits with 0
  exactly when each of them outside the tests parses and declares a lock, or mutates none of the mutable containers it binds to
  a plain name at module level, dunder names and waived lines apart. A mutation counts wherever in the module it stands.
\<close>

theorem thread_gate_exact:
  assumes "''tests'' \<notin> set (co_root co)" and "\<forall>f \<in> set (co_files co). \<exists>text. sf_text f = Inr text"
  shows "\<exists>code msgs. thread_safety_main co = Inr (code, msgs) \<and> code \<in> {0, 1} \<and>
    (code = 0 \<longleftrightarrow>
      (\<forall>f \<in> set (co_files co). \<forall>text. below [''apps'', ''core''] f \<longrightarrow> is_py f \<longrightarrow> \<not> is_test_path (sf_path f) \<longrightarrow> sf_text f = Inr text \<longrightarrow>
         (\<exists>body. sf_tree f = Inr body \<and> guarded body (splitlines text))))"
proof -
  let ?ok = "\<lambda>f. \<not> is_test_path (sf_path f) \<longrightarrow> (\<forall>text. sf_text f = Inr text \<longrightarrow> (\<exists>body. sf_tree f = Inr body \<and> guarded body (splitlines text)))"
  have each: "\<exists>ys. thread_file co f = Inr ys \<and> (ys = [] \<longleftrightarrow> ?ok f)" if "f \<in> set (sorted_py co [''apps'', ''core''])" for f
  proof -
    from that have f: "f \<in> set (co_files co)" "sf_path f \<noteq> []" by (auto simp: below_def)
    then obtain src where "sf_text f = Inr src" using assms(2) by blast
    with test_path_root [OF assms(1) f(2)] show ?thesis
      by (cases "sf_tree f") (auto simp: thread_file_def module_violations_Nil)
  qed
  from gate_exact [of "sorted_py co [''apps'', ''core'']" "thread_file co" ?ok, OF each] obtain xs where
    "collect (thread_file co) (sorted_py co [''apps'', ''core'']) = Inr xs" "xs = [] \<longleftrightarrow> (\<forall>f \<in> set (sorted_py co [''apps'', ''core'']). ?ok f)"
    by blast
  then show ?thesis by (auto simp: thread_safety_main_def report_def)
qed

text \<open>
  Two departures: the documentation exempts constants annotated \<open>Final\<close>, the gate does not look at annotations; and,
  as with layering, a checkout below a directory called \<open>tests\<close> always passes.
\<close>

lemma final_constant_reported:
  "module_violations [AnnAssign 1 (Name ''TABLE'') (Name ''Final'') (Some (DictLit [])),
     FunctionDef 3 ''put'' [] [Assign 4 [Subscript (Name ''TABLE'') (Name ''k'')] (Name ''v'')] []] [[], [], [], []] = [(1, ''TABLE'')]"
  by code_simp

lemma thread_gate_off_below_tests:
  "''tests'' \<in> set (co_root co) \<Longrightarrow> thread_safety_main co = Inr (0, [])"
proof -
  assume "''tests'' \<in> set (co_root co)"
  then have "collect (thread_file co) fs = Inr (concat (map (\<lambda>f. []) fs))" for fs
    by (intro collect_total) (simp add: thread_file_def is_test_path_def abs_parts_def)
  then show "thread_safety_main co = Inr (0, [])" by (simp add: thread_safety_main_def report_def)
qed

theorem thread_gate_exact_witness:
  "\<exists>code msgs. thread_safety_main (sample_checkout []) = Inr (code, msgs) \<and> code = 0"
proof -
  let ?co = "sample_checkout []" let ?body = "[FunctionDef 3 ''view'' [] [] []]"
  have a: "''tests'' \<notin> set (co_root ?co)" "\<forall>f \<in> set (co_files ?co). \<exists>text. sf_text f = Inr text"
    by (simp_all add: sample_checkout_def src_file_def)
  have "guarded [] src" "guarded ?body src" for src by (simp_all add: guarded_def)
  then have "\<forall>f \<in> set (co_files ?co). \<forall>text. below [''apps'', ''core''] f \<longrightarrow> is_py f \<longrightarrow> \<not> is_test_path (sf_path f) \<longrightarrow>
      sf_text f = Inr text \<longrightarrow> (\<exists>body. sf_tree f = Inr body \<and> guarded body (splitlines text))"
    by (simp add: sample_checkout_def src_file_def)
  then show ?thesis using thread_gate_exact [OF a] by blast
qed

subsection \<open>Dead symbols\<close>

text \<open>Where a reference is looked for.\<close>

definition searched :: "source_file \<Rightarrow> source_file \<Rightarrow> bool" where
  "searched defining g \<longleftrightarrow> (below [''apps''] g \<or> below [''config''] g \<or> below [''tests''] g) \<and> is_py g \<and>
     set SKIP_DIR_NAMES \<inter> set (sf_path g) = {} \<and> sf_path g \<noteq> sf_path defining \<and>
     path_name (sf_path g) \<noteq> ''check_dead_utils.py''"

lemma scan_for_exact:
  "\<forall>g \<in> set fs. \<exists>text. sf_text g = Inr text \<Longrightarrow>
     scan_for needle f fs = Inr (\<exists>g \<in> set fs. sf_path g \<noteq> sf_path f \<and> path_name (sf_path g) \<noteq> ''check_dead_utils.py'' \<and>
        (\<exists>text. sf_text g = Inr text \<and> sublist needle text))"
  by (induction fs) (auto split: sum.splits)

lemma iter_python_files_root:
  "set SKIP_DIR_NAMES \<inter> set (co_root co) = {} \<Longrightarrow>
     g \<in> set (iter_python_files co dir) \<longleftrightarrow> g \<in> set (co_files co) \<and> below dir g \<and> is_py g \<and> set SKIP_DIR_NAMES \<inter> set (sf_path g) = {}"
  by (auto simp: iter_python_files_def rglob_py_def abs_parts_def list_ex_iff)

lemma has_reference_exact:
  assumes "set SKIP_DIR_NAMES \<inter> set (co_root co) = {}" and "\<forall>f \<in> set (co_files co). \<exists>text. sf_text f = Inr text"
  shows "has_reference co name f = Inr (\<exists>g \<in> set (co_files co). searched f g \<and> (\<exists>text. sf_text g = Inr text \<and> sublist name text))"
proof -
  have "\<forall>g \<in> set (concat (map (iter_python_files co) SCAN_ROOTS)). \<exists>text. sf_text g = Inr text"
    using assms(2) by (auto simp: iter_python_files_root [OF assms(1)])
  note found = scan_for_exact [OF this, of name f]
  have "g \<in> set (concat (map (iter_python_files co) SCAN_ROOTS)) \<and> sf_path g \<noteq> sf_path f \<and> path_name (sf_path g) \<noteq> ''check_dead_utils.py''
      \<longleftrightarrow> g \<in> set (co_files co) \<and> searched f g" for g
    by (auto simp: SCAN_ROOTS_def searched_def iter_python_files_root [OF assms(1)])
  then show ?thesis unfolding has_reference_def found by (intro arg_cong [where f = Inr]) blast
qed

text \<open>The public symbols of a file, as the gate sees them.\<close>

definition public_symbols :: "source_file \<Rightarrow> string list" where
  "public_symbols f = (case sf_tree f of Inl msg \<Rightarrow> [] | Inr body \<Rightarrow> concat (map public_names body))"

definition symbol_known :: "checkout \<Rightarrow> string list \<Rightarrow> source_file \<Rightarrow> string \<Rightarrow> bool" where
  "symbol_known co allowlist f name \<longleftrightarrow> module_dotted (sf_path f) @ '':'' @ name \<in> set allowlist \<or>
     (\<exists>g \<in> set (co_files co). searched f g \<and> (\<exists>text. sf_text g = Inr text \<and> sublist name text))"

definition exports :: "source_file \<Rightarrow> bool" where
  "exports f \<longleftrightarrow> below [''apps'', ''core''] f \<and> is_py f \<and> set SKIP_DIR_NAMES \<inter> set (sf_path f) = {} \<and> ''tests'' \<notin> set (sf_path f)"

lemma orphan_or_not: "\<exists>ys. (if a then Inr [] else Inr (if b then [] else [m])) = Inr ys \<and> (ys = [] \<longleftrightarrow> a \<or> b)"
  by (cases a; cases b) auto

text \<open>
  The gate for dead symbols decides exactly what it promises: in a readable checkout it exits with 0
  exactly when every public symbol of a core module outside tests and migrations is allow-listed or occurs in the text of
  another file that is searched.
\<close>

theorem dead_gate_exact:
  assumes "set SKIP_DIR_NAMES \<inter> set (co_root co) = {}" "''tests'' \<notin> set (co_root co)"
    and readable: "\<forall>f \<in> set (co_files co). \<exists>text. sf_text f = Inr text"
  shows "\<exists>code msgs. dead_utils_main (Some (Inr allowlist)) co = Inr (code, msgs) \<and> code \<in> {0, 1} \<and>
    (code = 0 \<longleftrightarrow>
      (\<forall>f \<in> set (co_files co). \<forall>name \<in> set (public_symbols f). exports f \<longrightarrow> symbol_known co allowlist f name))"
proof -
  let ?ok = "\<lambda>f. ''tests'' \<notin> set (sf_path f) \<longrightarrow> (\<forall>name \<in> set (public_symbols f). symbol_known co allowlist f name)"
  let ?fs = "iter_python_files co [''apps'', ''core'']"
  have each: "\<exists>ys. dead_file co allowlist f = Inr ys \<and> (ys = [] \<longleftrightarrow> ?ok f)" if "f \<in> set ?fs" for f
  proof (cases "''tests'' \<in> set (sf_path f)")
    case True
    then show ?thesis by (auto simp: dead_file_def in_tests_dir_def abs_parts_def)
  next
    case False
    from that have "f \<in> set (co_files co)" by (simp add: iter_python_files_root [OF assms(1)])
    with readable obtain src where "sf_text f = Inr src" by (auto dest: bspec)
    then have names: "collect_public_symbols f = Inr (public_symbols f)"
      by (simp add: collect_public_symbols_def public_symbols_def)
    let ?g = "\<lambda>name. let key = module_dotted (sf_path f) @ '':'' @ name in
        if key \<in> set allowlist then Inr []
        else rbind (has_reference co name f) (\<lambda>found. Inr (if found then [] else [''  '' @ key @ ''   ('' @ path_str (sf_path f) @ '')'']))"
    have "\<exists>ys. ?g name = Inr ys \<and> (ys = [] \<longleftrightarrow> symbol_known co allowlist f name)" for name
      unfolding Let_def has_reference_exact [OF assms(1) readable] rbind_simps symbol_known_def by (rule orphan_or_not)
    from gate_exact [of "public_symbols f" ?g "symbol_known co allowlist f", OF this] show ?thesis
      using False assms(2) by (simp add: dead_file_def in_tests_dir_def abs_parts_def names)
  qed
  from gate_exact [of ?fs "dead_file co allowlist" ?ok, OF each] obtain xs where
    "collect (dead_file co allowlist) ?fs = Inr xs" "xs = [] \<longleftrightarrow> (\<forall>f \<in> set ?fs. ?ok f)" by blast
  moreover have "(\<forall>f \<in> set ?fs. ?ok f) \<longleftrightarrow> (\<forall>f \<in> set (co_files co). \<forall>name \<in> set (public_symbols f). exports f \<longrightarrow> symbol_known co allowlist f name)"
    by (auto simp: exports_def iter_python_files_root [OF assms(1)])
  ultimately show ?thesis by (simp add: dead_utils_main_def load_allowlist_def report_def)
qed

theorem dead_gate_exact_witness:
  "\<exists>code msgs. dead_utils_main (Some (Inr [''core.views:view''])) (sample_checkout []) = Inr (code, msgs) \<and> code = 0"
proof -
  let ?co = "sample_checkout []"
  have a: "set SKIP_DIR_NAMES \<inter> set (co_root ?co) = {}" "''tests'' \<notin> set (co_root ?co)"
    "\<forall>f \<in> set (co_files ?co). \<exists>text. sf_text f = Inr text"
    by (simp_all add: sample_checkout_def src_file_def SKIP_DIR_NAMES_def)
  have dotted: "module_dotted [''apps'', ''core'', ''views.py''] = ''core.views''" by code_simp
  have "\<forall>f \<in> set (co_files ?co). \<forall>name \<in> set (public_symbols f). exports f \<longrightarrow> symbol_known ?co [''core.views:view''] f name"
    by (simp add: sample_checkout_def src_file_def public_symbols_def symbol_known_def dotted)
  then show ?thesis using dead_gate_exact [OF a, of "[''core.views:view'']"] by blast
qed

text \<open>Module-level constants with an annotation are never looked at, although they are assignments to a bare name.\<close>

lemma annotated_constant_unseen: "public_names (AnnAssign ln (Name ''MAX_PAGE'') (Name ''int'') (Some v)) = []"
  by simp

subsection \<open>View metadata\<close>

text \<open>
  The gate for view metadata, with view modules that parse: it exits with 0 exactly when every view
  class and function-based view at the top level of a view module outside \<open>core\<close> is documented.
\<close>

lemma openapi_gate_exact:
  assumes "\<forall>f \<in> set (co_files co). \<exists>text body. sf_text f = Inr text \<and> sf_tree f = Inr body"
  shows "\<exists>code msgs. openapi_main co = Inr (code, msgs) \<and> code \<in> {0, 1} \<and>
    (code = 0 \<longleftrightarrow>
      (\<forall>f \<in> set (co_files co). \<forall>body. below [''apps''] f \<longrightarrow> path_name (sf_path f) = ''views.py'' \<longrightarrow>
         path_name (butlast (sf_path f)) \<noteq> ''core'' \<longrightarrow> sf_tree f = Inr body \<longrightarrow> (\<forall>n \<in> set body. view_violations n = [])))"
proof -
  let ?ok = "\<lambda>f. path_name (butlast (sf_path f)) \<noteq> ''core'' \<longrightarrow> (\<forall>body. sf_tree f = Inr body \<longrightarrow> (\<forall>n \<in> set body. view_violations n = []))"
  have each: "\<exists>ys. openapi_file f = Inr ys \<and> (ys = [] \<longleftrightarrow> ?ok f)" if "f \<in> set (views_files co)" for f
  proof -
    from that assms obtain src body where "sf_text f = Inr src" "sf_tree f = Inr body" by (auto simp: views_files_def)
    then show ?thesis by (auto simp: openapi_file_def parse_or_raise_def)
  qed
  from gate_exact [of "views_files co" openapi_file ?ok, OF each] obtain xs where
    "collect openapi_file (views_files co) = Inr xs" "xs = [] \<longleftrightarrow> (\<forall>f \<in> set (views_files co). ?ok f)" by blast
  then show ?thesis by (auto simp: openapi_main_def report_def views_files_def)
qed

text \<open>A serializer set with an annotation does not count, although Python sets the same attribute.\<close>

lemma annotated_serializer_reported:
  "view_violations (ClassDef 5 ''Items'' [Name ''APIView''] [] [AnnAssign 6 (Name ''serializer_class'') (Name ''type'') (Some (Name ''S''))] [])
     = [(5, ''Items'', ''serializer_class or @extend_schema'')]"
  by code_simp

subsection \<open>Stale references\<close>

lemma star_match_eqs:
  "star_match (CHR ''*'' # gs) [] \<longleftrightarrow> star_match gs []"
  "star_match (CHR ''*'' # gs) (c # cs) \<longleftrightarrow> star_match gs (c # cs) \<or> star_match (CHR ''*'' # gs) cs"
  "g \<noteq> CHR ''*'' \<Longrightarrow> star_match (g # gs) s \<longleftrightarrow> (\<exists>cs. s = g # cs \<and> star_match gs cs)"
  by (subst star_match.simps, auto split: list.splits)+

lemma glob_parts_eqs:
  "glob_parts (''**'' # gs) [] \<longleftrightarrow> glob_parts gs []"
  "glob_parts (''**'' # gs) (x # xs) \<longleftrightarrow> glob_parts gs (x # xs) \<or> glob_parts (''**'' # gs) xs"
  "g \<noteq> ''**'' \<Longrightarrow> glob_parts (g # gs) p \<longleftrightarrow> (\<exists>x xs. p = x # xs \<and> star_match g x \<and> glob_parts gs xs)"
  by (subst glob_parts.simps, auto split: list.splits)+

declare star_match.simps(2) [simp del] glob_parts.simps(2) [simp del]

lemma star_match_literal: "CHR ''*'' \<notin> set g \<Longrightarrow> star_match g s \<longleftrightarrow> s = g"
proof (induction g arbitrary: s)
  case (Cons g gs)
  then have "g \<noteq> CHR ''*''" by auto
  from star_match_eqs(3) [OF this, of gs s] Cons show ?case by simp
qed simp

lemma star_match_suffix: "CHR ''*'' \<notin> set e \<Longrightarrow> star_match (CHR ''*'' # e) s \<longleftrightarrow> suffix e s"
  by (induction s) (auto simp: star_match_eqs star_match_literal suffix_Cons)

text \<open>Two stars and a pattern for the name are all files below, at any depth.\<close>

lemma glob_deep: "e \<noteq> ''**'' \<Longrightarrow> glob_parts [''**'', e] p \<longleftrightarrow> p \<noteq> [] \<and> star_match e (path_name p)"
proof (induction p)
  case (Cons x p)
  then show ?case by (cases p) (auto simp: glob_parts_eqs)
qed (simp add: glob_parts_eqs)

lemma glob_below:
  assumes "CHR ''*'' \<notin> set d" "CHR ''*'' \<notin> set e"
  shows "glob_parts [d, ''**'', CHR ''*'' # e] p \<longleftrightarrow> strict_prefix [d] p \<and> suffix e (path_name p)"
proof -
  have ne: "CHR ''*'' # e \<noteq> ''**''" "d \<noteq> ''**''" using assms by auto
  show ?thesis
    by (cases p) (auto simp: glob_parts_eqs(3) [OF ne(2)] glob_deep [OF ne(1)] star_match_literal [OF assms(1)]
      star_match_suffix [OF assms(2)] strict_prefix_def)
qed

definition clean_line :: "((string \<Rightarrow> bool) \<times> string) list \<Rightarrow> string \<Rightarrow> bool" where
  "clean_line patterns line \<longleftrightarrow> sublist ALLOW_MARKER line \<or> (\<forall>(search, hint) \<in> set patterns. \<not> search line)"

text \<open>
  The gate for stale references, with a manifest that compiles and readable files: it exits with 0
  exactly when no line of a file it scans matches a pattern without carrying the marker.
\<close>

theorem stale_gate_exact:
  assumes "load_manifest compile manifest = Inr (Some patterns)"
    and "\<forall>f \<in> set (co_files co). \<exists>text. sf_text f = Inr text"
  shows "\<exists>code hits. stale_refs_main compile manifest co = Inr (code, hits) \<and> code \<in> {0, 1} \<and>
    (code = 0 \<longleftrightarrow>
      (\<forall>f \<in> set (co_files co). \<forall>text. discovered f \<longrightarrow> sf_text f = Inr text \<longrightarrow>
         (\<forall>line \<in> set (splitlines text). clean_line patterns line)))"
proof (cases "patterns = []")
  case True
  with assms(1) show ?thesis by (simp add: stale_refs_main_def clean_line_def)
next
  case False
  let ?ok = "\<lambda>f. \<forall>text. sf_text f = Inr text \<longrightarrow>
    (\<forall>line \<in> set (splitlines text). clean_line patterns line)"
  have nil: "line_hits patterns p z = [] \<longleftrightarrow> clean_line patterns (snd z)" for p z
    by (auto simp: clean_line_def line_hits_def filter_empty_conv split: prod.splits)
  have num: "(\<forall>z \<in> set (enumerate 1 xs). P (snd z)) \<longleftrightarrow> (\<forall>x \<in> set xs. P x)" for P and xs :: "string list"
    by (metis (no_types, lifting) image_eqI image_iff list.set_map map_snd_enumerate)
  have each: "\<exists>ys. stale_file patterns f = Inr ys \<and> (ys = [] \<longleftrightarrow> ?ok f)" if "f \<in> set (discover_files co)" for f
  proof -
    from that assms(2) obtain src where src: "sf_text f = Inr src" by (auto simp: discover_files_def)
    have "concat (map (line_hits patterns (sf_path f)) (enumerate 1 (splitlines src))) = [] \<longleftrightarrow> ?ok f"
      unfolding concat_map_Nil src using num [of "splitlines src" "\<lambda>line. clean_line patterns line"]
      by (simp add: nil)
    then show ?thesis by (simp add: stale_file_def src)
  qed
  from gate_exact [of "discover_files co" "stale_file patterns" ?ok, OF each] obtain xs where
    "collect (stale_file patterns) (discover_files co) = Inr xs" "xs = [] \<longleftrightarrow> (\<forall>f \<in> set (discover_files co). ?ok f)" by blast
  moreover have "(\<forall>f \<in> set (discover_files co). ?ok f) \<longleftrightarrow> (\<forall>f \<in> set (co_files co). \<forall>text. discovered f \<longrightarrow> sf_text f = Inr text \<longrightarrow>
      (\<forall>line \<in> set (splitlines text). clean_line patterns line))"
    by (auto simp: discover_files_def)
  ultimately show ?thesis using False assms(1) by (simp add: stale_refs_main_def)
qed

theorem stale_gate_exact_witness:
  "\<exists>code hits. stale_refs_main (\<lambda>p. Inr (sublist p)) (Some [[(KStr ''pattern'', VStr ''OldName'')]])
     \<lparr>co_root = [], co_files = [\<lparr>sf_path = [''README.md''], sf_text = Inr ''uses OldName'', sf_tree = Inl []\<rparr>]\<rparr> = Inr (code, hits) \<and> code \<noteq> 0"
proof -
  let ?f = "\<lparr>sf_path = [''README.md''], sf_text = Inr ''uses OldName'', sf_tree = Inl []\<rparr> :: source_file"
  let ?co = "\<lparr>co_root = [], co_files = [?f]\<rparr> :: checkout" let ?ps = "[(sublist ''OldName'', [])]"
  have m: "load_manifest (\<lambda>p. Inr (sublist p)) (Some [[(KStr ''pattern'', VStr ''OldName'')]]) = Inr (Some ?ps)"
    by (simp add: load_manifest_def entry_str_def dget_def)
  have r: "\<forall>f \<in> set (co_files ?co). \<exists>text. sf_text f = Inr text" by simp
  have d: "discovered ?f" "splitlines ''uses OldName'' = [''uses OldName'']" "sublist ALLOW_MARKER ''uses OldName'' = False"
    "sublist ''OldName'' ''uses OldName''" by code_simp+
  then have "\<not> clean_line ?ps ''uses OldName''" by (simp add: clean_line_def)
  with d(1,2) have "\<not> (\<forall>f \<in> set (co_files ?co). \<forall>text. discovered f \<longrightarrow> sf_text f = Inr text \<longrightarrow> (\<forall>line \<in> set (splitlines text). clean_line ?ps line))"
    by simp
  with stale_gate_exact [OF m r] show ?thesis by blast
qed

end
