(* ===== verification/SettingsDoc.thy ===== *)
theory SettingsDoc
  imports PySyntax
begin

text \<open>
  \<open>scripts/dump_settings_schema.py\<close>: the table of environment variables it reads off the syntax tree of the base
  settings, and the document it writes and checks.
\<close>

section \<open>Cutting text\<close>

text \<open>\<open>s.partition(sep)\<close>, and \<open>s.rstrip()\<close>.\<close>

fun split_first :: "string \<Rightarrow> string \<Rightarrow> (string \<times> string) option" where
  "split_first sep [] = (if sep = [] then Some ([], []) else None)"
| "split_first sep (c # cs) =
     (if prefix sep (c # cs) then Some ([], drop (length sep) (c # cs))
      else map_option (\<lambda>(b, a). (c # b, a)) (split_first sep cs))"

definition py_partition :: "string \<Rightarrow> string \<Rightarrow> string \<times> string \<times> string" where
  "py_partition sep s = (case split_first sep s of None \<Rightarrow> (s, [], []) | Some (b, a) \<Rightarrow> (b, sep, a))"

definition py_rstrip :: "string \<Rightarrow> string" where
  "py_rstrip s = rev (dropWhile is_space (rev s))"

section \<open>The table\<close>

definition BEGIN_MARKER :: string where
  "BEGIN_MARKER = ''<!-- BEGIN AUTO: env-vars table '' @ [em_dash] @ '' generated by scripts/dump_settings_schema.py -->''"

definition END_MARKER :: string where "END_MARKER = ''<!-- END AUTO -->''"

record EnvVar =
  ev_name :: string
  ev_default :: string
  ev_typ :: string
  ev_line :: nat

fun literal :: "node \<Rightarrow> string option" where
  "literal (Constant v) = Some (py_repr v)"
| "literal (JoinedStr vs) = Some ''<f-string>''"
| "literal (BinOp l r) = Some ''<expr>''"
| "literal (Call ln f args kws) = Some ''<call>''"
| "literal (Name x) = Some x"
| "literal _ = None"

text \<open>The type an accessor stands for.\<close>

fun accessor :: "node \<Rightarrow> string option" where
  "accessor (Name f) = (if f = ''_env_int'' then Some ''int'' else if f = ''_env_bool'' then Some ''bool'' else None)"
| "accessor (Attribute (Name m) f) = (if f = ''getenv'' \<and> m = ''os'' then Some ''str'' else None)"
| "accessor _ = None"

fun env_call :: "node \<Rightarrow> EnvVar option" where
  "env_call (Call ln f (Constant (VStr name) # rest) kws) =
     (case accessor f of
        None \<Rightarrow> None
      | Some typ \<Rightarrow> Some \<lparr>ev_name = name,
          ev_default = (case rest of [] \<Rightarrow> [em_dash] | d # ds \<Rightarrow> (case or_str (literal d) None of Some x \<Rightarrow> x | None \<Rightarrow> ''<expr>'')),
          ev_typ = typ, ev_line = ln\<rparr>)"
| "env_call _ = None"

definition collect_env :: "node list \<Rightarrow> EnvVar list" where
  "collect_env body =
     sort_key ev_name (map snd (foldl (\<lambda>found n.
       case env_call n of
         None \<Rightarrow> found
       | Some v \<Rightarrow> if ev_name v \<in> fst ` set found then found else found @ [(ev_name v, v)]) [] (ast_walk body)))"

definition table_row :: "EnvVar \<Rightarrow> string" where
  "table_row v = ''| '' @ [backtick] @ ev_name v @ [backtick] @ '' | '' @ [backtick] @ ev_typ v @ [backtick] @ '' | '' @
     ev_default v @ '' | '' @ [backtick] @ ''config/settings/base.py:'' @ nat_str (ev_line v) @ [backtick] @ '' |''"

definition table_lines :: "EnvVar list \<Rightarrow> string list" where
  "table_lines vars = [[], ''| Env var | Type | Default | Source |'', ''|---|---|---|---|''] @ map table_row vars @ [[]]"

definition render_table :: "EnvVar list \<Rightarrow> string" where
  "render_table vars = py_join [lf] ([BEGIN_MARKER] @ table_lines vars @ [END_MARKER])"

section \<open>The document\<close>

definition doc_header :: string where
  "doc_header = ''# Configuration'' @ [lf, lf] @
     ''Every environment variable read by '' @ [backtick] @ ''config/settings/base.py'' @ [backtick] @ ''.'' @ [lf] @
     ''The table below is regenerated by'' @ [lf] @
     [backtick] @ ''scripts/dump_settings_schema.py'' @ [backtick] @ ''. Do not hand-edit the rows'' @ [lf] @
     ''between the '' @ [backtick] @ ''BEGIN AUTO'' @ [backtick] @ '' / '' @ [backtick] @ ''END AUTO'' @ [backtick] @
     '' markers '' @ [em_dash] @ '' run the script'' @ [lf] @
     ''instead. Prose around the markers is preserved.'' @ [lf, lf]"

definition render_full_doc :: "string option \<Rightarrow> string \<Rightarrow> string" where
  "render_full_doc doc table =
     (case doc of
        None \<Rightarrow> doc_header @ table @ [lf]
      | Some existing \<Rightarrow>
          if sublist BEGIN_MARKER existing \<and> sublist END_MARKER existing then
            (let (before, m, rest) = py_partition BEGIN_MARKER existing; (inside, m', after) = py_partition END_MARKER rest
             in before @ table @ after)
          else py_rstrip existing @ [lf, lf] @ table @ [lf])"

datatype dump_mode = PrintMode | WriteMode | CheckMode

text \<open>The exit status, what is printed, and the document afterwards.\<close>

definition dump_main :: "dump_mode \<Rightarrow> source_file \<Rightarrow> string option \<Rightarrow> (exn, nat \<times> string \<times> string option) result" where
  "dump_main mode settings doc =
     rbind (parse_or_raise settings) (\<lambda>body.
       let vars = collect_env body; table = render_table vars in
       case mode of
         WriteMode \<Rightarrow>
           Inr (0, ''wrote docs/configuration.md ('' @ nat_str (length vars) @ '' env vars)'', Some (render_full_doc doc table))
       | CheckMode \<Rightarrow>
           (case doc of
              None \<Rightarrow> Inr (1, ''docs/configuration.md missing; run --write'', doc)
            | Some current \<Rightarrow>
                if current \<noteq> render_full_doc doc table
                then Inr (1, ''docs/configuration.md is stale; run '' @ [backtick] @ ''python scripts/dump_settings_schema.py --write'' @
                  [backtick] @ '' and commit.'', doc)
                else Inr (0, [], doc))
       | PrintMode \<Rightarrow> Inr (0, table, doc))"

section \<open>What cutting does\<close>

lemma split_first_None: "split_first sep s = None \<longleftrightarrow> \<not> sublist sep s"
  by (induction s) (auto simp: sublist_Cons_right)

lemma split_first_Some:
  "split_first sep s = Some (b, a) \<Longrightarrow> sep \<noteq> [] \<Longrightarrow> s = b @ sep @ a \<and> \<not> sublist sep b"
proof (induction s arbitrary: b)
  case (Cons c cs)
  show ?case
  proof (cases "prefix sep (c # cs)")
    case True
    with Cons.prems show ?thesis by (auto simp: prefix_def)
  next
    case False
    with Cons.prems(1) obtain b' where b: "b = c # b'" "split_first sep cs = Some (b', a)" by auto
    from Cons.IH [OF b(2) Cons.prems(2)] have "cs = b' @ sep @ a" "\<not> sublist sep b'" by auto
    moreover have "\<not> prefix sep (c # b')" using False calculation(1) by (metis append_Cons prefix_prefix)
    ultimately show ?thesis using b(1) by (simp add: sublist_Cons_right)
  qed
qed (auto split: if_splits)

text \<open>A separator whose first character occurs nowhere else in it cannot overlap itself.\<close>

lemma split_first_at:
  assumes "c \<notin> set cs" and "\<not> sublist (c # cs) b"
  shows "split_first (c # cs) (b @ (c # cs) @ a) = Some (b, a)"
  using assms(2)
proof (induction b)
  case (Cons x xs)
  have "\<not> prefix (c # cs) ((x # xs) @ (c # cs) @ a)"
  proof
    assume "prefix (c # cs) ((x # xs) @ (c # cs) @ a)"
    then consider "prefix (c # cs) (x # xs)" | r where "c # cs = (x # xs) @ r" "prefix r ((c # cs) @ a)" "r \<noteq> []"
      by (fastforce simp: prefix_append)
    then show False
    proof cases
      case 1
      with Cons.prems show False by (auto dest: prefix_imp_sublist)
    next
      case 2
      then have "hd r = c" by (cases r) auto
      with 2(1,3) have "c \<in> set cs" by (metis append_Cons hd_in_set in_set_conv_decomp list.inject set_append UnI2)
      with assms(1) show False by blast
    qed
  qed
  with Cons show ?case by (simp add: sublist_Cons_right)
qed (simp add: prefix_def)

section \<open>Writing is stable\<close>

lemma markers_start:
  "\<exists>c cs. BEGIN_MARKER = c # cs \<and> c \<notin> set cs"
  "\<exists>c cs. END_MARKER = c # cs \<and> c \<notin> set cs"
  by (simp_all add: BEGIN_MARKER_def END_MARKER_def em_dash_def)

lemma markers_one_line: "lf \<notin> set BEGIN_MARKER" "lf \<notin> set END_MARKER" "BEGIN_MARKER \<noteq> []" "END_MARKER \<noteq> []"
  by (simp_all add: BEGIN_MARKER_def END_MARKER_def em_dash_def lf_def)

lemma partition_at:
  "\<exists>c cs. sep = c # cs \<and> c \<notin> set cs \<Longrightarrow> \<not> sublist sep b \<Longrightarrow> py_partition sep (b @ sep @ a) = (b, sep, a)"
  using split_first_at by (force simp: py_partition_def)

lemmas partition_begin = partition_at [OF markers_start(1)]
  and partition_end = partition_at [OF markers_start(2)]

text \<open>Text without line feeds lies in one line.\<close>

lemma sublist_line: "lf \<notin> set w \<Longrightarrow> sublist w (x @ lf # y) \<longleftrightarrow> sublist w x \<or> sublist w y"
proof -
  assume w: "lf \<notin> set w"
  have "xs2 = []" if "w = xs1 @ xs2" "prefix xs2 (lf # y)" for xs1 xs2
    using that w by (cases xs2) auto
  with w show ?thesis
    by (auto simp: sublist_append sublist_Cons_right prefix_Cons)
qed

lemma sublist_lines: "lf \<notin> set w \<Longrightarrow> w \<noteq> [] \<Longrightarrow> sublist w (py_join [lf] ls) \<longleftrightarrow> (\<exists>l \<in> set ls. sublist w l)"
proof (induction "[lf]" ls rule: py_join.induct)
  case (3 x y xs)
  then show ?case by (simp add: sublist_line)
qed auto

lemma render_table_shape:
  assumes "\<forall>v \<in> set vars. \<not> sublist END_MARKER (table_row v)"
  obtains inside where "render_table vars = BEGIN_MARKER @ inside @ END_MARKER" "\<not> sublist END_MARKER inside"
proof
  let ?inside = "[lf] @ py_join [lf] (table_lines vars) @ [lf]"
  show "render_table vars = BEGIN_MARKER @ ?inside @ END_MARKER"
    using py_join_append [of "table_lines vars" "[END_MARKER]" "[lf]"]
    by (simp add: render_table_def table_lines_def py_join_Cons)
  have "\<not> sublist END_MARKER ''| Env var | Type | Default | Source |''" "\<not> sublist END_MARKER ''|---|---|---|---|''"
    "\<not> sublist END_MARKER []" by code_simp+
  then have "\<not> sublist END_MARKER (py_join [lf] (table_lines vars))"
    unfolding sublist_lines [OF markers_one_line(2,4)] using assms by (auto simp: table_lines_def)
  then show "\<not> sublist END_MARKER ?inside"
    using sublist_line [OF markers_one_line(2), of "[]" "py_join [lf] (table_lines vars) @ [lf]"]
      sublist_line [OF markers_one_line(2), of "py_join [lf] (table_lines vars)" "[]"] markers_one_line(4) by simp
qed

lemma render_replaces:
  assumes "\<not> sublist BEGIN_MARKER before" "\<not> sublist END_MARKER inside"
  shows "render_full_doc (Some (before @ BEGIN_MARKER @ inside @ END_MARKER @ after)) table = before @ table @ after"
proof -
  have "sublist BEGIN_MARKER (before @ BEGIN_MARKER @ inside @ END_MARKER @ after)" by (simp add: sublist_appendI)
  moreover have "sublist END_MARKER (before @ BEGIN_MARKER @ inside @ END_MARKER @ after)"
    using sublist_appendI [of END_MARKER "before @ BEGIN_MARKER @ inside" after] by simp
  ultimately show ?thesis
    by (simp add: render_full_doc_def partition_begin [OF assms(1)] partition_end [OF assms(2)])
qed

lemma prefix_rstrip: "prefix (py_rstrip s) s"
  by (metis py_rstrip_def rev_rev_ident suffix_dropWhile suffix_to_prefix)

text \<open>The document the script writes has the table once, with nothing before it that looks like its start.\<close>

lemma render_shape:
  assumes "\<forall>d. doc = Some d \<longrightarrow> sublist BEGIN_MARKER d \<longrightarrow> sublist END_MARKER d"
  obtains before after where "\<not> sublist BEGIN_MARKER before" "\<And>table. render_full_doc doc table = before @ table @ after"
proof (cases doc)
  case None
  have "\<not> sublist BEGIN_MARKER doc_header" by code_simp
  with None that show thesis by (simp add: render_full_doc_def)
next
  case (Some d)
  show thesis
  proof (cases "sublist BEGIN_MARKER d \<and> sublist END_MARKER d")
    case True
    then obtain b r where b: "split_first BEGIN_MARKER d = Some (b, r)" by (metis split_first_None not_Some_eq surj_pair)
    with Some True that [of b "snd (snd (py_partition END_MARKER r))"] split_first_Some [OF b markers_one_line(3)] show thesis
      by (auto simp: render_full_doc_def py_partition_def split: prod.splits)
  next
    case False
    with assms Some have "\<not> sublist BEGIN_MARKER d" by blast
    then have "\<not> sublist BEGIN_MARKER (py_rstrip d)"
      using prefix_rstrip [of d] by (metis prefix_imp_sublist sublist_order.order_trans)
    then have "\<not> sublist BEGIN_MARKER (py_rstrip d @ [lf, lf])"
      using sublist_line [OF markers_one_line(1), of "py_rstrip d" "[lf]"] sublist_line [OF markers_one_line(1), of "[]" "[]"]
        markers_one_line(3) by simp
    with that [of "py_rstrip d @ [lf, lf]" "[lf]"] False Some show thesis by (auto simp: render_full_doc_def)
  qed
qed

text \<open>
  What the script has written it accepts. Unless the document holds a start marker without an end
  marker, and provided no row of the table contains the end marker, the check right after a write exits with 0, and a
  second write leaves the document as it is; and where the document has both markers, all text before the
  first start marker and after the end marker that follows it is kept.
\<close>

theorem written_doc_is_current:
  assumes written: "dump_main WriteMode settings doc = Inr (code, out, doc')"
    and markers: "\<forall>d. doc = Some d \<longrightarrow> sublist BEGIN_MARKER d \<longrightarrow> sublist END_MARKER d"
    and rows: "\<forall>body. sf_tree settings = Inr body \<longrightarrow> (\<forall>v \<in> set (collect_env body). \<not> sublist END_MARKER (table_row v))"
  shows "dump_main CheckMode settings doc' = Inr (0, [], doc') \<and>
    (\<exists>out'. dump_main WriteMode settings doc' = Inr (0, out', doc')) \<and>
    (\<forall>before inside after. doc = Some (before @ BEGIN_MARKER @ inside @ END_MARKER @ after) \<longrightarrow>
       \<not> sublist BEGIN_MARKER before \<longrightarrow> \<not> sublist END_MARKER inside \<longrightarrow> (\<exists>table. doc' = Some (before @ table @ after)))"
proof -
  from written obtain body where parse: "parse_or_raise settings = Inr body"
    and doc': "doc' = Some (render_full_doc doc (render_table (collect_env body)))"
    by (auto simp: dump_main_def Let_def rbind_Inr_iff)
  let ?table = "render_table (collect_env body)"
  have tree: "sf_tree settings = Inr body" using parse by (auto simp: parse_or_raise_def rbind_Inr_iff split: sum.splits)
  with rows obtain inside where t: "?table = BEGIN_MARKER @ inside @ END_MARKER" "\<not> sublist END_MARKER inside"
    using render_table_shape by blast
  obtain before after where b: "\<not> sublist BEGIN_MARKER before" "\<And>table. render_full_doc doc table = before @ table @ after"
    using render_shape [OF markers] by blast
  have "render_full_doc doc' ?table = before @ ?table @ after"
    unfolding doc' b(2) using render_replaces [OF b(1) t(2), of after ?table] by (simp add: t(1))
  then have "doc' = Some (render_full_doc doc' ?table)" using doc' b(2) by simp
  then show ?thesis
    using parse doc' render_replaces by (auto simp: dump_main_def Let_def)
qed

definition sample_settings :: source_file where
  "sample_settings = \<lparr>sf_path = [''config'', ''settings'', ''base.py''], sf_text = Inr [],
     sf_tree = Inr [Assign 7 [Name ''DEBUG''] (Call 7 (Name ''_env_bool'') [Constant (VStr ''DEBUG''), Constant (VBool False)] [])]\<rparr>"

lemma sample_vars:
  "sf_tree sample_settings = Inr body \<Longrightarrow>
     collect_env body = [\<lparr>ev_name = ''DEBUG'', ev_default = ''False'', ev_typ = ''bool'', ev_line = 7\<rparr>]"
proof -
  have "collect_env [Assign 7 [Name ''DEBUG''] (Call 7 (Name ''_env_bool'') [Constant (VStr ''DEBUG''), Constant (VBool False)] [])] =
      [\<lparr>ev_name = ''DEBUG'', ev_default = ''False'', ev_typ = ''bool'', ev_line = 7\<rparr>]" by code_simp
  moreover assume "sf_tree sample_settings = Inr body"
  ultimately show "collect_env body = [\<lparr>ev_name = ''DEBUG'', ev_default = ''False'', ev_typ = ''bool'', ev_line = 7\<rparr>]"
    by (simp add: sample_settings_def)
qed

theorem written_doc_is_current_witness:
  "\<exists>doc'. dump_main WriteMode sample_settings None = Inr (0, ''wrote docs/configuration.md (1 env vars)'', doc') \<and>
     dump_main CheckMode sample_settings doc' = Inr (0, [], doc')"
proof -
  obtain body where tree: "sf_tree sample_settings = Inr body" by (simp add: sample_settings_def)
  then have "parse_or_raise sample_settings = Inr body" by (simp add: parse_or_raise_def sample_settings_def)
  moreover have "nat_str 1 = ''1''" by code_simp
  ultimately obtain doc' where w: "dump_main WriteMode sample_settings None = Inr (0, ''wrote docs/configuration.md (1 env vars)'', doc')"
    using sample_vars [OF tree] by (simp add: dump_main_def)
  have "\<not> sublist END_MARKER (table_row \<lparr>ev_name = ''DEBUG'', ev_default = ''False'', ev_typ = ''bool'', ev_line = 7\<rparr>)" by code_simp
  then have "\<forall>body. sf_tree sample_settings = Inr body \<longrightarrow> (\<forall>v \<in> set (collect_env body). \<not> sublist END_MARKER (table_row v))"
    using sample_vars by simp
  with written_doc_is_current [OF w] w show ?thesis by auto
qed

text \<open>
  The case left out is real: with a start marker and no end marker, the first write appends a table, so the check right after it fails,
  and the next write drops the prose between the lonely marker and the table.
\<close>

lemma lonely_marker_loses_prose:
  "render_full_doc (Some (BEGIN_MARKER @ '' keep'')) (BEGIN_MARKER @ END_MARKER) =
     BEGIN_MARKER @ '' keep'' @ [lf, lf] @ BEGIN_MARKER @ END_MARKER @ [lf]"
  "render_full_doc (Some (BEGIN_MARKER @ '' keep'' @ [lf, lf] @ BEGIN_MARKER @ END_MARKER @ [lf])) (BEGIN_MARKER @ END_MARKER) =
     BEGIN_MARKER @ END_MARKER @ [lf]"
  by code_simp+

end
