(* ===== verification/Profile.thy ===== *)
theory Profile
  imports Exceptions Complex_Main
begin

text \<open>
  The overhead guard \<open>scripts/profile_audit_path.py\<close>. What a call takes, in microseconds, is a parameter; the samples are
  exact numbers, where the script has floats. \<open>quantiles\<close> is that of Python's \<open>statistics\<close> with the inclusive method.
\<close>

section \<open>Percentiles\<close>

definition StatisticsError :: exc_class where
  "StatisticsError = Subclass ''StatisticsError'' None None PyValueError"

definition cut_point :: "nat \<Rightarrow> rat list \<Rightarrow> nat \<Rightarrow> rat" where
  "cut_point n data i =
     (let m = length data - 1; j = i * m div n; delta = i * m mod n
      in (data ! j * of_nat (n - delta) + data ! (j + 1) * of_nat delta) / of_nat n)"

definition quantiles :: "rat list \<Rightarrow> nat \<Rightarrow> (exn, rat list) result" where
  "quantiles data n =
     (if length data < 2 then Inl (raw_exn StatisticsError ''must have at least two data points'')
      else Inr (map (cut_point n (sort data)) [1..<n]))"

definition percentile :: "rat list \<Rightarrow> int \<Rightarrow> (exn, rat) result" where
  "percentile samples pct =
     (if samples = [] then Inr 0
      else rbind (quantiles samples 100) (\<lambda>cuts. Inr (cuts ! nat (max 0 (min 98 (pct - 1))))))"

section \<open>The guard\<close>

text \<open>The first 50 calls warm up.\<close>

definition run_profile :: "(nat \<Rightarrow> rat) \<Rightarrow> int \<Rightarrow> rat list" where
  "run_profile overhead iterations = map (\<lambda>i. overhead (50 + i)) [0..<nat iterations]"

text \<open>The exit code and the three numbers of the report.\<close>

definition profile_main :: "(nat \<Rightarrow> rat) \<Rightarrow> int \<Rightarrow> rat \<Rightarrow> (exn, nat \<times> rat \<times> rat \<times> rat) result" where
  "profile_main overhead iterations max_p99_us =
     (let samples = run_profile overhead iterations in
      rbind (percentile samples 50) (\<lambda>p50.
      rbind (percentile samples 95) (\<lambda>p95.
      rbind (percentile samples 99) (\<lambda>p99.
        Inr (if p99 > max_p99_us then 1 else 0, p50, p95, p99)))))"

section \<open>Cut points lie in order between the samples\<close>

lemma weighted_between:
  fixes a b p q n :: rat
  assumes "a \<le> b" "0 \<le> p" "0 \<le> q" "p + q = n" "0 < n"
  shows "a \<le> (a * p + b * q) / n" and "(a * p + b * q) / n \<le> b"
proof -
  have "a * n = a * p + a * q" "b * n = b * p + b * q" using assms(4) by (simp_all flip: distrib_left)
  moreover have "a * q \<le> b * q" "a * p \<le> b * p" using assms(1-3) by (simp_all add: mult_right_mono)
  ultimately show "a \<le> (a * p + b * q) / n" "(a * p + b * q) / n \<le> b"
    using assms(5) by (simp_all add: pos_le_divide_eq pos_divide_le_eq)
qed

lemma cut_point_between:
  assumes "sorted data" and "i * (length data - 1) div n + 1 < length data" and "0 < n"
  shows "data ! (i * (length data - 1) div n) \<le> cut_point n data i"
    and "cut_point n data i \<le> data ! (i * (length data - 1) div n + 1)"
proof -
  let ?d = "i * (length data - 1) mod n"
  have ab: "data ! (i * (length data - 1) div n) \<le> data ! (i * (length data - 1) div n + 1)"
    using assms(1,2) by (intro sorted_nth_mono) auto
  have "?d < n" using assms(3) by simp
  then have n: "(of_nat (n - ?d) :: rat) + of_nat ?d = of_nat n" by (simp add: of_nat_diff)
  note w = weighted_between [OF ab, of "of_nat (n - ?d)" "of_nat ?d" "of_nat n", OF _ _ n]
  show "data ! (i * (length data - 1) div n) \<le> cut_point n data i"
    unfolding cut_point_def Let_def using assms(3) by (intro w) simp_all
  show "cut_point n data i \<le> data ! (i * (length data - 1) div n + 1)"
    unfolding cut_point_def Let_def using assms(3) by (intro w) simp_all
qed

lemma cut_point_mono:
  assumes "sorted data" and "i \<le> i'" and "i' * (length data - 1) div n + 1 < length data" and "0 < n"
  shows "cut_point n data i \<le> cut_point n data i'"
proof -
  let ?m = "length data - 1"
  have le: "i * ?m \<le> i' * ?m" using assms(2) by simp
  then have j: "i * ?m div n \<le> i' * ?m div n" by (rule div_le_mono)
  show ?thesis
  proof (cases "i * ?m div n = i' * ?m div n")
    case True
    let ?j = "i * ?m div n" and ?d = "i * ?m mod n" and ?d' = "i' * ?m mod n"
    have d: "?d \<le> ?d'" using le True by (metis add_le_cancel_left div_mult_mod_eq)
    have "?d' < n" using assms(4) by simp
    have ab: "data ! ?j \<le> data ! (?j + 1)" using assms(1,3) True by (intro sorted_nth_mono) auto
    have "(data ! (?j + 1) - data ! ?j) * of_nat ?d \<le> (data ! (?j + 1) - data ! ?j) * of_nat ?d'"
      using ab d by (intro mult_left_mono) auto
    then show ?thesis
      using assms(4) True d \<open>?d' < n\<close>
      by (simp add: cut_point_def Let_def divide_right_mono of_nat_diff algebra_simps)
  next
    case False
    with j have lt: "i * ?m div n + 1 \<le> i' * ?m div n" by simp
    have "cut_point n data i \<le> data ! (i * ?m div n + 1)" using assms(1,3,4) lt by (intro cut_point_between) auto
    also have "\<dots> \<le> data ! (i' * ?m div n)" using assms(1,3) lt by (intro sorted_nth_mono) auto
    also have "\<dots> \<le> cut_point n data i'" using assms(1,3,4) by (intro cut_point_between) auto
    finally show ?thesis .
  qed
qed

lemma cut_index: "i < n \<Longrightarrow> 2 \<le> length data \<Longrightarrow> i * (length data - 1) div n + 1 < length data"
proof -
  assume i: "i < n" "2 \<le> length data"
  then have "i * (length data - 1) < n * (length data - 1)" by simp
  then have "i * (length data - 1) div n < length data - 1" using i by (simp add: less_mult_imp_div_less mult.commute)
  then show ?thesis by simp
qed

lemma percentile_cut:
  assumes "2 \<le> length samples" and "1 \<le> pct" and "pct \<le> 99"
  shows "percentile samples pct = Inr (cut_point 100 (sort samples) (nat pct))"
proof -
  have pct: "nat (max 0 (min 98 (pct - 1))) = nat pct - 1" "nat pct - 1 < length [1..<100]" "[1..<100] ! (nat pct - 1) = nat pct"
    using assms(2,3) by (auto simp: max_def min_def nat_diff_distrib)
  have "map (cut_point 100 (sort samples)) [1..<100] ! (nat pct - 1) = cut_point 100 (sort samples) (nat pct)"
    unfolding nth_map [OF pct(2)] pct(3) ..
  moreover have "quantiles samples 100 = Inr (map (cut_point 100 (sort samples)) [1..<100])"
    using assms(1) by (simp add: quantiles_def del: upt_rec_numeral)
  moreover have "samples \<noteq> []" using assms(1) by auto
  ultimately show ?thesis unfolding percentile_def pct(1) by simp
qed

text \<open>
  The guard reports what it measured. From two samples on it returns, with the three percentiles in order
  and between the fastest and the slowest call; it fails exactly when the 99th exceeds the bound, and so
  only if some call took longer than the bound, and always if every call did.
\<close>

theorem profile_guard_sound:
  assumes "2 \<le> iterations"
  shows "\<exists>code p50 p95 p99. profile_main overhead iterations bound = Inr (code, p50, p95, p99) \<and>
    Min (set (run_profile overhead iterations)) \<le> p50 \<and> p50 \<le> p95 \<and> p95 \<le> p99 \<and> p99 \<le> Max (set (run_profile overhead iterations)) \<and>
    code \<in> {0, 1} \<and> (code = 1 \<longleftrightarrow> bound < p99) \<and>
    (code = 1 \<longrightarrow> (\<exists>x \<in> set (run_profile overhead iterations). bound < x)) \<and>
    ((\<forall>x \<in> set (run_profile overhead iterations). bound < x) \<longrightarrow> code = 1)"
proof -
  let ?xs = "run_profile overhead iterations" let ?c = "cut_point 100 (sort ?xs)"
  have len: "2 \<le> length ?xs" using assms by (simp add: run_profile_def)
  then have ne: "?xs \<noteq> []" by auto
  have p: "percentile ?xs 50 = Inr (?c 50)" "percentile ?xs 95 = Inr (?c 95)" "percentile ?xs 99 = Inr (?c 99)"
    using percentile_cut [OF len] by simp_all
  note idx = cut_index [of _ 100 "sort ?xs"]
  have o: "?c 50 \<le> ?c 95" "?c 95 \<le> ?c 99"
    using len by (intro cut_point_mono idx; simp)+
  have in_set: "sort ?xs ! k \<in> set ?xs" if "k < length ?xs" for k
    using that nth_mem [of k "sort ?xs"] by simp
  have "Min (set ?xs) \<le> sort ?xs ! (50 * (length (sort ?xs) - 1) div 100)"
    using in_set idx [of 50] len by (intro Min_le) auto
  also have "\<dots> \<le> ?c 50" using idx [of 50] len by (intro cut_point_between) auto
  finally have lo: "Min (set ?xs) \<le> ?c 50" .
  have "?c 99 \<le> sort ?xs ! (99 * (length (sort ?xs) - 1) div 100 + 1)" using idx [of 99] len by (intro cut_point_between) auto
  also have "\<dots> \<le> Max (set ?xs)" using in_set idx [of 99] len by (intro Max_ge) auto
  finally have hi: "?c 99 \<le> Max (set ?xs)" .
  have mem: "Max (set ?xs) \<in> set ?xs" "Min (set ?xs) \<in> set ?xs" using ne by (simp_all del: set_eq_subset)
  have "profile_main overhead iterations bound = Inr (if bound < ?c 99 then 1 else 0, ?c 50, ?c 95, ?c 99)"
    by (simp add: profile_main_def Let_def p)
  moreover have "bound < ?c 99 \<Longrightarrow> \<exists>x \<in> set ?xs. bound < x" using hi mem(1) less_le_trans by blast
  moreover have "\<forall>x \<in> set ?xs. bound < x \<Longrightarrow> bound < ?c 99" using lo o mem(2) by (meson less_le_trans)
  ultimately show ?thesis using o lo hi by auto
qed

theorem profile_guard_sound_witness:
  "\<exists>code p50 p95 p99. profile_main (\<lambda>i. of_nat i) 3 (40 :: rat) = Inr (code, p50, p95, p99) \<and> code = 1 \<and> p50 \<le> p99"
proof -
  have all: "\<forall>x \<in> set (run_profile (\<lambda>i. of_nat i) 3). (40 :: rat) < x" by (auto simp: run_profile_def)
  have "(2 :: int) \<le> 3" by simp
  from profile_guard_sound [OF this, of "\<lambda>i. of_nat i" 40] all show ?thesis by fastforce
qed

text \<open>With a single sample the script does not report but ends with an exception.\<close>

lemma single_sample_raises: "\<exists>e. profile_main overhead 1 bound = Inl e \<and> exc_cls e = StatisticsError"
  by (simp add: profile_main_def percentile_def quantiles_def run_profile_def raw_exn_def)

end
