(* ===== verification/Spec2Isabelle.thy ===== *)
theory Spec2Isabelle
  imports LogSanitization ErrorHandler Dispatch RequestContext ApiLog Service Rbac ApiKeys AuthChain Accounts
    SystemViews Storage Mail DbEngines Settings Toolkit Login Routes
    Pipeline Stack KeyRaces Bootstrap Migrations Wiring Admin ApiDocs ImportGates SourceGates SettingsDoc Profile
begin

text \<open>
  A verification library for the Django boilerplate: a REST service skeleton whose own code is the layer
  between Django REST Framework and an application. This theory only collects the others; every property
  stands in the theory of the component it is about.

  \<^bold>\<open>The program and how its parts interact.\<close> A process starts in \<open>config/settings/\<close>, which chooses an
  environment module, reads variables and secrets and merges the result. A request passes the middlewares of
  \<open>apps/core/middleware/\<close>, which open the ambient context of \<open>apps/core/context.py\<close>; the provider chain of
  \<open>apps/core/auth/\<close> asks the providers of \<open>apps/accounts\<close> who is calling; the permission classes ask the role
  tables; the view calls a service, the service a repository, the repository the ORM. Exceptions of any layer
  end in the handler of \<open>apps/core/exceptions/handler.py\<close>, which answers with an envelope. Around the view and
  around outbound calls the decorators of \<open>apps/core/api_log/\<close> build an audit row from sanitised payloads and
  hand it to a fire-and-forget queue, whose worker threads persist it. Object storage, mail, SQL engines,
  health probes and metrics stand beside this path. The API description under \<open>api_schemas/\<close> tells clients what to
  expect, the admin site edits the same tables, and the scripts under \<open>scripts/\<close> keep the source tree in the shape its
  documents promise.

  \<^bold>\<open>Foundations.\<close>
  \<^item> \<open>Prelude\<close>: results of code that raises (\<open>error + 'a\<close>), Python's string, slice and dictionary
    operations, the locale \<open>ordered_dict\<close> (insertion-ordered dictionaries) with its interpretation on
    association lists, and the lemma collections.
  \<^item> \<open>PyValue\<close>: the dynamically typed values, truth, \<open>str\<close> and \<open>repr\<close>.
  \<^item> \<open>Effects\<close>: calls into the outside world as functions from a state to a result and a state, with the
    \<open>try\<close>/\<open>except\<close> combinators and what can come out of them.
  \<^item> \<open>PySyntax\<close>: syntax trees of Python as \<open>ast\<close> gives them, \<open>ast.walk\<close> as a breadth-first loop with its termination proof
    and the theorem that it visits exactly the nodes within the module, lines, paths and checkouts.

  \<^bold>\<open>Errors and answers.\<close>
  \<^item> \<open>Exceptions\<close>: every exception class of \<open>apps/core/exceptions/\<close>, \<open>base/exception.py\<close> and
    \<open>apps/accounts/exceptions.py\<close> with its bases, class attributes and constructor.
  \<^item> \<open>Responses\<close>: the success, error and paginated envelopes.
  \<^item> \<open>ErrorHandler\<close>: the status map with its cached snapshot and the exception handler. The map refines a
    plain list of registrations; under any interleaving of threads (\<open>map_step\<close>) a read is a snapshot; an
    unknown exception is answered by a constant envelope that shows nothing of it.

  \<^bold>\<open>Logging and auditing.\<close>
  \<^item> \<open>LogSanitization\<close>: the recursive sanitizer: masking at every depth, caps on strings, keys, items and
    depth, one-line output.
  \<^item> \<open>RequestContext\<close>: context variables, structured log records, timers, the function tracer, metrics with
    their label gate, and the two middlewares. The identifiers have lexical scope and the wrappers are
    transparent for results and exceptions.
  \<^item> \<open>Stack\<close>: the list \<open>MIDDLEWARE\<close> composed, over the contracts \<open>id_stamping\<close> (the kit's request-id middleware) and \<open>id_passing\<close> (every other).
    In the shipped order a view runs under the id of its request; with the bridge above the stamp it sees none.
  \<^item> \<open>Dispatch\<close>: the bounded queue (locale \<open>bounded_queue\<close>, interpreted on the list queue), and producers,
    consumer, workers and stopper as one step relation \<open>ff_step\<close>. Accepted tasks are started in order of
    acceptance, each once, and at most one is refused, after a stop; draining keeps its deadline; stopping can strand tasks.
  \<^item> \<open>ApiLog\<close>: payload, header and error sanitizers, backends and decorators. Auditing never changes what a
    call does, each call is accounted for, and what stands below a sensitive key of a JSON body has no influence on the
    row; a multipart form can leak a field, which is a theorem too.

  \<^bold>\<open>Data.\<close>
  \<^item> \<open>Service\<close>: \<open>apps/core/base/\<close> service, repository, audit stamps and managers over an ORM given by the locale
    \<open>orm_store\<close>, interpreted on a list database. A block of database code leaves what it wrote when it raises,
    and \<open>atomic\<close> undoes it. The soft-delete cascade reaches exactly the rows it should,
    failed writes change nothing, pages partition a listing.
  \<^item> \<open>Toolkit\<close>: the remaining repository verbs, query filters, data helpers, the task registry and enqueue
    helper, the cache client lookup and the output rule of the schemas. A query string filters only on what
    an endpoint declares.
  \<^item> \<open>DbEngines\<close>: row sets, connection URLs, the engine cache with its double-checked lock as a step relation
    \<open>eng_step\<close>, and statement execution.

  \<^bold>\<open>Identity.\<close>
  \<^item> \<open>Rbac\<close>: roles, permission names, the model registry, the admin backend and the DRF permission, which agree.
  \<^item> \<open>ApiKeys\<close>: creation, authentication, revocation and deletion over the locale \<open>key_db\<close>. A dead key stays
    dead; a fresh key authenticates.
  \<^item> \<open>AuthChain\<close>: the registry, the composite and the providers, under the contract \<open>auth_provider\<close>.
  \<^item> \<open>Accounts\<close>: refresh, logout, profile and sign-up over \<open>jwt_store\<close> and \<open>orm_store\<close>.
  \<^item> \<open>Login\<close>: the social login over \<open>social_login\<close>, the token serializer, the throttle classes and the request-id bridge
    over \<open>request_id_source\<close>. A login names an allowed redirect address or raises, but a posted
    token is not bound to it.
  \<^item> \<open>Routes\<close>: the URL tables and the access policy of each view. Every path is routed exactly, and exactly six paths
    answer strangers.
  \<^item> \<open>Pipeline\<close>: a request from its path to its answer, over \<open>drf_dispatch\<close>: routing, the composite, the permission class, the key views and
    the exception handler composed. Outside the six open paths nothing happens without credentials and permission, and after an
    answered revocation the key opens nothing.
  \<^item> \<open>Admin\<close>: field sets, saving and answering of \<open>apps/accounts/admin.py\<close> and \<open>base/admin.py\<close>, and the JSON widget, over
    \<open>html_escaper\<close>. A key made there is shown once, without foreign markup, and works.
  \<^item> \<open>KeyRaces\<close>: service calls interleaved with the loads and saves of admin edits (\<open>world_step\<close>). Revocation is final as long as no
    edit is stale; a deletion is not.

  \<^bold>\<open>The outside.\<close>
  \<^item> \<open>IpAddress\<close> and \<open>SystemViews\<close>: IPv4 addresses and networks on 32-bit words, the probes, the health,
    readiness, CSP and metrics endpoints and the metrics allow-list.
  \<^item> \<open>Storage\<close> and \<open>Mail\<close>: \<open>utils/s3.py\<close>, \<open>aws.py\<close> and \<open>ses.py\<close>: URIs and keys, the error translation, the life of
    an object, message building and the classification of failures.
  \<^item> \<open>SettingsBase\<close> and \<open>Settings\<close>: every assignment of \<open>config/settings/base.py\<close> and of the environment modules
    as bindings, the star imports between them, and start-up. The module loads exactly when its variables parse; then
    the namespace is typed by a schema down to the nested dictionaries, and each parsed variable is in its place; the
    acceptance environment is hardened whenever it starts; production never starts, because of a name its
    star import does not bring in.

  \<^bold>\<open>Schema, description and start-up.\<close>
  \<^item> \<open>Migrations\<close>: model classes and migration operations as data; the migrations end in the declared schema.
  \<^item> \<open>ApiDocs\<close>: the documented schemas, examples and responses as data, and what a schema says of a value
    (\<open>conforms\<close>). An envelope whose data fits conforms to its description; statuses of views and bodies of probes are documented; the
    documented shapes that are never sent are lemmas too.
  \<^item> \<open>Bootstrap\<close>: \<open>manage.py\<close>, \<open>wsgi.py\<close>, \<open>asgi.py\<close>, \<open>celery.py\<close> and the head of the settings package. All put one directory on the
    import path, once; the guard between two of them can never fail.
  \<^item> \<open>Wiring\<close>: \<open>CoreConfig.ready\<close> over \<open>service_registry\<close>, lazy exports and the deprecated alias.

  \<^bold>\<open>The repository gates.\<close>
  \<^item> \<open>ImportGates\<close>: \<open>check_layering\<close> and \<open>check_dormant_imports\<close>. Each exits with 0 exactly when its rule holds of all
    statements at any depth, in terms of the files and of Python's own reading of an import; relative imports are resolved as Python resolves them.
  \<^item> \<open>SourceGates\<close>: \<open>check_thread_safety\<close>, \<open>check_dead_utils\<close>, \<open>check_openapi_metadata\<close> and \<open>check_stale_refs\<close>, each with the
    theorem or lemma that says exactly when it passes.
  \<^item> \<open>SettingsDoc\<close>: \<open>dump_settings_schema\<close>; what it has written it accepts.
  \<^item> \<open>Profile\<close>: \<open>profile_audit_path\<close>; its percentiles are in order and between the samples.

  \<^bold>\<open>What stands for foreign code.\<close> Django's ORM, simple-jwt, the key table, the provider contract, boto3,
  SQLAlchemy, Celery, dj-rest-auth, the resilience kit, Django's escaping, the JSON, YAML and MIME codecs, regular
  expressions of the manifest, hash functions and clocks are arguments, records of functions or locales. Each locale is interpreted on a concrete model, and each property with such a hypothesis has a
  witness on one.

  \<^bold>\<open>Bounds.\<close> No definition uses fuel. The cascade ends by a multiset measure over its work list and the depth
  cap of the source; the sanitizer by the structure of the value and the depth cap. Loops over lists are
  structural, the walk over syntax trees ends by the weight of its queue, the check of a value against a schema by the
  size of the schema. Characters are code points below 256, with placeholders for the few others the source writes, and
  case mapping is that of ASCII; integers are unbounded as in Python, except addresses, which are words; the samples of
  the overhead guard are exact numbers.

  \<^bold>\<open>Not modelled.\<close> The text of log lines that only report, with their correlation payload, and the closing advice of the gates; the
  encrypted field, which is a library's and only re-exported; how DRF counts requests; the SQL of the ORM and of the migrations; package
  \<open>__init__\<close> files that only re-export. What a line of the implementation says beyond this is an import, a docstring or a comment. In
  the pipeline the response passes from view to caller whole, while the middlewares of \<open>Stack\<close> see its status only; \<open>Routes\<close>
  and \<open>Pipeline\<close> speak of the service's own views, not of those of the admin site and of drf-spectacular; the hard deletion
  of rows that Django's admin offers is no step of \<open>KeyRaces\<close>.
\<close>

end
